(* ===== verification/Prelude.thy ===== *)
theory Prelude
  imports Main "HOL-Library.State_Monad"
begin

text \<open>
  Shared vocabulary of the development: Go strings and byte slices as lists of bytes,
  the result of a Go function that returns a value and an error, effects as a state
  monad, and the weakest-precondition equations every proof about effectful code uses.
\<close>

section \<open>Types every component uses\<close>

text \<open>
  A Go string is a sequence of bytes. Isabelle's \<open>char\<close> is exactly a byte, so
  \<open>string\<close> (a list of \<open>char\<close>) is the type of both \<open>string\<close> and \<open>[]byte\<close>;
  a UTF-8 sequence is several elements, and \<open>length\<close> is Go's \<open>len\<close>.
\<close>

type_synonym bytes = string

text \<open>
  An instant is a number of nanoseconds since the Unix epoch; a duration is a number of
  nanoseconds. \<open>zeroTime\<close> is the value of an unset \<open>time.Time\<close> (1 January of year 1).
\<close>

type_synonym time = int
type_synonym duration = int

text \<open>\<open>(T, error)\<close> where the value is only meaningful without an error.\<close>

type_synonym ('e, 'a) result = "'e + 'a"

section \<open>Collections of proof rules\<close>

named_theorems wp_simps \<open>weakest-precondition equations of the monad and the primitives\<close>
named_theorems codec_simps \<open>lengths and round trips of the encodings\<close>

section \<open>Weakest preconditions\<close>

text \<open>
  \<open>wp m Q s\<close>: running \<open>m\<close> from state \<open>s\<close> gives a result and a state that satisfy
  \<open>Q\<close>. Every computation of the model is total, so this is total correctness.
\<close>

definition wp :: "('s, 'a) state \<Rightarrow> ('a \<Rightarrow> 's \<Rightarrow> bool) \<Rightarrow> 's \<Rightarrow> bool" where
  "wp m Q s = (case run_state m s of (a, s') \<Rightarrow> Q a s')"

abbreviation ret :: "'a \<Rightarrow> ('s, 'a) state" where
  "ret \<equiv> State_Monad.return"

lemma wp_return [wp_simps]: "wp (ret a) Q s = Q a s"
  by (simp add: wp_def)

lemma wp_bind [wp_simps]: "wp (m \<bind> f) Q s = wp m (\<lambda>a. wp (f a) Q) s"
  by (simp add: wp_def split: prod.splits)

lemma wp_get [wp_simps]: "wp State_Monad.get Q s = Q s s"
  by (simp add: wp_def)

lemma wp_set [wp_simps]: "wp (State_Monad.set t) Q s = Q () t"
  by (simp add: wp_def)

lemma wp_State [wp_simps]: "wp (State f) Q s = (case f s of (a, s') \<Rightarrow> Q a s')"
  by (simp add: wp_def)

lemma wp_if [wp_simps]: "wp (if b then m else n) Q s = (if b then wp m Q s else wp n Q s)"
  by simp

lemma wp_case_sum [wp_simps]:
  "wp (case r of Inl e \<Rightarrow> m e | Inr v \<Rightarrow> n v) Q s =
   (case r of Inl e \<Rightarrow> wp (m e) Q s | Inr v \<Rightarrow> wp (n v) Q s)"
  by (simp split: sum.splits)

lemma wp_case_option [wp_simps]:
  "wp (case r of None \<Rightarrow> m | Some v \<Rightarrow> n v) Q s =
   (case r of None \<Rightarrow> wp m Q s | Some v \<Rightarrow> wp (n v) Q s)"
  by (simp split: option.splits)

lemma wp_case_prod [wp_simps]:
  "wp (case p of (x, y) \<Rightarrow> m x y) Q s = (case p of (x, y) \<Rightarrow> wp (m x y) Q s)"
  by (simp split: prod.splits)

lemma wp_Let [wp_simps]: "wp (let x = e in m x) Q s = (let x = e in wp (m x) Q s)"
  by simp

text \<open>Consequence, conjunction, and the link to a run.\<close>

lemma wp_mono: "wp m P s \<Longrightarrow> (\<And>a t. P a t \<Longrightarrow> Q a t) \<Longrightarrow> wp m Q s"
  by (auto simp: wp_def split: prod.splits)

lemma wp_conj: "wp m P s \<Longrightarrow> wp m Q s \<Longrightarrow> wp m (\<lambda>a t. P a t \<and> Q a t) s"
  by (auto simp: wp_def split: prod.splits)

lemma wp_run: "run_state m s = (a, t) \<Longrightarrow> wp m Q s = Q a t"
  by (simp add: wp_def)

lemma wp_runD: "wp m Q s \<Longrightarrow> run_state m s = (a, t) \<Longrightarrow> Q a t"
  by (simp add: wp_def)

lemma wp_trivial: "wp m (\<lambda>_ _. True) s"
  by (simp add: wp_def split: prod.splits)

section \<open>Lists and options\<close>

lemma list_all_concat: "list_all P (concat xss) = list_all (list_all P) xss"
  by (induction xss) auto

lemma filter_eq_single: "filter P xs = [x] \<Longrightarrow> x \<in> set xs \<and> P x"
proof -
  assume "filter P xs = [x]"
  then have "x \<in> set (filter P xs)" by simp
  then show ?thesis by simp
qed

lemma takeWhile_all: "list_all P xs \<Longrightarrow> takeWhile P xs = xs"
  by (induction xs) auto

text \<open>Each element of a list is mapped; the first failure ends the computation.\<close>

fun map_result :: "('a \<Rightarrow> 'e + 'b) \<Rightarrow> 'a list \<Rightarrow> 'e + 'b list" where
  "map_result f [] = Inr []"
| "map_result f (x # xs) =
     (case f x of Inl e \<Rightarrow> Inl e
      | Inr y \<Rightarrow> (case map_result f xs of Inl e \<Rightarrow> Inl e | Inr ys \<Rightarrow> Inr (y # ys)))"

lemma map_result_Inr:
  "map_result f xs = Inr ys \<Longrightarrow> length ys = length xs \<and> list_all2 (\<lambda>x y. f x = Inr y) xs ys"
  by (induction xs arbitrary: ys) (auto split: sum.splits)

end
