(* ===== verification/GoStrings.thy ===== *)
theory GoStrings
  imports Prelude "HOL-Library.Char_ord"
begin

text \<open>
  The functions of Go's \<open>strings\<close>, \<open>strconv\<close>, \<open>encoding/hex\<close> and \<open>net/url\<close> packages the
  program calls, on byte strings, with the facts the components rely on.
\<close>

section \<open>Characters\<close>

abbreviation byte_of :: "char \<Rightarrow> nat" where
  "byte_of c \<equiv> of_char c"

definition is_lower :: "char \<Rightarrow> bool" where
  "is_lower c \<longleftrightarrow> 97 \<le> byte_of c \<and> byte_of c \<le> 122"

definition is_upper :: "char \<Rightarrow> bool" where
  "is_upper c \<longleftrightarrow> 65 \<le> byte_of c \<and> byte_of c \<le> 90"

definition is_digit :: "char \<Rightarrow> bool" where
  "is_digit c \<longleftrightarrow> 48 \<le> byte_of c \<and> byte_of c \<le> 57"

definition is_ascii :: "char \<Rightarrow> bool" where
  "is_ascii c \<longleftrightarrow> byte_of c < 128"

definition is_alnum :: "char \<Rightarrow> bool" where
  "is_alnum c \<longleftrightarrow> is_lower c \<or> is_upper c \<or> is_digit c"

lemmas char_class_defs = is_lower_def is_upper_def is_digit_def is_ascii_def is_alnum_def

abbreviation NUL :: char where "NUL \<equiv> CHR 0x00"
abbreviation TAB :: char where "TAB \<equiv> CHR 0x09"
abbreviation LF :: char where "LF \<equiv> CHR 0x0A"
abbreviation CR :: char where "CR \<equiv> CHR 0x0D"
abbreviation QUOTE :: char where "QUOTE \<equiv> CHR 0x22"
abbreviation BACKSLASH :: char where "BACKSLASH \<equiv> CHR 0x5C"

lemma byte_of_less [simp]: "byte_of c < 256"
  by (cases c) (simp add: of_char_def horner_sum_simps)

lemma char_of_byte_of [simp]: "char_of (byte_of c) = c"
  by simp

lemma byte_of_char_of [simp]: "n < 256 \<Longrightarrow> byte_of (char_of n) = n"
  by simp

section \<open>strings\<close>

definition hasPrefix :: "string \<Rightarrow> string \<Rightarrow> bool" where
  "hasPrefix s p \<longleftrightarrow> take (length p) s = p"

definition hasSuffix :: "string \<Rightarrow> string \<Rightarrow> bool" where
  "hasSuffix s p \<longleftrightarrow> length p \<le> length s \<and> drop (length s - length p) s = p"

fun indexOf :: "string \<Rightarrow> string \<Rightarrow> nat option" where
  "indexOf [] sub = (if sub = [] then Some 0 else None)"
| "indexOf (c # s) sub =
     (if hasPrefix (c # s) sub then Some 0 else map_option Suc (indexOf s sub))"

definition containsSub :: "string \<Rightarrow> string \<Rightarrow> bool" where
  "containsSub s sub \<longleftrightarrow> indexOf s sub \<noteq> None"

definition containsAny :: "string \<Rightarrow> string \<Rightarrow> bool" where
  "containsAny s cs \<longleftrightarrow> list_ex (\<lambda>c. c \<in> set cs) s"

text \<open>\<open>Split\<close> and \<open>Cut\<close> at a one-byte separator.\<close>

fun splitOn :: "char \<Rightarrow> string \<Rightarrow> string list" where
  "splitOn sep [] = [[]]"
| "splitOn sep (c # s) =
     (if c = sep then [] # splitOn sep s
      else (case splitOn sep s of [] \<Rightarrow> [[c]] | y # ys \<Rightarrow> (c # y) # ys))"

definition cut :: "char \<Rightarrow> string \<Rightarrow> string \<times> string \<times> bool" where
  "cut sep s =
     (let prior = takeWhile (\<lambda>c. c \<noteq> sep) s
      in if sep \<in> set s then (prior, drop (Suc (length prior)) s, True) else (s, [], False))"

definition trimLeft :: "string \<Rightarrow> string \<Rightarrow> string" where
  "trimLeft cs s = dropWhile (\<lambda>c. c \<in> set cs) s"

definition trimRight :: "string \<Rightarrow> string \<Rightarrow> string" where
  "trimRight cs s = rev (dropWhile (\<lambda>c. c \<in> set cs) (rev s))"

definition trimSet :: "string \<Rightarrow> string \<Rightarrow> string" where
  "trimSet cs s = trimRight cs (trimLeft cs s)"

text \<open>
  \<open>TrimSpace\<close> removes the runes with Unicode's White_Space property from both ends. The
  property holds of 25 code points; \<open>space_rune\<close> lists their UTF-8 encodings.
\<close>

definition ascii_space :: "char \<Rightarrow> bool" where
  "ascii_space c \<longleftrightarrow> 9 \<le> byte_of c \<and> byte_of c \<le> 13 \<or> byte_of c = 32"

fun space_rune :: "string \<Rightarrow> bool" where
  "space_rune [a] = ascii_space a"
| "space_rune [a, b] = (byte_of a = 0xC2 \<and> (byte_of b = 0x85 \<or> byte_of b = 0xA0))"
| "space_rune [a, b, c] =
     (byte_of a = 0xE1 \<and> byte_of b = 0x9A \<and> byte_of c = 0x80 \<or>
      byte_of a = 0xE2 \<and> byte_of b = 0x80 \<and>
        (0x80 \<le> byte_of c \<and> byte_of c \<le> 0x8A \<or> byte_of c = 0xA8 \<or> byte_of c = 0xA9 \<or> byte_of c = 0xAF) \<or>
      byte_of a = 0xE2 \<and> byte_of b = 0x81 \<and> byte_of c = 0x9F \<or>
      byte_of a = 0xE3 \<and> byte_of b = 0x80 \<and> byte_of c = 0x80)"
| "space_rune _ = False"

definition space_prefix :: "string \<Rightarrow> nat" where
  "space_prefix s =
     (if space_rune (take 1 s) then 1 else if space_rune (take 2 s) then 2
      else if space_rune (take 3 s) then 3 else 0)"

definition space_suffix :: "string \<Rightarrow> nat" where
  "space_suffix s =
     (if space_rune (drop (length s - 1) s) then 1
      else if space_rune (drop (length s - 2) s) then 2
      else if space_rune (drop (length s - 3) s) then 3 else 0)"

lemma space_prefix_nil [simp]: "space_prefix [] = 0" and space_suffix_nil [simp]: "space_suffix [] = 0"
  by (simp_all add: space_prefix_def space_suffix_def)

function trimLeftSpace :: "string \<Rightarrow> string" where
  "trimLeftSpace s = (if space_prefix s = 0 then s else trimLeftSpace (drop (space_prefix s) s))"
  by pat_completeness auto
termination
  by (relation "measure length") (auto intro: diff_less simp: neq_Nil_conv)

function trimRightSpace :: "string \<Rightarrow> string" where
  "trimRightSpace s =
     (if space_suffix s = 0 then s else trimRightSpace (take (length s - space_suffix s) s))"
  by pat_completeness auto
termination
  by (relation "measure length") (auto intro: diff_less simp: neq_Nil_conv)

declare trimLeftSpace.simps [simp del] trimRightSpace.simps [simp del]

definition trimSpace :: "string \<Rightarrow> string" where
  "trimSpace s = trimRightSpace (trimLeftSpace s)"

text \<open>\<open>FieldsFunc\<close> for a predicate that holds of ASCII characters only.\<close>

fun splitBy :: "(char \<Rightarrow> bool) \<Rightarrow> string \<Rightarrow> string list" where
  "splitBy p [] = [[]]"
| "splitBy p (c # s) =
     (if p c then [] # splitBy p s
      else (case splitBy p s of [] \<Rightarrow> [[c]] | y # ys \<Rightarrow> (c # y) # ys))"

definition fieldsBy :: "(char \<Rightarrow> bool) \<Rightarrow> string \<Rightarrow> string list" where
  "fieldsBy p s = filter (\<lambda>x. x \<noteq> []) (splitBy p s)"

text \<open>
  \<open>ToLower\<close> maps ASCII letters directly and sends any string with a byte above 127
  through the Unicode case tables, which are data of the language's library: the
  parameter \<open>uni\<close>.
\<close>

definition lower_char :: "char \<Rightarrow> char" where
  "lower_char c = (if is_upper c then char_of (byte_of c + 32) else c)"

definition toLower :: "(string \<Rightarrow> string) \<Rightarrow> string \<Rightarrow> string" where
  "toLower uni s = (if list_all is_ascii s then map lower_char s else uni s)"

fun joinWith :: "string \<Rightarrow> string list \<Rightarrow> string" where
  "joinWith sep [] = []"
| "joinWith sep [x] = x"
| "joinWith sep (x # xs) = x @ sep @ joinWith sep xs"

lemma joinWith_Cons: "xs \<noteq> [] \<Longrightarrow> joinWith sep (x # xs) = x @ sep @ joinWith sep xs"
  by (cases xs) auto

subsection \<open>Facts about the string functions\<close>

lemma hasPrefix_append [simp]: "hasPrefix (p @ s) p"
  by (simp add: hasPrefix_def)

lemma hasPrefix_iff: "hasPrefix s p \<longleftrightarrow> (\<exists>t. s = p @ t)"
  unfolding hasPrefix_def by (metis append_eq_conv_conj)

lemma hasSuffix_iff: "hasSuffix s p \<longleftrightarrow> (\<exists>t. s = t @ p)"
proof
  assume "hasSuffix s p"
  then show "\<exists>t. s = t @ p"
    unfolding hasSuffix_def by (metis append_take_drop_id)
qed (auto simp: hasSuffix_def)

lemma splitOn_neq_Nil [simp]: "splitOn c s \<noteq> []"
  by (cases s) (auto split: list.splits)

lemma splitOn_no_sep: "c \<notin> set s \<Longrightarrow> splitOn c s = [s]"
  by (induction s) (auto split: list.splits)

lemma splitOn_append: "c \<notin> set s \<Longrightarrow> splitOn c (s @ c # t) = s # splitOn c t"
  by (induction s) (auto split: list.splits)

lemma splitOn_no_sep_parts: "x \<in> set (splitOn c s) \<Longrightarrow> c \<notin> set x"
proof (induction s arbitrary: x)
  case (Cons a s)
  then show ?case
    by (cases "splitOn c s") (auto split: if_splits)
qed auto

lemma joinWith_splitOn: "joinWith [c] (splitOn c s) = s"
proof (induction s)
  case (Cons a s)
  then show ?case
  proof (cases "splitOn c s")
    case (Cons y ys)
    with Cons.IH show ?thesis
      by (cases ys) (auto simp: joinWith_Cons)
  qed auto
qed auto

lemma fieldsBy_nonempty: "x \<in> set (fieldsBy p s) \<Longrightarrow> x \<noteq> []"
  by (auto simp: fieldsBy_def)

lemma splitBy_parts: "x \<in> set (splitBy p s) \<Longrightarrow> a \<in> set x \<Longrightarrow> \<not> p a"
proof (induction s arbitrary: x)
  case (Cons b s)
  then show ?case
    by (cases "splitBy p s") (fastforce split: if_splits)+
qed auto

lemma fieldsBy_parts: "x \<in> set (fieldsBy p s) \<Longrightarrow> a \<in> set x \<Longrightarrow> \<not> p a"
  by (auto simp: fieldsBy_def dest: splitBy_parts)

lemma toLower_ascii: "list_all is_ascii s \<Longrightarrow> toLower uni s = map lower_char s"
  by (simp add: toLower_def)

lemma lower_char_idem [simp]: "lower_char (lower_char c) = lower_char c"
proof (cases "is_upper c")
  case True
  then have "byte_of c + 32 < 256" by (simp add: is_upper_def)
  with True show ?thesis by (simp add: lower_char_def is_upper_def)
qed (simp add: lower_char_def)

lemma lower_char_ascii [simp]: "is_ascii (lower_char c) = is_ascii c"
proof (cases "is_upper c")
  case True
  then have "byte_of c + 32 < 256" by (simp add: is_upper_def)
  with True show ?thesis by (simp add: lower_char_def is_upper_def is_ascii_def)
qed (simp add: lower_char_def)

lemma length_lower [simp]: "list_all is_ascii s \<Longrightarrow> length (toLower uni s) = length s"
  by (simp add: toLower_def)

lemma toLower_idem_ascii:
  "list_all is_ascii s \<Longrightarrow> toLower uni (toLower uni s) = toLower uni s"
  by (simp add: toLower_def list_all_iff)

end
