(* ===== verification/GoConv.thy ===== *)
theory GoConv
  imports GoStrings
begin

text \<open>
  Conversions between numbers, bytes and text: \<open>strconv\<close>, \<open>encoding/hex\<close> and the
  escaping of \<open>net/url\<close>.
\<close>

section \<open>strconv\<close>

definition digit_char :: "nat \<Rightarrow> char" where
  "digit_char d = char_of (if d < 10 then 48 + d else 87 + d)"

text \<open>Digits of a natural number in base 2 to 36, most significant first.\<close>

function natDigits :: "nat \<Rightarrow> nat \<Rightarrow> string" where
  "natDigits b n =
     (if n < b \<or> b < 2 then [digit_char n] else natDigits b (n div b) @ [digit_char (n mod b)])"
  by pat_completeness auto
termination
  by (relation "measure snd") (auto intro: div_less_dividend)

declare natDigits.simps [simp del]

definition formatInt :: "nat \<Rightarrow> int \<Rightarrow> string" where
  "formatInt b i = (if i < 0 then CHR ''-'' # natDigits b (nat (- i)) else natDigits b (nat i))"

abbreviation itoa :: "int \<Rightarrow> string" where
  "itoa \<equiv> formatInt 10"

definition digit_val :: "char \<Rightarrow> nat" where
  "digit_val c = byte_of c - 48"

definition parseDigits :: "string \<Rightarrow> nat option" where
  "parseDigits s =
     (if s = [] \<or> \<not> list_all is_digit s then None
      else Some (foldl (\<lambda>n c. 10 * n + digit_val c) 0 s))"

text \<open>\<open>ParseInt(s, 10, 64)\<close>, which is also \<open>Atoi\<close> on a 64-bit platform: a sign is optional,
  anything else but decimal digits is an error, and so is a value outside \<open>int64\<close>.\<close>

definition in_int64 :: "int \<Rightarrow> bool" where
  "in_int64 i \<longleftrightarrow> - (2 ^ 63) \<le> i \<and> i < 2 ^ 63"

definition parseInt64 :: "string \<Rightarrow> int option" where
  "parseInt64 s =
     (let (neg, ds) = (case s of [] \<Rightarrow> (False, [])
                       | c # t \<Rightarrow> if c = CHR ''-'' then (True, t)
                                  else if c = CHR ''+'' then (False, t) else (False, s))
      in case parseDigits ds of None \<Rightarrow> None
         | Some n \<Rightarrow> let i = (if neg then - int n else int n)
                     in if in_int64 i then Some i else None)"

definition parseBool :: "string \<Rightarrow> bool option" where
  "parseBool s =
     (if s \<in> {''1'', ''t'', ''T'', ''TRUE'', ''true'', ''True''} then Some True
      else if s \<in> {''0'', ''f'', ''F'', ''FALSE'', ''false'', ''False''} then Some False
      else None)"

subsection \<open>Facts\<close>

lemma digit_char_decimal: "d < 10 \<Longrightarrow> is_digit (digit_char d) \<and> digit_val (digit_char d) = d"
  by (simp add: digit_char_def is_digit_def digit_val_def)

lemma natDigits_neq_Nil [simp]: "natDigits b n \<noteq> []"
  by (subst natDigits.simps) simp

lemma natDigits_digits: "list_all is_digit (natDigits 10 n)"
proof (induction n rule: less_induct)
  case (less n)
  show ?case
    by (subst natDigits.simps) (auto simp: digit_char_decimal intro!: less)
qed

lemma natDigits_value:
  "foldl (\<lambda>n c. 10 * n + digit_val c) 0 (natDigits 10 n) = n"
proof (induction n rule: less_induct)
  case (less n)
  show ?case
    by (subst natDigits.simps) (auto simp: digit_char_decimal less)
qed

lemma parseDigits_natDigits [simp]: "parseDigits (natDigits 10 n) = Some n"
  by (simp add: parseDigits_def natDigits_digits natDigits_value)

lemma natDigits_hd_digit: "natDigits 10 n = c # t \<Longrightarrow> is_digit c"
  using natDigits_digits [of n] by simp

lemma parseInt64_formatInt: "in_int64 i \<Longrightarrow> parseInt64 (itoa i) = Some i"
proof (cases "i < 0")
  case True
  moreover assume "in_int64 i"
  ultimately show ?thesis
    by (simp add: parseInt64_def formatInt_def)
next
  case False
  assume rng: "in_int64 i"
  obtain c t where ct: "natDigits 10 (nat i) = c # t"
    by (cases "natDigits 10 (nat i)") auto
  then have "is_digit c" by (rule natDigits_hd_digit)
  then have "c \<noteq> CHR ''-''" "c \<noteq> CHR ''+''" by (auto simp: is_digit_def)
  with False rng ct show ?thesis
    using parseDigits_natDigits [of "nat i"] by (simp add: parseInt64_def formatInt_def)
qed

lemma parseInt64_range: "parseInt64 s = Some i \<Longrightarrow> in_int64 i"
  by (auto simp: parseInt64_def Let_def split: option.splits if_splits prod.splits)

text \<open>A decimal numeral holds no separator: what the codecs and the URL paths need.\<close>

lemma itoa_chars: "c \<in> set (itoa i) \<Longrightarrow> is_digit c \<or> c = CHR ''-''"
  using natDigits_digits [of "nat i"] natDigits_digits [of "nat (- i)"]
  by (auto simp: formatInt_def list_all_iff split: if_splits)

lemma itoa_nonneg_digits: "0 \<le> i \<Longrightarrow> list_all is_digit (itoa i)"
  by (simp add: formatInt_def natDigits_digits)

section \<open>Hexadecimal\<close>

definition hex_lower :: "nat \<Rightarrow> char" where
  "hex_lower n = ''0123456789abcdef'' ! n"

definition hex_upper :: "nat \<Rightarrow> char" where
  "hex_upper n = ''0123456789ABCDEF'' ! n"

definition hexEncode :: "bytes \<Rightarrow> string" where
  "hexEncode bs = concat (map (\<lambda>c. [hex_lower (byte_of c div 16), hex_lower (byte_of c mod 16)]) bs)"

lemma length_hexEncode [simp]: "length (hexEncode bs) = 2 * length bs"
  by (induction bs) (auto simp: hexEncode_def)

lemma hex_lower_in: "n < 16 \<Longrightarrow> hex_lower n \<in> set ''0123456789abcdef''"
  unfolding hex_lower_def by (rule nth_mem) simp

lemma hexEncode_chars: "set (hexEncode bs) \<subseteq> set ''0123456789abcdef''"
proof (induction bs)
  case (Cons b bs)
  have "byte_of b div 16 < 16" using byte_of_less [of b] by linarith
  moreover have "byte_of b mod 16 < 16" by simp
  ultimately have "hex_lower (byte_of b div 16) \<in> set ''0123456789abcdef''"
    and "hex_lower (byte_of b mod 16) \<in> set ''0123456789abcdef''"
    by - (rule hex_lower_in, assumption)+
  with Cons show ?case by (simp add: hexEncode_def)
qed (simp add: hexEncode_def)

section \<open>URL escaping\<close>

text \<open>
  \<open>url.PathEscape\<close> keeps the unreserved characters and those a path segment may hold;
  \<open>url.QueryEscape\<close> keeps the unreserved ones and writes a space as a plus sign. Every other
  byte becomes a percent sign and two upper-case hexadecimal digits.
\<close>

definition unreserved :: "char \<Rightarrow> bool" where
  "unreserved c \<longleftrightarrow> is_alnum c \<or> c \<in> set ''-_.~''"

definition segment_char :: "char \<Rightarrow> bool" where
  "segment_char c \<longleftrightarrow> unreserved c \<or> c \<in> set ''$&+=:@''"

definition percent :: "char \<Rightarrow> string" where
  "percent c = [CHR ''%'', hex_upper (byte_of c div 16), hex_upper (byte_of c mod 16)]"

definition pathEscape :: "string \<Rightarrow> string" where
  "pathEscape s = concat (map (\<lambda>c. if segment_char c then [c] else percent c) s)"

definition queryEscape :: "string \<Rightarrow> string" where
  "queryEscape s =
     concat (map (\<lambda>c. if unreserved c then [c] else if c = CHR '' '' then ''+'' else percent c) s)"

text \<open>\<open>url.Values.Encode\<close> of pairs already sorted by key.\<close>

definition encodeQuery :: "(string \<times> string) list \<Rightarrow> string" where
  "encodeQuery kvs = joinWith ''&'' (map (\<lambda>(k, v). queryEscape k @ ''='' @ queryEscape v) kvs)"

subsection \<open>Escaping loses nothing and cannot leave its segment\<close>

definition hex_val :: "char \<Rightarrow> nat" where
  "hex_val c = (if is_digit c then byte_of c - 48 else byte_of c - 55)"

fun percentDecode :: "string \<Rightarrow> string" where
  "percentDecode [] = []"
| "percentDecode (c # s) =
     (if c = CHR ''%'' then
        (case s of a # b # t \<Rightarrow> char_of (16 * hex_val a + hex_val b) # percentDecode t
         | _ \<Rightarrow> [])
      else c # percentDecode s)"

lemma hex_val_upper: "n < 16 \<Longrightarrow> hex_val (hex_upper n) = n"
proof -
  assume "n < 16"
  then have "n \<in> set [0..<16]" by simp
  moreover have "\<forall>n \<in> set [0..<16]. hex_val (hex_upper n) = n" by code_simp
  ultimately show ?thesis by blast
qed

lemma percentDecode_percent:
  "percentDecode (percent c @ s) = c # percentDecode s"
proof -
  have "byte_of c div 16 < 16" "byte_of c mod 16 < 16" using byte_of_less [of c] by linarith+
  then show ?thesis by (simp add: percent_def hex_val_upper)
qed

lemma segment_char_not_percent: "segment_char c \<Longrightarrow> c \<noteq> CHR ''%''"
  by (auto simp: segment_char_def unreserved_def char_class_defs)

lemma percentDecode_pathEscape: "percentDecode (pathEscape s) = s"
proof (induction s)
  case (Cons c s)
  then show ?case
    using segment_char_not_percent [of c]
    by (auto simp: pathEscape_def percentDecode_percent simp del: percentDecode.simps(2))
       (simp add: pathEscape_def)
qed (simp add: pathEscape_def)

lemma pathEscape_inj: "pathEscape s = pathEscape t \<longleftrightarrow> s = t"
  by (metis percentDecode_pathEscape)

lemma hex_upper_in: "n < 16 \<Longrightarrow> hex_upper n \<in> set ''0123456789ABCDEF''"
  unfolding hex_upper_def by (rule nth_mem) simp

lemma hex_upper_segment: "n < 16 \<Longrightarrow> segment_char (hex_upper n)"
proof -
  assume "n < 16"
  then have "hex_upper n \<in> set ''0123456789ABCDEF''" by (rule hex_upper_in)
  moreover have "list_all segment_char ''0123456789ABCDEF''" by code_simp
  ultimately show ?thesis unfolding list_all_iff by blast
qed

lemma percent_chars: "c \<in> set (percent d) \<Longrightarrow> segment_char c \<or> c = CHR ''%''"
proof -
  have "byte_of d div 16 < 16" "byte_of d mod 16 < 16" using byte_of_less [of d] by linarith+
  then show "c \<in> set (percent d) \<Longrightarrow> ?thesis"
    using hex_upper_segment unfolding percent_def by auto
qed

lemma pathEscape_chars: "c \<in> set (pathEscape s) \<Longrightarrow> segment_char c \<or> c = CHR ''%''"
  unfolding pathEscape_def by (auto split: if_splits dest: percent_chars)

lemma not_segment_char: "\<not> segment_char (CHR ''/'')" "\<not> segment_char (CHR ''?'')"
  by code_simp+

lemma pathEscape_no_slash: "CHR ''/'' \<notin> set (pathEscape s)" "CHR ''?'' \<notin> set (pathEscape s)"
  using not_segment_char by (auto dest!: pathEscape_chars)

end
