(* ===== verification/GoBase64.thy ===== *)
theory GoBase64
  imports GoConv
begin

text \<open>
  \<open>encoding/base64\<close>: the raw URL alphabet of the cookies and CSRF tokens
  (\<open>RawURLEncoding\<close>) and the padded standard alphabet of the configured keys
  (\<open>StdEncoding\<close>). Both decoders skip carriage returns and line feeds and accept any value
  of the unused trailing bits, as the library's non-strict encodings do.
\<close>

section \<open>Alphabets\<close>

definition b64_char :: "bool \<Rightarrow> nat \<Rightarrow> char" where
  "b64_char url n =
     (if n < 26 then char_of (65 + n) else if n < 52 then char_of (71 + n)
      else if n < 62 then char_of (n - 4)
      else if n = 62 then (if url then CHR ''-'' else CHR ''+'')
      else (if url then CHR ''_'' else CHR ''/''))"

definition b64_val :: "bool \<Rightarrow> char \<Rightarrow> nat option" where
  "b64_val url c =
     (if is_upper c then Some (byte_of c - 65) else if is_lower c then Some (byte_of c - 71)
      else if is_digit c then Some (byte_of c + 4)
      else if c = (if url then CHR ''-'' else CHR ''+'') then Some 62
      else if c = (if url then CHR ''_'' else CHR ''/'') then Some 63 else None)"

section \<open>Encoding and decoding\<close>

fun b64Encode :: "bool \<Rightarrow> bool \<Rightarrow> bytes \<Rightarrow> string" where
  "b64Encode url pad [] = []"
| "b64Encode url pad [a] =
     [b64_char url (byte_of a div 4), b64_char url (byte_of a mod 4 * 16)] @ (if pad then ''=='' else [])"
| "b64Encode url pad [a, b] =
     [b64_char url (byte_of a div 4), b64_char url (byte_of a mod 4 * 16 + byte_of b div 16),
      b64_char url (byte_of b mod 16 * 4)] @ (if pad then ''='' else [])"
| "b64Encode url pad (a # b # c # t) =
     [b64_char url (byte_of a div 4), b64_char url (byte_of a mod 4 * 16 + byte_of b div 16),
      b64_char url (byte_of b mod 16 * 4 + byte_of c div 64), b64_char url (byte_of c mod 64)]
     @ b64Encode url pad t"

definition b64_two :: "nat \<Rightarrow> nat \<Rightarrow> bytes" where
  "b64_two x y = [char_of (x * 4 + y div 16)]"

definition b64_three :: "nat \<Rightarrow> nat \<Rightarrow> nat \<Rightarrow> bytes" where
  "b64_three x y z = [char_of (x * 4 + y div 16), char_of (y mod 16 * 16 + z div 4)]"

definition b64_four :: "nat \<Rightarrow> nat \<Rightarrow> nat \<Rightarrow> nat \<Rightarrow> bytes" where
  "b64_four x y z u =
     [char_of (x * 4 + y div 16), char_of (y mod 16 * 16 + z div 4), char_of (z mod 4 * 64 + u)]"

fun b64Quanta :: "bool \<Rightarrow> bool \<Rightarrow> string \<Rightarrow> bytes option" where
  "b64Quanta url pad [] = Some []"
| "b64Quanta url pad [a] = None"
| "b64Quanta url pad [a, b] =
     (if pad then None
      else (case (b64_val url a, b64_val url b) of (Some x, Some y) \<Rightarrow> Some (b64_two x y) | _ \<Rightarrow> None))"
| "b64Quanta url pad [a, b, c] =
     (if pad then None
      else (case (b64_val url a, b64_val url b, b64_val url c) of
              (Some x, Some y, Some z) \<Rightarrow> Some (b64_three x y z) | _ \<Rightarrow> None))"
| "b64Quanta url pad (a # b # c # d # t) =
     (if pad \<and> t = [] \<and> d = CHR ''='' then
        (if c = CHR ''='' then
           (case (b64_val url a, b64_val url b) of (Some x, Some y) \<Rightarrow> Some (b64_two x y) | _ \<Rightarrow> None)
         else (case (b64_val url a, b64_val url b, b64_val url c) of
              (Some x, Some y, Some z) \<Rightarrow> Some (b64_three x y z) | _ \<Rightarrow> None))
      else (case (b64_val url a, b64_val url b, b64_val url c, b64_val url d) of
              (Some x, Some y, Some z, Some u) \<Rightarrow> map_option ((@) (b64_four x y z u)) (b64Quanta url pad t)
            | _ \<Rightarrow> None))"

definition b64Decode :: "bool \<Rightarrow> bool \<Rightarrow> string \<Rightarrow> bytes option" where
  "b64Decode url pad s = b64Quanta url pad (filter (\<lambda>c. c \<noteq> CR \<and> c \<noteq> LF) s)"

abbreviation rawURLEncode :: "bytes \<Rightarrow> string" where
  "rawURLEncode \<equiv> b64Encode True False"

abbreviation rawURLDecode :: "string \<Rightarrow> bytes option" where
  "rawURLDecode \<equiv> b64Decode True False"

abbreviation stdDecode :: "string \<Rightarrow> bytes option" where
  "stdDecode \<equiv> b64Decode False True"

section \<open>Round trip, length and alphabet\<close>

lemma b64_char_ranges:
  "n < 26 \<Longrightarrow> byte_of (b64_char url n) = 65 + n"
  "26 \<le> n \<Longrightarrow> n < 52 \<Longrightarrow> byte_of (b64_char url n) = 71 + n"
  "52 \<le> n \<Longrightarrow> n < 62 \<Longrightarrow> byte_of (b64_char url n) = n - 4"
  by (simp_all add: b64_char_def)

lemma b64_char_byte:
  "n < 64 \<Longrightarrow> byte_of (b64_char url n) \<notin> {13, 10, 61, 46}"
proof -
  assume "n < 64"
  then consider "n < 26" | "26 \<le> n" "n < 52" | "52 \<le> n" "n < 62" | "n = 62" | "n = 63" by linarith
  then show ?thesis
    by cases (auto simp: b64_char_ranges, auto simp: b64_char_def split: if_splits)
qed

lemma b64_val_char [simp]: "n < 64 \<Longrightarrow> b64_val url (b64_char url n) = Some n"
proof -
  assume "n < 64"
  then consider "n < 26" | "26 \<le> n" "n < 52" | "52 \<le> n" "n < 62" | "n = 62" | "n = 63" by linarith
  then show ?thesis
  proof cases
    case 3
    then have "48 \<le> n - 4 \<and> n - 4 \<le> 57" by linarith
    with 3 show ?thesis by (simp add: b64_val_def char_class_defs b64_char_ranges)
  next
    case 4
    then show ?thesis by (simp add: b64_val_def char_class_defs b64_char_def)
  next
    case 5
    then show ?thesis by (simp add: b64_val_def char_class_defs b64_char_def)
  qed (simp_all add: b64_val_def char_class_defs b64_char_ranges)
qed

lemma b64_char_table: "n < 64 \<Longrightarrow> b64_char url n \<notin> {CR, LF, CHR ''='', CHR ''.''}"
  using b64_char_byte [of n url] by auto

text \<open>Splitting an octet and putting it together again, on numbers below 256.\<close>

lemma split_octet:
  fixes a q :: nat
  shows "q < 4 \<Longrightarrow> (a * 4 + q) div 4 = a \<and> (a * 4 + q) mod 4 = q"
    and "q < 16 \<Longrightarrow> (a * 16 + q) div 16 = a \<and> (a * 16 + q) mod 16 = q"
    and "(a * 4) div 4 = a" and "(a * 16) div 16 = a"
    and "a < 256 \<Longrightarrow> a div 4 < 64" and "a < 256 \<Longrightarrow> a div 16 < 16" and "a < 256 \<Longrightarrow> a div 64 < 4"
    and "a mod 4 * 16 < 64" and "q < 16 \<Longrightarrow> a mod 4 * 16 + q < 64"
    and "a mod 16 * 4 < 64" and "q < 4 \<Longrightarrow> a mod 16 * 4 + q < 64"
    and "a mod 64 < 64"
proof -
  have "a mod 4 < 4" "a mod 16 < 16" by simp_all
  then show "a mod 4 * 16 < 64" "q < 16 \<Longrightarrow> a mod 4 * 16 + q < 64"
    "a mod 16 * 4 < 64" "q < 4 \<Longrightarrow> a mod 16 * 4 + q < 64"
    by linarith+
qed (simp_all add: less_mult_imp_div_less)

lemma octet_parts:
  "byte_of a div 4 < 64" "byte_of a div 16 < 16" "byte_of a div 64 < 4"
  by (simp_all add: split_octet)

lemmas sextets = octet_parts split_octet(8-12)

lemma b64_two_inverse: "b64_two (byte_of a div 4) (byte_of a mod 4 * 16) = [a]"
  by (simp add: b64_two_def)

lemma b64_three_inverse:
  "b64_three (byte_of a div 4) (byte_of a mod 4 * 16 + byte_of b div 16) (byte_of b mod 16 * 4) = [a, b]"
  using octet_parts [of b] by (simp add: b64_three_def split_octet)

lemma b64_four_inverse:
  "b64_four (byte_of a div 4) (byte_of a mod 4 * 16 + byte_of b div 16)
     (byte_of b mod 16 * 4 + byte_of c div 64) (byte_of c mod 64) = [a, b, c]"
  using octet_parts [of b] octet_parts [of c] by (simp add: b64_four_def split_octet)

lemma b64_not_pad: "n < 64 \<Longrightarrow> b64_char url n \<noteq> CHR ''=''"
  using b64_char_table by blast

lemma b64Quanta_Encode: "b64Quanta url pad (b64Encode url pad bs) = Some bs"
  by (induction url pad bs rule: b64Encode.induct)
    (simp_all add: sextets b64_two_inverse b64_three_inverse b64_four_inverse b64_not_pad)

lemma b64_char_plain: "n < 64 \<Longrightarrow> b64_char url n \<noteq> CR" "n < 64 \<Longrightarrow> b64_char url n \<noteq> LF"
  "n < 64 \<Longrightarrow> b64_char url n \<noteq> CHR ''.''"
  using b64_char_table by blast+

lemma b64Encode_plain: "list_all (\<lambda>c. c \<noteq> CR \<and> c \<noteq> LF \<and> c \<noteq> CHR ''.'') (b64Encode url False bs)"
  by (induction url False bs rule: b64Encode.induct) (simp_all add: sextets b64_char_plain)

lemma rawURL_roundtrip [codec_simps]: "rawURLDecode (rawURLEncode bs) = Some bs"
proof -
  have "\<forall>c \<in> set (rawURLEncode bs). c \<noteq> CR \<and> c \<noteq> LF"
    using b64Encode_plain [of True bs] by (simp add: list_all_iff)
  then show ?thesis by (simp add: b64Decode_def b64Quanta_Encode filter_id_conv)
qed

lemma length_rawURLEncode [codec_simps]: "length (rawURLEncode bs) = (4 * length bs + 2) div 3"
  by (induction True False bs rule: b64Encode.induct) auto

lemma rawURLEncode_inj: "rawURLEncode bs = rawURLEncode cs \<longleftrightarrow> bs = cs"
  by (metis option.inject rawURL_roundtrip)

lemma rawURLEncode_no_dot: "CHR ''.'' \<notin> set (rawURLEncode bs)"
  using b64Encode_plain [of True bs] by (auto simp: list_all_iff)

lemma rawURLEncode_Nil: "rawURLEncode bs = [] \<longleftrightarrow> bs = []"
  by (cases "(True, False, bs)" rule: b64Encode.cases) auto

end
