(* ===== verification/GoJson.thy ===== *)
theory GoJson
  imports GoBase64
begin

text \<open>
  \<open>encoding/json\<close> as the program uses it: \<open>Marshal\<close> of structs of strings, integers and
  booleans, and the decoding of a document into such structs. A number keeps its literal,
  because the decoder parses the literal by the type of the field it fills.
\<close>

section \<open>Documents\<close>

datatype json =
    JNull
  | JBool bool
  | JNum string
  | JStr string
  | JArr "json list"
  | JObj "(string \<times> json) list"

section \<open>UTF-8\<close>

definition in_range :: "nat \<Rightarrow> nat \<Rightarrow> char \<Rightarrow> bool" where
  "in_range lo hi c \<longleftrightarrow> lo \<le> byte_of c \<and> byte_of c \<le> hi"

text \<open>
  \<open>rune_len s\<close>: the number of bytes of the well-formed UTF-8 sequence \<open>s\<close> starts with,
  0 when it starts with none (Go then decodes one byte to U+FFFD).
\<close>

fun utf8_seq :: "string \<Rightarrow> bool" where
  "utf8_seq [a] = is_ascii a"
| "utf8_seq [a, b] = (in_range 0xC2 0xDF a \<and> in_range 0x80 0xBF b)"
| "utf8_seq [a, b, c] =
     (in_range 0x80 0xBF c \<and>
      (if byte_of a = 0xE0 then in_range 0xA0 0xBF b
       else if byte_of a = 0xED then in_range 0x80 0x9F b
       else in_range 0xE1 0xEF a \<and> in_range 0x80 0xBF b))"
| "utf8_seq [a, b, c, d] =
     (in_range 0x80 0xBF c \<and> in_range 0x80 0xBF d \<and>
      (if byte_of a = 0xF0 then in_range 0x90 0xBF b
       else if byte_of a = 0xF4 then in_range 0x80 0x8F b
       else in_range 0xF1 0xF3 a \<and> in_range 0x80 0xBF b))"
| "utf8_seq _ = False"

definition rune_len :: "string \<Rightarrow> nat" where
  "rune_len s =
     (if utf8_seq (take 1 s) then 1 else if utf8_seq (take 2 s) then 2
      else if utf8_seq (take 3 s) then 3 else if utf8_seq (take 4 s) then 4 else 0)"

lemma rune_len_Nil [simp]: "rune_len [] = 0"
  by (simp add: rune_len_def)

lemma rune_len_ascii [simp]: "is_ascii c \<Longrightarrow> rune_len (c # s) = 1"
  by (simp add: rune_len_def)

lemma rune_len_cases:
  obtains "rune_len s = 0" | "rune_len s = 1" "utf8_seq (take 1 s)"
  | "rune_len s = 2" "utf8_seq (take 2 s)" "\<not> utf8_seq (take 1 s)"
  | "rune_len s = 3" "utf8_seq (take 3 s)" "\<not> utf8_seq (take 1 s)" "\<not> utf8_seq (take 2 s)"
  | "rune_len s = 4" "utf8_seq (take 4 s)" "\<not> utf8_seq (take 1 s)" "\<not> utf8_seq (take 2 s)"
    "\<not> utf8_seq (take 3 s)"
  by (cases "utf8_seq (take 1 s)"; cases "utf8_seq (take 2 s)"; cases "utf8_seq (take 3 s)";
      cases "utf8_seq (take 4 s)") (auto simp: rune_len_def)

lemma take_short: "length s < n \<Longrightarrow> take n s = take (length s) s"
  by simp

lemma rune_len_le: "rune_len s \<le> length s"
proof (rule ccontr)
  assume "\<not> rune_len s \<le> length s"
  then have less: "length s < rune_len s" by simp
  have "rune_len s \<le> 4" by (simp add: rune_len_def)
  with less have len: "length s = 0 \<or> length s = 1 \<or> length s = 2 \<or> length s = 3" by linarith
  show False
    using less len by (cases rule: rune_len_cases [of s]) auto
qed

lemma rune_len_take:
  assumes "rune_len s \<noteq> 0"
  shows "rune_len (take (rune_len s) s @ t) = rune_len s"
proof -
  define x where "x = take (rune_len s) s @ t"
  have tk: "take k x = take k s" if "k \<le> rune_len s" for k
    using that rune_len_le [of s] by (simp add: x_def min_def)
  have "rune_len x = rune_len s"
    using assms by (cases rule: rune_len_cases [of s]) (simp_all add: rune_len_def [of x] tk)
  then show ?thesis by (simp add: x_def)
qed

function valid_utf8 :: "string \<Rightarrow> bool" where
  "valid_utf8 s =
     (if s = [] then True else if rune_len s = 0 then False else valid_utf8 (drop (rune_len s) s))"
  by pat_completeness auto
termination
  by (relation "measure length") (auto intro: diff_less)

declare valid_utf8.simps [simp del]

lemma valid_utf8_ascii: "list_all is_ascii s \<Longrightarrow> valid_utf8 s"
proof (induction s)
  case Nil
  show ?case by (subst valid_utf8.simps) simp
next
  case (Cons c s)
  then show ?case by (subst valid_utf8.simps) simp
qed

definition replacement_char :: string where
  "replacement_char = [CHR 0xEF, CHR 0xBF, CHR 0xBD]"

definition encode_rune :: "nat \<Rightarrow> string" where
  "encode_rune u =
     (if u < 0x80 then [char_of u]
      else if u < 0x800 then [char_of (0xC0 + u div 64), char_of (0x80 + u mod 64)]
      else if u < 0x10000 then
        [char_of (0xE0 + u div 4096), char_of (0x80 + u div 64 mod 64), char_of (0x80 + u mod 64)]
      else [char_of (0xF0 + u div 262144), char_of (0x80 + u div 4096 mod 64),
            char_of (0x80 + u div 64 mod 64), char_of (0x80 + u mod 64)])"

section \<open>Marshal\<close>

text \<open>
  The string encoder escapes the quote, the backslash, control characters, the three HTML
  characters and the two Unicode line separators, and replaces invalid UTF-8.
\<close>

definition u_escape :: "nat \<Rightarrow> string" where
  "u_escape n = [BACKSLASH, CHR ''u'', hex_lower (n div 4096), hex_lower (n div 256 mod 16),
                 hex_lower (n div 16 mod 16), hex_lower (n mod 16)]"

definition escape_ascii :: "char \<Rightarrow> string" where
  "escape_ascii c =
     (if c = QUOTE \<or> c = BACKSLASH then [BACKSLASH, c]
      else if byte_of c = 8 then [BACKSLASH, CHR ''b'']
      else if byte_of c = 12 then [BACKSLASH, CHR ''f'']
      else if c = LF then [BACKSLASH, CHR ''n'']
      else if c = CR then [BACKSLASH, CHR ''r'']
      else if c = TAB then [BACKSLASH, CHR ''t'']
      else if byte_of c < 32 \<or> c \<in> set ''<>&'' then u_escape (byte_of c)
      else [c])"

function escape_string :: "string \<Rightarrow> string" where
  "escape_string [] = []"
| "escape_string (c # s) =
     (if is_ascii c then escape_ascii c @ escape_string s
      else if rune_len (c # s) = 0 then u_escape 0xFFFD @ escape_string s
      else if take 3 (c # s) = [CHR 0xE2, CHR 0x80, CHR 0xA8] then u_escape 0x2028 @ escape_string (drop 3 (c # s))
      else if take 3 (c # s) = [CHR 0xE2, CHR 0x80, CHR 0xA9] then u_escape 0x2029 @ escape_string (drop 3 (c # s))
      else take (rune_len (c # s)) (c # s) @ escape_string (drop (rune_len (c # s)) (c # s)))"
  by pat_completeness auto
termination
  by (relation "measure length") (auto intro: diff_less)

declare escape_string.simps(2) [simp del]

definition quoteJSON :: "string \<Rightarrow> string" where
  "quoteJSON s = [QUOTE] @ escape_string s @ [QUOTE]"

fun marshal :: "json \<Rightarrow> string" where
  "marshal JNull = ''null''"
| "marshal (JBool b) = (if b then ''true'' else ''false'')"
| "marshal (JNum n) = n"
| "marshal (JStr s) = quoteJSON s"
| "marshal (JArr vs) = ''['' @ joinWith '','' (map marshal vs) @ '']''"
| "marshal (JObj kvs) =
     ''{'' @ joinWith '','' (map (\<lambda>kv. quoteJSON (fst kv) @ '':'' @ marshal (snd kv)) kvs) @ ''}''"

abbreviation JInt :: "int \<Rightarrow> json" where
  "JInt i \<equiv> JNum (itoa i)"

section \<open>Parsing\<close>

definition is_ws :: "char \<Rightarrow> bool" where
  "is_ws c \<longleftrightarrow> c = CHR '' '' \<or> c = TAB \<or> c = LF \<or> c = CR"

definition skip_ws :: "string \<Rightarrow> string" where
  "skip_ws s = dropWhile is_ws s"

lemma length_skip_ws: "length (skip_ws s) \<le> length s"
  by (simp add: skip_ws_def length_dropWhile_le)

definition hex_digit_val :: "char \<Rightarrow> nat option" where
  "hex_digit_val c =
     (if is_digit c then Some (byte_of c - 48)
      else if in_range 97 102 c then Some (byte_of c - 87)
      else if in_range 65 70 c then Some (byte_of c - 55) else None)"

fun hex4 :: "string \<Rightarrow> (nat \<times> string) option" where
  "hex4 (a # b # c # d # t) =
     (case (hex_digit_val a, hex_digit_val b, hex_digit_val c, hex_digit_val d) of
        (Some w, Some x, Some y, Some z) \<Rightarrow> Some (((w * 16 + x) * 16 + y) * 16 + z, t)
      | _ \<Rightarrow> None)"
| "hex4 _ = None"

lemma hex4_shorter: "hex4 s = Some (n, t) \<Longrightarrow> length t < length s"
  by (induction s rule: hex4.induct) (auto split: option.splits)

text \<open>The rune of a \<open>\u\<close> escape: a surrogate pair takes two of them, a lone surrogate
  decodes to U+FFFD.\<close>

definition unescape_u :: "nat \<Rightarrow> string \<Rightarrow> string \<times> string" where
  "unescape_u u t =
     (if 0xD800 \<le> u \<and> u < 0xE000 then
        (case t of a # b # t' \<Rightarrow>
           (if a = BACKSLASH \<and> b = CHR ''u'' then
              (case hex4 t' of
                 Some (v, t'') \<Rightarrow>
                   (if u < 0xDC00 \<and> 0xDC00 \<le> v \<and> v < 0xE000
                    then (encode_rune (0x10000 + (u - 0xD800) * 1024 + (v - 0xDC00)), t'')
                    else (replacement_char, t))
               | None \<Rightarrow> (replacement_char, t))
            else (replacement_char, t))
         | _ \<Rightarrow> (replacement_char, t))
      else (encode_rune u, t))"

lemma unescape_u_length: "length (snd (unescape_u u t)) \<le> length t"
  by (auto simp: unescape_u_def split: list.splits option.splits dest: hex4_shorter)

definition simple_escape :: "char \<Rightarrow> string option" where
  "simple_escape c =
     (if c = QUOTE \<or> c = BACKSLASH \<or> c = CHR ''/'' then Some [c]
      else if c = CHR ''b'' then Some [CHR 0x08] else if c = CHR ''f'' then Some [CHR 0x0C]
      else if c = CHR ''n'' then Some [LF] else if c = CHR ''r'' then Some [CR]
      else if c = CHR ''t'' then Some [TAB] else None)"

text \<open>The contents of a string literal, after its opening quote.\<close>

function string_body :: "string \<Rightarrow> (string \<times> string) option" where
  "string_body [] = None"
| "string_body (c # s) =
     (if c = QUOTE then Some ([], s)
      else if c = BACKSLASH then
        (case s of [] \<Rightarrow> None
         | e # t \<Rightarrow>
             if e = CHR ''u'' then
               (case hex4 t of None \<Rightarrow> None
                | Some (u, t') \<Rightarrow>
                    map_option (\<lambda>(x, r). (fst (unescape_u u t') @ x, r)) (string_body (snd (unescape_u u t'))))
             else (case simple_escape e of None \<Rightarrow> None
                   | Some x \<Rightarrow> map_option (\<lambda>(y, r). (x @ y, r)) (string_body t)))
      else if byte_of c < 32 then None
      else if rune_len (c # s) = 0 then
        map_option (\<lambda>(y, r). (replacement_char @ y, r)) (string_body s)
      else map_option (\<lambda>(y, r). (take (rune_len (c # s)) (c # s) @ y, r))
             (string_body (drop (rune_len (c # s)) (c # s))))"
  by pat_completeness auto
termination
proof (relation "measure length", goal_cases)
  case (2 c s e t p u t')
  from 2 have "length t' < length t" by (auto dest: hex4_shorter)
  moreover have "length (snd (unescape_u u t')) \<le> length t'" by (rule unescape_u_length)
  ultimately show ?case using 2 by simp
qed (auto intro: diff_less)

declare string_body.simps(2) [simp del]

text \<open>
  A number literal is the longest prefix of the input that fits the grammar; a sign, a
  point or an exponent without digits after it is an error.
\<close>

definition span_digits :: "string \<Rightarrow> string \<times> string" where
  "span_digits s = (takeWhile is_digit s, dropWhile is_digit s)"

definition num_integer :: "string \<Rightarrow> (string \<times> string) option" where
  "num_integer s =
     (case s of [] \<Rightarrow> None
      | c # t \<Rightarrow> if c = CHR ''0'' then Some ([c], t)
                 else if is_digit c then Some (span_digits s) else None)"

definition num_fraction :: "string \<Rightarrow> (string \<times> string) option" where
  "num_fraction s =
     (case s of [] \<Rightarrow> Some ([], [])
      | c # t \<Rightarrow> if c \<noteq> CHR ''.'' then Some ([], s)
                 else if fst (span_digits t) = [] then None
                 else Some (c # fst (span_digits t), snd (span_digits t)))"

definition num_exponent :: "string \<Rightarrow> (string \<times> string) option" where
  "num_exponent s =
     (case s of [] \<Rightarrow> Some ([], [])
      | c # t \<Rightarrow> if c \<noteq> CHR ''e'' \<and> c \<noteq> CHR ''E'' then Some ([], s)
                 else let (sg, u) = (case t of [] \<Rightarrow> ([], [])
                                     | d # v \<Rightarrow> if d = CHR ''+'' \<or> d = CHR ''-'' then ([d], v) else ([], t))
                      in if fst (span_digits u) = [] then None
                         else Some (c # sg @ fst (span_digits u), snd (span_digits u)))"

definition number_literal :: "string \<Rightarrow> (string \<times> string) option" where
  "number_literal s =
     (let (sg, s1) = (case s of [] \<Rightarrow> ([], []) | c # t \<Rightarrow> if c = CHR ''-'' then ([c], t) else ([], s))
      in case num_integer s1 of None \<Rightarrow> None
         | Some (i, s2) \<Rightarrow>
             (case num_fraction s2 of None \<Rightarrow> None
              | Some (f, s3) \<Rightarrow>
                  (case num_exponent s3 of None \<Rightarrow> None
                   | Some (e, s4) \<Rightarrow> Some (sg @ i @ f @ e, s4))))"

text \<open>
  Values, the rest of an array after its first element position, and the rest of an object.
  The fuel bounds the number of nested and consecutive calls; every call consumes input, so
  the length of the input is enough.
\<close>

fun value_json :: "nat \<Rightarrow> string \<Rightarrow> (json \<times> string) option"
  and elems_json :: "nat \<Rightarrow> string \<Rightarrow> (json list \<times> string) option"
  and members_json :: "nat \<Rightarrow> string \<Rightarrow> ((string \<times> json) list \<times> string) option" where
  "value_json 0 s = None"
| "value_json (Suc f) s =
     (case skip_ws s of [] \<Rightarrow> None
      | c # t \<Rightarrow>
          if c = QUOTE then map_option (\<lambda>(x, r). (JStr x, r)) (string_body t)
          else if c = CHR ''{'' then
            (case skip_ws t of [] \<Rightarrow> None
             | d # u \<Rightarrow> if d = CHR ''}'' then Some (JObj [], u)
                        else map_option (\<lambda>(m, r). (JObj m, r)) (members_json f (d # u)))
          else if c = CHR ''['' then
            (case skip_ws t of [] \<Rightarrow> None
             | d # u \<Rightarrow> if d = CHR '']'' then Some (JArr [], u)
                        else map_option (\<lambda>(m, r). (JArr m, r)) (elems_json f (d # u)))
          else if hasPrefix (c # t) ''true'' then Some (JBool True, drop 4 (c # t))
          else if hasPrefix (c # t) ''false'' then Some (JBool False, drop 5 (c # t))
          else if hasPrefix (c # t) ''null'' then Some (JNull, drop 4 (c # t))
          else map_option (\<lambda>(x, r). (JNum x, r)) (number_literal (c # t)))"
| "elems_json 0 s = None"
| "elems_json (Suc f) s =
     (case value_json f s of None \<Rightarrow> None
      | Some (v, t) \<Rightarrow>
          (case skip_ws t of [] \<Rightarrow> None
           | c # u \<Rightarrow> if c = CHR '']'' then Some ([v], u)
                      else if c = CHR '','' then map_option (\<lambda>(vs, r). (v # vs, r)) (elems_json f u)
                      else None))"
| "members_json 0 s = None"
| "members_json (Suc f) s =
     (case skip_ws s of [] \<Rightarrow> None
      | q # t \<Rightarrow>
          if q \<noteq> QUOTE then None
          else (case string_body t of None \<Rightarrow> None
           | Some (k, t1) \<Rightarrow>
               (case skip_ws t1 of [] \<Rightarrow> None
                | c # t2 \<Rightarrow>
                    if c \<noteq> CHR '':'' then None
                    else (case value_json f t2 of None \<Rightarrow> None
                     | Some (v, t3) \<Rightarrow>
                         (case skip_ws t3 of [] \<Rightarrow> None
                          | d # t4 \<Rightarrow>
                              if d = CHR ''}'' then Some ([(k, v)], t4)
                              else if d = CHR '','' then map_option (\<lambda>(m, r). ((k, v) # m, r)) (members_json f t4)
                              else None)))))"

declare value_json.simps [simp del] elems_json.simps [simp del] members_json.simps [simp del]

text \<open>\<open>Unmarshal\<close> takes a whole document; a \<open>Decoder\<close> takes the first value of a stream.\<close>

definition parse_fuel :: "string \<Rightarrow> nat" where
  "parse_fuel s = 2 * length s + 2"

definition parse_document :: "string \<Rightarrow> json option" where
  "parse_document s =
     (case value_json (parse_fuel s) s of
        Some (v, r) \<Rightarrow> if skip_ws r = [] then Some v else None
      | None \<Rightarrow> None)"

definition decode_first :: "string \<Rightarrow> json option" where
  "decode_first s = map_option fst (value_json (parse_fuel s) s)"

section \<open>Printing a document and reading it back\<close>

lemma hex_digit_val_lower: "n < 16 \<Longrightarrow> hex_digit_val (hex_lower n) = Some n"
proof -
  assume "n < 16"
  then have "n \<in> set [0..<16]" by simp
  moreover have "\<forall>n \<in> set [0..<16]. hex_digit_val (hex_lower n) = Some n" by code_simp
  ultimately show ?thesis by blast
qed

lemma hex4_u_escape:
  assumes "n < 65536"
  shows "hex4 (hex_lower (n div 4096) # hex_lower (n div 256 mod 16) # hex_lower (n div 16 mod 16) #
               hex_lower (n mod 16) # t) = Some (n, t)"
proof -
  have "n div 4096 < 16" using assms by (simp add: less_mult_imp_div_less)
  moreover have "((n div 4096 * 16 + n div 256 mod 16) * 16 + n div 16 mod 16) * 16 + n mod 16 = n"
  proof -
    have "n div 16 div 16 = n div 256" "n div 256 div 16 = n div 4096"
      by (simp_all add: div_mult2_eq [symmetric])
    then show ?thesis by (metis div_mult_mod_eq)
  qed
  ultimately show ?thesis by (simp add: hex_digit_val_lower)
qed

lemma string_body_u_escape:
  assumes "n < 0xD800"
  shows "string_body (u_escape n @ t) = map_option (\<lambda>(x, r). (encode_rune n @ x, r)) (string_body t)"
  using assms
  by (simp add: u_escape_def string_body.simps(2) hex4_u_escape unescape_u_def del: hex4.simps)

lemma string_body_escape_ascii:
  assumes "is_ascii c"
  shows "string_body (escape_ascii c @ t) = map_option (\<lambda>(x, r). (c # x, r)) (string_body t)"
proof -
  have small: "string_body (u_escape (byte_of c) @ t) = map_option (\<lambda>(x, r). (c # x, r)) (string_body t)"
    using assms by (simp add: string_body_u_escape is_ascii_def encode_rune_def)
  have special: "c = CHR 0x08" if "byte_of c = 8"
    using that of_char_eq_iff [where 'a = nat, of c "CHR 0x08"] by simp
  have special': "c = CHR 0x0C" if "byte_of c = 12"
    using that of_char_eq_iff [where 'a = nat, of c "CHR 0x0C"] by simp
  show ?thesis
    using assms small special special'
    by (auto simp: escape_ascii_def string_body.simps(2) simple_escape_def)
qed

lemma encode_line_separators:
  "encode_rune 0x2028 = [CHR 0xE2, CHR 0x80, CHR 0xA8]" "encode_rune 0x2029 = [CHR 0xE2, CHR 0x80, CHR 0xA9]"
  by (simp_all add: encode_rune_def char_of_eq_iff take_bit_eq_mod)

lemma string_body_rune:
  assumes "rune_len s \<noteq> 0" and "\<not> is_ascii (hd s)"
  shows "string_body (take (rune_len s) s @ t) =
           map_option (\<lambda>(y, r). (take (rune_len s) s @ y, r)) (string_body t)"
proof -
  obtain c u where s: "s = c # u" using assms(1) by (cases s) auto
  obtain n where n: "rune_len s = Suc n" using assms(1) by (cases "rune_len s") auto
  have high: "\<not> byte_of c < 128" using assms(2) by (simp add: s is_ascii_def)
  then have "c \<noteq> QUOTE" "c \<noteq> BACKSLASH" "\<not> byte_of c < 32" by auto
  moreover have "rune_len (c # take n u @ t) = Suc n"
    using rune_len_take [OF assms(1), of t] n by (simp add: s)
  moreover have "n \<le> length u" using rune_len_le [of s] n by (simp add: s)
  ultimately show ?thesis
    by (simp add: s n [unfolded s] string_body.simps(2))
qed

lemma string_body_escape:
  "valid_utf8 s \<Longrightarrow> string_body (escape_string s @ QUOTE # r) = Some (s, r)"
proof (induction s rule: escape_string.induct)
  case 1
  show ?case by (simp add: string_body.simps(2))
next
  case (2 c s)
  have len: "rune_len (c # s) \<noteq> 0" and rest: "valid_utf8 (drop (rune_len (c # s)) (c # s))"
    using "2.prems" by (auto simp: valid_utf8.simps [of "c # s"] split: if_splits)
  show ?case
  proof (cases "is_ascii c")
    case True
    with rest have "valid_utf8 s" by simp
    with "2.IH"(1) True show ?thesis
      by (simp add: escape_string.simps(2) string_body_escape_ascii)
  next
    case False
    consider (sep) d where "take 3 (c # s) = [CHR 0xE2, CHR 0x80, d]" "d = CHR 0xA8 \<or> d = CHR 0xA9"
      | (plain) "take 3 (c # s) \<noteq> [CHR 0xE2, CHR 0x80, CHR 0xA8]" "take 3 (c # s) \<noteq> [CHR 0xE2, CHR 0x80, CHR 0xA9]"
      by blast
    then show ?thesis
    proof cases
      case sep
      then obtain u where c: "c = CHR 0xE2" and s: "s = CHR 0x80 # d # u"
        by (metis append_Cons append_Nil append_take_drop_id list.inject)
      have three: "rune_len (c # s) = 3"
        using sep(2) unfolding c s by (auto simp: rune_len_def in_range_def is_ascii_def)
      have "valid_utf8 u" using rest three by (simp add: c s)
      then have "string_body (escape_string u @ QUOTE # r) = Some (u, r)"
        using "2.IH"(3,4) sep False len by (auto simp: c s)
      moreover have "escape_string (c # s) = u_escape (if d = CHR 0xA8 then 0x2028 else 0x2029) @ escape_string u"
        using sep(2) False len by (auto simp: escape_string.simps(2) c s)
      ultimately show ?thesis
        using sep(2) by (auto simp: string_body_u_escape encode_line_separators c s)
    next
      case plain
      then have "escape_string (c # s) =
          take (rune_len (c # s)) (c # s) @ escape_string (drop (rune_len (c # s)) (c # s))"
        using False len by (auto simp: escape_string.simps(2))
      moreover have "string_body (escape_string (drop (rune_len (c # s)) (c # s)) @ QUOTE # r) =
          Some (drop (rune_len (c # s)) (c # s), r)"
        using "2.IH"(5) [OF False len plain rest] .
      ultimately show ?thesis
        using string_body_rune [OF len] False by simp
    qed
  qed
qed

text \<open>
  An object whose members are strings, integers and booleans: the shape of every payload
  the program encrypts into a cookie.
\<close>

fun flat_value :: "json \<Rightarrow> bool" where
  "flat_value (JStr s) = valid_utf8 s"
| "flat_value (JNum n) = (\<exists>i. n = itoa i)"
| "flat_value (JBool b) = True"
| "flat_value _ = False"

lemma natDigits_zero_head: "natDigits 10 n = CHR ''0'' # t \<Longrightarrow> n = 0 \<and> t = []"
proof (induction n arbitrary: t rule: less_induct)
  case (less n)
  show ?case
  proof (cases "n < 10")
    case True
    then have "digit_char n = CHR ''0'' \<and> t = []"
      using less.prems by (subst (asm) natDigits.simps) simp
    with True digit_char_decimal [of n] show ?thesis by (simp add: digit_val_def)
  next
    case False
    then have "natDigits 10 (n div 10) @ [digit_char (n mod 10)] = CHR ''0'' # t"
      using less.prems by (subst (asm) natDigits.simps) simp
    then obtain u where "natDigits 10 (n div 10) = CHR ''0'' # u"
      by (cases "natDigits 10 (n div 10)") auto
    with less.IH [of "n div 10"] False have "n div 10 = 0" by simp
    with False show ?thesis by simp
  qed
qed

definition ends_number :: "string \<Rightarrow> bool" where
  "ends_number t \<longleftrightarrow> t = [] \<or> hd t = CHR '','' \<or> hd t = CHR ''}'' \<or> hd t = CHR '']''"

lemma ends_number_simps [simp]:
  "ends_number (CHR '','' # t)" "ends_number (CHR ''}'' # t)" "ends_number (CHR '']'' # t)" "ends_number []"
  by (simp_all add: ends_number_def)

lemma not_digit_separators: "\<not> is_digit (CHR '','')" "\<not> is_digit (CHR ''}'')" "\<not> is_digit (CHR '']'')"
  by (simp_all add: is_digit_def)

lemma number_rest: "ends_number t \<Longrightarrow> num_fraction t = Some ([], t) \<and> num_exponent t = Some ([], t)"
  by (cases t) (auto simp: num_fraction_def num_exponent_def ends_number_def)

lemma span_digits_ends:
  assumes "list_all is_digit ds" "ends_number t"
  shows "span_digits (ds @ t) = (ds, t)"
proof -
  have "takeWhile is_digit t = [] \<and> dropWhile is_digit t = t"
    using assms(2) not_digit_separators by (cases t) (auto simp: ends_number_def)
  with assms(1) show ?thesis by (simp add: span_digits_def list_all_iff)
qed

lemma num_integer_natDigits:
  assumes "ends_number t"
  shows "num_integer (natDigits 10 n @ t) = Some (natDigits 10 n, t)"
proof -
  obtain c u where cu: "natDigits 10 n = c # u" by (cases "natDigits 10 n") auto
  show ?thesis
  proof (cases "c = CHR ''0''")
    case True
    with cu natDigits_zero_head [of n u] have "natDigits 10 n = ''0''" by simp
    then show ?thesis by (simp add: num_integer_def)
  next
    case False
    with cu natDigits_hd_digit [OF cu] span_digits_ends [OF natDigits_digits [of n] assms]
    show ?thesis by (simp add: num_integer_def)
  qed
qed

lemma number_literal_itoa:
  assumes "ends_number t"
  shows "number_literal (itoa i @ t) = Some (itoa i, t)"
proof -
  obtain c u where cu: "natDigits 10 (nat i) = c # u" by (cases "natDigits 10 (nat i)") auto
  then have "c \<noteq> CHR ''-''" using natDigits_hd_digit [OF cu] by (auto simp: is_digit_def)
  with cu num_integer_natDigits [OF assms, of "nat i"] num_integer_natDigits [OF assms, of "nat (- i)"]
    number_rest [OF assms]
  show ?thesis by (auto simp: number_literal_def formatInt_def)
qed

lemma itoa_head:
  obtains c u where "itoa i = c # u" "c = CHR ''-'' \<or> is_digit c"
proof (cases "itoa i")
  case Nil
  then have False by (auto simp: formatInt_def split: if_splits)
  then show ?thesis ..
next
  case (Cons c u)
  then show ?thesis using itoa_chars [of c i] that by auto
qed

lemma value_json_flat:
  assumes "flat_value v" "ends_number t"
  shows "value_json (Suc f) (marshal v @ t) = Some (v, t)"
proof (cases v)
  case (JStr s)
  with assms show ?thesis
    by (simp add: value_json.simps quoteJSON_def skip_ws_def is_ws_def string_body_escape)
next
  case (JNum n)
  with assms obtain i where i: "n = itoa i" by auto
  obtain c u where cu: "itoa i = c # u" "c = CHR ''-'' \<or> is_digit c" by (rule itoa_head)
  have head: "\<not> is_ws c" "c \<noteq> QUOTE" "c \<noteq> CHR ''{''" "c \<noteq> CHR ''[''"
    "c \<noteq> CHR ''t''" "c \<noteq> CHR ''f''" "c \<noteq> CHR ''n''"
    using cu(2) by (auto simp: is_ws_def is_digit_def)
  have "number_literal (c # u @ t) = Some (itoa i, t)"
    using number_literal_itoa [OF assms(2), of i] cu(1) by simp
  with head cu(1) show ?thesis
    by (simp add: value_json.simps JNum i skip_ws_def hasPrefix_def)
next
  case (JBool b)
  then show ?thesis
    by (simp add: value_json.simps skip_ws_def is_ws_def hasPrefix_def)
qed (use assms in simp_all)

lemma skip_ws_head: "\<not> is_ws c \<Longrightarrow> skip_ws (c # t) = c # t"
  by (simp add: skip_ws_def)

lemma skip_ws_quote: "skip_ws (quoteJSON k @ t) = QUOTE # escape_string k @ QUOTE # t"
  by (simp add: quoteJSON_def skip_ws_def is_ws_def)

lemma not_ws: "\<not> is_ws (CHR '','')" "\<not> is_ws (CHR ''}'')" "\<not> is_ws (CHR '':'')" "\<not> is_ws QUOTE"
  "\<not> is_ws (CHR ''{'')"
  by (simp_all add: is_ws_def)

lemmas member_simps = skip_ws_head skip_ws_quote not_ws string_body_escape

lemma members_json_flat:
  assumes "kvs \<noteq> []" "list_all (\<lambda>(k, v). valid_utf8 k \<and> flat_value v) kvs" "length kvs < f"
  shows "members_json f (joinWith '','' (map (\<lambda>kv. quoteJSON (fst kv) @ '':'' @ marshal (snd kv)) kvs) @ ''}'' @ t)
         = Some (kvs, t)"
  using assms
proof (induction kvs arbitrary: f)
  case (Cons kv kvs)
  obtain k v where kv: "kv = (k, v)" by (cases kv)
  from Cons.prems obtain g where f: "f = Suc (Suc g)" and g: "length kvs < Suc g"
    by (cases f; cases "f - 1") auto
  from Cons.prems have ok: "valid_utf8 k" "flat_value v" by (auto simp: kv)
  show ?case
  proof (cases "kvs = []")
    case True
    with ok value_json_flat [OF ok(2), of "''}'' @ t" g] show ?thesis
      by (simp add: members_json.simps(2) [of "Suc g"] kv f member_simps)
  next
    case False
    define r where "r = joinWith '','' (map (\<lambda>kv. quoteJSON (fst kv) @ '':'' @ marshal (snd kv)) kvs) @ ''}'' @ t"
    have "members_json (Suc g) r = Some (kvs, t)"
      unfolding r_def using Cons.IH [of "Suc g"] Cons.prems False g by (simp add: kv)
    moreover have "value_json (Suc g) (marshal v @ CHR '','' # r) = Some (v, CHR '','' # r)"
      using value_json_flat [OF ok(2)] by simp
    moreover have "joinWith '','' (map (\<lambda>kv. quoteJSON (fst kv) @ '':'' @ marshal (snd kv)) (kv # kvs)) @ ''}'' @ t
        = quoteJSON k @ CHR '':'' # marshal v @ CHR '','' # r"
      using False by (simp add: kv joinWith_Cons r_def)
    ultimately show ?thesis
      using ok unfolding kv f by (simp only: members_json.simps(2)) (simp add: member_simps)
  qed
qed simp

lemma length_members:
  "length kvs \<le> length (joinWith '','' (map (\<lambda>kv. quoteJSON (fst kv) @ '':'' @ marshal (snd kv)) kvs))"
proof (induction kvs)
  case (Cons kv kvs)
  then show ?case by (cases kvs) (auto simp: joinWith_Cons quoteJSON_def)
qed simp

lemma parse_document_flat:
  assumes "kvs \<noteq> []" "list_all (\<lambda>(k, v). valid_utf8 k \<and> flat_value v) kvs"
  shows "parse_document (marshal (JObj kvs)) = Some (JObj kvs)"
proof -
  define body where "body = joinWith '','' (map (\<lambda>kv. quoteJSON (fst kv) @ '':'' @ marshal (snd kv)) kvs) @ ''}''"
  have fuel: "parse_fuel (CHR ''{'' # body) = Suc (Suc (2 * length body + 2))"
    by (simp add: parse_fuel_def)
  have "length kvs \<le> length body"
    unfolding body_def using length_members [of kvs] by simp
  then have "members_json (Suc (2 * length body + 2)) body = Some (kvs, [])"
    using members_json_flat [OF assms, of "Suc (2 * length body + 2)" "[]"] by (simp add: body_def)
  moreover obtain u where u: "body = QUOTE # u"
    using assms(1) by (cases kvs; cases "tl kvs") (auto simp: body_def quoteJSON_def)
  ultimately have "value_json (parse_fuel (CHR ''{'' # body)) (CHR ''{'' # body) = Some (JObj kvs, [])"
    unfolding fuel by (simp add: value_json.simps member_simps)
  moreover have "marshal (JObj kvs) = CHR ''{'' # body"
    by (simp add: body_def)
  ultimately show ?thesis
    by (simp add: parse_document_def skip_ws_def del: marshal.simps)
qed

end
