(* ===== verification/Highlight.thy ===== *)
theory Highlight
  imports GoJson
begin

text \<open>
  \<open>internal/server/highlight.go\<close>: the colouring of a snippet. The output is HTML of this file's own
  making, so what matters is that it is well formed whatever the snippet holds and that it shows
  the snippet and nothing else, with the mask where the token belongs.
\<close>

section \<open>Runes\<close>

text \<open>A Go \<open>[]rune\<close>, each rune as its UTF-8 bytes; a byte that is not UTF-8 becomes U+FFFD.\<close>

function runes :: "string \<Rightarrow> string list" where
  "runes s =
     (if s = [] then [] else if rune_len s = 0 then replacement_char # runes (drop 1 s)
      else take (rune_len s) s # runes (drop (rune_len s) s))"
  by pat_completeness auto
termination
  by (relation "measure length") (auto intro: diff_less)

declare runes.simps [simp del]

lemma concat_runes: "valid_utf8 s \<Longrightarrow> concat (runes s) = s"
proof (induction s rule: runes.induct)
  case (1 s)
  then show ?case
    by (subst runes.simps) (auto simp: valid_utf8.simps [of s] split: if_splits)
qed

text \<open>
  \<open>unicode.IsDigit\<close>: the ASCII digits, no other Latin-1 character, and the library's table of
  decimal digits beyond, a parameter.
\<close>

definition digit_rune :: "(string \<Rightarrow> bool) \<Rightarrow> string \<Rightarrow> bool" where
  "digit_rune digits r =
     (case r of [] \<Rightarrow> False | [c] \<Rightarrow> is_digit c
      | c # _ \<Rightarrow> byte_of c \<noteq> 0xC2 \<and> byte_of c \<noteq> 0xC3 \<and> digits r)"

section \<open>The painter\<close>

definition tokenSentinel :: string where "tokenSentinel = ''__GRAFANA_MCP_TOKEN__''"

text \<open>\<open>template.HTMLEscape\<close>\<close>

definition escape_html_char :: "char \<Rightarrow> string" where
  "escape_html_char c =
     (if c = NUL then replacement_char else if c = QUOTE then ''&#34;'' else if c = CHR 0x27 then ''&#39;''
      else if c = CHR ''&'' then ''&amp;'' else if c = CHR ''<'' then ''&lt;'' else if c = CHR ''>'' then ''&gt;''
      else [c])"

definition template_escape :: "string \<Rightarrow> string" where
  "template_escape s = concat (map escape_html_char s)"

definition open_span :: "string \<Rightarrow> string" where
  "open_span cls = ''<span class='' @ [QUOTE] @ cls @ [QUOTE] @ ''>''"

definition close_span :: string where "close_span = ''</span>''"

text \<open>What each method of the painter appends.\<close>

definition paint_span :: "string \<Rightarrow> string \<Rightarrow> string" where
  "paint_span cls s = open_span cls @ template_escape s @ close_span"

definition paint_plain :: "string \<Rightarrow> string" where
  "paint_plain s = template_escape s"

definition paint_str :: "string \<Rightarrow> string \<Rightarrow> string \<Rightarrow> string" where
  "paint_str mk cls quoted =
     (if containsSub quoted tokenSentinel then
        paint_span cls [QUOTE] @ open_span ''tok'' @ template_escape mk @ close_span @ paint_span cls [QUOTE]
      else paint_span cls quoted)"

section \<open>JSON\<close>

text \<open>The rest of a string after its opening quote, and what follows it.\<close>

fun string_span :: "string list \<Rightarrow> string list \<times> string list" where
  "string_span [] = ([], [])"
| "string_span (r # rs) =
     (if r = [QUOTE] then ([r], rs)
      else if r = [BACKSLASH] then
        (case rs of [] \<Rightarrow> ([r], []) | q # qs \<Rightarrow> map_prod (\<lambda>b. r # q # b) id (string_span qs))
      else map_prod ((#) r) id (string_span rs))"

definition string_class :: "string list \<Rightarrow> string" where
  "string_class rest =
     (case dropWhile space_rune rest of r # _ \<Rightarrow> if r = '':'' then ''k'' else ''s'' | [] \<Rightarrow> ''s'')"

lemma string_span_append: "fst (string_span rs) @ snd (string_span rs) = rs"
  by (induction rs rule: string_span.induct) (auto split: list.splits)

lemma string_span_length: "length (snd (string_span rs)) \<le> length rs"
  using arg_cong [OF string_span_append [of rs], of length] by simp

definition number_rune :: "(string \<Rightarrow> bool) \<Rightarrow> string \<Rightarrow> bool" where
  "number_rune digits r \<longleftrightarrow> digit_rune digits r \<or> r = ''.''"

function paint_json :: "(string \<Rightarrow> bool) \<Rightarrow> string \<Rightarrow> string list \<Rightarrow> string" where
  "paint_json digits mk [] = []"
| "paint_json digits mk (r # rs) =
     (if r = [QUOTE] then
        paint_str mk (string_class (snd (string_span rs))) (concat (r # fst (string_span rs))) @
        paint_json digits mk (snd (string_span rs))
      else if digit_rune digits r then
        paint_span ''n'' (concat (takeWhile (number_rune digits) (r # rs))) @
        paint_json digits mk (dropWhile (number_rune digits) rs)
      else paint_plain r @ paint_json digits mk rs)"
  by pat_completeness auto
termination
  by (relation "measure (\<lambda>(_, _, rs). length rs)")
    (auto simp: less_Suc_eq_le string_span_length length_dropWhile_le)

declare paint_json.simps(2) [simp del]

definition highlightJSON :: "(string \<Rightarrow> bool) \<Rightarrow> string \<Rightarrow> string \<Rightarrow> string" where
  "highlightJSON digits src mk = paint_json digits mk (runes src)"

section \<open>TOML\<close>

lemma cut_split: "cut c s = (a, b, True) \<Longrightarrow> s = a @ c # b"
proof (induction s arbitrary: a)
  case (Cons d s)
  then show ?case by (cases "d = c") (auto simp: cut_def Let_def split: if_splits)
qed (simp add: cut_def)

text \<open>The quoted parts of a value; an unmatched quote leaves the rest plain.\<close>

function plainOrStrings :: "string \<Rightarrow> string \<Rightarrow> string" where
  "plainOrStrings mk v =
     (let (before, rest, start) = cut QUOTE v; (inner, after, stop) = cut QUOTE rest
      in if \<not> start \<or> \<not> stop then paint_plain v
         else paint_plain before @ paint_str mk ''s'' (QUOTE # inner @ [QUOTE]) @ plainOrStrings mk after)"
  by pat_completeness auto
termination
  by (relation "measure (\<lambda>(_, v). length v)") (auto dest!: sym [of "(_, _, True)"] cut_split)

declare plainOrStrings.simps [simp del]

definition paint_line :: "string \<Rightarrow> string \<Rightarrow> string" where
  "paint_line mk line =
     (if hasPrefix (trimSpace line) ''['' then paint_span ''t'' line
      else if CHR ''='' \<in> set line then
        (let (key, v, _) = cut CHR ''='' line
         in paint_span ''k'' key @ paint_plain ''='' @ plainOrStrings mk v)
      else paint_plain line)"

fun paint_lines :: "string \<Rightarrow> string list \<Rightarrow> string" where
  "paint_lines mk [] = []"
| "paint_lines mk [line] = paint_line mk line"
| "paint_lines mk (line # lines) = paint_line mk line @ paint_plain [LF] @ paint_lines mk lines"

definition highlightTOML :: "string \<Rightarrow> string \<Rightarrow> string" where
  "highlightTOML src mk = paint_lines mk (splitOn LF src)"

section \<open>What a browser shows\<close>

text \<open>
  A reader for the only markup a snippet may hold: spans of the five classes, opened and closed one
  after the other, and the five entities. It gives the text a browser shows, and \<open>None\<close> for
  anything else: an unclosed or nested tag, any other tag or attribute, a bare quote, an NUL.
\<close>

definition stripPrefix :: "string \<Rightarrow> string \<Rightarrow> string option" where
  "stripPrefix p s = (if hasPrefix s p then Some (drop (length p) s) else None)"

fun first_prefix :: "(string \<times> 'a) list \<Rightarrow> string \<Rightarrow> ('a \<times> string) option" where
  "first_prefix [] s = None"
| "first_prefix ((p, x) # ps) s =
     (case stripPrefix p s of Some r \<Rightarrow> Some (x, r) | None \<Rightarrow> first_prefix ps s)"

definition span_classes :: "string list" where
  "span_classes = [''k'', ''s'', ''n'', ''t'', ''tok'']"

definition tags :: "bool \<Rightarrow> (string \<times> bool) list" where
  "tags inside = (if inside then [(close_span, False)] else map (\<lambda>c. (open_span c, True)) span_classes)"

definition entities :: "(string \<times> char) list" where
  "entities =
     [(''&#34;'', QUOTE), (''&#39;'', CHR 0x27), (''&amp;'', CHR ''&''), (''&lt;'', CHR ''<''), (''&gt;'', CHR ''>'')]"

lemma first_prefix_shorter:
  "first_prefix ps s = Some (x, r) \<Longrightarrow> [] \<notin> fst ` set ps \<Longrightarrow> length r < length s"
proof (induction ps s rule: first_prefix.induct)
  case (2 p y ps s)
  show ?case
  proof (cases "stripPrefix p s")
    case (Some t)
    have "p \<noteq> []" using "2.prems"(2) by force
    moreover have "r = drop (length p) s" "take (length p) s = p"
      using Some "2.prems"(1) by (auto simp: stripPrefix_def hasPrefix_def split: if_splits)
    moreover have "length p \<le> length s"
      using \<open>take (length p) s = p\<close> by (metis length_take min.absorb_iff2 min.commute)
    ultimately show ?thesis by (cases p) auto
  qed (use 2 in auto)
qed simp

lemma tags_nonempty: "[] \<notin> fst ` set (tags inside)" and entities_nonempty: "[] \<notin> fst ` set entities"
  by (auto simp: tags_def entities_def close_span_def open_span_def)

function read_markup :: "bool \<Rightarrow> string \<Rightarrow> string option" where
  "read_markup inside [] = (if inside then None else Some [])"
| "read_markup inside (c # t) =
     (if c = CHR ''<'' then
        (case first_prefix (tags inside) (c # t) of None \<Rightarrow> None | Some (inside', r) \<Rightarrow> read_markup inside' r)
      else if c = CHR ''&'' then
        (case first_prefix entities (c # t) of None \<Rightarrow> None | Some (d, r) \<Rightarrow> map_option ((#) d) (read_markup inside r))
      else if c \<in> {NUL, QUOTE, CHR 0x27, CHR ''>''} then None
      else map_option ((#) c) (read_markup inside t))"
  by pat_completeness auto
termination
proof (relation "measure (\<lambda>(_, s). length s)", goal_cases)
  case (2 inside c t p x y)
  show ?case using 2 first_prefix_shorter [OF _ tags_nonempty, of inside "c # t" x y] by (cases p) auto
next
  case (3 inside c t p x y)
  then show ?case using first_prefix_shorter [OF _ entities_nonempty, of "c # t" x y] by simp
qed auto

declare read_markup.simps(2) [simp del]

text \<open>The text escaping preserves: a browser shows an NUL as U+FFFD.\<close>

definition web_char :: "char \<Rightarrow> string" where
  "web_char c = (if c = NUL then replacement_char else [c])"

definition web_text :: "string \<Rightarrow> string" where
  "web_text s = concat (map web_char s)"

lemma read_escaped_char: "read_markup b (escape_html_char c @ t) = map_option ((@) (web_char c)) (read_markup b t)"
  by (cases "read_markup b t")
    (simp_all add: escape_html_char_def web_char_def replacement_char_def read_markup.simps(2) entities_def
      stripPrefix_def hasPrefix_def)

lemma read_escaped: "read_markup b (template_escape s @ t) = map_option ((@) (web_text s)) (read_markup b t)"
proof (induction s)
  case Nil
  show ?case by (cases "read_markup b t") (simp_all add: template_escape_def web_text_def)
next
  case (Cons c s)
  then show ?case
    using read_escaped_char [of b c "template_escape s @ t"]
    by (cases "read_markup b t") (simp_all add: template_escape_def web_text_def)
qed

lemma read_open: "cls \<in> set span_classes \<Longrightarrow> read_markup False (open_span cls @ t) = read_markup True t"
  by (auto simp: span_classes_def open_span_def read_markup.simps(2) tags_def stripPrefix_def hasPrefix_def)

lemma read_close: "read_markup True (close_span @ t) = read_markup False t"
  by (simp add: close_span_def read_markup.simps(2) tags_def stripPrefix_def hasPrefix_def)

section \<open>The output shows the source\<close>

text \<open>
  A painted text is the rendering of a partition of the source. A quoted piece that names the
  sentinel is shown as the mask between quotes, every other piece as itself.
\<close>

datatype piece = Quoted string | Bare string

fun piece_text :: "piece \<Rightarrow> string" where
  "piece_text (Quoted q) = q"
| "piece_text (Bare b) = b"

fun shown :: "string \<Rightarrow> piece \<Rightarrow> string" where
  "shown mk (Quoted q) = (if containsSub q tokenSentinel then QUOTE # web_text mk @ [QUOTE] else web_text q)"
| "shown mk (Bare b) = web_text b"

definition renders :: "string \<Rightarrow> string \<Rightarrow> string \<Rightarrow> bool" where
  "renders mk src html \<longleftrightarrow>
     (\<exists>ps. concat (map piece_text ps) = src \<and>
        (\<forall>t. read_markup False (html @ t) = map_option ((@) (concat (map (shown mk) ps))) (read_markup False t)))"

named_theorems renders_intros \<open>rendering, piece by piece\<close>

lemma renders_append:
  assumes "renders mk s h" "renders mk s' h'"
  shows "renders mk (s @ s') (h @ h')"
proof -
  from assms obtain ps qs where ps: "concat (map piece_text ps) = s" "concat (map piece_text qs) = s'"
    and read: "\<And>t. read_markup False (h @ t) = map_option ((@) (concat (map (shown mk) ps))) (read_markup False t)"
      "\<And>t. read_markup False (h' @ t) = map_option ((@) (concat (map (shown mk) qs))) (read_markup False t)"
    unfolding renders_def by blast
  have "read_markup False ((h @ h') @ t) =
      map_option ((@) (concat (map (shown mk) (ps @ qs)))) (read_markup False t)" for t
    by (cases "read_markup False t") (simp_all add: read)
  with ps show ?thesis unfolding renders_def by (intro exI [of _ "ps @ qs"]) simp
qed

lemma renders_Nil: "renders mk [] []"
proof -
  have "((@) [] :: string \<Rightarrow> string) = id" by (simp add: fun_eq_iff)
  then show ?thesis unfolding renders_def by (intro exI [of _ "[]"]) (simp add: option.map_id)
qed

lemma renders_piece:
  "(\<And>t. read_markup False (h @ t) = map_option ((@) (shown mk p)) (read_markup False t)) \<Longrightarrow>
   renders mk (piece_text p) h"
  unfolding renders_def by (intro exI [of _ "[p]"]) simp

lemma read_span:
  "cls \<in> set span_classes \<Longrightarrow>
   read_markup False (paint_span cls s @ t) = map_option ((@) (web_text s)) (read_markup False t)"
  by (simp add: paint_span_def read_open read_escaped read_close)

lemma renders_span: "cls \<in> set span_classes \<Longrightarrow> renders mk s (paint_span cls s)"
  using renders_piece [of "paint_span cls s" mk "Bare s"] by (simp add: read_span)

lemma renders_plain: "renders mk s (paint_plain s)"
  using renders_piece [of "paint_plain s" mk "Bare s"] by (simp add: paint_plain_def read_escaped)

lemma web_quote [simp]: "web_text [QUOTE] = [QUOTE]"
  by (simp add: web_text_def web_char_def)

lemma renders_str:
  assumes "cls \<in> set span_classes"
  shows "renders mk q (paint_str mk cls q)"
proof -
  have "''tok'' \<in> set span_classes" by (simp add: span_classes_def)
  then have "read_markup False (paint_str mk cls q @ t) = map_option ((@) (shown mk (Quoted q))) (read_markup False t)" for t
    using assms
    by (cases "read_markup False t") (simp_all add: paint_str_def read_span read_open read_escaped read_close)
  from renders_piece [OF this] show ?thesis by simp
qed

lemma string_class_known: "string_class rs \<in> set span_classes"
  by (simp add: string_class_def span_classes_def split: list.splits)

lemma number_class_known: "''n'' \<in> set span_classes" "''k'' \<in> set span_classes" "''s'' \<in> set span_classes" "''t'' \<in> set span_classes"
  by (simp_all add: span_classes_def)

lemma renders_json: "renders mk (concat rs) (paint_json digits mk rs)"
proof (induction digits mk rs rule: paint_json.induct)
  case (2 digits mk r rs)
  show ?case
  proof (cases "r = [QUOTE]")
    case True
    have "concat (r # rs) = concat (r # fst (string_span rs)) @ concat (snd (string_span rs))"
      using arg_cong [OF string_span_append [of rs], of concat] by simp
    then show ?thesis
      using renders_append [OF renders_str [OF string_class_known] "2.IH"(1) [OF True],
          of "concat (r # fst (string_span rs))" "snd (string_span rs)"] True
      by (simp add: paint_json.simps(2))
  next
    case False
    show ?thesis
    proof (cases "digit_rune digits r")
      case True
      then have "takeWhile (number_rune digits) (r # rs) = r # takeWhile (number_rune digits) rs"
        by (simp add: number_rune_def)
      moreover have "concat (r # rs) = concat (r # takeWhile (number_rune digits) rs) @ concat (dropWhile (number_rune digits) rs)"
        by (simp flip: concat_append)
      ultimately show ?thesis
        using False True renders_append [OF renders_span [OF number_class_known(1)] "2.IH"(2) [OF False True],
            of "concat (r # takeWhile (number_rune digits) rs)"]
        by (simp add: paint_json.simps(2))
    next
      case no: False
      with False renders_append [OF renders_plain "2.IH"(3) [OF False no]]
      show ?thesis by (simp add: paint_json.simps(2))
    qed
  qed
qed (simp add: renders_Nil)

lemma renders_strings: "renders mk v (plainOrStrings mk v)"
proof (induction mk v rule: plainOrStrings.induct)
  case (1 mk v)
  obtain before rest start where c1: "cut QUOTE v = (before, rest, start)" by (cases "cut QUOTE v")
  obtain inner after stop where c2: "cut QUOTE rest = (inner, after, stop)" by (cases "cut QUOTE rest")
  show ?case
  proof (cases "start \<and> stop")
    case True
    with c1 c2 have "v = before @ (QUOTE # inner @ [QUOTE]) @ after" by (auto dest!: cut_split)
    moreover have "renders mk after (plainOrStrings mk after)" using "1.IH" c1 c2 True by auto
    then have "renders mk (before @ (QUOTE # inner @ [QUOTE]) @ after)
        (paint_plain before @ paint_str mk ''s'' (QUOTE # inner @ [QUOTE]) @ plainOrStrings mk after)"
      by (intro renders_append renders_plain renders_str number_class_known)
    ultimately show ?thesis
      using True c1 c2 by (subst plainOrStrings.simps) simp
  next
    case False
    with c1 c2 renders_plain show ?thesis by (subst plainOrStrings.simps) auto
  qed
qed

lemma cut_present: "c \<in> set s \<Longrightarrow> \<exists>a b. cut c s = (a, b, True)"
  by (simp add: cut_def Let_def)

lemma renders_line: "renders mk line (paint_line mk line)"
proof -
  have "renders mk line (paint_span ''k'' key @ paint_plain ''='' @ plainOrStrings mk v)"
    if "cut CHR ''='' line = (key, v, True)" for key v
    using renders_append [OF renders_span [OF number_class_known(2)] renders_append [OF renders_plain renders_strings]]
      cut_split [OF that] by (metis append_Cons append_Nil)
  then show ?thesis
    using cut_present [of "CHR ''=''" line] renders_span [OF number_class_known(4)] renders_plain
    by (auto simp: paint_line_def)
qed

lemma renders_lines: "lines \<noteq> [] \<Longrightarrow> renders mk (joinWith [LF] lines) (paint_lines mk lines)"
  by (induction mk lines rule: paint_lines.induct)
    (simp_all add: renders_line renders_append renders_plain del: append_assoc append_Cons)

lemma renders_toml: "renders mk src (highlightTOML src mk)"
  using renders_lines [OF splitOn_neq_Nil, of mk LF src] by (simp add: highlightTOML_def joinWith_splitOn)

lemma renders_read:
  "renders mk src html \<Longrightarrow>
   \<exists>ps. concat (map piece_text ps) = src \<and> read_markup False html = Some (concat (map (shown mk) ps))"
  unfolding renders_def by (metis append_Nil2 option.simps(9) read_markup.simps(1))


end
