(* ===== verification/Formats.thy ===== *)
theory Formats
  imports Highlight
begin

text \<open>
  \<open>internal/server/formats.go\<close>: the snippets of client configuration, in the JSON and TOML shapes of
  six clients and three launchers, and their indented JSON, which a client must read back to the
  same settings.
\<close>

section \<open>Indented JSON\<close>

text \<open>\<open>json.MarshalIndent\<close> with an indent of two spaces.\<close>

definition indent :: "nat \<Rightarrow> string" where
  "indent d = LF # concat (replicate d ''  '')"

fun pretty :: "nat \<Rightarrow> json \<Rightarrow> string" where
  "pretty d (JArr vs) =
     (if vs = [] then ''[]''
      else ''['' @ indent (Suc d) @ joinWith ('','' @ indent (Suc d)) (map (pretty (Suc d)) vs) @ indent d @ '']'')"
| "pretty d (JObj kvs) =
     (if kvs = [] then ''{}''
      else ''{'' @ indent (Suc d) @
        joinWith ('','' @ indent (Suc d)) (map (\<lambda>kv. quoteJSON (fst kv) @ '': '' @ pretty (Suc d) (snd kv)) kvs) @
        indent d @ ''}'')"
| "pretty d j = marshal j"

definition marshalPrettyJSON :: "json \<Rightarrow> string" where
  "marshalPrettyJSON j = pretty 0 j"

section \<open>The launchers\<close>

definition mcpVersion :: string where "mcpVersion = ''1.4.1''"

definition mode_of :: "string list \<Rightarrow> string" where
  "mode_of modes = (case modes of [] \<Rightarrow> ''binary'' | m # _ \<Rightarrow> m)"

definition env_mode :: "string list \<Rightarrow> bool" where
  "env_mode modes \<longleftrightarrow> length modes > 1 \<and> modes ! 1 = ''env''"

definition launchCommand :: "string list \<Rightarrow> string \<times> string list" where
  "launchCommand modes =
     (let (command, args) = (''mcp-grafana'', [''-t'', ''stdio'', ''--disable-write'']);
          (command, args) =
            (if mode_of modes = ''uvx'' then (''uvx'', (''mcp-grafana=='' @ mcpVersion) # args)
             else if mode_of modes = ''docker'' then
               (''docker'', [''run'', ''--rm'', ''-i'', ''-e'', ''GRAFANA_URL'', ''-e'', ''GRAFANA_SERVICE_ACCOUNT_TOKEN'',
                             ''grafana/mcp-grafana:'' @ mcpVersion] @ args)
             else (command, args))
      in if env_mode modes then (''direnv'', [''exec'', ''/Users/example/work/project'', command] @ args)
         else (command, args))"

definition configToken :: "string list \<Rightarrow> string" where
  "configToken modes = (if env_mode modes then [] else tokenSentinel)"

section \<open>The documents\<close>

definition optional_str :: "string \<Rightarrow> string \<Rightarrow> (string \<times> json) list" where
  "optional_str name v = (if v = [] then [] else [(name, JStr v)])"

definition enc_grafanaEnv :: "string \<Rightarrow> string \<Rightarrow> json" where
  "enc_grafanaEnv url token =
     JObj ((''GRAFANA_URL'', JStr url) # optional_str ''GRAFANA_SERVICE_ACCOUNT_TOKEN'' token)"

definition enc_stdioServer :: "string \<Rightarrow> string \<Rightarrow> string list \<Rightarrow> json \<Rightarrow> json" where
  "enc_stdioServer typ command args env1 =
     JObj (optional_str ''type'' typ @
           [(''command'', JStr command), (''args'', JArr (map JStr args)), (''env'', env1)])"

definition mcpServers_document :: "string \<Rightarrow> string \<Rightarrow> bool \<Rightarrow> string list \<Rightarrow> json" where
  "mcpServers_document key publicURL withType modes =
     (let (command, args) = launchCommand modes;
          srv = enc_stdioServer (if withType then ''stdio'' else []) command args
                      (enc_grafanaEnv publicURL (configToken modes))
      in JObj [(if key = ''servers'' then ''servers'' else ''mcpServers'', JObj [(''grafana'', srv)])])"

definition mcpServersJSON :: "string \<Rightarrow> string \<Rightarrow> bool \<Rightarrow> string list \<Rightarrow> string" where
  "mcpServersJSON key publicURL withType modes = marshalPrettyJSON (mcpServers_document key publicURL withType modes)"

definition zed_document :: "string \<Rightarrow> string list \<Rightarrow> json" where
  "zed_document publicURL modes =
     (let (command, args) = launchCommand modes
      in JObj [(''context_servers'', JObj [(''grafana'', JObj
           [(''source'', JStr ''custom''),
            (''command'', JObj [(''path'', JStr command), (''args'', JArr (map JStr args)),
                               (''env'', enc_grafanaEnv publicURL (configToken modes))])])])])"

definition zedJSON :: "string \<Rightarrow> string list \<Rightarrow> string" where
  "zedJSON publicURL modes = marshalPrettyJSON (zed_document publicURL modes)"

definition jsonString :: "string \<Rightarrow> string" where
  "jsonString v = marshal (JStr v)"

definition tomlStringArray :: "string list \<Rightarrow> string" where
  "tomlStringArray vs = ''['' @ joinWith '', '' (map jsonString vs) @ '']''"

definition codexTOML :: "string \<Rightarrow> string list \<Rightarrow> string" where
  "codexTOML publicURL modes =
     (let (command, args) = launchCommand modes;
          token = configToken modes;
          tokenLine = (if token = [] then [] else [LF] @ ''GRAFANA_SERVICE_ACCOUNT_TOKEN = '' @ jsonString token)
      in ''[mcp_servers.grafana]'' @ [LF] @ ''command = '' @ jsonString command @ [LF] @
         ''args = '' @ tomlStringArray args @ [LF, LF] @ ''[mcp_servers.grafana.env]'' @ [LF] @
         ''GRAFANA_URL = '' @ jsonString publicURL @ tokenLine)"

section \<open>The formats\<close>

text \<open>The drawings of \<open>icons.go\<close>, by name; \<open>Icons\<close> holds the drawings themselves.\<close>

datatype icon =
    NoIcon | IconClaude | IconTerminal | IconCursor | IconBrackets | IconZed | IconChip | IconUV | IconDocker
  | IconBraces | IconOnePassword

record mcpVariant =
  mv_ID :: string
  mv_Name :: string
  mv_Note :: string
  mv_Body :: string
  mv_EnvBody :: string
  mv_Icon :: icon

record mcpFormat =
  mf_ID :: string
  mf_Name :: string
  mf_File :: string
  mf_Note :: string
  mf_Accent :: string
  mf_Icon :: icon
  mf_Body :: string
  mf_Variants :: "mcpVariant list"

definition ARROW :: string where "ARROW = [CHR 0xE2, CHR 0x86, CHR 0x92]"

definition base_formats :: "(string \<Rightarrow> bool) \<Rightarrow> string \<Rightarrow> string \<Rightarrow> mcpFormat list" where
  "base_formats digits publicURL mk =
     [\<lparr>mf_ID = ''claude-code'', mf_Name = ''Claude Code'', mf_File = ''.mcp.json'',
       mf_Note = ''Project scope. <code>~/.claude.json</code> does the same for every project.'',
       mf_Accent = ''#d97757'', mf_Icon = IconClaude,
       mf_Body = highlightJSON digits (mcpServersJSON ''mcpServers'' publicURL False []) mk, mf_Variants = []\<rparr>,
      \<lparr>mf_ID = ''claude-desktop'', mf_Name = ''Claude Desktop'', mf_File = ''claude_desktop_config.json'',
       mf_Note = ''Settings '' @ ARROW @ '' Developer '' @ ARROW @ '' Edit Config.'',
       mf_Accent = ''#d97757'', mf_Icon = IconClaude,
       mf_Body = highlightJSON digits (mcpServersJSON ''mcpServers'' publicURL False []) mk, mf_Variants = []\<rparr>,
      \<lparr>mf_ID = ''codex'', mf_Name = ''Codex'', mf_File = ''~/.codex/config.toml'', mf_Note = [],
       mf_Accent = ''#10a37f'', mf_Icon = IconTerminal,
       mf_Body = highlightTOML (codexTOML publicURL []) mk, mf_Variants = []\<rparr>,
      \<lparr>mf_ID = ''cursor'', mf_Name = ''Cursor'', mf_File = ''.cursor/mcp.json'',
       mf_Note = ''<code>~/.cursor/mcp.json</code> for every project instead.'',
       mf_Accent = ''#6e7681'', mf_Icon = IconCursor,
       mf_Body = highlightJSON digits (mcpServersJSON ''mcpServers'' publicURL False []) mk, mf_Variants = []\<rparr>,
      \<lparr>mf_ID = ''vscode'', mf_Name = ''VS Code'', mf_File = ''.vscode/mcp.json'',
       mf_Note = ''Copilot reads <code>servers</code>, not <code>mcpServers</code>.'',
       mf_Accent = ''#3b82f6'', mf_Icon = IconBrackets,
       mf_Body = highlightJSON digits (mcpServersJSON ''servers'' publicURL True []) mk, mf_Variants = []\<rparr>,
      \<lparr>mf_ID = ''zed'', mf_Name = ''Zed'', mf_File = ''settings.json'',
       mf_Note = ''Zed nests the command in an object of its own.'',
       mf_Accent = ''#8b5cf6'', mf_Icon = IconZed,
       mf_Body = highlightJSON digits (zedJSON publicURL []) mk, mf_Variants = []\<rparr>]"

definition variant_label :: "string \<Rightarrow> mcpVariant" where
  "variant_label mode =
     (let v = \<lparr>mv_ID = mode, mv_Name = [], mv_Note = [], mv_Body = [], mv_EnvBody = [], mv_Icon = NoIcon\<rparr>
      in if mode = ''binary'' then
           v\<lparr>mv_Name := ''Installed binary'',
             mv_Note := ''Install mcp-grafana '' @ mcpVersion @ '' and make it available in PATH.'', mv_Icon := IconChip\<rparr>
         else if mode = ''uvx'' then
           v\<lparr>mv_Name := ''uvx'', mv_Note := ''Requires uv. Downloads mcp-grafana '' @ mcpVersion @ ''.'', mv_Icon := IconUV\<rparr>
         else if mode = ''docker'' then
           v\<lparr>mv_Name := ''Docker'',
             mv_Note := ''Requires Docker. The container must be able to reach the Grafana URL.'', mv_Icon := IconDocker\<rparr>
         else v)"

text \<open>The source of a snippet, by the client it is for.\<close>

definition snippet :: "string \<Rightarrow> string \<Rightarrow> string list \<Rightarrow> string" where
  "snippet client publicURL modes =
     (if client = ''codex'' then codexTOML publicURL modes
      else if client = ''zed'' then zedJSON publicURL modes
      else if client = ''vscode'' then mcpServersJSON ''servers'' publicURL True modes
      else mcpServersJSON ''mcpServers'' publicURL False modes)"

definition highlight_for :: "(string \<Rightarrow> bool) \<Rightarrow> string \<Rightarrow> string \<Rightarrow> string \<Rightarrow> string" where
  "highlight_for digits client src mk =
     (if client = ''codex'' then highlightTOML src mk else highlightJSON digits src mk)"

definition variant :: "(string \<Rightarrow> bool) \<Rightarrow> string \<Rightarrow> string \<Rightarrow> string \<Rightarrow> string \<Rightarrow> mcpVariant" where
  "variant digits client publicURL mk mode =
     (variant_label mode)\<lparr>mv_Body := highlight_for digits client (snippet client publicURL [mode]) mk,
                          mv_EnvBody := highlight_for digits client (snippet client publicURL [mode, ''env'']) mk\<rparr>"

definition formats :: "(string \<Rightarrow> bool) \<Rightarrow> string \<Rightarrow> string \<Rightarrow> mcpFormat list" where
  "formats digits publicURL mk =
     map (\<lambda>f. f\<lparr>mf_Variants := map (variant digits (mf_ID f) publicURL mk) [''binary'', ''uvx'', ''docker'']\<rparr>)
       (base_formats digits publicURL mk)"

section \<open>Reading a document back\<close>

text \<open>Documents of strings, arrays and objects, and the fuel that reads one.\<close>

fun text_json :: "json \<Rightarrow> bool" where
  "text_json (JStr s) = valid_utf8 s"
| "text_json (JArr vs) = list_all text_json vs"
| "text_json (JObj kvs) = list_all (\<lambda>kv. valid_utf8 (fst kv) \<and> text_json (snd kv)) kvs"
| "text_json _ = False"

fun weight :: "json \<Rightarrow> nat" where
  "weight (JArr vs) = Suc (sum_list (map (\<lambda>v. Suc (weight v)) vs))"
| "weight (JObj kvs) = Suc (sum_list (map (\<lambda>kv. Suc (weight (snd kv))) kvs))"
| "weight _ = 1"

lemma skip_ws_append: "list_all is_ws w \<Longrightarrow> skip_ws (w @ s) = skip_ws s"
  by (simp add: skip_ws_def list_all_iff dropWhile_append)

lemma indent_ws [simp]: "list_all is_ws (indent d)"
  by (induction d) (simp_all add: indent_def is_ws_def)

lemma value_json_ws: "list_all is_ws w \<Longrightarrow> value_json f (w @ s) = value_json f s"
  by (cases f) (simp_all add: value_json.simps skip_ws_append)

lemma elems_json_ws: "list_all is_ws w \<Longrightarrow> elems_json f (w @ s) = elems_json f s"
  by (cases f) (simp_all add: elems_json.simps value_json_ws)

lemma members_json_ws: "list_all is_ws w \<Longrightarrow> members_json f (w @ s) = members_json f s"
  by (cases f) (simp_all add: members_json.simps skip_ws_append)

text \<open>Reading one value of a printed document, whatever follows it.\<close>

definition reads_back :: "json \<Rightarrow> bool" where
  "reads_back v \<longleftrightarrow> (\<forall>d f t. weight v \<le> f \<longrightarrow> value_json f (pretty d v @ t) = Some (v, t))"

lemma reads_backD: "reads_back v \<Longrightarrow> weight v \<le> f \<Longrightarrow> value_json f (pretty d v @ t) = Some (v, t)"
  by (simp add: reads_back_def)

lemma punctuation_ws: "\<not> is_ws (CHR '','')" "\<not> is_ws (CHR '']'')" "\<not> is_ws (CHR ''}'')" "\<not> is_ws (CHR '':'')"
  "\<not> is_ws QUOTE" "\<not> is_ws (CHR ''['')" "\<not> is_ws (CHR ''{'')"
  by (simp_all add: is_ws_def)

lemma elems_read_back:
  assumes "vs \<noteq> []" "list_all reads_back vs" "sum_list (map (\<lambda>v. Suc (weight v)) vs) \<le> f"
    and ws: "list_all is_ws w" "list_all is_ws w'"
  shows "elems_json f (joinWith ('','' @ w) (map (pretty d) vs) @ w' @ CHR '']'' # t) = Some (vs, t)"
  using assms(1-3)
proof (induction vs arbitrary: f)
  case (Cons v vs)
  then obtain g where f: "f = Suc g" by (cases f) auto
  have v: "value_json g (pretty d v @ r) = Some (v, r)" for r
    using Cons.prems f by (intro reads_backD) auto
  show ?case
  proof (cases "vs = []")
    case True
    then show ?thesis
      by (simp add: f elems_json.simps v skip_ws_append [OF ws(2)] skip_ws_head punctuation_ws)
  next
    case False
    then have "elems_json g (joinWith ('','' @ w) (map (pretty d) vs) @ w' @ CHR '']'' # t) = Some (vs, t)"
      using Cons f by (intro Cons.IH) auto
    with False show ?thesis
      using elems_json_ws [OF ws(1), of g "joinWith ('','' @ w) (map (pretty d) vs) @ w' @ CHR '']'' # t"]
      by (simp add: f elems_json.simps(2) v joinWith_Cons skip_ws_head punctuation_ws)
  qed
qed simp

lemma members_read_back:
  assumes "kvs \<noteq> []" "list_all (\<lambda>kv. valid_utf8 (fst kv) \<and> reads_back (snd kv)) kvs"
      "sum_list (map (\<lambda>kv. Suc (weight (snd kv))) kvs) \<le> f"
    and ws: "list_all is_ws w" "list_all is_ws w'"
  shows "members_json f (joinWith ('','' @ w) (map (\<lambda>kv. quoteJSON (fst kv) @ '': '' @ pretty d (snd kv)) kvs) @
      w' @ CHR ''}'' # t) = Some (kvs, t)"
  using assms(1-3)
proof (induction kvs arbitrary: f)
  case (Cons kv kvs)
  obtain k v where kv: "kv = (k, v)" by (cases kv)
  obtain g where f: "f = Suc g" using Cons.prems by (cases f) auto
  have "value_json g ('' '' @ pretty d v @ r) = Some (v, r)" for r
    using Cons.prems f kv by (subst value_json_ws) (auto simp: is_ws_def intro: reads_backD)
  then have v: "value_json g (CHR '' '' # pretty d v @ r) = Some (v, r)" for r by simp
  have k: "valid_utf8 k" using Cons.prems kv by simp
  show ?case
  proof (cases "kvs = []")
    case True
    then show ?thesis
      by (simp add: kv f members_json.simps skip_ws_quote string_body_escape [OF k] skip_ws_head punctuation_ws v
          skip_ws_append [OF ws(2)])
  next
    case False
    then have "members_json g (joinWith ('','' @ w) (map (\<lambda>kv. quoteJSON (fst kv) @ '': '' @ pretty d (snd kv)) kvs) @
        w' @ CHR ''}'' # t) = Some (kvs, t)"
      using Cons f kv by (intro Cons.IH) auto
    with False show ?thesis
      using members_json_ws [OF ws(1), of g "joinWith ('','' @ w) (map (\<lambda>kv. quoteJSON (fst kv) @ '': '' @ pretty d (snd kv)) kvs) @
        w' @ CHR ''}'' # t"]
      by (simp add: kv f members_json.simps(2) skip_ws_quote string_body_escape [OF k] skip_ws_head punctuation_ws v
          joinWith_Cons)
  qed
qed simp

lemma value_container:
  "w \<noteq> [] \<Longrightarrow> list_all is_ws w \<Longrightarrow> s \<noteq> [] \<Longrightarrow> \<not> is_ws (hd s) \<Longrightarrow> hd s \<noteq> CHR '']'' \<Longrightarrow>
   value_json (Suc f) (CHR ''['' # w @ s) = map_option (\<lambda>(m, r). (JArr m, r)) (elems_json f s)"
  "w \<noteq> [] \<Longrightarrow> list_all is_ws w \<Longrightarrow> s \<noteq> [] \<Longrightarrow> \<not> is_ws (hd s) \<Longrightarrow> hd s \<noteq> CHR ''}'' \<Longrightarrow>
   value_json (Suc f) (CHR ''{'' # w @ s) = map_option (\<lambda>(m, r). (JObj m, r)) (members_json f s)"
  by (cases s; simp add: value_json.simps skip_ws_head punctuation_ws skip_ws_append)+

lemma indent_nonempty [simp]: "indent d \<noteq> []"
  by (simp add: indent_def)

text \<open>The first character of a printed value.\<close>

lemma pretty_head:
  "text_json v \<Longrightarrow> \<exists>c u. pretty d v = c # u \<and> c \<in> {QUOTE, CHR ''['', CHR ''{''}"
  by (cases v) (auto simp: quoteJSON_def)

lemma joined_head:
  assumes "vs \<noteq> []" "\<exists>c u. g (hd vs) = c # u \<and> P c"
  shows "\<exists>c u. joinWith sep (map g vs) @ t = c # u \<and> P c"
  using assms by (cases vs; cases "tl vs") auto

lemma text_json_reads_back: "text_json v \<Longrightarrow> reads_back v"
proof (induction v)
  case (JStr s)
  show ?case
    unfolding reads_back_def
  proof (intro allI impI)
    fix d f t
    assume "weight (JStr s) \<le> f"
    then obtain g where "f = Suc g" by (cases f) auto
    with JStr show "value_json f (pretty d (JStr s) @ t) = Some (JStr s, t)"
      by (simp add: value_json.simps quoteJSON_def skip_ws_head punctuation_ws string_body_escape)
  qed
next
  case (JArr vs)
  have IH: "list_all reads_back vs" using JArr by (auto simp: list_all_iff)
  show ?case
    unfolding reads_back_def
  proof (intro allI impI)
    fix d f t
    assume "weight (JArr vs) \<le> f"
    then obtain g where f: "f = Suc g" and g: "sum_list (map (\<lambda>v. Suc (weight v)) vs) \<le> g" by (cases f) auto
    show "value_json f (pretty d (JArr vs) @ t) = Some (JArr vs, t)"
    proof (cases "vs = []")
      case True
      then show ?thesis by (simp add: f value_json.simps skip_ws_head punctuation_ws)
    next
      case False
      define s where "s = joinWith ('','' @ indent (Suc d)) (map (pretty (Suc d)) vs) @ indent d @ CHR '']'' # t"
      have "text_json (hd vs)" using JArr.prems False by (cases vs) auto
      then have "\<exists>c u. s = c # u \<and> c \<in> {QUOTE, CHR ''['', CHR ''{''}"
        unfolding s_def by (intro joined_head False pretty_head)
      then have "value_json f (CHR ''['' # indent (Suc d) @ s) = map_option (\<lambda>(m, r). (JArr m, r)) (elems_json g s)"
        unfolding f by (intro value_container) (auto simp: is_ws_def)
      with False show ?thesis
        using elems_read_back [OF False IH g indent_ws indent_ws, of "Suc d" "Suc d" d t] by (simp add: s_def)
    qed
  qed
next
  case (JObj kvs)
  have IH: "list_all (\<lambda>kv. valid_utf8 (fst kv) \<and> reads_back (snd kv)) kvs"
    using JObj by (fastforce simp: list_all_iff)
  show ?case
    unfolding reads_back_def
  proof (intro allI impI)
    fix d f t
    assume "weight (JObj kvs) \<le> f"
    then obtain g where f: "f = Suc g" and g: "sum_list (map (\<lambda>kv. Suc (weight (snd kv))) kvs) \<le> g" by (cases f) auto
    show "value_json f (pretty d (JObj kvs) @ t) = Some (JObj kvs, t)"
    proof (cases "kvs = []")
      case True
      then show ?thesis by (simp add: f value_json.simps skip_ws_head punctuation_ws)
    next
      case False
      define s where "s = joinWith ('','' @ indent (Suc d))
          (map (\<lambda>kv. quoteJSON (fst kv) @ '': '' @ pretty (Suc d) (snd kv)) kvs) @ indent d @ CHR ''}'' # t"
      have "\<exists>c u. s = c # u \<and> c = QUOTE"
        unfolding s_def by (intro joined_head False) (simp add: quoteJSON_def)
      then have "value_json f (CHR ''{'' # indent (Suc d) @ s) = map_option (\<lambda>(m, r). (JObj m, r)) (members_json g s)"
        unfolding f by (intro value_container) (auto simp: is_ws_def)
      with False show ?thesis
        using members_read_back [OF False IH g indent_ws indent_ws, of "Suc d" "Suc d" d t] by (simp add: s_def)
    qed
  qed
qed simp_all

text \<open>The fuel of \<open>parse_document\<close> is enough: a printed document is at least as long as its weight.\<close>

lemma length_joined:
  "xs \<noteq> [] \<Longrightarrow> sep \<noteq> [] \<Longrightarrow> sum_list (map (\<lambda>x. Suc (length x)) xs) \<le> Suc (length (joinWith sep xs))"
proof (induction xs)
  case (Cons x xs)
  then show ?case by (cases "xs = []") (auto simp: joinWith_Cons Suc_le_eq simp flip: length_greater_0_conv)
qed simp

lemma weight_length: "text_json v \<Longrightarrow> weight v \<le> length (pretty d v)"
proof (induction v arbitrary: d)
  case (JArr vs)
  show ?case
  proof (cases "vs = []")
    case False
    have "sum_list (map (\<lambda>v. Suc (weight v)) vs) \<le> sum_list (map (\<lambda>x. Suc (length x)) (map (pretty (Suc d)) vs))"
      using JArr by (auto simp: comp_def list_all_iff intro!: sum_list_mono)
    also have "\<dots> \<le> Suc (length (joinWith ('','' @ indent (Suc d)) (map (pretty (Suc d)) vs)))"
      using False by (intro length_joined) auto
    finally show ?thesis using False by simp
  qed simp
next
  case (JObj kvs)
  show ?case
  proof (cases "kvs = []")
    case False
    have "sum_list (map (\<lambda>kv. Suc (weight (snd kv))) kvs) \<le>
        sum_list (map (\<lambda>x. Suc (length x)) (map (\<lambda>kv. quoteJSON (fst kv) @ '': '' @ pretty (Suc d) (snd kv)) kvs))"
      using JObj by (auto simp: comp_def list_all_iff intro!: sum_list_mono) (fastforce intro: le_SucI trans_le_add2)
    also have "\<dots> \<le> Suc (length (joinWith ('','' @ indent (Suc d))
        (map (\<lambda>kv. quoteJSON (fst kv) @ '': '' @ pretty (Suc d) (snd kv)) kvs)))"
      using False by (intro length_joined) auto
    finally show ?thesis using False by simp
  qed simp
qed (auto simp: quoteJSON_def Suc_le_eq simp flip: length_greater_0_conv)

lemma parse_pretty: "text_json v \<Longrightarrow> parse_document (marshalPrettyJSON v) = Some v"
proof -
  assume ok: "text_json v"
  have "weight v \<le> parse_fuel (pretty 0 v)"
    using weight_length [OF ok, of 0] by (simp add: parse_fuel_def)
  from reads_backD [OF text_json_reads_back [OF ok] this, of 0 "[]"] show ?thesis
    by (simp add: parse_document_def marshalPrettyJSON_def skip_ws_def)
qed

lemma launch_ascii: "list_all (list_all is_ascii) (fst (launchCommand modes) # snd (launchCommand modes))"
  by (simp add: launchCommand_def mcpVersion_def Let_def is_ascii_def)

lemma launch_text: "launchCommand modes = (c, args) \<Longrightarrow> valid_utf8 c \<and> list_all valid_utf8 args"
  using launch_ascii [of modes] by (auto simp: list_all_iff intro!: valid_utf8_ascii)

lemma constant_text:
  "valid_utf8 s" if "s \<in> {''GRAFANA_URL'', ''GRAFANA_SERVICE_ACCOUNT_TOKEN'', ''type'', ''stdio'', ''command'', ''args'', ''env'',
     ''servers'', ''mcpServers'', ''grafana'', ''context_servers'', ''source'', ''custom'', ''path'', tokenSentinel}"
  using that by (auto intro!: valid_utf8_ascii simp: is_ascii_def tokenSentinel_def)

lemma text_mcpServers: "valid_utf8 url \<Longrightarrow> text_json (mcpServers_document key url withType modes)"
  by (auto simp: mcpServers_document_def enc_stdioServer_def enc_grafanaEnv_def optional_str_def configToken_def
      list.pred_map comp_def constant_text launch_text split: prod.splits)

lemma text_zed: "valid_utf8 url \<Longrightarrow> text_json (zed_document url modes)"
  by (auto simp: zed_document_def enc_grafanaEnv_def optional_str_def configToken_def list.pred_map comp_def
      constant_text launch_text split: prod.splits)



end
