(* ===== verification/GoDecode.thy ===== *)
theory GoDecode
  imports GoJson
begin

text \<open>
  Decoding a document into a Go struct. A struct decoder walks the members in document order
  and updates the field each names; an unknown member is skipped, \<open>null\<close> leaves a scalar
  field as it is and empties a pointer, slice or map, and a value of the wrong type makes the
  whole decoding fail (the program never uses a value whose decoding reported an error).
\<close>

section \<open>Member names\<close>

text \<open>
  A member matches a field by its exact name or, failing that, case-insensitively. Besides
  the ASCII letters, two other code points fold to a letter: U+017F to S and U+212A to K.
\<close>

definition upper_char :: "char \<Rightarrow> char" where
  "upper_char c = (if is_lower c then char_of (byte_of c - 32) else c)"

function fold_name :: "string \<Rightarrow> string" where
  "fold_name [] = []"
| "fold_name (c # s) =
     (if take 2 (c # s) = [CHR 0xC5, CHR 0xBF] then CHR ''S'' # fold_name (drop 2 (c # s))
      else if take 3 (c # s) = [CHR 0xE2, CHR 0x84, CHR 0xAA] then CHR ''K'' # fold_name (drop 3 (c # s))
      else upper_char c # fold_name s)"
  by pat_completeness auto
termination
  by (relation "measure length") auto

definition field_match :: "string \<Rightarrow> string \<Rightarrow> bool" where
  "field_match name key \<longleftrightarrow> key = name \<or> fold_name key = fold_name name"

section \<open>Decoders\<close>

text \<open>A decoder turns the current value of a field into the decoded one, or fails.\<close>

type_synonym 'a decoder = "json \<Rightarrow> 'a \<Rightarrow> 'a option"

fun dec_string :: "string decoder" where
  "dec_string (JStr s) _ = Some s"
| "dec_string JNull x = Some x"
| "dec_string _ _ = None"

fun dec_bool :: "bool decoder" where
  "dec_bool (JBool b) _ = Some b"
| "dec_bool JNull x = Some x"
| "dec_bool _ _ = None"

fun dec_int64 :: "int decoder" where
  "dec_int64 (JNum n) _ = parseInt64 n"
| "dec_int64 JNull x = Some x"
| "dec_int64 _ _ = None"

definition in_int32 :: "int \<Rightarrow> bool" where
  "in_int32 i \<longleftrightarrow> - (2 ^ 31) \<le> i \<and> i < 2 ^ 31"

fun dec_int32 :: "int decoder" where
  "dec_int32 (JNum n) _ = (case parseInt64 n of Some i \<Rightarrow> if in_int32 i then Some i else None | None \<Rightarrow> None)"
| "dec_int32 JNull x = Some x"
| "dec_int32 _ _ = None"

text \<open>The elements of an array are decoded over those the slice already had.\<close>

fun dec_elems :: "'a \<Rightarrow> 'a decoder \<Rightarrow> json list \<Rightarrow> 'a list \<Rightarrow> 'a list option" where
  "dec_elems zero d [] _ = Some []"
| "dec_elems zero d (v # vs) old =
     (case d v (case old of [] \<Rightarrow> zero | x # _ \<Rightarrow> x) of None \<Rightarrow> None
      | Some y \<Rightarrow> map_option ((#) y) (dec_elems zero d vs (tl old)))"

fun dec_list :: "'a \<Rightarrow> 'a decoder \<Rightarrow> 'a list decoder" where
  "dec_list zero d (JArr vs) old = dec_elems zero d vs old"
| "dec_list zero d JNull _ = Some []"
| "dec_list zero d _ _ = None"

fun dec_option :: "'a \<Rightarrow> 'a decoder \<Rightarrow> 'a option decoder" where
  "dec_option zero d JNull _ = Some None"
| "dec_option zero d v old = map_option Some (d v (case old of None \<Rightarrow> zero | Some x \<Rightarrow> x))"

text \<open>A map of strings: a later entry replaces an earlier one of the same key.\<close>

fun dec_entries :: "(string \<times> json) list \<Rightarrow> (string \<times> string) list \<Rightarrow> (string \<times> string) list option" where
  "dec_entries [] m = Some m"
| "dec_entries ((k, v) # kvs) m =
     (case dec_string v [] of None \<Rightarrow> None
      | Some s \<Rightarrow> dec_entries kvs (filter (\<lambda>e. fst e \<noteq> k) m @ [(k, s)]))"

fun dec_map :: "(string \<times> string) list decoder" where
  "dec_map (JObj kvs) m = dec_entries kvs m"
| "dec_map JNull _ = Some []"
| "dec_map _ _ = None"

text \<open>A struct is a list of field names with the decoder of each field lifted to the record.\<close>

definition field :: "string \<Rightarrow> 'f decoder \<Rightarrow> ('a \<Rightarrow> 'f) \<Rightarrow> ('f \<Rightarrow> 'a \<Rightarrow> 'a) \<Rightarrow> string \<times> 'a decoder" where
  "field name d get upd = (name, (\<lambda>v a. map_option (\<lambda>x. upd x a) (d v (get a))))"

fun find_field :: "(string \<times> 'a decoder) list \<Rightarrow> string \<Rightarrow> 'a decoder option" where
  "find_field [] key = None"
| "find_field ((name, d) # fs) key = (if field_match name key then Some d else find_field fs key)"

fun dec_members :: "(string \<times> 'a decoder) list \<Rightarrow> (string \<times> json) list \<Rightarrow> 'a \<Rightarrow> 'a option" where
  "dec_members fs [] a = Some a"
| "dec_members fs ((k, v) # kvs) a =
     (case find_field fs k of
        None \<Rightarrow> dec_members fs kvs a
      | Some d \<Rightarrow> (case d v a of None \<Rightarrow> None | Some a' \<Rightarrow> dec_members fs kvs a'))"

fun dec_struct :: "(string \<times> 'a decoder) list \<Rightarrow> 'a decoder" where
  "dec_struct fs (JObj kvs) a = dec_members fs kvs a"
| "dec_struct fs JNull a = Some a"
| "dec_struct fs _ _ = None"

section \<open>Facts\<close>

lemma field_match_refl [simp]: "field_match name name"
  by (simp add: field_match_def)

lemma dec_elems_length: "dec_elems zero d vs old = Some ys \<Longrightarrow> length ys = length vs"
  by (induction vs arbitrary: old ys) (auto split: option.splits)

lemma dec_int64_range: "in_int64 x \<Longrightarrow> dec_int64 v x = Some y \<Longrightarrow> in_int64 y"
  by (cases "(v, x)" rule: dec_int64.cases) (auto intro: parseInt64_range)

end
