(* ===== verification/GoTime.thy ===== *)
theory GoTime
  imports GoConv
begin

text \<open>
  Package \<open>time\<close>: instants and durations in nanoseconds, the proleptic Gregorian calendar,
  and the layouts the program prints and parses.
\<close>

section \<open>Durations and instants\<close>

definition second :: duration where "second = 1000000000"
definition minute :: duration where "minute = 60 * second"
definition hour :: duration where "hour = 60 * minute"
definition microsecond :: duration where "microsecond = 1000"

lemmas duration_defs = second_def minute_def hour_def microsecond_def

definition zeroTime :: time where "zeroTime = - 62135596800 * second"

text \<open>\<open>t.Unix()\<close> drops the fraction of the second, towards the past.\<close>

definition unixSeconds :: "time \<Rightarrow> int" where
  "unixSeconds t = t div second"

definition timeUnix :: "int \<Rightarrow> time" where
  "timeUnix s = s * second"

text \<open>Integer division of Go truncates towards zero.\<close>

definition truncDiv :: "int \<Rightarrow> int \<Rightarrow> int" where
  "truncDiv a b = (if a < 0 then - ((- a) div b) else a div b)"

lemma unixSeconds_timeUnix [simp]: "unixSeconds (timeUnix s) = s"
  by (simp add: unixSeconds_def timeUnix_def second_def)

lemma unixSeconds_mono: "s \<le> t \<Longrightarrow> unixSeconds s \<le> unixSeconds t"
  by (simp add: unixSeconds_def second_def zdiv_mono1)

lemma unixSeconds_add: "unixSeconds (t + n * second) = unixSeconds t + n"
  by (simp add: unixSeconds_def second_def)

section \<open>The calendar\<close>

definition leap_year :: "int \<Rightarrow> bool" where
  "leap_year y \<longleftrightarrow> y mod 4 = 0 \<and> (y mod 100 \<noteq> 0 \<or> y mod 400 = 0)"

text \<open>Days from 1 January of year 1 to 1 January of year \<open>y\<close>.\<close>

definition year_start :: "int \<Rightarrow> int" where
  "year_start y = 365 * (y - 1) + (y - 1) div 4 - (y - 1) div 100 + (y - 1) div 400"

definition month_lengths :: "bool \<Rightarrow> int list" where
  "month_lengths leap = [31, if leap then 29 else 28, 31, 30, 31, 30, 31, 31, 30, 31, 30, 31]"

definition days_in :: "int \<Rightarrow> int \<Rightarrow> int" where
  "days_in y m = month_lengths (leap_year y) ! nat (m - 1)"

definition date_day :: "int \<Rightarrow> int \<Rightarrow> int \<Rightarrow> int" where
  "date_day y m d = year_start y + sum_list (take (nat (m - 1)) (month_lengths (leap_year y))) + d - 1"

text \<open>The year of a day and the day of that year: cycles of 400, 100, 4 and 1 years.\<close>

definition day_year :: "int \<Rightarrow> int \<times> int" where
  "day_year n =
     (let c400 = n div 146097; r400 = n mod 146097;
          c100 = min 3 (r400 div 36524); r100 = r400 - 36524 * c100;
          c4 = r100 div 1461; r4 = r100 mod 1461;
          c1 = min 3 (r4 div 365)
      in (400 * c400 + 100 * c100 + 4 * c4 + c1 + 1, r4 - 365 * c1))"

fun find_month :: "int list \<Rightarrow> int \<Rightarrow> int \<Rightarrow> int \<times> int" where
  "find_month [] m d = (m, d)"
| "find_month (l # ls) m d = (if d < l \<or> ls = [] then (m, d) else find_month ls (m + 1) (d - l))"

definition civil_date :: "int \<Rightarrow> int \<times> int \<times> int" where
  "civil_date n =
     (let (y, yd) = day_year n; (m, d) = find_month (month_lengths (leap_year y)) 1 yd
      in (y, m, d + 1))"

definition unix_epoch_day :: int where "unix_epoch_day = 719162"

section \<open>Layouts\<close>

definition two_digits :: "int \<Rightarrow> string" where
  "two_digits n = [digit_char (nat (n div 10 mod 10)), digit_char (nat (n mod 10))]"

fun pad_digits :: "nat \<Rightarrow> int \<Rightarrow> string" where
  "pad_digits 0 n = []"
| "pad_digits (Suc k) n = pad_digits k (n div 10) @ [digit_char (nat (n mod 10))]"

text \<open>A year outside 0 to 9999 prints with its sign and as many digits as it has.\<close>

definition format_year :: "int \<Rightarrow> string" where
  "format_year y =
     (if y < 0 then CHR ''-'' # (if -y < 1000 then pad_digits 4 (-y) else natDigits 10 (nat (-y)))
      else if y < 1000 then pad_digits 4 y else natDigits 10 (nat y))"

definition clock_of :: "time \<Rightarrow> int \<times> int" where
  "clock_of t = (t div (86400 * second), t mod (86400 * second))"

definition format_micro :: "time \<Rightarrow> string" where
  "format_micro t =
     (let (day, ns) = clock_of t; (y, m, d) = civil_date (day + unix_epoch_day)
      in format_year y @ ''-'' @ pad_digits 2 m @ ''-'' @ pad_digits 2 d @ ''T'' @
         pad_digits 2 (ns div hour) @ '':'' @ pad_digits 2 (ns div minute mod 60) @ '':'' @
         pad_digits 2 (ns div second mod 60) @ ''.'' @ pad_digits 6 (ns div microsecond mod 1000000) @ ''Z'')"

text \<open>The layout \<open>2 Jan 2006\<close> of the page.\<close>

definition month_name :: "int \<Rightarrow> string" where
  "month_name m =
     [''Jan'', ''Feb'', ''Mar'', ''Apr'', ''May'', ''Jun'', ''Jul'', ''Aug'', ''Sep'', ''Oct'', ''Nov'', ''Dec''] ! nat (m - 1)"

definition format_day :: "time \<Rightarrow> string" where
  "format_day t =
     (let (y, m, d) = civil_date (fst (clock_of t) + unix_epoch_day)
      in itoa d @ '' '' @ month_name m @ '' '' @ format_year y)"

text \<open>
  Parsing. \<open>num2\<close> reads two digits; the layout's hour also takes one digit. A zone is \<open>Z\<close> or
  a signed offset, in seconds.
\<close>

fun num2 :: "string \<Rightarrow> (int \<times> string) option" where
  "num2 (a # b # t) =
     (if is_digit a \<and> is_digit b then Some (10 * int (digit_val a) + int (digit_val b), t) else None)"
| "num2 _ = None"

fun num12 :: "string \<Rightarrow> (int \<times> string) option" where
  "num12 [] = None"
| "num12 (a # t) =
     (if \<not> is_digit a then None
      else case t of b # u \<Rightarrow> if is_digit b then Some (10 * int (digit_val a) + int (digit_val b), u)
                              else Some (int (digit_val a), t)
           | [] \<Rightarrow> Some (int (digit_val a), t))"

definition num4 :: "string \<Rightarrow> (int \<times> string) option" where
  "num4 s =
     (if length s < 4 then None
      else map_option (\<lambda>n. (int n, drop 4 s)) (parseDigits (take 4 s)))"

definition expect :: "char \<Rightarrow> string \<Rightarrow> string option" where
  "expect c s = (case s of [] \<Rightarrow> None | d # t \<Rightarrow> if d = c then Some t else None)"

definition parse_zone :: "int \<Rightarrow> int \<Rightarrow> string \<Rightarrow> (int \<times> string) option" where
  "parse_zone max_hour max_minute s =
     (case s of [] \<Rightarrow> None
      | c # t \<Rightarrow>
          if c = CHR ''Z'' then Some (0, t)
          else if c \<noteq> CHR ''+'' \<and> c \<noteq> CHR ''-'' then None
          else (case num2 t of None \<Rightarrow> None
           | Some (h, t1) \<Rightarrow>
               (case Option.bind (expect CHR '':'' t1) num2 of None \<Rightarrow> None
                | Some (m, t2) \<Rightarrow>
                    if h > max_hour \<or> m > max_minute then None
                    else Some ((if c = CHR ''-'' then -1 else 1) * (h * 60 + m) * 60, t2))))"

definition date_time :: "int \<Rightarrow> int \<Rightarrow> int \<Rightarrow> int \<Rightarrow> int \<Rightarrow> int \<Rightarrow> int \<Rightarrow> int \<Rightarrow> time" where
  "date_time y mo d h mi sec ns zone =
     (date_day y mo d - unix_epoch_day) * (86400 * second)
     + h * hour + mi * minute + sec * second + ns - zone * second"

definition valid_date :: "int \<Rightarrow> int \<Rightarrow> int \<Rightarrow> bool" where
  "valid_date y mo d \<longleftrightarrow> 1 \<le> mo \<and> mo \<le> 12 \<and> 1 \<le> d \<and> d \<le> days_in y mo"

text \<open>The date and the clock up to the whole second, common to both layouts.\<close>

definition parse_prefix ::
  "(string \<Rightarrow> (int \<times> string) option) \<Rightarrow> string \<Rightarrow> ((int \<times> int \<times> int \<times> int \<times> int \<times> int) \<times> string) option" where
  "parse_prefix hour_num s =
     Option.bind (num4 s) (\<lambda>(y, s). Option.bind (expect CHR ''-'' s) (\<lambda>s.
     Option.bind (num2 s) (\<lambda>(mo, s). Option.bind (expect CHR ''-'' s) (\<lambda>s.
     Option.bind (num2 s) (\<lambda>(d, s). Option.bind (expect CHR ''T'' s) (\<lambda>s.
     Option.bind (hour_num s) (\<lambda>(h, s). Option.bind (expect CHR '':'' s) (\<lambda>s.
     Option.bind (num2 s) (\<lambda>(mi, s). Option.bind (expect CHR '':'' s) (\<lambda>s.
     Option.bind (num2 s) (\<lambda>(sec, s).
       if valid_date y mo d \<and> h < 24 \<and> mi < 60 \<and> sec < 60 then Some ((y, mo, d, h, mi, sec), s)
       else None)))))))))))"

text \<open>\<open>time.Parse\<close> with the layout \<open>2006-01-02T15:04:05.000000Z07:00\<close>.\<close>

definition parse_micro :: "string \<Rightarrow> time option" where
  "parse_micro s =
     (case parse_prefix num12 s of None \<Rightarrow> None
      | Some ((y, mo, d, h, mi, sec), s1) \<Rightarrow>
          if length s1 < 7 \<or> hd s1 \<notin> set ''.,'' then None
          else (case parseInt64 (take 6 (tl s1)) of None \<Rightarrow> None
           | Some us \<Rightarrow>
               if us < 0 then None
               else (case parse_zone 24 60 (drop 7 s1) of
                  Some (zone, []) \<Rightarrow> Some (date_time y mo d h mi sec (us * microsecond) zone)
                | _ \<Rightarrow> None)))"

text \<open>The RFC 3339 timestamps of JSON: any number of fraction digits, of which nine count.\<close>

definition parse_rfc3339 :: "string \<Rightarrow> time option" where
  "parse_rfc3339 s =
     (case parse_prefix num2 s of None \<Rightarrow> None
      | Some ((y, mo, d, h, mi, sec), s1) \<Rightarrow>
          let frac = (if s1 \<noteq> [] \<and> hd s1 = CHR ''.'' then takeWhile is_digit (tl s1) else []);
              s2 = (if frac = [] then s1 else drop (Suc (length frac)) s1);
              ns = (if frac = [] then 0
                    else int (the (parseDigits (take 9 (frac @ ''000000000'')))))
          in (case parse_zone 23 59 s2 of
                Some (zone, []) \<Rightarrow> Some (date_time y mo d h mi sec ns zone)
              | _ \<Rightarrow> None))"

section \<open>Facts about the calendar\<close>

lemma day_year_parts:
  fixes n :: int
  defines "r400 \<equiv> n mod 146097"
  defines "c100 \<equiv> min 3 (r400 div 36524)"
  defines "r100 \<equiv> r400 - 36524 * c100"
  defines "r4 \<equiv> r100 mod 1461"
  defines "c1 \<equiv> min 3 (r4 div 365)"
  shows "0 \<le> c100 \<and> c100 \<le> 3" "0 \<le> r100 div 1461 \<and> r100 div 1461 \<le> 24"
    "0 \<le> c1 \<and> c1 \<le> 3" "0 \<le> r4 - 365 * c1 \<and> r4 - 365 * c1 \<le> 365"
    "r4 - 365 * c1 = 365 \<Longrightarrow> c1 = 3"
proof -
  have r400: "0 \<le> r400" "r400 < 146097" by (simp_all add: r400_def)
  then show "0 \<le> c100 \<and> c100 \<le> 3" by (simp add: c100_def)
  have r100: "0 \<le> r100 \<and> r100 \<le> 36524"
    using r400 unfolding r100_def c100_def by (auto simp: min_def)
  then show "0 \<le> r100 div 1461 \<and> r100 div 1461 \<le> 24" by auto
  have r4: "0 \<le> r4" "r4 < 1461" by (simp_all add: r4_def)
  then show "0 \<le> c1 \<and> c1 \<le> 3" by (simp add: c1_def)
  show "0 \<le> r4 - 365 * c1 \<and> r4 - 365 * c1 \<le> 365"
    using r4 unfolding c1_def by (auto simp: min_def)
  show "c1 = 3" if full: "r4 - 365 * c1 = 365"
  proof (rule ccontr)
    assume "c1 \<noteq> 3"
    then have "c1 = r4 div 365" by (simp add: c1_def min_def split: if_splits)
    with full have "r4 mod 365 = 365" by (simp add: minus_mult_div_eq_mod)
    moreover have "r4 mod 365 < 365" by simp
    ultimately show False by simp
  qed
qed

lemma year_start_cycles:
  fixes a b c d :: int
  assumes "0 \<le> b" "b \<le> 3" "0 \<le> c" "c \<le> 24" "0 \<le> d" "d \<le> 3"
  shows "year_start (400 * a + 100 * b + 4 * c + d + 1) = 146097 * a + 36524 * b + 1461 * c + 365 * d"
proof -
  have "(400 * a + 100 * b + 4 * c + d) div 4 = 100 * a + 25 * b + c"
    by (rule int_div_pos_eq [where r = d]) (use assms in simp_all)
  moreover have "(400 * a + 100 * b + 4 * c + d) div 100 = 4 * a + b"
    by (rule int_div_pos_eq [where r = "4 * c + d"]) (use assms in simp_all)
  moreover have "(400 * a + 100 * b + 4 * c + d) div 400 = a"
    by (rule int_div_pos_eq [where r = "100 * b + 4 * c + d"]) (use assms in simp_all)
  ultimately show ?thesis by (simp add: year_start_def)
qed

lemma day_year_correct:
  assumes "day_year n = (y, yd)"
  shows "n = year_start y + yd" "0 \<le> yd" "yd < (if leap_year y then 366 else 365)"
proof -
  define a where "a = n div 146097"
  define r400 where "r400 = n mod 146097"
  define b where "b = min 3 (r400 div 36524)"
  define r100 where "r100 = r400 - 36524 * b"
  define c where "c = r100 div 1461"
  define r4 where "r4 = r100 mod 1461"
  define d where "d = min 3 (r4 div 365)"
  note defs = a_def r400_def b_def r100_def c_def r4_def d_def
  have y: "y = 400 * a + 100 * b + 4 * c + d + 1" and yd: "yd = r4 - 365 * d"
  proof -
    have "day_year n = (400 * a + 100 * b + 4 * c + d + 1, r4 - 365 * d)"
      unfolding day_year_def Let_def defs by (rule refl)
    then show "y = 400 * a + 100 * b + 4 * c + d + 1" "yd = r4 - 365 * d"
      using assms by (simp_all only: prod.inject)
  qed
  note P = day_year_parts [of n, folded r400_def, folded b_def, folded r100_def, folded c_def r4_def,
      folded d_def, folded yd]
  have b: "0 \<le> b" "b \<le> 3" using P(1) by blast+
  have c: "0 \<le> c" "c \<le> 24" using P(2) by blast+
  have d: "0 \<le> d" "d \<le> 3" using P(3) by blast+
  have yd_bounds: "0 \<le> yd" "yd \<le> 365" using P(4) by blast+
  have full: "yd = 365 \<Longrightarrow> d = 3" using P(5) .
  have "n = 146097 * a + r400" by (simp add: a_def r400_def)
  moreover have "r400 = 36524 * b + r100" by (simp add: r100_def)
  moreover have "r100 = 1461 * c + r4" by (simp add: c_def r4_def)
  ultimately show "n = year_start y + yd"
    unfolding y yd year_start_cycles [OF b c d] by simp
  show "0 \<le> yd" by fact
  show "yd < (if leap_year y then 366 else 365)"
  proof (cases "yd = 365")
    case True
    with full have d3: "d = 3" and r4: "r4 = 1460" by (simp_all add: yd)
    have "c = 24 \<Longrightarrow> b = 3"
    proof -
      assume "c = 24"
      then have "r100 = 1461 * 24 + r4" using div_mult_mod_eq [of r100 1461] by (simp add: c_def r4_def)
      then have "r100 = 36524" by (simp add: r4)
      then show "b = 3" unfolding r100_def b_def by (auto simp: min_def split: if_splits)
    qed
    have y4: "y mod 4 = 0" unfolding y d3 by (simp add: mod_eq_0_iff_dvd)
    have "leap_year y"
    proof (cases "c = 24")
      case True
      with \<open>c = 24 \<Longrightarrow> b = 3\<close> have "y = 400 * (a + 1)" by (simp add: y d3)
      then have "y mod 400 = 0" by simp
      with y4 show ?thesis by (simp add: leap_year_def)
    next
      case False
      have "y mod 100 = 4 * c + 4"
        by (rule int_mod_pos_eq [where q = "4 * a + b"]) (use False c in \<open>simp_all add: y d3\<close>)
      with c y4 show ?thesis by (simp add: leap_year_def)
    qed
    with yd_bounds show ?thesis by simp
  qed (use yd_bounds in auto)
qed

lemma find_month_correct:
  assumes "find_month ls m d = (m', d')" "ls \<noteq> []" "0 \<le> d" "d < sum_list ls"
  shows "m \<le> m'" "m' < m + int (length ls)"
    "sum_list (take (nat (m' - m)) ls) + d' = d" "0 \<le> d'" "d' < ls ! nat (m' - m)"
proof -
  have "m \<le> m' \<and> m' < m + int (length ls) \<and> sum_list (take (nat (m' - m)) ls) + d' = d \<and>
        0 \<le> d' \<and> d' < ls ! nat (m' - m)"
    using assms
  proof (induction ls m d rule: find_month.induct)
    case (2 l ls m d)
    show ?case
    proof (cases "d < l \<or> ls = []")
      case True
      with 2 show ?thesis by auto
    next
      case False
      with 2 have "m + 1 \<le> m' \<and> m' < m + 1 + int (length ls) \<and>
          sum_list (take (nat (m' - (m + 1))) ls) + d' = d - l \<and> 0 \<le> d' \<and> d' < ls ! nat (m' - (m + 1))"
        by simp
      moreover from this have "nat (m' - m) = Suc (nat (m' - (m + 1)))" by linarith
      ultimately show ?thesis by simp
    qed
  qed simp
  then show "m \<le> m'" "m' < m + int (length ls)"
    "sum_list (take (nat (m' - m)) ls) + d' = d" "0 \<le> d'" "d' < ls ! nat (m' - m)"
    by blast+
qed

lemma month_lengths_sum: "sum_list (month_lengths l) = (if l then 366 else 365)"
  by (simp add: month_lengths_def)

lemma length_month_lengths [simp]: "length (month_lengths l) = 12"
  by (simp add: month_lengths_def)

lemma month_lengths_bound: "i < 12 \<Longrightarrow> month_lengths l ! i \<le> 31"
proof -
  assume "i < 12"
  then have "month_lengths l ! i \<in> set (month_lengths l)" by simp
  then show ?thesis by (auto simp: month_lengths_def split: if_splits)
qed

lemma civil_date_correct:
  assumes "civil_date n = (y, m, d)"
  shows "date_day y m d = n" "1 \<le> m" "m \<le> 12" "1 \<le> d" "d \<le> days_in y m" "d \<le> 31"
proof -
  obtain yd where yd: "day_year n = (y, yd)"
    and fm: "find_month (month_lengths (leap_year y)) 1 yd = (m, d - 1)"
    using assms by (auto simp: civil_date_def split: prod.splits)
  note day_year_correct [OF yd]
  moreover have "month_lengths (leap_year y) \<noteq> []" by (simp add: month_lengths_def)
  ultimately have "1 \<le> m" "m < 1 + 12"
      "sum_list (take (nat (m - 1)) (month_lengths (leap_year y))) + (d - 1) = yd"
      "0 \<le> d - 1" "d - 1 < month_lengths (leap_year y) ! nat (m - 1)"
    using find_month_correct [OF fm] by (simp_all add: month_lengths_sum)
  moreover from this have "month_lengths (leap_year y) ! nat (m - 1) \<le> 31"
    by (intro month_lengths_bound) simp
  ultimately show "date_day y m d = n" "1 \<le> m" "m \<le> 12" "1 \<le> d" "d \<le> days_in y m" "d \<le> 31"
    using day_year_correct(1) [OF yd] by (simp_all add: date_day_def days_in_def)
qed

section \<open>Printing a timestamp and reading it back\<close>

lemma digit_char_is_digit [simp]: "0 \<le> n \<Longrightarrow> is_digit (digit_char (nat (n mod 10)))"
  and digit_val_digit_char [simp]: "digit_val (digit_char (nat (n mod 10))) = nat (n mod 10)"
proof -
  have "nat (n mod 10) < 10" by simp
  then show "0 \<le> n \<Longrightarrow> is_digit (digit_char (nat (n mod 10)))"
    and "digit_val (digit_char (nat (n mod 10))) = nat (n mod 10)"
    using digit_char_decimal [of "nat (n mod 10)"] by simp_all
qed

lemma length_pad_digits [simp]: "length (pad_digits k n) = k"
  by (induction k arbitrary: n) auto

lemma pad_digits_Nil: "pad_digits k n = [] \<longleftrightarrow> k = 0"
  by (cases k) auto

lemma pad_digits_digits: "0 \<le> n \<Longrightarrow> list_all is_digit (pad_digits k n)"
  by (induction k arbitrary: n) auto

lemma pad_digits_value:
  "0 \<le> n \<Longrightarrow> n < 10 ^ k \<Longrightarrow> foldl (\<lambda>a c. 10 * a + digit_val c) 0 (pad_digits k n) = nat n"
proof (induction k arbitrary: n)
  case (Suc k)
  have "n < 10 * x \<Longrightarrow> n div 10 < x" for x :: int by linarith
  with Suc have "n div 10 < 10 ^ k" by simp
  with Suc have "foldl (\<lambda>a c. 10 * a + digit_val c) 0 (pad_digits k (n div 10)) = nat (n div 10)"
    by simp
  moreover have "10 * nat (n div 10) + nat (n mod 10) = nat n"
  proof -
    have "10 * (n div 10) + n mod 10 = n" "0 \<le> n div 10" "0 \<le> n mod 10" using Suc.prems by simp_all
    then show ?thesis by linarith
  qed
  ultimately show ?case by simp
qed simp

lemma pad_digits_parse: "0 \<le> n \<Longrightarrow> n < 10 ^ k \<Longrightarrow> 0 < k \<Longrightarrow> parseDigits (pad_digits k n) = Some (nat n)"
  by (auto simp: parseDigits_def pad_digits_digits pad_digits_value pad_digits_Nil)

lemma num_pad:
  assumes "0 \<le> n" "n < 100"
  shows num2_pad: "num2 (pad_digits 2 n @ t) = Some (n, t)"
    and num12_pad: "num12 (pad_digits 2 n @ t) = Some (n, t)"
proof -
  have small: "nat (n div 10) < 10" "nat (n mod 10) < 10" using assms by linarith+
  have "n div 10 mod 10 = n div 10" using assms by (intro mod_pos_pos_trivial) linarith+
  then have pad: "pad_digits 2 n = [digit_char (nat (n div 10)), digit_char (nat (n mod 10))]"
    by (simp add: numeral_2_eq_2)
  have "0 \<le> n div 10" using assms by linarith
  then have "10 * int (nat (n div 10)) + int (nat (n mod 10)) = n" by simp
  then show "num2 (pad_digits 2 n @ t) = Some (n, t)" "num12 (pad_digits 2 n @ t) = Some (n, t)"
    unfolding pad using digit_char_decimal [OF small(1)] digit_char_decimal [OF small(2)] by simp_all
qed

lemma expect_Cons [simp]: "expect c (c # t) = Some t"
  by (simp add: expect_def)

lemma natDigits_four:
  assumes "1000 \<le> n" "n < 10000"
  shows "length (natDigits 10 n) = 4"
proof -
  have one: "length (natDigits 10 m) = 1" if "m < 10" for m
    using that by (subst natDigits.simps) simp
  have more: "length (natDigits 10 m) = Suc (length (natDigits 10 (m div 10)))" if "10 \<le> m" for m
    using that by (subst natDigits.simps) simp
  have "10 \<le> n" "10 \<le> n div 10" "10 \<le> n div 10 div 10" "n div 10 div 10 div 10 < 10"
    using assms by linarith+
  then show ?thesis by (simp add: more one)
qed

lemma num4_format_year:
  assumes "0 \<le> y" "y \<le> 9999"
  shows "num4 (format_year y @ t) = Some (y, t)"
proof (cases "y < 1000")
  case True
  with assms show ?thesis
    by (simp add: num4_def format_year_def pad_digits_parse)
next
  case False
  then have "length (natDigits 10 (nat y)) = 4"
    using assms by (intro natDigits_four) linarith+
  with False assms show ?thesis
    by (simp add: num4_def format_year_def)
qed

text \<open>A timestamp survives printing and parsing up to the microsecond the layout keeps.\<close>

lemma sexagesimal_sum:
  assumes "h * 60 + m = M" "M * 60 + s = S" "S * 1000000 + u = U" "U * microsecond = x"
  shows "h * hour + m * minute + s * second + u * microsecond = x"
  using assms by (simp add: duration_defs)

lemma clock_fields:
  fixes ns :: int
  assumes "0 \<le> ns" "ns < 86400 * second"
  shows "0 \<le> ns div hour" "ns div hour < 24" "0 \<le> ns div minute mod 60" "ns div minute mod 60 < 60"
    "0 \<le> ns div second mod 60" "ns div second mod 60 < 60"
    "0 \<le> ns div microsecond mod 1000000" "ns div microsecond mod 1000000 < 1000000"
    "ns div hour * hour + ns div minute mod 60 * minute + ns div second mod 60 * second
       + ns div microsecond mod 1000000 * microsecond = ns - ns mod microsecond"
proof -
  have nest: "ns div minute div 60 = ns div hour" "ns div second div 60 = ns div minute"
    "ns div microsecond div 1000000 = ns div second"
    by (simp_all add: duration_defs zdiv_zmult2_eq [symmetric])
  have "ns div hour * 60 + ns div minute mod 60 = ns div minute"
    "ns div minute * 60 + ns div second mod 60 = ns div second"
    "ns div second * 1000000 + ns div microsecond mod 1000000 = ns div microsecond"
    using div_mult_mod_eq [of "ns div minute" 60] div_mult_mod_eq [of "ns div second" 60]
      div_mult_mod_eq [of "ns div microsecond" 1000000] unfolding nest by simp_all
  moreover have "ns div microsecond * microsecond = ns - ns mod microsecond"
    by (simp add: minus_mod_eq_div_mult)
  ultimately show "ns div hour * hour + ns div minute mod 60 * minute + ns div second mod 60 * second
       + ns div microsecond mod 1000000 * microsecond = ns - ns mod microsecond"
    by (rule sexagesimal_sum)
  show "ns div hour < 24" using assms by (simp add: duration_defs)
  show "0 \<le> ns div hour" using assms by (simp add: duration_defs pos_imp_zdiv_nonneg_iff)
qed simp_all

lemma parse_micro_format:
  assumes "civil_date (fst (clock_of t) + unix_epoch_day) = (y, m, d)" "0 \<le> y" "y \<le> 9999"
  shows "parse_micro (format_micro t) = Some (t - t mod microsecond)"
proof -
  define ns where "ns = snd (clock_of t)"
  define day where "day = fst (clock_of t)"
  have ns: "0 \<le> ns" "ns < 86400 * second" and t: "t = day * (86400 * second) + ns"
    by (simp_all add: ns_def day_def clock_of_def second_def)
  have cd: "civil_date (day + unix_epoch_day) = (y, m, d)" using assms(1) by (simp add: day_def)
  note date = civil_date_correct [OF cd]
  note cf = clock_fields [OF ns]
  define f where "f = ns div microsecond mod 1000000"
  have frac: "parseInt64 (pad_digits 6 f) = Some f"
  proof -
    obtain c u where cu: "pad_digits 6 f = c # u" by (cases "pad_digits 6 f") (auto simp: pad_digits_Nil)
    have "is_digit c" using pad_digits_digits [of f 6] cu cf(7) by (simp add: f_def)
    then have "c \<noteq> CHR ''-''" "c \<noteq> CHR ''+''" by (auto simp: is_digit_def)
    moreover have "parseDigits (c # u) = Some (nat f)"
      using pad_digits_parse [of f 6] cu cf(7,8) by (simp add: f_def)
    ultimately show ?thesis using cu cf(7,8) by (simp add: parseInt64_def in_int64_def f_def [symmetric])
  qed
  have prefix: "parse_prefix num12
      (format_year y @ ''-'' @ pad_digits 2 m @ ''-'' @ pad_digits 2 d @ ''T'' @
       pad_digits 2 (ns div hour) @ '':'' @ pad_digits 2 (ns div minute mod 60) @ '':'' @
       pad_digits 2 (ns div second mod 60) @ s) =
     Some ((y, m, d, ns div hour, ns div minute mod 60, ns div second mod 60), s)" for s
    using assms(2,3) date cf
    by (simp add: parse_prefix_def num4_format_year num2_pad num12_pad valid_date_def)
  have shape: "format_micro t =
      format_year y @ ''-'' @ pad_digits 2 m @ ''-'' @ pad_digits 2 d @ ''T'' @
       pad_digits 2 (ns div hour) @ '':'' @ pad_digits 2 (ns div minute mod 60) @ '':'' @
       pad_digits 2 (ns div second mod 60) @ (CHR ''.'' # pad_digits 6 f @ ''Z'')"
    using cd by (simp add: format_micro_def f_def ns_def day_def case_prod_beta)
  have modt: "t mod microsecond = ns mod microsecond"
  proof -
    have "t = ns + 1000 * (day * 86400000000)" by (simp add: t duration_defs)
    then show ?thesis by (simp only: microsecond_def mod_mult_self2)
  qed
  have "t - t mod microsecond = day * (86400 * second) + (ns - ns mod microsecond)"
    using t modt by simp
  then show ?thesis
    unfolding parse_micro_def shape prefix
    using frac cf(7,9) date(1)
    by (simp add: parse_zone_def date_time_def f_def [symmetric])
qed

end
