(* ===== verification/GoCrypto.thy ===== *)
theory GoCrypto
  imports GoStrings "HOL-Library.Word"
begin

text \<open>
  The primitives of Go's \<open>crypto\<close> packages behind the cookies and the CSRF tokens: SHA-256
  (FIPS 180-4), HMAC (RFC 2104), AES-256 (FIPS 197) and Galois/Counter Mode with a 96-bit
  nonce and a 128-bit tag (SP 800-38D). They are ordinary executable definitions, so the
  round trip of the sealed cookies is a theorem and not an assumption.
\<close>

unbundle bit_operations_syntax

section \<open>Bytes as words\<close>

definition w8 :: "char \<Rightarrow> 8 word" where
  "w8 c = word_of_nat (byte_of c)"

definition c8 :: "8 word \<Rightarrow> char" where
  "c8 w = char_of (unat w)"

lemma c8_w8 [simp]: "c8 (w8 c) = c"
  by (simp add: c8_def w8_def unat_of_nat)

lemma w8_c8 [simp]: "w8 (c8 w) = w"
proof -
  have "unat w < 256" using unsigned_less [of w] by simp
  then show ?thesis by (simp add: c8_def w8_def)
qed

text \<open>Big-endian conversion between bytes and words.\<close>

definition bytes_to_word :: "bytes \<Rightarrow> 'a::len word" where
  "bytes_to_word bs = foldl (\<lambda>a c. push_bit 8 a OR ucast (w8 c)) 0 bs"

definition word_to_bytes :: "nat \<Rightarrow> 'a::len word \<Rightarrow> bytes" where
  "word_to_bytes n w = map (\<lambda>i. c8 (ucast (drop_bit (8 * (n - 1 - i)) w))) [0..<n]"

lemma length_word_to_bytes [simp]: "length (word_to_bytes n w) = n"
  by (simp add: word_to_bytes_def)

function chunks :: "nat \<Rightarrow> 'a list \<Rightarrow> 'a list list" where
  "chunks n xs = (if n = 0 \<or> xs = [] then [] else take n xs # chunks n (drop n xs))"
  by pat_completeness auto
termination
  by (relation "measure (\<lambda>(n, xs). length xs)") (auto intro: diff_less)

declare chunks.simps [simp del]

section \<open>SHA-256\<close>

definition sha_k :: "32 word list" where
  "sha_k =
     [1116352408, 1899447441, 3049323471, 3921009573, 961987163, 1508970993, 2453635748, 2870763221,
      3624381080, 310598401, 607225278, 1426881987, 1925078388, 2162078206, 2614888103, 3248222580,
      3835390401, 4022224774, 264347078, 604807628, 770255983, 1249150122, 1555081692, 1996064986,
      2554220882, 2821834349, 2952996808, 3210313671, 3336571891, 3584528711, 113926993, 338241895,
      666307205, 773529912, 1294757372, 1396182291, 1695183700, 1986661051, 2177026350, 2456956037,
      2730485921, 2820302411, 3259730800, 3345764771, 3516065817, 3600352804, 4094571909, 275423344,
      430227734, 506948616, 659060556, 883997877, 958139571, 1322822218, 1537002063, 1747873779,
      1955562222, 2024104815, 2227730452, 2361852424, 2428436474, 2756734187, 3204031479, 3329325298]"

definition sha_h0 :: "32 word list" where
  "sha_h0 =
     [1779033703, 3144134277, 1013904242, 2773480762, 1359893119, 2600822924, 528734635, 1541459225]"

definition sha_pad :: "bytes \<Rightarrow> bytes" where
  "sha_pad m =
     m @ [CHR 0x80] @ replicate ((119 - length m mod 64) mod 64) NUL @
     word_to_bytes 8 (word_of_nat (8 * length m) :: 64 word)"

definition sha_sigma0 :: "32 word \<Rightarrow> 32 word" where
  "sha_sigma0 x = word_rotr 7 x XOR word_rotr 18 x XOR drop_bit 3 x"

definition sha_sigma1 :: "32 word \<Rightarrow> 32 word" where
  "sha_sigma1 x = word_rotr 17 x XOR word_rotr 19 x XOR drop_bit 10 x"

text \<open>The message schedule, most recent word first while it is being extended.\<close>

fun sha_extend :: "nat \<Rightarrow> 32 word list \<Rightarrow> 32 word list" where
  "sha_extend 0 ws = ws"
| "sha_extend (Suc n) ws =
     sha_extend n ((sha_sigma1 (ws ! 1) + ws ! 6 + sha_sigma0 (ws ! 14) + ws ! 15) # ws)"

definition sha_schedule :: "bytes \<Rightarrow> 32 word list" where
  "sha_schedule block = rev (sha_extend 48 (rev (map bytes_to_word (chunks 4 block))))"

fun sha_round :: "32 word list \<Rightarrow> 32 word \<times> 32 word \<Rightarrow> 32 word list" where
  "sha_round [a, b, c, d, e, f, g, h] (k, w) =
     (let t1 = h + (word_rotr 6 e XOR word_rotr 11 e XOR word_rotr 25 e)
                 + ((e AND f) XOR (NOT e AND g)) + k + w;
          t2 = (word_rotr 2 a XOR word_rotr 13 a XOR word_rotr 22 a)
                 + ((a AND b) XOR (a AND c) XOR (b AND c))
      in [t1 + t2, a, b, c, d + t1, e, f, g])"
| "sha_round st _ = st"

definition sha_block :: "32 word list \<Rightarrow> bytes \<Rightarrow> 32 word list" where
  "sha_block h block = map2 (+) h (foldl sha_round h (zip sha_k (sha_schedule block)))"

definition sha256 :: "bytes \<Rightarrow> bytes" where
  "sha256 m = take 32 (concat (map (word_to_bytes 4) (foldl sha_block sha_h0 (chunks 64 (sha_pad m)))))"

section \<open>HMAC\<close>

definition xor_with :: "8 word \<Rightarrow> bytes \<Rightarrow> bytes" where
  "xor_with x bs = map (\<lambda>c. c8 (w8 c XOR x)) bs"

definition hmac_sha256 :: "bytes \<Rightarrow> bytes \<Rightarrow> bytes" where
  "hmac_sha256 key m =
     (let k = (if length key > 64 then sha256 key else key);
          k' = k @ replicate (64 - length k) NUL
      in sha256 (xor_with 0x5c k' @ sha256 (xor_with 0x36 k' @ m)))"

section \<open>AES-256\<close>

definition aes_sbox :: "8 word list" where
  "aes_sbox =
     [0x63, 0x7c, 0x77, 0x7b, 0xf2, 0x6b, 0x6f, 0xc5, 0x30, 0x01, 0x67, 0x2b, 0xfe, 0xd7, 0xab, 0x76,
      0xca, 0x82, 0xc9, 0x7d, 0xfa, 0x59, 0x47, 0xf0, 0xad, 0xd4, 0xa2, 0xaf, 0x9c, 0xa4, 0x72, 0xc0,
      0xb7, 0xfd, 0x93, 0x26, 0x36, 0x3f, 0xf7, 0xcc, 0x34, 0xa5, 0xe5, 0xf1, 0x71, 0xd8, 0x31, 0x15,
      0x04, 0xc7, 0x23, 0xc3, 0x18, 0x96, 0x05, 0x9a, 0x07, 0x12, 0x80, 0xe2, 0xeb, 0x27, 0xb2, 0x75,
      0x09, 0x83, 0x2c, 0x1a, 0x1b, 0x6e, 0x5a, 0xa0, 0x52, 0x3b, 0xd6, 0xb3, 0x29, 0xe3, 0x2f, 0x84,
      0x53, 0xd1, 0x00, 0xed, 0x20, 0xfc, 0xb1, 0x5b, 0x6a, 0xcb, 0xbe, 0x39, 0x4a, 0x4c, 0x58, 0xcf,
      0xd0, 0xef, 0xaa, 0xfb, 0x43, 0x4d, 0x33, 0x85, 0x45, 0xf9, 0x02, 0x7f, 0x50, 0x3c, 0x9f, 0xa8,
      0x51, 0xa3, 0x40, 0x8f, 0x92, 0x9d, 0x38, 0xf5, 0xbc, 0xb6, 0xda, 0x21, 0x10, 0xff, 0xf3, 0xd2,
      0xcd, 0x0c, 0x13, 0xec, 0x5f, 0x97, 0x44, 0x17, 0xc4, 0xa7, 0x7e, 0x3d, 0x64, 0x5d, 0x19, 0x73,
      0x60, 0x81, 0x4f, 0xdc, 0x22, 0x2a, 0x90, 0x88, 0x46, 0xee, 0xb8, 0x14, 0xde, 0x5e, 0x0b, 0xdb,
      0xe0, 0x32, 0x3a, 0x0a, 0x49, 0x06, 0x24, 0x5c, 0xc2, 0xd3, 0xac, 0x62, 0x91, 0x95, 0xe4, 0x79,
      0xe7, 0xc8, 0x37, 0x6d, 0x8d, 0xd5, 0x4e, 0xa9, 0x6c, 0x56, 0xf4, 0xea, 0x65, 0x7a, 0xae, 0x08,
      0xba, 0x78, 0x25, 0x2e, 0x1c, 0xa6, 0xb4, 0xc6, 0xe8, 0xdd, 0x74, 0x1f, 0x4b, 0xbd, 0x8b, 0x8a,
      0x70, 0x3e, 0xb5, 0x66, 0x48, 0x03, 0xf6, 0x0e, 0x61, 0x35, 0x57, 0xb9, 0x86, 0xc1, 0x1d, 0x9e,
      0xe1, 0xf8, 0x98, 0x11, 0x69, 0xd9, 0x8e, 0x94, 0x9b, 0x1e, 0x87, 0xe9, 0xce, 0x55, 0x28, 0xdf,
      0x8c, 0xa1, 0x89, 0x0d, 0xbf, 0xe6, 0x42, 0x68, 0x41, 0x99, 0x2d, 0x0f, 0xb0, 0x54, 0xbb, 0x16]"

definition sub_byte :: "8 word \<Rightarrow> 8 word" where
  "sub_byte b = aes_sbox ! unat b"

definition xtime :: "8 word \<Rightarrow> 8 word" where
  "xtime b = (if bit b 7 then push_bit 1 b XOR 0x1b else push_bit 1 b)"

text \<open>The key schedule: 60 words of four bytes, most recent first while extending.\<close>

fun aes_extend :: "nat \<Rightarrow> 8 word \<Rightarrow> 8 word list list \<Rightarrow> 8 word list list" where
  "aes_extend 0 rcon ws = ws"
| "aes_extend (Suc n) rcon ws =
     (let i = length ws; prev = hd ws;
          t = (if i mod 8 = 0 then
                 (case map sub_byte (tl prev @ [hd prev]) of [] \<Rightarrow> [] | x # xs \<Rightarrow> (x XOR rcon) # xs)
               else if i mod 8 = 4 then map sub_byte prev else prev);
          rcon' = (if i mod 8 = 0 then xtime rcon else rcon)
      in aes_extend n rcon' (map2 (XOR) (ws ! 7) t # ws))"

definition aes_round_keys :: "bytes \<Rightarrow> 8 word list list" where
  "aes_round_keys key = map concat (chunks 4 (rev (aes_extend 52 1 (rev (chunks 4 (map w8 key))))))"

definition shift_rows :: "8 word list \<Rightarrow> 8 word list" where
  "shift_rows s = map (\<lambda>i. s ! ((i + 4 * (i mod 4)) mod 16)) [0..<16]"

fun mix_column :: "8 word list \<Rightarrow> 8 word list" where
  "mix_column [a, b, c, d] =
     [xtime a XOR (xtime b XOR b) XOR c XOR d, a XOR xtime b XOR (xtime c XOR c) XOR d,
      a XOR b XOR xtime c XOR (xtime d XOR d), (xtime a XOR a) XOR b XOR c XOR xtime d]"
| "mix_column s = s"

definition mix_columns :: "8 word list \<Rightarrow> 8 word list" where
  "mix_columns s = concat (map mix_column (chunks 4 s))"

fun aes_rounds :: "8 word list \<Rightarrow> 8 word list list \<Rightarrow> 8 word list" where
  "aes_rounds s [] = s"
| "aes_rounds s [k] = map2 (XOR) (shift_rows (map sub_byte s)) k"
| "aes_rounds s (k # ks) = aes_rounds (map2 (XOR) (mix_columns (shift_rows (map sub_byte s))) k) ks"

definition aes256_block :: "bytes \<Rightarrow> 128 word \<Rightarrow> 128 word" where
  "aes256_block key x =
     (case aes_round_keys key of [] \<Rightarrow> x
      | k # ks \<Rightarrow> bytes_to_word (map c8 (aes_rounds (map2 (XOR) (map w8 (word_to_bytes 16 x)) k) ks)))"

section \<open>Galois/Counter Mode\<close>

fun gf_mult_loop :: "nat \<Rightarrow> 128 word \<Rightarrow> 128 word \<Rightarrow> 128 word \<Rightarrow> 128 word" where
  "gf_mult_loop 0 x v z = z"
| "gf_mult_loop (Suc i) x v z =
     gf_mult_loop i x
       (if bit v 0 then drop_bit 1 v XOR push_bit 120 0xe1 else drop_bit 1 v)
       (if bit x i then z XOR v else z)"

definition gf_mult :: "128 word \<Rightarrow> 128 word \<Rightarrow> 128 word" where
  "gf_mult x y = gf_mult_loop 128 x y 0"

definition pad16 :: "bytes \<Rightarrow> bytes" where
  "pad16 bs = bs @ replicate ((16 - length bs mod 16) mod 16) NUL"

definition ghash :: "128 word \<Rightarrow> bytes \<Rightarrow> bytes \<Rightarrow> 128 word" where
  "ghash h aad ct =
     foldl (\<lambda>y block. gf_mult (y XOR bytes_to_word block) h) 0
       (chunks 16 (pad16 aad @ pad16 ct @
          word_to_bytes 8 (word_of_nat (8 * length aad) :: 64 word) @
          word_to_bytes 8 (word_of_nat (8 * length ct) :: 64 word)))"

text \<open>The counter is the last 32 bits of the block; the keystream starts one past the first.\<close>

definition gcm_counter :: "bytes \<Rightarrow> nat \<Rightarrow> 128 word" where
  "gcm_counter nonce i = bytes_to_word (nonce @ word_to_bytes 4 (1 + word_of_nat i :: 32 word))"

definition gcm_stream :: "bytes \<Rightarrow> bytes \<Rightarrow> nat \<Rightarrow> 8 word" where
  "gcm_stream key nonce i =
     w8 (word_to_bytes 16 (aes256_block key (gcm_counter nonce (1 + i div 16))) ! (i mod 16))"

definition gcm_crypt :: "bytes \<Rightarrow> bytes \<Rightarrow> bytes \<Rightarrow> bytes" where
  "gcm_crypt key nonce m = map (\<lambda>(i, c). c8 (w8 c XOR gcm_stream key nonce i)) (enumerate 0 m)"

definition gcm_tag :: "bytes \<Rightarrow> bytes \<Rightarrow> bytes \<Rightarrow> bytes \<Rightarrow> bytes" where
  "gcm_tag key nonce aad ct =
     word_to_bytes 16 (ghash (aes256_block key 0) aad ct XOR aes256_block key (gcm_counter nonce 0))"

definition gcm_seal :: "bytes \<Rightarrow> bytes \<Rightarrow> bytes \<Rightarrow> bytes \<Rightarrow> bytes" where
  "gcm_seal key nonce m aad =
     (let ct = gcm_crypt key nonce m in ct @ gcm_tag key nonce aad ct)"

definition gcm_open :: "bytes \<Rightarrow> bytes \<Rightarrow> bytes \<Rightarrow> bytes \<Rightarrow> bytes option" where
  "gcm_open key nonce sealed aad =
     (if length sealed < 16 then None
      else let ct = take (length sealed - 16) sealed
           in if drop (length sealed - 16) sealed = gcm_tag key nonce aad ct
              then Some (gcm_crypt key nonce ct) else None)"

abbreviation gcm_nonce_size :: nat where "gcm_nonce_size \<equiv> 12"

section \<open>Facts\<close>

lemma length_gcm_crypt [simp]: "length (gcm_crypt key nonce m) = length m"
  by (simp add: gcm_crypt_def)

lemma length_gcm_tag [simp]: "length (gcm_tag key nonce aad ct) = 16"
  by (simp add: gcm_tag_def)

lemma length_gcm_seal [codec_simps]: "length (gcm_seal key nonce m aad) = length m + 16"
  by (simp add: gcm_seal_def Let_def)

lemma gcm_crypt_involution: "gcm_crypt key nonce (gcm_crypt key nonce m) = m"
  by (rule nth_equalityI)
    (simp_all add: gcm_crypt_def nth_enumerate_eq xor.assoc)

lemma gcm_roundtrip [codec_simps]: "gcm_open key nonce (gcm_seal key nonce m aad) aad = Some m"
  by (simp add: gcm_open_def gcm_seal_def Let_def gcm_crypt_involution)

text \<open>A message opens only under the tag of exactly this ciphertext and associated data.\<close>

lemma gcm_open_authentic:
  "gcm_open key nonce sealed aad = Some m \<Longrightarrow> sealed = gcm_seal key nonce m aad"
  by (auto simp: gcm_open_def gcm_seal_def Let_def gcm_crypt_involution split: if_splits)
    (metis append_take_drop_id)

end
