(* ===== verification/Metrics.thy ===== *)
theory Metrics
  imports GoStrings GoTime "HOL-Library.Word"
begin

text \<open>
  \<open>internal/server/metrics.go\<close>: the counters behind \<open>/metrics\<close>. Every recorder first maps its
  labels into a fixed vocabulary; the invariant says that no recorder ever leaves it, so the
  number of time series is bounded whatever requests arrive.
\<close>

section \<open>State\<close>

record metricKey =
  mk_method :: string
  mk_route :: string
  mk_status :: int

text \<open>The sum of seconds is kept exactly, in nanoseconds; the code rounds it to a float64.\<close>

record metricValue =
  mv_count :: "64 word"
  mv_nanos :: duration

record actionKey =
  ak_action :: string
  ak_result :: string

record grafanaMetricKey =
  gk_method :: string
  gk_status :: int

record metrics =
  m_inflight :: "64 word"
  m_http :: "metricKey \<rightharpoonup> metricValue"
  m_actions :: "actionKey \<rightharpoonup> 64 word"
  m_grafana :: "grafanaMetricKey \<rightharpoonup> metricValue"
  m_auth :: "string \<rightharpoonup> 64 word"
  m_version :: string

definition newMetrics :: metrics where
  "newMetrics =
     \<lparr>m_inflight = 0, m_http = Map.empty, m_actions = Map.empty, m_grafana = Map.empty,
      m_auth = Map.empty, m_version = ''development''\<rparr>"

section \<open>Operations\<close>

definition known_methods :: "string list" where
  "known_methods = [''GET'', ''POST'', ''PUT'', ''PATCH'', ''DELETE'', ''HEAD'', ''OPTIONS'']"

definition metricMethod :: "string \<Rightarrow> string" where
  "metricMethod method = (if method \<in> set known_methods then method else ''other'')"

definition setVersion :: "string \<Rightarrow> metrics \<Rightarrow> metrics" where
  "setVersion version m = m\<lparr>m_version := version\<rparr>"

text \<open>A missing key reads as the zero value of its type.\<close>

definition count_of :: "('k \<rightharpoonup> 64 word) \<Rightarrow> 'k \<Rightarrow> 64 word" where
  "count_of c k = (case c k of None \<Rightarrow> 0 | Some n \<Rightarrow> n)"

definition value_of :: "('k \<rightharpoonup> metricValue) \<Rightarrow> 'k \<Rightarrow> metricValue" where
  "value_of c k = (case c k of None \<Rightarrow> \<lparr>mv_count = 0, mv_nanos = 0\<rparr> | Some v \<Rightarrow> v)"

definition action_label :: "string \<Rightarrow> string" where
  "action_label action =
     (if action \<in> {''issue'', ''reissue'', ''revoke'', ''offboard'', ''reconcile''} then action else ''other'')"

definition result_label :: "string \<Rightarrow> string" where
  "result_label result =
     (if result \<in> {''success'', ''failure'', ''partial''} then result else ''failure'')"

definition RecordAction :: "string \<Rightarrow> string \<Rightarrow> metrics \<Rightarrow> metrics" where
  "RecordAction action result m =
     (let key = \<lparr>ak_action = action_label action, ak_result = result_label result\<rparr>
      in m\<lparr>m_actions := (m_actions m)(key \<mapsto> count_of (m_actions m) key + 1)\<rparr>)"

definition add_sample :: "duration \<Rightarrow> metricValue \<Rightarrow> metricValue" where
  "add_sample elapsed v = \<lparr>mv_count = mv_count v + 1, mv_nanos = mv_nanos v + elapsed\<rparr>"

definition RecordGrafana :: "string \<Rightarrow> int \<Rightarrow> duration \<Rightarrow> metrics \<Rightarrow> metrics" where
  "RecordGrafana method status elapsed m =
     (let status = (if status < 100 \<or> status > 599 then 0 else status);
          key = \<lparr>gk_method = metricMethod method, gk_status = status\<rparr>
      in m\<lparr>m_grafana := (m_grafana m)(key \<mapsto> add_sample elapsed (value_of (m_grafana m) key))\<rparr>)"

definition RecordAuth :: "string \<Rightarrow> metrics \<Rightarrow> metrics" where
  "RecordAuth kind m =
     (if kind \<in> {''oidc_failure'', ''authorization_denial''}
      then m\<lparr>m_auth := (m_auth m)(kind \<mapsto> count_of (m_auth m) kind + 1)\<rparr> else m)"

text \<open>
  The response writer of \<open>wrap\<close> remembers the first status written; a body written first
  means 200, and so does a handler that writes nothing.
\<close>

definition sw_writeHeader :: "int \<Rightarrow> int \<Rightarrow> int" where
  "sw_writeHeader status sw = (if sw \<noteq> 0 then sw else status)"

definition sw_write :: "int \<Rightarrow> int" where
  "sw_write sw = (if sw = 0 then 200 else sw)"

text \<open>
  \<open>wrap\<close> around one request: \<open>/metrics\<close> itself passes through; any other request counts as in
  flight while the handler runs and is recorded under its method, its matched route and
  the status left in the writer (0 when the handler wrote nothing).
\<close>

definition wrap_enter :: "string \<Rightarrow> metrics \<Rightarrow> metrics" where
  "wrap_enter path m = (if path = ''/metrics'' then m else m\<lparr>m_inflight := m_inflight m + 1\<rparr>)"

definition wrap_exit :: "string \<Rightarrow> string \<Rightarrow> string \<Rightarrow> int \<Rightarrow> duration \<Rightarrow> metrics \<Rightarrow> metrics" where
  "wrap_exit path method pattern status elapsed m =
     (if path = ''/metrics'' then m
      else let route = (if pattern = [] then ''unmatched'' else pattern);
               key = \<lparr>mk_method = metricMethod method, mk_route = route, mk_status = sw_write status\<rparr>
           in m\<lparr>m_http := (m_http m)(key \<mapsto> add_sample elapsed (value_of (m_http m) key)),
                m_inflight := m_inflight m - 1\<rparr>)"

section \<open>The label vocabulary\<close>

definition method_labels :: "string set" where
  "method_labels = insert ''other'' (set known_methods)"

definition action_keys :: "actionKey set" where
  "action_keys =
     {k. ak_action k \<in> {''issue'', ''reissue'', ''revoke'', ''offboard'', ''reconcile'', ''other''} \<and>
         ak_result k \<in> {''success'', ''failure'', ''partial''}}"

definition grafana_keys :: "grafanaMetricKey set" where
  "grafana_keys = {k. gk_method k \<in> method_labels \<and> (gk_status k = 0 \<or> gk_status k \<in> {100..599})}"

definition metrics_bounded :: "metrics \<Rightarrow> bool" where
  "metrics_bounded m \<longleftrightarrow>
     dom (m_actions m) \<subseteq> action_keys \<and> dom (m_grafana m) \<subseteq> grafana_keys \<and>
     dom (m_auth m) \<subseteq> {''oidc_failure'', ''authorization_denial''} \<and>
     mk_method ` dom (m_http m) \<subseteq> method_labels"

lemma metricMethod_label [simp]: "metricMethod s \<in> method_labels"
  by (simp add: metricMethod_def method_labels_def)

lemma metrics_bounded_new: "metrics_bounded newMetrics"
  by (simp add: metrics_bounded_def newMetrics_def)

lemma metrics_bounded_setVersion: "metrics_bounded m \<Longrightarrow> metrics_bounded (setVersion v m)"
  by (simp add: metrics_bounded_def setVersion_def)

lemma metrics_bounded_action: "metrics_bounded m \<Longrightarrow> metrics_bounded (RecordAction a r m)"
  by (simp add: metrics_bounded_def RecordAction_def Let_def action_keys_def action_label_def
      result_label_def)

lemma metrics_bounded_grafana: "metrics_bounded m \<Longrightarrow> metrics_bounded (RecordGrafana a s e m)"
  by (simp add: metrics_bounded_def RecordGrafana_def Let_def grafana_keys_def)

lemma metrics_bounded_auth: "metrics_bounded m \<Longrightarrow> metrics_bounded (RecordAuth k m)"
  by (simp add: metrics_bounded_def RecordAuth_def)

lemma metrics_bounded_wrap:
  "metrics_bounded m \<Longrightarrow> metrics_bounded (wrap_enter p m)"
  "metrics_bounded m \<Longrightarrow> metrics_bounded (wrap_exit p me pa st e m)"
  by (simp_all add: metrics_bounded_def wrap_enter_def wrap_exit_def Let_def)

lemmas metrics_bounded_intros =
  metrics_bounded_new metrics_bounded_setVersion metrics_bounded_action metrics_bounded_grafana
  metrics_bounded_auth metrics_bounded_wrap

lemma finite_action_keys: "finite action_keys"
proof (rule finite_subset)
  show "action_keys \<subseteq> (\<lambda>(a, r). \<lparr>ak_action = a, ak_result = r\<rparr>) `
      ({''issue'', ''reissue'', ''revoke'', ''offboard'', ''reconcile'', ''other''} \<times>
       {''success'', ''failure'', ''partial''})" (is "_ \<subseteq> ?S")
  proof
    fix k assume "k \<in> action_keys"
    then show "k \<in> ?S"
      by (intro image_eqI [where x = "(ak_action k, ak_result k)"]) (auto simp: action_keys_def)
  qed
qed simp

lemma finite_grafana_keys: "finite grafana_keys"
proof (rule finite_subset)
  show "grafana_keys \<subseteq> (\<lambda>(a, r). \<lparr>gk_method = a, gk_status = r\<rparr>) ` (method_labels \<times> insert 0 {100..599})"
    (is "_ \<subseteq> ?S")
  proof
    fix k assume "k \<in> grafana_keys"
    then show "k \<in> ?S"
      by (intro image_eqI [where x = "(gk_method k, gk_status k)"]) (auto simp: grafana_keys_def)
  qed
qed (simp add: method_labels_def)

section \<open>Properties\<close>

text \<open>One call of a recorder, in any order and with any arguments.\<close>

inductive metrics_step :: "metrics \<Rightarrow> metrics \<Rightarrow> bool" where
  version: "metrics_step m (setVersion v m)"
| action: "metrics_step m (RecordAction a r m)"
| grafana: "metrics_step m (RecordGrafana method status elapsed m)"
| auth: "metrics_step m (RecordAuth kind m)"
| enter: "metrics_step m (wrap_enter path m)"
| exit: "metrics_step m (wrap_exit path method pattern status elapsed m)"

lemma metrics_step_bounded: "metrics_step m m' \<Longrightarrow> metrics_bounded m \<Longrightarrow> metrics_bounded m'"
  by (induction rule: metrics_step.induct) (auto intro: metrics_bounded_intros)

lemma metrics_steps_bounded: "metrics_step\<^sup>*\<^sup>* m m' \<Longrightarrow> metrics_bounded m \<Longrightarrow> metrics_bounded m'"
  by (induction rule: rtranclp_induct) (auto intro: metrics_step_bounded)

text \<open>However the recorders are called, the counters of actions, of Grafana requests and of refused logins
  stay within a finite set of labels: no method, outcome or status a client or Grafana chooses adds one.\<close>

theorem metric_labels_are_bounded:
  assumes "metrics_step\<^sup>*\<^sup>* newMetrics m"
  shows "finite (dom (m_actions m)) \<and> finite (dom (m_grafana m)) \<and>
     dom (m_auth m) \<subseteq> {''oidc_failure'', ''authorization_denial''} \<and> finite (mk_method ` dom (m_http m))"
proof -
  have b: "metrics_bounded m" using metrics_steps_bounded [OF assms metrics_bounded_new] .
  have "finite method_labels" by (simp add: method_labels_def)
  with b finite_action_keys finite_grafana_keys show ?thesis
    unfolding metrics_bounded_def by (meson finite_subset)
qed

theorem metric_labels_are_bounded_witness:
  "finite (dom (m_actions (RecordAction ''issue'' ''success'' newMetrics))) \<and>
   finite (dom (m_grafana (RecordAction ''issue'' ''success'' newMetrics))) \<and>
   dom (m_auth (RecordAction ''issue'' ''success'' newMetrics)) \<subseteq> {''oidc_failure'', ''authorization_denial''} \<and>
   finite (mk_method ` dom (m_http (RecordAction ''issue'' ''success'' newMetrics)))"
  by (rule metric_labels_are_bounded) (rule r_into_rtranclp, rule metrics_step.action)

end
