(* ===== verification/Runtime.thy ===== *)
theory Runtime
  imports GoDecode GoTime GoCrypto Metrics
begin

text \<open>
  The process around the program: Go error values, the environment the code calls out to
  (network, clocks, entropy, the rotation lock, the OIDC library) and the trace of what the
  program did. The environment is a parameter of every run, and its answers may depend on
  everything that happened before, so a statement proved for every environment covers every
  server, every scheduler and every adversary on the other side of the connection.
\<close>

section \<open>Errors\<close>

text \<open>
  One constructor per way the code makes an error, with the pieces \<open>errors.Is\<close> and
  \<open>errors.As\<close> look at. \<open>Wrap p e s\<close> is \<open>fmt.Errorf("p%ws", e)\<close>; \<open>Foreign\<close> is an error of
  a library, with its type, its text and the error it wraps.
\<close>

datatype error =
    Msg string
  | Wrap string error string
  | WrapTwo error error
  | Join "error list"
  | ApiError string string int
  | AuthError bool error
  | DeliveryPreparationError error
  | ServiceAccountState
  | TokenReconciliation
  | DeadlineExceeded
  | Canceled
  | Foreign string string "error option"

text \<open>The error and everything it wraps, in the order \<open>errors.Is\<close> visits them.\<close>

fun chain :: "error \<Rightarrow> error list" where
  "chain (Wrap p e s) = Wrap p e s # chain e"
| "chain (WrapTwo a b) = WrapTwo a b # chain a @ chain b"
| "chain (Join es) = Join es # concat (map chain es)"
| "chain (Foreign t m (Some e)) = Foreign t m (Some e) # chain e"
| "chain e = [e]"

definition errors_is :: "error \<Rightarrow> error \<Rightarrow> bool" where
  "errors_is e target \<longleftrightarrow> target \<in> set (chain e)"

definition as_api_error :: "error \<Rightarrow> int option" where
  "as_api_error e =
     (case filter (\<lambda>x. case x of ApiError _ _ _ \<Rightarrow> True | _ \<Rightarrow> False) (chain e) of
        ApiError _ _ status # _ \<Rightarrow> Some status | _ \<Rightarrow> None)"

definition as_auth_error :: "error \<Rightarrow> bool option" where
  "as_auth_error e =
     (case filter (\<lambda>x. case x of AuthError _ _ \<Rightarrow> True | _ \<Rightarrow> False) (chain e) of
        AuthError forbidden _ # _ \<Rightarrow> Some forbidden | _ \<Rightarrow> None)"

definition is_delivery_error :: "error \<Rightarrow> bool" where
  "is_delivery_error e \<longleftrightarrow> list_ex (\<lambda>x. case x of DeliveryPreparationError _ \<Rightarrow> True | _ \<Rightarrow> False) (chain e)"

text \<open>\<open>errors.Join\<close> drops nil errors and is nil when nothing is left.\<close>

definition errors_join :: "error option list \<Rightarrow> error option" where
  "errors_join es =
     (case List.map_filter (\<lambda>e. e) es of [] \<Rightarrow> None | xs \<Rightarrow> Some (Join xs))"

fun error_text :: "error \<Rightarrow> string" where
  "error_text (Msg s) = s"
| "error_text (Wrap p e s) = p @ error_text e @ s"
| "error_text (WrapTwo a b) = error_text a @ '': '' @ error_text b"
| "error_text (Join es) = joinWith [LF] (map error_text es)"
| "error_text (ApiError m p s) = ''Grafana '' @ m @ '' '' @ p @ '' returned HTTP '' @ itoa s"
| "error_text (AuthError f e) = error_text e"
| "error_text (DeliveryPreparationError e) = ''preparing secure token delivery: '' @ error_text e"
| "error_text ServiceAccountState = ''service account must be an enabled Viewer''"
| "error_text TokenReconciliation = ''token cleanup requires reconciliation''"
| "error_text DeadlineExceeded = ''context deadline exceeded''"
| "error_text Canceled = ''context canceled''"
| "error_text (Foreign t m e) = m"

text \<open>The dynamic type \<open>fmt\<close> prints for \<open>%T\<close>.\<close>

fun error_type :: "error \<Rightarrow> string" where
  "error_type (Msg s) = ''*errors.errorString''"
| "error_type (Wrap p e s) = ''*fmt.wrapError''"
| "error_type (WrapTwo a b) = ''*fmt.wrapErrors''"
| "error_type (Join es) = ''*errors.joinError''"
| "error_type (ApiError m p s) = ''*server.apiError''"
| "error_type (AuthError f e) = ''*server.authError''"
| "error_type (DeliveryPreparationError e) = ''*server.deliveryPreparationError''"
| "error_type ServiceAccountState = ''*errors.errorString''"
| "error_type TokenReconciliation = ''*errors.errorString''"
| "error_type DeadlineExceeded = ''context.deadlineExceededError''"
| "error_type Canceled = ''*errors.errorString''"
| "error_type (Foreign t m e) = t"

lemma errors_join_None: "errors_join es = None \<longleftrightarrow> (\<forall>e \<in> set es. e = None)"
  by (induction es) (auto simp: errors_join_def List.map_filter_def split: list.splits option.splits)

lemma chain_self: "e \<in> set (chain e)"
  by (cases e rule: chain.cases) auto

lemma errors_is_Wrap [simp]: "e \<noteq> Wrap p t s \<Longrightarrow> errors_is (Wrap p t s) e = errors_is t e"
  by (simp add: errors_is_def)

lemma errors_is_refl [simp]: "errors_is e e"
  by (simp add: errors_is_def chain_self)

section \<open>Requests, replies and the trace\<close>

record request =
  rq_method :: string
  rq_base :: string
  rq_path :: string
  rq_bearer :: string
  rq_body :: "string option"

datatype reply = NetError error | Reply int string

text \<open>
  What the OIDC library gives for a verified token: its expiry, and its claims when they have
  the types the program asks for.
\<close>

record claims =
  cl_email :: string
  cl_groups :: "string list"
  cl_nonce :: string

record idToken =
  id_expiry :: time
  id_claims :: "claims option"

datatype event =
    Http request reply
  | Verified string "error + idToken"
  | Exchanged string string "error + string"
  | LockAcquired string
  | LockFailed string error
  | Checked "error option"
  | LockReleased
  | Audit "(string \<times> string) list"
  | Printed string

text \<open>
  The environment. \<open>network\<close> is Grafana (a transport failure, a cancelled context and a request
  that cannot be built are all \<open>NetError\<close>); \<open>lock_acquire\<close> and \<open>lock_check\<close> are the rotation
  lock as its holder sees it; \<open>entropy\<close> fails or gives an endless stream for each draw;
  \<open>page_fuel\<close> bounds the pages a listing may request before the deadline of its context ends
  it, and \<open>lock_ticks\<close> the attempts at a lock; \<open>unicode_lower\<close> is the library's case table for strings that are not
  ASCII, \<open>unicode_digit\<close> its table of decimal digits; \<open>app_css\<close> and \<open>app_js\<close> are the two embedded files; \<open>map_order\<close> is
  the order in which a range over a map visits its keys; \<open>read_file\<close> is the file system. The
  OIDC library is \<open>verify_token\<close> (signature, issuer, audience and expiry of a raw token) and
  \<open>exchange_code\<close> (an authorisation code and its verifier for the raw token of the reply, empty
  when the reply has none).
\<close>

record env =
  clock :: "nat \<Rightarrow> time"
  entropy :: "nat \<Rightarrow> (nat \<Rightarrow> char) option"
  network :: "event list \<Rightarrow> request \<Rightarrow> reply"
  lock_acquire :: "event list \<Rightarrow> string \<Rightarrow> error option"
  lock_check :: "event list \<Rightarrow> error option"
  page_fuel :: nat
  lock_ticks :: nat
  unicode_lower :: "string \<Rightarrow> string"
  unicode_digit :: "string \<Rightarrow> bool"
  app_css :: bytes
  app_js :: bytes
  map_order :: "string list \<Rightarrow> string list"
  read_file :: "event list \<Rightarrow> string \<Rightarrow> error + string"
  verify_token :: "event list \<Rightarrow> string \<Rightarrow> error + idToken"
  exchange_code :: "event list \<Rightarrow> string \<Rightarrow> string \<Rightarrow> error + string"

text \<open>
  The state of the process that outlives a request: the metrics, and the cached answer of the
  readiness check with the instant it was found (\<open>zeroTime\<close> before the first one).
\<close>

record readinessState =
  rd_checked :: time
  rd_err :: "error option"

record world =
  w_env :: env
  w_ticks :: nat
  w_draws :: nat
  w_trace :: "event list"
  w_metrics :: metrics
  w_ready :: readinessState

type_synonym 'a io = "(world, 'a) state"

section \<open>Primitives\<close>

definition emit :: "event \<Rightarrow> world \<Rightarrow> world" where
  "emit e w = w\<lparr>w_trace := w_trace w @ [e]\<rparr>"

definition time_now :: "time io" where
  "time_now = State (\<lambda>w. (clock (w_env w) (w_ticks w), w\<lparr>w_ticks := Suc (w_ticks w)\<rparr>))"

definition random_bytes :: "nat \<Rightarrow> (error + bytes) io" where
  "random_bytes n = State (\<lambda>w.
     ((case entropy (w_env w) (w_draws w) of
         None \<Rightarrow> Inl (Msg ''entropy source failed'')
       | Some f \<Rightarrow> Inr (map f [0..<n])), w\<lparr>w_draws := Suc (w_draws w)\<rparr>))"

definition http_call :: "request \<Rightarrow> reply io" where
  "http_call rq = State (\<lambda>w.
     let r = network (w_env w) (w_trace w) rq in (r, emit (Http rq r) w))"

definition acquire_lock :: "string \<Rightarrow> (error option) io" where
  "acquire_lock key = State (\<lambda>w.
     case lock_acquire (w_env w) (w_trace w) key of
       None \<Rightarrow> (None, emit (LockAcquired key) w)
     | Some e \<Rightarrow> (Some e, emit (LockFailed key e) w))"

definition check_lock :: "(error option) io" where
  "check_lock = State (\<lambda>w.
     let r = lock_check (w_env w) (w_trace w) in (r, emit (Checked r) w))"

definition release_lock :: "unit io" where
  "release_lock = State (\<lambda>w. ((), emit LockReleased w))"

definition emit_event :: "event \<Rightarrow> unit io" where
  "emit_event e = State (\<lambda>w. ((), emit e w))"

definition os_readFile :: "string \<Rightarrow> (error + string) io" where
  "os_readFile path = State (\<lambda>w. (read_file (w_env w) (w_trace w) path, w))"

definition oidc_verify :: "string \<Rightarrow> (error + idToken) io" where
  "oidc_verify raw = State (\<lambda>w.
     let r = verify_token (w_env w) (w_trace w) raw in (r, emit (Verified raw r) w))"

definition oauth_exchange :: "string \<Rightarrow> string \<Rightarrow> (error + string) io" where
  "oauth_exchange code verifier = State (\<lambda>w.
     let r = exchange_code (w_env w) (w_trace w) code verifier
     in (r, emit (Exchanged code verifier r) w))"

definition ask :: "(env \<Rightarrow> 'a) \<Rightarrow> 'a io" where
  "ask f = State (\<lambda>w. (f (w_env w), w))"

definition update_metrics :: "(metrics \<Rightarrow> metrics) \<Rightarrow> unit io" where
  "update_metrics f = State (\<lambda>w. ((), w\<lparr>w_metrics := f (w_metrics w)\<rparr>))"

definition get_ready :: "readinessState io" where
  "get_ready = State (\<lambda>w. (w_ready w, w))"

definition set_ready :: "readinessState \<Rightarrow> unit io" where
  "set_ready st = State (\<lambda>w. ((), w\<lparr>w_ready := st\<rparr>))"

definition get_metrics :: "metrics io" where
  "get_metrics = State (\<lambda>w. (w_metrics w, w))"

subsection \<open>Their weakest preconditions\<close>

lemma wp_ready [wp_simps]:
  "wp get_ready Q w = Q (w_ready w) w" "wp (set_ready st) Q2 w = Q2 () (w\<lparr>w_ready := st\<rparr>)"
  by (simp_all add: get_ready_def set_ready_def wp_simps)

lemma wp_get_metrics [wp_simps]: "wp get_metrics Q w = Q (w_metrics w) w"
  by (simp add: get_metrics_def wp_simps)

lemma wp_time_now [wp_simps]:
  "wp time_now Q w = Q (clock (w_env w) (w_ticks w)) (w\<lparr>w_ticks := Suc (w_ticks w)\<rparr>)"
  by (simp add: time_now_def wp_simps)

lemma wp_random_bytes [wp_simps]:
  "wp (random_bytes n) Q w =
     Q (case entropy (w_env w) (w_draws w) of
          None \<Rightarrow> Inl (Msg ''entropy source failed'') | Some f \<Rightarrow> Inr (map f [0..<n]))
       (w\<lparr>w_draws := Suc (w_draws w)\<rparr>)"
  by (simp add: random_bytes_def wp_simps)

lemma wp_http_call [wp_simps]:
  "wp (http_call rq) Q w =
     Q (network (w_env w) (w_trace w) rq) (emit (Http rq (network (w_env w) (w_trace w) rq)) w)"
  by (simp add: http_call_def wp_simps Let_def)

lemma wp_acquire_lock [wp_simps]:
  "wp (acquire_lock key) Q w =
     (case lock_acquire (w_env w) (w_trace w) key of
        None \<Rightarrow> Q None (emit (LockAcquired key) w)
      | Some e \<Rightarrow> Q (Some e) (emit (LockFailed key e) w))"
  by (simp add: acquire_lock_def wp_simps split: option.splits)

lemma wp_check_lock [wp_simps]:
  "wp check_lock Q w =
     Q (lock_check (w_env w) (w_trace w)) (emit (Checked (lock_check (w_env w) (w_trace w))) w)"
  by (simp add: check_lock_def wp_simps Let_def)

lemma wp_release_lock [wp_simps]: "wp release_lock Q w = Q () (emit LockReleased w)"
  by (simp add: release_lock_def wp_simps)

lemma wp_emit_event [wp_simps]: "wp (emit_event e) Q w = Q () (emit e w)"
  by (simp add: emit_event_def wp_simps)

lemma wp_os_readFile [wp_simps]:
  "wp (os_readFile path) Q w = Q (read_file (w_env w) (w_trace w) path) w"
  by (simp add: os_readFile_def wp_simps)

lemma wp_oidc_verify [wp_simps]:
  "wp (oidc_verify raw) Q w =
     Q (verify_token (w_env w) (w_trace w) raw) (emit (Verified raw (verify_token (w_env w) (w_trace w) raw)) w)"
  by (simp add: oidc_verify_def wp_simps Let_def)

lemma wp_oauth_exchange [wp_simps]:
  "wp (oauth_exchange code v) Q w =
     Q (exchange_code (w_env w) (w_trace w) code v)
       (emit (Exchanged code v (exchange_code (w_env w) (w_trace w) code v)) w)"
  by (simp add: oauth_exchange_def wp_simps Let_def)

lemma wp_ask [wp_simps]: "wp (ask f) Q w = Q (f (w_env w)) w"
  by (simp add: ask_def wp_simps)

lemma wp_update_metrics [wp_simps]:
  "wp (update_metrics f) Q w = Q () (w\<lparr>w_metrics := f (w_metrics w)\<rparr>)"
  by (simp add: update_metrics_def wp_simps)

lemma emit_fields [simp]:
  "w_env (emit e w) = w_env w" "w_trace (emit e w) = w_trace w @ [e]"
  "w_metrics (emit e w) = w_metrics w" "w_ticks (emit e w) = w_ticks w" "w_draws (emit e w) = w_draws w"
  by (simp_all add: emit_def)

section \<open>Frames\<close>

text \<open>
  \<open>extends A w w'\<close>: the run from \<open>w\<close> to \<open>w'\<close> kept the environment and added to the trace
  only events that satisfy \<open>A\<close>. The frame of a computation holds from every state; frames
  compose along \<open>bind\<close>, which is how every operation's footprint is proved.
\<close>

definition extends :: "(event \<Rightarrow> bool) \<Rightarrow> world \<Rightarrow> world \<Rightarrow> bool" where
  "extends A w w' \<longleftrightarrow> w_env w' = w_env w \<and> (\<exists>evs. w_trace w' = w_trace w @ evs \<and> list_all A evs)"

definition frame :: "(event \<Rightarrow> bool) \<Rightarrow> 'a io \<Rightarrow> bool" where
  "frame A m \<longleftrightarrow> (\<forall>w. wp m (\<lambda>_ w'. extends A w w') w)"

lemma extends_refl [simp]: "extends A w w"
  by (simp add: extends_def)

lemma extends_trans: "extends A u v \<Longrightarrow> extends A v w \<Longrightarrow> extends A u w"
  by (auto simp: extends_def)

lemma extends_mono: "extends A u v \<Longrightarrow> (\<And>e. A e \<Longrightarrow> B e) \<Longrightarrow> extends B u v"
  by (auto simp: extends_def list_all_iff)

lemma extends_emit [simp]: "A e \<Longrightarrow> extends A w (emit e w)"
  by (simp add: extends_def)

lemma extends_quiet [simp]:
  "extends A w (w\<lparr>w_ticks := n\<rparr>)" "extends A w (w\<lparr>w_draws := n\<rparr>)" "extends A w (w\<lparr>w_metrics := m\<rparr>)"
  "extends A w (w\<lparr>w_ready := st\<rparr>)"
  by (simp_all add: extends_def)

lemma frameD: "frame A m \<Longrightarrow> wp m (\<lambda>_ w'. extends A w w') w"
  by (simp add: frame_def)

lemma frame_run: "frame A m \<Longrightarrow> run_state m w = (r, w') \<Longrightarrow> extends A w w'"
  using frameD wp_runD by fastforce

named_theorems frame_intros \<open>frames of the operations\<close>

lemma frame_mono: "frame A m \<Longrightarrow> (\<And>e. A e \<Longrightarrow> B e) \<Longrightarrow> frame B m"
  unfolding frame_def by (blast intro: wp_mono extends_mono)

lemma frame_return [frame_intros]: "frame A (ret x)"
  by (simp add: frame_def wp_simps)

lemma frame_bind [frame_intros]: "frame A m \<Longrightarrow> (\<And>x. frame A (f x)) \<Longrightarrow> frame A (m \<bind> f)"
  unfolding frame_def wp_bind by (blast intro: wp_mono extends_trans)

lemma frame_quiet [frame_intros]:
  "frame A time_now" "frame A (random_bytes n)" "frame A (ask g)" "frame A (update_metrics h)"
  "frame A get_ready" "frame A (set_ready st)" "frame A get_metrics"
  by (simp_all add: frame_def wp_simps)

lemma frame_read_file [frame_intros]: "frame A (os_readFile p)"
  by (simp add: frame_def wp_simps)

lemma frame_if [frame_intros]: "(b \<Longrightarrow> frame A m) \<Longrightarrow> (\<not> b \<Longrightarrow> frame A n) \<Longrightarrow> frame A (if b then m else n)"
  by simp

lemma frame_case_sum [frame_intros]:
  "(\<And>e. frame A (m e)) \<Longrightarrow> (\<And>v. frame A (n v)) \<Longrightarrow> frame A (case r of Inl e \<Rightarrow> m e | Inr v \<Rightarrow> n v)"
  by (simp split: sum.splits)

lemma frame_case_option [frame_intros]:
  "frame A m \<Longrightarrow> (\<And>v. frame A (n v)) \<Longrightarrow> frame A (case r of None \<Rightarrow> m | Some v \<Rightarrow> n v)"
  by (simp split: option.splits)

lemma frame_case_prod [frame_intros]:
  "(\<And>x y. frame A (m x y)) \<Longrightarrow> frame A (case p of (x, y) \<Rightarrow> m x y)"
  by (simp split: prod.splits)

lemma frame_Let [frame_intros]: "frame A (m e) \<Longrightarrow> frame A (let x = e in m x)"
  by simp

lemma frame_http: "(\<And>r. A (Http rq r)) \<Longrightarrow> frame A (http_call rq)"
  by (simp add: frame_def wp_simps)

section \<open>An example\<close>

text \<open>The world in which the theorems are applied to concrete inputs.\<close>

definition example_env :: env where
  "example_env =
     \<lparr>clock = (\<lambda>n. 1700000000 * second + int n), entropy = (\<lambda>_. Some (\<lambda>i. char_of i)),
      network = (\<lambda>_ _. NetError Canceled), lock_acquire = (\<lambda>_ _. None), lock_check = (\<lambda>_. None), page_fuel = 10,
      lock_ticks = 10, unicode_lower = (\<lambda>s. s), unicode_digit = (\<lambda>_. False), app_css = ''body{}'', app_js = ''x()'', map_order = (\<lambda>ks. ks), read_file = (\<lambda>_ _. Inl Canceled),
      verify_token = (\<lambda>_ _. Inl Canceled), exchange_code = (\<lambda>_ _ _. Inl Canceled)\<rparr>"

definition example_world :: world where
  "example_world = \<lparr>w_env = example_env, w_ticks = 0, w_draws = 0, w_trace = [], w_metrics = newMetrics,
     w_ready = \<lparr>rd_checked = zeroTime, rd_err = None\<rparr>\<rparr>"

end
