(* ===== verification/GrafanaApi.thy ===== *)
theory GrafanaApi
  imports Runtime
begin

text \<open>
  \<open>internal/server/grafana.go\<close>, the part both API modes share: the account and token types,
  their JSON forms, and \<open>do\<close>, the single function through which every request to Grafana goes.
\<close>

section \<open>Types\<close>

definition iamAPIVersion :: string where "iamAPIVersion = ''iam.grafana.app/v0alpha1''"
definition grafanaAPIModeIAM :: string where "grafanaAPIModeIAM = ''iam''"
definition grafanaAPIModeLegacy :: string where "grafanaAPIModeLegacy = ''legacy''"

record grafana =
  g_base :: string
  g_token :: string
  g_mode :: string
  g_namespace :: string
  g_metrics :: bool

record serviceAccount =
  sa_apiVersion :: string
  sa_kind :: string
  sa_name :: string
  sa_generateName :: string
  sa_namespace :: string
  sa_creation :: time
  sa_title :: string
  sa_role :: string
  sa_disabled :: bool
  sa_plugin :: string

definition zero_account :: serviceAccount where
  "zero_account =
     \<lparr>sa_apiVersion = [], sa_kind = [], sa_name = [], sa_generateName = [], sa_namespace = [],
      sa_creation = zeroTime, sa_title = [], sa_role = [], sa_disabled = False, sa_plugin = []\<rparr>"

record saToken =
  tk_id :: string
  tk_title :: string
  tk_revoked :: bool
  tk_created :: time
  tk_expiration :: "time option"
  tk_lastUsed :: "time option"
  tk_hasExpired :: bool

record tokenWire =
  tw_title :: string
  tw_revoked :: bool
  tw_expires :: int
  tw_created :: int
  tw_updated :: int
  tw_lastUsed :: int

definition zero_wire :: tokenWire where
  "zero_wire = \<lparr>tw_title = [], tw_revoked = False, tw_expires = 0, tw_created = 0, tw_updated = 0, tw_lastUsed = 0\<rparr>"

record issuedToken =
  it_secret :: string
  it_name :: string
  it_created :: time
  it_expires :: "time option"

section \<open>JSON forms\<close>

text \<open>\<open>time.Time\<close> in JSON: RFC 3339, the fraction without trailing zeros.\<close>

definition format_rfc3339 :: "time \<Rightarrow> string" where
  "format_rfc3339 t =
     (let (day, ns) = clock_of t; (y, m, d) = civil_date (day + unix_epoch_day);
          frac = trimRight ''0'' (pad_digits 9 (ns mod second))
      in format_year y @ ''-'' @ pad_digits 2 m @ ''-'' @ pad_digits 2 d @ ''T'' @
         pad_digits 2 (ns div hour) @ '':'' @ pad_digits 2 (ns div minute mod 60) @ '':'' @
         pad_digits 2 (ns div second mod 60) @ (if frac = [] then [] else ''.'' @ frac) @ ''Z'')"

fun dec_time :: "time decoder" where
  "dec_time (JStr s) _ = parse_rfc3339 s"
| "dec_time JNull t = Some t"
| "dec_time _ _ = None"

definition dec_account :: "serviceAccount decoder" where
  "dec_account = dec_struct
     [field ''apiVersion'' dec_string sa_apiVersion (\<lambda>x. sa_apiVersion_update (\<lambda>_. x)),
      field ''kind'' dec_string sa_kind (\<lambda>x. sa_kind_update (\<lambda>_. x)),
      (''metadata'', dec_struct
        [field ''name'' dec_string sa_name (\<lambda>x. sa_name_update (\<lambda>_. x)),
         field ''generateName'' dec_string sa_generateName (\<lambda>x. sa_generateName_update (\<lambda>_. x)),
         field ''namespace'' dec_string sa_namespace (\<lambda>x. sa_namespace_update (\<lambda>_. x)),
         field ''creationTimestamp'' dec_time sa_creation (\<lambda>x. sa_creation_update (\<lambda>_. x))]),
      (''spec'', dec_struct
        [field ''title'' dec_string sa_title (\<lambda>x. sa_title_update (\<lambda>_. x)),
         field ''role'' dec_string sa_role (\<lambda>x. sa_role_update (\<lambda>_. x)),
         field ''disabled'' dec_bool sa_disabled (\<lambda>x. sa_disabled_update (\<lambda>_. x)),
         field ''plugin'' dec_string sa_plugin (\<lambda>x. sa_plugin_update (\<lambda>_. x))])]"

definition optional :: "string \<Rightarrow> string \<Rightarrow> (string \<times> json) list" where
  "optional name s = (if s = [] then [] else [(name, JStr s)])"

definition enc_account :: "serviceAccount \<Rightarrow> json" where
  "enc_account sa = JObj
     (optional ''apiVersion'' (sa_apiVersion sa) @ optional ''kind'' (sa_kind sa) @
      [(''metadata'', JObj ([(''name'', JStr (sa_name sa))] @ optional ''generateName'' (sa_generateName sa) @
          optional ''namespace'' (sa_namespace sa) @
          [(''creationTimestamp'', JStr (format_rfc3339 (sa_creation sa)))])),
       (''spec'', JObj [(''title'', JStr (sa_title sa)), (''role'', JStr (sa_role sa)),
          (''disabled'', JBool (sa_disabled sa)), (''plugin'', JStr (sa_plugin sa))])])"

definition dec_wire :: "tokenWire decoder" where
  "dec_wire = dec_struct
     [field ''title'' dec_string tw_title (\<lambda>x. tw_title_update (\<lambda>_. x)),
      field ''revoked'' dec_bool tw_revoked (\<lambda>x. tw_revoked_update (\<lambda>_. x)),
      field ''expires'' dec_int64 tw_expires (\<lambda>x. tw_expires_update (\<lambda>_. x)),
      field ''created'' dec_int64 tw_created (\<lambda>x. tw_created_update (\<lambda>_. x)),
      field ''updated'' dec_int64 tw_updated (\<lambda>x. tw_updated_update (\<lambda>_. x)),
      field ''lastUsed'' dec_int64 tw_lastUsed (\<lambda>x. tw_lastUsed_update (\<lambda>_. x))]"

section \<open>Requests\<close>

definition GET :: string where "GET = ''GET''"
definition POST :: string where "POST = ''POST''"
definition PUT :: string where "PUT = ''PUT''"
definition DELETE :: string where "DELETE = ''DELETE''"

lemmas method_defs = GET_def POST_def PUT_def DELETE_def

lemma method_distinct [simp]:
  "GET \<noteq> POST" "POST \<noteq> GET" "GET \<noteq> DELETE" "DELETE \<noteq> GET" "POST \<noteq> DELETE" "DELETE \<noteq> POST"
  "GET \<noteq> PUT" "PUT \<noteq> GET" "POST \<noteq> PUT" "PUT \<noteq> POST" "DELETE \<noteq> PUT" "PUT \<noteq> DELETE"
  by (simp_all add: method_defs)

definition grafana_request :: "grafana \<Rightarrow> string \<Rightarrow> string \<Rightarrow> string option \<Rightarrow> request" where
  "grafana_request g method path body =
     \<lparr>rq_method = method, rq_base = g_base g, rq_path = path, rq_bearer = g_token g, rq_body = body\<rparr>"

lemma grafana_request_simps [simp]:
  "rq_method (grafana_request g me p b) = me" "rq_path (grafana_request g me p b) = p"
  "rq_body (grafana_request g me p b) = b" "rq_base (grafana_request g me p b) = g_base g"
  "rq_bearer (grafana_request g me p b) = g_token g"
  by (simp_all add: grafana_request_def)

definition reply_status :: "reply \<Rightarrow> int" where
  "reply_status r = (case r of NetError _ \<Rightarrow> 0 | Reply status _ \<Rightarrow> status)"

definition decode_error :: "string \<Rightarrow> error" where
  "decode_error path =
     Wrap (''decoding Grafana '' @ path @ '' response: '') (Foreign ''*json.Error'' ''invalid response'' None) []"

text \<open>
  What \<open>do\<close> makes of a reply: a status of 300 or more is an \<open>apiError\<close>; no output, or 204, leaves
  the output at its zero value; else the first MiB of the body must hold a document the
  output's type accepts.
\<close>

definition do_result :: "string \<Rightarrow> string \<Rightarrow> 'a decoder option \<Rightarrow> 'a \<Rightarrow> reply \<Rightarrow> error + 'a" where
  "do_result method path out zero r =
     (case r of NetError e \<Rightarrow> Inl e
      | Reply status body \<Rightarrow>
          if status \<ge> 300 then Inl (ApiError method path status)
          else (case out of None \<Rightarrow> Inr zero
           | Some d \<Rightarrow>
               if status = 204 then Inr zero
               else (case Option.bind (decode_first (take 1048576 body)) (\<lambda>j. d j zero) of
                       None \<Rightarrow> Inl (decode_error path) | Some x \<Rightarrow> Inr x)))"

definition grafana_do ::
  "grafana \<Rightarrow> string \<Rightarrow> string \<Rightarrow> json option \<Rightarrow> 'a decoder option \<Rightarrow> 'a \<Rightarrow> (error + 'a) io" where
  "grafana_do g method path body out zero = do {
     started \<leftarrow> time_now;
     r \<leftarrow> http_call (grafana_request g method path (map_option marshal body));
     finished \<leftarrow> time_now;
     _ \<leftarrow> (if g_metrics g then update_metrics (RecordGrafana method (reply_status r) (finished - started))
           else ret ());
     ret (do_result method path out zero r)
   }"

definition unixTime :: "int \<Rightarrow> time option" where
  "unixTime v = (if v \<le> 0 then None else Some (timeUnix v))"

text \<open>
  \<open>%q\<close> of a string, and \<open>strconv.Quote\<close>: quotes, backslashes and control characters of ASCII are
  escaped, a byte that is not UTF-8 is written in hexadecimal, and every other rune is taken to be
  printable.
\<close>

definition hex_escape :: "char \<Rightarrow> string" where
  "hex_escape c = [BACKSLASH, CHR ''x'', hex_lower (byte_of c div 16), hex_lower (byte_of c mod 16)]"

definition quote_char :: "char \<Rightarrow> string" where
  "quote_char c =
     (if c = QUOTE \<or> c = BACKSLASH then [BACKSLASH, c]
      else if c = LF then [BACKSLASH, CHR ''n''] else if c = CR then [BACKSLASH, CHR ''r'']
      else if c = TAB then [BACKSLASH, CHR ''t'']
      else if byte_of c = 7 then [BACKSLASH, CHR ''a''] else if byte_of c = 8 then [BACKSLASH, CHR ''b'']
      else if byte_of c = 11 then [BACKSLASH, CHR ''v''] else if byte_of c = 12 then [BACKSLASH, CHR ''f'']
      else if byte_of c < 32 \<or> byte_of c = 127 then hex_escape c
      else [c])"

function quote_body :: "string \<Rightarrow> string" where
  "quote_body [] = []"
| "quote_body (c # s) =
     (if is_ascii c then quote_char c @ quote_body s
      else if rune_len (c # s) = 0 then hex_escape c @ quote_body s
      else take (rune_len (c # s)) (c # s) @ quote_body (drop (rune_len (c # s)) (c # s)))"
  by pat_completeness auto
termination
  by (relation "measure length") (auto intro: diff_less)

declare quote_body.simps(2) [simp del]

definition goQuote :: "string \<Rightarrow> string" where
  "goQuote s = [QUOTE] @ quote_body s @ [QUOTE]"

section \<open>Footprints\<close>

text \<open>
  The events of the Grafana client. \<open>reads\<close>: a GET; \<open>call_on me paths\<close>: a request with method
  \<open>me\<close> on one of the given paths.
\<close>

definition is_get :: "event \<Rightarrow> bool" where
  "is_get e \<longleftrightarrow> (case e of Http rq _ \<Rightarrow> rq_method rq = GET | _ \<Rightarrow> False)"

definition is_call :: "event \<Rightarrow> bool" where
  "is_call e \<longleftrightarrow> (case e of Http _ _ \<Rightarrow> True | _ \<Rightarrow> False)"

lemma is_get_Http [simp]: "is_get (Http rq r) \<longleftrightarrow> rq_method rq = GET"
  by (simp add: is_get_def)

lemma is_get_is_call: "is_get e \<Longrightarrow> is_call e"
  by (auto simp: is_get_def is_call_def split: event.splits)

lemma frame_do:
  "(\<And>r. A (Http (grafana_request g method path (map_option marshal body)) r)) \<Longrightarrow>
   frame A (grafana_do g method path body out zero)"
  unfolding grafana_do_def by (intro frame_intros frame_http) auto

lemma frame_do_get [frame_intros]: "frame is_get (grafana_do g GET path body out zero)"
  by (rule frame_do) simp

text \<open>
  \<open>do\<close> makes exactly one request, and its result is \<open>do_result\<close> of the reply. This is the
  equation the proofs about single calls use; time and metrics do not show in it.
\<close>

lemma wp_grafana_do:
  assumes "\<And>r w'. w_env w' = w_env w \<Longrightarrow>
      w_trace w' = w_trace w @ [Http (grafana_request g method path (map_option marshal body)) r] \<Longrightarrow>
      r = network (w_env w) (w_trace w) (grafana_request g method path (map_option marshal body)) \<Longrightarrow>
      Q (do_result method path out zero r) w'"
  shows "wp (grafana_do g method path body out zero) Q w"
  unfolding grafana_do_def by (auto simp: wp_simps intro: assms)

lemma do_result_error_api:
  "do_result method path out zero r = Inl e \<Longrightarrow> as_api_error e = Some s \<Longrightarrow>
   (\<exists>e'. r = NetError e') \<or> (\<exists>b. r = Reply s b)"
  by (auto simp: do_result_def decode_error_def as_api_error_def
      split: reply.splits if_splits option.splits bind_splits)

definition reply_ok :: "reply \<Rightarrow> bool" where
  "reply_ok r \<longleftrightarrow> (case r of NetError _ \<Rightarrow> False | Reply status _ \<Rightarrow> status < 300)"

lemma do_result_ok: "do_result method path out zero r = Inr x \<Longrightarrow> reply_ok r"
  by (auto simp: do_result_def reply_ok_def split: reply.splits if_splits)

end
