(* ===== verification/GrafanaIAM.thy ===== *)
theory GrafanaIAM
  imports GrafanaApi
begin

text \<open>
  The IAM branch of \<open>internal/server/grafana.go\<close>: service accounts and tokens through
  \<open>/apis/iam.grafana.app/v0alpha1\<close>, with continuation tokens for the listings.
\<close>

section \<open>Listings\<close>

definition collectionPath :: "grafana \<Rightarrow> string" where
  "collectionPath g =
     ''/apis/iam.grafana.app/v0alpha1/namespaces/'' @ pathEscape (g_namespace g) @ ''/serviceaccounts''"

definition page_query :: "string \<Rightarrow> string" where
  "page_query continuation =
     encodeQuery ((if continuation = [] then [] else [(''continue'', continuation)]) @ [(''limit'', ''100'')])"

record accountPage =
  ap_continue :: string
  ap_items :: "serviceAccount list"

definition dec_account_page :: "accountPage decoder" where
  "dec_account_page = dec_struct
     [(''metadata'', dec_struct [field ''continue'' dec_string ap_continue (\<lambda>x. ap_continue_update (\<lambda>_. x))]),
      field ''items'' (dec_list zero_account dec_account) ap_items (\<lambda>x. ap_items_update (\<lambda>_. x))]"

definition zero_account_page :: accountPage where
  "zero_account_page = \<lparr>ap_continue = [], ap_items = []\<rparr>"

definition duplicate_title :: "string \<Rightarrow> error" where
  "duplicate_title title = Msg (''multiple Grafana service accounts have title '' @ goQuote title)"

text \<open>The inner loop: a second account of the title, on this page or an earlier one, is an error.\<close>

fun scan_accounts ::
  "string \<Rightarrow> serviceAccount list \<Rightarrow> serviceAccount option \<Rightarrow> error + serviceAccount option" where
  "scan_accounts title [] found = Inr found"
| "scan_accounts title (sa # rest) found =
     (if sa_title sa = title
      then (if found \<noteq> None then Inl (duplicate_title title) else scan_accounts title rest (Some sa))
      else scan_accounts title rest found)"

text \<open>
  The listing has no bound of its own: the code relies on the deadline of its context. The
  fuel is the number of pages that deadline allows; running out of it is that deadline.
\<close>

fun find_loop ::
  "nat \<Rightarrow> grafana \<Rightarrow> string \<Rightarrow> string \<Rightarrow> string list \<Rightarrow> serviceAccount option
   \<Rightarrow> (error + serviceAccount option) io" where
  "find_loop 0 g title continuation seen found = ret (Inl DeadlineExceeded)"
| "find_loop (Suc n) g title continuation seen found = do {
     r \<leftarrow> grafana_do g GET (collectionPath g @ ''?'' @ page_query continuation) None
            (Some dec_account_page) zero_account_page;
     (case r of Inl e \<Rightarrow> ret (Inl e)
      | Inr page \<Rightarrow>
          (case scan_accounts title (ap_items page) found of Inl e \<Rightarrow> ret (Inl e)
           | Inr found' \<Rightarrow>
               if ap_continue page = [] then ret (Inr found')
               else if ap_continue page \<in> set seen then
                 ret (Inl (Msg ''grafana service account pagination repeated a continuation token''))
               else find_loop n g title (ap_continue page) (ap_continue page # seen) found'))
   }"

definition iamFindServiceAccount :: "grafana \<Rightarrow> string \<Rightarrow> (error + serviceAccount option) io" where
  "iamFindServiceAccount g title = do {
     fuel \<leftarrow> ask page_fuel;
     find_loop fuel g title [] [] None
   }"

record tokenPage =
  tp_items :: "tokenWire list"
  tp_continue :: string

definition dec_token_page :: "tokenPage decoder" where
  "dec_token_page = dec_struct
     [field ''items'' (dec_list zero_wire dec_wire) tp_items (\<lambda>x. tp_items_update (\<lambda>_. x)),
      field ''continue'' dec_string tp_continue (\<lambda>x. tp_continue_update (\<lambda>_. x))]"

definition zero_token_page :: tokenPage where
  "zero_token_page = \<lparr>tp_items = [], tp_continue = []\<rparr>"

definition token_of_wire :: "tokenWire \<Rightarrow> bool \<Rightarrow> saToken" where
  "token_of_wire wire expired =
     \<lparr>tk_id = tw_title wire, tk_title = tw_title wire, tk_revoked = tw_revoked wire,
      tk_created = (case unixTime (tw_created wire) of None \<Rightarrow> zeroTime | Some t \<Rightarrow> t),
      tk_expiration = unixTime (tw_expires wire), tk_lastUsed = unixTime (tw_lastUsed wire),
      tk_hasExpired = expired\<rparr>"

fun convert_wires :: "tokenWire list \<Rightarrow> saToken list io" where
  "convert_wires [] = ret []"
| "convert_wires (wire # rest) = do {
     expired \<leftarrow> (case unixTime (tw_expires wire) of None \<Rightarrow> ret False
                 | Some t \<Rightarrow> do { now \<leftarrow> time_now; ret (now > t) });
     ts \<leftarrow> convert_wires rest;
     ret (token_of_wire wire expired # ts)
   }"

definition tokensPath :: "grafana \<Rightarrow> string \<Rightarrow> string" where
  "tokensPath g saName = collectionPath g @ ''/'' @ pathEscape saName @ ''/tokens''"

fun tokens_loop ::
  "nat \<Rightarrow> grafana \<Rightarrow> string \<Rightarrow> string \<Rightarrow> string list \<Rightarrow> saToken list \<Rightarrow> (error + saToken list) io" where
  "tokens_loop 0 g saName continuation seen all = ret (Inl DeadlineExceeded)"
| "tokens_loop (Suc n) g saName continuation seen all = do {
     r \<leftarrow> grafana_do g GET (tokensPath g saName @ ''?'' @ page_query continuation) None
            (Some dec_token_page) zero_token_page;
     (case r of Inl e \<Rightarrow> ret (Inl e)
      | Inr page \<Rightarrow> do {
          ts \<leftarrow> convert_wires (tp_items page);
          (if tp_continue page = [] then ret (Inr (all @ ts))
           else if tp_continue page \<in> set seen then
             ret (Inl (Msg ''grafana token pagination repeated a continuation token''))
           else tokens_loop n g saName (tp_continue page) (tp_continue page # seen) (all @ ts))
        })
   }"

definition iamTokens :: "grafana \<Rightarrow> string \<Rightarrow> (error + saToken list) io" where
  "iamTokens g saName = do {
     fuel \<leftarrow> ask page_fuel;
     tokens_loop fuel g saName [] [] []
   }"

section \<open>Mutations\<close>

definition serviceAccountResourceName :: "(string \<Rightarrow> string) \<Rightarrow> string \<Rightarrow> string" where
  "serviceAccountResourceName uni title =
     ''mcp-'' @ hexEncode (take 10 (sha256 (toLower uni title)))"

definition new_account :: "grafana \<Rightarrow> (string \<Rightarrow> string) \<Rightarrow> string \<Rightarrow> serviceAccount" where
  "new_account g uni title =
     zero_account\<lparr>sa_apiVersion := iamAPIVersion, sa_kind := ''ServiceAccount'',
       sa_name := serviceAccountResourceName uni title, sa_namespace := g_namespace g,
       sa_title := title, sa_role := ''Viewer'', sa_disabled := False, sa_plugin := []\<rparr>"

definition iamCreateServiceAccount :: "grafana \<Rightarrow> string \<Rightarrow> (error + serviceAccount) io" where
  "iamCreateServiceAccount g title = do {
     uni \<leftarrow> ask unicode_lower;
     grafana_do g POST (collectionPath g) (Some (enc_account (new_account g uni title)))
       (Some dec_account) zero_account
   }"

definition iamDeleteServiceAccount :: "grafana \<Rightarrow> string \<Rightarrow> (error + unit) io" where
  "iamDeleteServiceAccount g name =
     grafana_do g DELETE (collectionPath g @ ''/'' @ pathEscape name) None None ()"

text \<open>The reply to a token's deletion is decoded, so a success without a document is an error.\<close>

definition dec_message :: "string decoder" where
  "dec_message = dec_struct [field ''message'' dec_string (\<lambda>s. s) (\<lambda>x _. x)]"

definition iamDeleteToken :: "grafana \<Rightarrow> string \<Rightarrow> string \<Rightarrow> (error + unit) io" where
  "iamDeleteToken g saName tokenID = do {
     r \<leftarrow> grafana_do g DELETE (tokensPath g saName @ ''/'' @ pathEscape tokenID) None (Some dec_message) [];
     ret (map_sum id (\<lambda>_. ()) r)
   }"

definition reconciliation_error :: "error + unit \<Rightarrow> error option" where
  "reconciliation_error r =
     (case r of Inl e \<Rightarrow> Some (WrapTwo TokenReconciliation e) | Inr _ \<Rightarrow> None)"

definition iamCleanupUndeliveredToken :: "grafana \<Rightarrow> string \<Rightarrow> string \<Rightarrow> (error option) io" where
  "iamCleanupUndeliveredToken g saName tkName = do {
     r \<leftarrow> iamDeleteToken g saName tkName;
     ret (reconciliation_error r)
   }"

record tokenReply =
  tr_token :: string
  tr_name :: string
  tr_expires :: int

definition dec_token_reply :: "tokenReply decoder" where
  "dec_token_reply = dec_struct
     [field ''token'' dec_string tr_token (\<lambda>x. tr_token_update (\<lambda>_. x)),
      field ''serviceAccountTokenName'' dec_string tr_name (\<lambda>x. tr_name_update (\<lambda>_. x)),
      field ''expires'' dec_int64 tr_expires (\<lambda>x. tr_expires_update (\<lambda>_. x))]"

definition zero_token_reply :: tokenReply where
  "zero_token_reply = \<lparr>tr_token = [], tr_name = [], tr_expires = 0\<rparr>"

text \<open>\<open>errors.Join(err, cleanup)\<close> where \<open>err\<close> is not nil.\<close>

definition join_cleanup :: "error \<Rightarrow> error option \<Rightarrow> error" where
  "join_cleanup e c = Join (e # (case c of None \<Rightarrow> [] | Some f \<Rightarrow> [f]))"

definition client_error :: "error \<Rightarrow> bool" where
  "client_error e \<longleftrightarrow> (case as_api_error e of Some s \<Rightarrow> 400 \<le> s \<and> s < 500 | None \<Rightarrow> False)"

definition empty_token_error :: error where
  "empty_token_error = Msg ''grafana returned an empty service account token''"

definition token_name_error :: error where
  "token_name_error =
     Wrap [] TokenReconciliation '': grafana returned an unexpected service account token name''"

definition iamNewToken :: "grafana \<Rightarrow> string \<Rightarrow> string \<Rightarrow> duration \<Rightarrow> (error + issuedToken) io" where
  "iamNewToken g saName tkName ttl = do {
     r \<leftarrow> grafana_do g POST (tokensPath g saName)
            (Some (JObj [(''tokenName'', JStr tkName), (''expiresInSeconds'', JInt (truncDiv ttl second))]))
            (Some dec_token_reply) zero_token_reply;
     (case r of
        Inl e \<Rightarrow>
          if client_error e then ret (Inl e)
          else do { c \<leftarrow> iamCleanupUndeliveredToken g saName tkName; ret (Inl (join_cleanup e c)) }
      | Inr out \<Rightarrow>
          if tr_token out = [] then
            do { c \<leftarrow> iamCleanupUndeliveredToken g saName tkName; ret (Inl (join_cleanup empty_token_error c)) }
          else if tr_name out \<noteq> tkName then
            do { c \<leftarrow> iamCleanupUndeliveredToken g saName tkName; ret (Inl (join_cleanup token_name_error c)) }
          else do {
            now \<leftarrow> time_now;
            ret (Inr \<lparr>it_secret = tr_token out, it_name = tkName, it_created = now,
                     it_expires = unixTime (tr_expires out)\<rparr>)
          })
   }"

text \<open>The name of a new token: its second in base 36 and six random bytes.\<close>

definition tokenName :: "time \<Rightarrow> bytes \<Rightarrow> string" where
  "tokenName now rnd = ''mcp-'' @ formatInt 36 (unixSeconds now) @ ''-'' @ hexEncode rnd"

section \<open>What the inner loop computes\<close>

definition titled :: "string \<Rightarrow> serviceAccount list \<Rightarrow> serviceAccount list" where
  "titled title sas = filter (\<lambda>sa. sa_title sa = title) sas"

lemma scan_accounts_spec:
  "scan_accounts title sas found =
     (case (case found of None \<Rightarrow> [] | Some sa \<Rightarrow> [sa]) @ titled title sas of
        [] \<Rightarrow> Inr None | [sa] \<Rightarrow> Inr (Some sa) | _ \<Rightarrow> Inl (duplicate_title title))"
proof (induction title sas found rule: scan_accounts.induct)
  case (2 title sa rest found)
  then show ?case
    by (cases found) (auto simp: titled_def split: list.splits)
qed (auto simp: titled_def split: option.splits)

section \<open>Footprints\<close>

lemma frame_find_loop: "frame is_get (find_loop n g title c seen found)"
  by (induction n arbitrary: c seen found) (auto intro!: frame_intros)

lemma frame_convert_wires: "frame A (convert_wires ws)"
  by (induction ws) (auto intro!: frame_intros)

lemma frame_tokens_loop: "frame is_get (tokens_loop n g sa c seen all)"
  by (induction n arbitrary: c seen all) (auto intro!: frame_intros frame_convert_wires)

lemma frame_iamFind: "frame is_get (iamFindServiceAccount g title)"
  unfolding iamFindServiceAccount_def by (intro frame_intros frame_find_loop)

lemma frame_iamTokens: "frame is_get (iamTokens g sa)"
  unfolding iamTokens_def by (intro frame_intros frame_tokens_loop)

end
