(* ===== verification/GrafanaLegacy.thy ===== *)
theory GrafanaLegacy
  imports GrafanaIAM
begin

text \<open>
  \<open>internal/server/grafana_legacy.go\<close>: the same operations through \<open>/api/serviceaccounts\<close>,
  whose accounts and tokens have positive numeric identifiers and whose listing has numbered
  pages.
\<close>

section \<open>Types\<close>

definition legacyServiceAccountsPath :: string where
  "legacyServiceAccountsPath = ''/api/serviceaccounts''"

record legacyServiceAccount =
  la_id :: int
  la_name :: string
  la_role :: string
  la_disabled :: bool

definition zero_legacy_account :: legacyServiceAccount where
  "zero_legacy_account = \<lparr>la_id = 0, la_name = [], la_role = [], la_disabled = False\<rparr>"

record legacySearchPage =
  lp_totalCount :: int
  lp_accounts :: "legacyServiceAccount list"

record legacyToken =
  lt_id :: int
  lt_name :: string
  lt_created :: time
  lt_expiration :: "time option"
  lt_lastUsed :: "time option"
  lt_hasExpired :: bool

definition zero_legacy_token :: legacyToken where
  "zero_legacy_token = \<lparr>lt_id = 0, lt_name = [], lt_created = zeroTime, lt_expiration = None,
     lt_lastUsed = None, lt_hasExpired = False\<rparr>"

definition dec_legacy_account :: "legacyServiceAccount decoder" where
  "dec_legacy_account = dec_struct
     [field ''id'' dec_int64 la_id (\<lambda>x. la_id_update (\<lambda>_. x)),
      field ''name'' dec_string la_name (\<lambda>x. la_name_update (\<lambda>_. x)),
      field ''role'' dec_string la_role (\<lambda>x. la_role_update (\<lambda>_. x)),
      field ''isDisabled'' dec_bool la_disabled (\<lambda>x. la_disabled_update (\<lambda>_. x))]"

definition dec_search_page :: "legacySearchPage decoder" where
  "dec_search_page = dec_struct
     [field ''totalCount'' dec_int64 lp_totalCount (\<lambda>x. lp_totalCount_update (\<lambda>_. x)),
      field ''serviceAccounts'' (dec_list zero_legacy_account dec_legacy_account) lp_accounts
        (\<lambda>x. lp_accounts_update (\<lambda>_. x))]"

definition zero_search_page :: legacySearchPage where
  "zero_search_page = \<lparr>lp_totalCount = 0, lp_accounts = []\<rparr>"

definition dec_legacy_token :: "legacyToken decoder" where
  "dec_legacy_token = dec_struct
     [field ''id'' dec_int64 lt_id (\<lambda>x. lt_id_update (\<lambda>_. x)),
      field ''name'' dec_string lt_name (\<lambda>x. lt_name_update (\<lambda>_. x)),
      field ''created'' dec_time lt_created (\<lambda>x. lt_created_update (\<lambda>_. x)),
      field ''expiration'' (dec_option zeroTime dec_time) lt_expiration (\<lambda>x. lt_expiration_update (\<lambda>_. x)),
      field ''lastUsedAt'' (dec_option zeroTime dec_time) lt_lastUsed (\<lambda>x. lt_lastUsed_update (\<lambda>_. x)),
      field ''hasExpired'' dec_bool lt_hasExpired (\<lambda>x. lt_hasExpired_update (\<lambda>_. x))]"

section \<open>Identifiers\<close>

definition normalizeLegacyServiceAccount :: "legacyServiceAccount \<Rightarrow> error + serviceAccount" where
  "normalizeLegacyServiceAccount wire =
     (if la_id wire \<le> 0 then Inl (Msg ''grafana returned an invalid legacy service account ID'')
      else Inr (zero_account\<lparr>sa_name := itoa (la_id wire), sa_title := la_name wire,
                 sa_role := la_role wire, sa_disabled := la_disabled wire\<rparr>))"

definition legacyNumericID :: "string \<Rightarrow> string \<Rightarrow> error + string" where
  "legacyNumericID kind raw =
     (case parseInt64 raw of
        None \<Rightarrow> Inl (Msg (''invalid legacy Grafana '' @ kind @ '' ID''))
      | Some i \<Rightarrow> if i \<le> 0 then Inl (Msg (''invalid legacy Grafana '' @ kind @ '' ID''))
                  else Inr (itoa i))"

section \<open>Operations\<close>

definition search_path :: "(string \<times> string) list \<Rightarrow> string" where
  "search_path kvs = legacyServiceAccountsPath @ ''/search?'' @ encodeQuery kvs"

definition legacyReady :: "grafana \<Rightarrow> (error option) io" where
  "legacyReady g = do {
     r \<leftarrow> grafana_do g GET (search_path [(''page'', ''1''), (''perpage'', ''1'')]) None
            (Some dec_search_page) zero_search_page;
     ret (case r of Inl e \<Rightarrow> Some (Wrap ''grafana legacy service account API is unavailable: '' e [])
                  | Inr _ \<Rightarrow> None)
   }"

fun scan_legacy ::
  "string \<Rightarrow> legacyServiceAccount list \<Rightarrow> serviceAccount option \<Rightarrow> error + serviceAccount option" where
  "scan_legacy title [] found = Inr found"
| "scan_legacy title (wire # rest) found =
     (if la_name wire \<noteq> title then scan_legacy title rest found
      else if found \<noteq> None then Inl (duplicate_title title)
      else (case normalizeLegacyServiceAccount wire of Inl e \<Rightarrow> Inl e
            | Inr sa \<Rightarrow> scan_legacy title rest (Some sa)))"

text \<open>\<open>left\<close> is the number of pages still allowed of the loop's 10000.\<close>

fun legacy_find_loop ::
  "nat \<Rightarrow> grafana \<Rightarrow> string \<Rightarrow> nat \<Rightarrow> int \<Rightarrow> serviceAccount option \<Rightarrow> (error + serviceAccount option) io" where
  "legacy_find_loop 0 g title pageNumber seen found =
     ret (Inl (Msg ''grafana legacy service account pagination exceeded its limit''))"
| "legacy_find_loop (Suc left) g title pageNumber seen found = do {
     r \<leftarrow> grafana_do g GET
            (search_path [(''page'', itoa (int pageNumber)), (''perpage'', ''100''), (''query'', title)])
            None (Some dec_search_page) zero_search_page;
     (case r of Inl e \<Rightarrow> ret (Inl e)
      | Inr page \<Rightarrow>
          if lp_totalCount page < 0 then
            ret (Inl (Msg ''grafana returned an invalid legacy service account count''))
          else (case scan_legacy title (lp_accounts page) found of Inl e \<Rightarrow> ret (Inl e)
            | Inr found' \<Rightarrow>
                let n = int (length (lp_accounts page)) in
                if n < 100 \<or> seen + n \<ge> lp_totalCount page then ret (Inr found')
                else legacy_find_loop left g title (Suc pageNumber) (seen + n) found'))
   }"

definition legacyFindServiceAccount :: "grafana \<Rightarrow> string \<Rightarrow> (error + serviceAccount option) io" where
  "legacyFindServiceAccount g title = legacy_find_loop 10000 g title 1 0 None"

definition legacyCreateServiceAccount :: "grafana \<Rightarrow> string \<Rightarrow> (error + serviceAccount) io" where
  "legacyCreateServiceAccount g title = do {
     r \<leftarrow> grafana_do g POST legacyServiceAccountsPath
            (Some (JObj [(''name'', JStr title), (''role'', JStr ''Viewer''), (''isDisabled'', JBool False)]))
            (Some dec_legacy_account) zero_legacy_account;
     ret (case r of Inl e \<Rightarrow> Inl e | Inr wire \<Rightarrow> normalizeLegacyServiceAccount wire)
   }"

definition legacyDeleteServiceAccount :: "grafana \<Rightarrow> string \<Rightarrow> (error + unit) io" where
  "legacyDeleteServiceAccount g serviceAccountID =
     (case legacyNumericID ''service account'' serviceAccountID of Inl e \<Rightarrow> ret (Inl e)
      | Inr i \<Rightarrow> grafana_do g DELETE (legacyServiceAccountsPath @ ''/'' @ i) None None ())"

fun convert_legacy :: "legacyToken list \<Rightarrow> (error + saToken list) io" where
  "convert_legacy [] = ret (Inr [])"
| "convert_legacy (t # rest) =
     (if lt_id t \<le> 0 then ret (Inl (Msg ''grafana returned an invalid legacy service account token ID''))
      else do {
        expired \<leftarrow> (if lt_hasExpired t then ret True
                    else case lt_expiration t of None \<Rightarrow> ret False
                         | Some e \<Rightarrow> do { now \<leftarrow> time_now; ret (\<not> e > now) });
        r \<leftarrow> convert_legacy rest;
        ret (case r of Inl e \<Rightarrow> Inl e
             | Inr ts \<Rightarrow> Inr (\<lparr>tk_id = itoa (lt_id t), tk_title = lt_name t, tk_revoked = False,
                 tk_created = lt_created t, tk_expiration = lt_expiration t,
                 tk_lastUsed = lt_lastUsed t, tk_hasExpired = expired\<rparr> # ts))
      })"

definition legacyTokensPath :: "string \<Rightarrow> string" where
  "legacyTokensPath i = legacyServiceAccountsPath @ ''/'' @ i @ ''/tokens''"

definition legacyTokens :: "grafana \<Rightarrow> string \<Rightarrow> (error + saToken list) io" where
  "legacyTokens g serviceAccountID =
     (case legacyNumericID ''service account'' serviceAccountID of Inl e \<Rightarrow> ret (Inl e)
      | Inr i \<Rightarrow> do {
          r \<leftarrow> grafana_do g GET (legacyTokensPath i) None
                 (Some (dec_list zero_legacy_token dec_legacy_token)) [];
          (case r of Inl e \<Rightarrow> ret (Inl e) | Inr wire \<Rightarrow> convert_legacy wire)
        })"

definition legacyDeleteToken :: "grafana \<Rightarrow> string \<Rightarrow> string \<Rightarrow> (error + unit) io" where
  "legacyDeleteToken g serviceAccountID tokenID =
     (case legacyNumericID ''service account'' serviceAccountID of Inl e \<Rightarrow> ret (Inl e)
      | Inr saID \<Rightarrow>
          (case legacyNumericID ''service account token'' tokenID of Inl e \<Rightarrow> ret (Inl e)
           | Inr i \<Rightarrow> grafana_do g DELETE (legacyTokensPath saID @ ''/'' @ i) None None ()))"

text \<open>
  The identifier of an undelivered token is unknown, so the token is looked up by its name,
  which must be held by exactly one token.
\<close>

definition legacyCleanupUndeliveredToken :: "grafana \<Rightarrow> string \<Rightarrow> string \<Rightarrow> (error option) io" where
  "legacyCleanupUndeliveredToken g serviceAccountID tkName = do {
     r \<leftarrow> legacyTokens g serviceAccountID;
     (case r of Inl e \<Rightarrow> ret (Some (WrapTwo TokenReconciliation e))
      | Inr tokens \<Rightarrow>
          let matches = filter (\<lambda>t. tk_title t = tkName) tokens in
          if length matches \<noteq> 1 then
            ret (Some (Wrap [] TokenReconciliation
              ('': found '' @ itoa (int (length matches)) @ '' legacy tokens with the requested name'')))
          else do {
            d \<leftarrow> legacyDeleteToken g serviceAccountID (tk_id (hd matches));
            ret (reconciliation_error d)
          })
   }"

record legacyTokenReply =
  lr_id :: int
  lr_name :: string
  lr_key :: string

definition dec_legacy_reply :: "legacyTokenReply decoder" where
  "dec_legacy_reply = dec_struct
     [field ''id'' dec_int64 lr_id (\<lambda>x. lr_id_update (\<lambda>_. x)),
      field ''name'' dec_string lr_name (\<lambda>x. lr_name_update (\<lambda>_. x)),
      field ''key'' dec_string lr_key (\<lambda>x. lr_key_update (\<lambda>_. x))]"

definition zero_legacy_reply :: legacyTokenReply where
  "zero_legacy_reply = \<lparr>lr_id = 0, lr_name = [], lr_key = []\<rparr>"

definition legacyNewToken :: "grafana \<Rightarrow> string \<Rightarrow> string \<Rightarrow> duration \<Rightarrow> (error + issuedToken) io" where
  "legacyNewToken g serviceAccountID tkName ttl =
     (case legacyNumericID ''service account'' serviceAccountID of Inl e \<Rightarrow> ret (Inl e)
      | Inr saID \<Rightarrow> do {
          r \<leftarrow> grafana_do g POST (legacyTokensPath saID)
                 (Some (JObj [(''name'', JStr tkName), (''secondsToLive'', JInt (truncDiv ttl second))]))
                 (Some dec_legacy_reply) zero_legacy_reply;
          (case r of
             Inl e \<Rightarrow>
               if client_error e then ret (Inl e)
               else do { c \<leftarrow> legacyCleanupUndeliveredToken g saID tkName; ret (Inl (join_cleanup e c)) }
           | Inr out \<Rightarrow>
               if lr_key out = [] then
                 do { c \<leftarrow> legacyCleanupUndeliveredToken g saID tkName;
                      ret (Inl (join_cleanup empty_token_error c)) }
               else if lr_name out \<noteq> tkName then
                 do { c \<leftarrow> legacyCleanupUndeliveredToken g saID tkName;
                      ret (Inl (join_cleanup token_name_error c)) }
               else do {
                 created \<leftarrow> time_now;
                 ret (Inr \<lparr>it_secret = lr_key out, it_name = tkName, it_created = created,
                          it_expires = Some (created + ttl)\<rparr>)
               })
        })"

section \<open>Facts\<close>

lemma legacyNumericID_canonical:
  assumes "legacyNumericID kind raw = Inr i"
  shows "\<exists>n. parseInt64 raw = Some n \<and> 0 < n \<and> i = itoa n \<and> list_all is_digit i \<and> legacyNumericID kind i = Inr i"
proof -
  from assms obtain n where n: "parseInt64 raw = Some n" "0 < n" "i = itoa n"
    by (auto simp: legacyNumericID_def split: option.splits if_splits)
  then have "parseInt64 i = Some n"
    using parseInt64_range parseInt64_formatInt by simp
  with n show ?thesis
    by (auto simp: legacyNumericID_def intro: itoa_nonneg_digits)
qed

lemma frame_legacy_find_loop: "frame is_get (legacy_find_loop n g title p seen found)"
  by (induction n arbitrary: p seen found) (auto intro!: frame_intros simp: Let_def)

lemma frame_legacyFind: "frame is_get (legacyFindServiceAccount g title)"
  unfolding legacyFindServiceAccount_def by (rule frame_legacy_find_loop)

lemma frame_convert_legacy: "frame A (convert_legacy ts)"
  by (induction ts) (auto intro!: frame_intros)

lemma frame_legacyTokens: "frame is_get (legacyTokens g sa)"
  unfolding legacyTokens_def by (intro frame_intros frame_convert_legacy)

end
