(* ===== verification/Traces.thy ===== *)
theory Traces
  imports GrafanaLegacy
begin

text \<open>
  Specifications of effectful code by the events it adds to the trace. \<open>yields P m\<close> says
  what result and which events a run of \<open>m\<close> can give, from every state and in every
  environment. \<open>sim st s m Q\<close> says that an abstract machine \<open>st\<close>, started in \<open>s\<close>, accepts the
  events of every run of \<open>m\<close> and that the result and the machine's final state satisfy \<open>Q\<close>:
  it is a Hoare triple over the state of the abstract machine, and it is how the operations are
  shown to refine the protocols they promise to follow.
\<close>

section \<open>Results and events\<close>

definition yields :: "('a \<Rightarrow> event list \<Rightarrow> bool) \<Rightarrow> 'a io \<Rightarrow> bool" where
  "yields P m \<longleftrightarrow>
     (\<forall>w. wp m (\<lambda>r w'. w_env w' = w_env w \<and> (\<exists>evs. w_trace w' = w_trace w @ evs \<and> P r evs)) w)"

lemma yields_run:
  "yields P m \<Longrightarrow> run_state m w = (r, w') \<Longrightarrow>
   w_env w' = w_env w \<and> (\<exists>evs. w_trace w' = w_trace w @ evs \<and> P r evs)"
  unfolding yields_def using wp_runD by fastforce

lemma yieldsD:
  "yields P m \<Longrightarrow> wp m (\<lambda>r w'. w_env w' = w_env w \<and> (\<exists>evs. w_trace w' = w_trace w @ evs \<and> P r evs)) w"
  by (simp add: yields_def)

lemma frame_yields: "frame A m \<longleftrightarrow> yields (\<lambda>_. list_all A) m"
  by (simp add: frame_def yields_def extends_def)

lemma yields_mono: "yields P m \<Longrightarrow> (\<And>r evs. P r evs \<Longrightarrow> Q r evs) \<Longrightarrow> yields Q m"
  unfolding yields_def by (blast intro: wp_mono)

lemma yields_return: "P x [] \<Longrightarrow> yields P (ret x)"
  by (simp add: yields_def wp_simps)

lemma yields_bind:
  assumes "yields P m" "\<And>x. yields (Q x) (f x)"
    and "\<And>x r es fs. P x es \<Longrightarrow> Q x r fs \<Longrightarrow> R r (es @ fs)"
  shows "yields R (m \<bind> f)"
  unfolding yields_def wp_bind
proof
  fix w :: world
  have "wp m (\<lambda>r w'. w_env w' = w_env w \<and> (\<exists>evs. w_trace w' = w_trace w @ evs \<and> P r evs)) w"
    using assms(1) by (simp add: yields_def)
  then show "wp m (\<lambda>a. wp (f a) (\<lambda>r w'. w_env w' = w_env w \<and> (\<exists>evs. w_trace w' = w_trace w @ evs \<and> R r evs))) w"
  proof (rule wp_mono)
    fix a and t :: world
    assume pre: "w_env t = w_env w \<and> (\<exists>evs. w_trace t = w_trace w @ evs \<and> P a evs)"
    have "wp (f a) (\<lambda>r w'. w_env w' = w_env t \<and> (\<exists>evs. w_trace w' = w_trace t @ evs \<and> Q a r evs)) t"
      using assms(2) by (simp add: yields_def)
    then show "wp (f a) (\<lambda>r w'. w_env w' = w_env w \<and> (\<exists>evs. w_trace w' = w_trace w @ evs \<and> R r evs)) t"
      by (rule wp_mono) (use pre assms(3) in auto)
  qed
qed

lemma wp_return_fun: "wp (ret x) Q = Q x"
  by (rule ext) (simp add: wp_simps)

lemma yields_map: "yields (\<lambda>x. P (f x)) m \<Longrightarrow> yields P (m \<bind> (\<lambda>x. ret (f x)))"
  by (simp add: yields_def wp_simps wp_return_fun)

lemma yields_do:
  assumes "\<And>rp. P (do_result method path out zero rp)
      [Http (grafana_request g method path (map_option marshal body)) rp]"
  shows "yields P (grafana_do g method path body out zero)"
  unfolding yields_def by (auto intro!: wp_grafana_do assms)

section \<open>Abstract machines\<close>

type_synonym 's machine = "'s \<Rightarrow> event \<Rightarrow> 's option"

fun accepts :: "'s machine \<Rightarrow> 's \<Rightarrow> event list \<Rightarrow> 's option" where
  "accepts st s [] = Some s"
| "accepts st s (e # es) = (case st s e of None \<Rightarrow> None | Some s' \<Rightarrow> accepts st s' es)"

lemma accepts_append:
  "accepts st s (es @ fs) = Option.bind (accepts st s es) (\<lambda>s'. accepts st s' fs)"
  by (induction st s es rule: accepts.induct) (auto split: option.splits)

lemma accepts_loop: "list_all A es \<Longrightarrow> (\<And>e. A e \<Longrightarrow> st s e = Some s) \<Longrightarrow> accepts st s es = Some s"
  by (induction es) auto

definition sim :: "'s machine \<Rightarrow> 's \<Rightarrow> 'a io \<Rightarrow> ('a \<Rightarrow> 's \<Rightarrow> bool) \<Rightarrow> bool" where
  "sim st s m Q \<longleftrightarrow> yields (\<lambda>r evs. \<exists>s'. accepts st s evs = Some s' \<and> Q r s') m"

lemma sim_run:
  "sim st s m Q \<Longrightarrow> run_state m w = (r, w') \<Longrightarrow>
   \<exists>evs s'. w_trace w' = w_trace w @ evs \<and> accepts st s evs = Some s' \<and> Q r s'"
  unfolding sim_def by (drule (1) yields_run) blast

lemma sim_mono: "sim st s m P \<Longrightarrow> (\<And>r s'. P r s' \<Longrightarrow> Q r s') \<Longrightarrow> sim st s m Q"
  unfolding sim_def by (erule yields_mono) blast

lemma accepts_single [simp]: "accepts st s [e] = st s e"
  by (simp split: option.splits)

lemma sim_yields:
  assumes "yields P m" and "\<And>r evs. P r evs \<Longrightarrow> \<exists>s'. accepts st s evs = Some s' \<and> Q r s'"
  shows "sim st s m Q"
  unfolding sim_def using assms(1) by (rule yields_mono) (rule assms(2))

lemma sim_frame:
  assumes "frame A m" "\<And>e. A e \<Longrightarrow> st s e = Some s" "\<And>r. Q r s"
  shows "sim st s m Q"
proof (rule sim_yields [OF assms(1) [unfolded frame_yields]])
  fix r evs
  assume "list_all A evs"
  then have "accepts st s evs = Some s" by (rule accepts_loop) (rule assms(2))
  with assms(3) show "\<exists>s'. accepts st s evs = Some s' \<and> Q r s'" by blast
qed

lemma sim_bind:
  assumes "sim st s m P" "\<And>x s'. P x s' \<Longrightarrow> sim st s' (f x) Q"
  shows "sim st s (m \<bind> f) Q"
  unfolding sim_def yields_def wp_bind
proof
  fix w :: world
  have "wp m (\<lambda>r w'. w_env w' = w_env w \<and> (\<exists>evs. w_trace w' = w_trace w @ evs \<and>
          (\<exists>s'. accepts st s evs = Some s' \<and> P r s'))) w"
    using assms(1) by (simp add: sim_def yields_def)
  then show "wp m (\<lambda>a. wp (f a) (\<lambda>r w'. w_env w' = w_env w \<and> (\<exists>evs. w_trace w' = w_trace w @ evs \<and>
          (\<exists>s'. accepts st s evs = Some s' \<and> Q r s')))) w"
  proof (rule wp_mono)
    fix a and t :: world
    assume "w_env t = w_env w \<and> (\<exists>evs. w_trace t = w_trace w @ evs \<and>
          (\<exists>s'. accepts st s evs = Some s' \<and> P a s'))"
    then obtain evs s' where pre: "w_env t = w_env w" "w_trace t = w_trace w @ evs"
        "accepts st s evs = Some s'" "P a s'" by blast
    have "wp (f a) (\<lambda>r w'. w_env w' = w_env t \<and> (\<exists>evs. w_trace w' = w_trace t @ evs \<and>
            (\<exists>s''. accepts st s' evs = Some s'' \<and> Q r s''))) t"
      using assms(2) [OF pre(4)] by (simp add: sim_def yields_def)
    then show "wp (f a) (\<lambda>r w'. w_env w' = w_env w \<and> (\<exists>evs. w_trace w' = w_trace w @ evs \<and>
            (\<exists>s'. accepts st s evs = Some s' \<and> Q r s'))) t"
      by (rule wp_mono) (use pre in \<open>auto simp: accepts_append\<close>)
  qed
qed

named_theorems sim_intros \<open>rules that follow the structure of the code\<close>

lemma sim_return [sim_intros]: "Q x s \<Longrightarrow> sim st s (ret x) Q"
  by (simp add: sim_def yields_return)

lemma sim_quiet [sim_intros]:
  "(\<And>t. Q t s) \<Longrightarrow> sim st s time_now Q"
  by (simp add: sim_def yields_def wp_simps)

lemma sim_random [sim_intros]:
  "(\<And>e. Q1 (Inl e) s) \<Longrightarrow> (\<And>b. length b = n \<Longrightarrow> Q1 (Inr b) s) \<Longrightarrow> sim st s (random_bytes n) Q1"
  by (simp add: sim_def yields_def wp_simps split: option.splits)

lemma sim_ask [sim_intros]: "(\<And>x. Q2 x s) \<Longrightarrow> sim st s (ask h) Q2"
  by (simp add: sim_def yields_def wp_simps)

lemma sim_read_file [sim_intros]: "(\<And>x. Q8 x s) \<Longrightarrow> sim st s (os_readFile p) Q8"
  by (simp add: sim_def yields_def wp_simps)

lemma sim_metrics [sim_intros]: "Q3 () s \<Longrightarrow> sim st s (update_metrics h) Q3"
  by (simp add: sim_def yields_def wp_simps)

lemma sim_if [sim_intros]:
  "(b \<Longrightarrow> sim st s m Q) \<Longrightarrow> (\<not> b \<Longrightarrow> sim st s n Q) \<Longrightarrow> sim st s (if b then m else n) Q"
  by simp

lemma sim_case_sum [sim_intros]:
  "(\<And>e. r = Inl e \<Longrightarrow> sim st s (m e) Q) \<Longrightarrow> (\<And>v. r = Inr v \<Longrightarrow> sim st s (n v) Q) \<Longrightarrow>
   sim st s (case r of Inl e \<Rightarrow> m e | Inr v \<Rightarrow> n v) Q"
  by (simp split: sum.splits)

lemma sim_case_option [sim_intros]:
  "(r = None \<Longrightarrow> sim st s m Q) \<Longrightarrow> (\<And>v. r = Some v \<Longrightarrow> sim st s (n v) Q) \<Longrightarrow>
   sim st s (case r of None \<Rightarrow> m | Some v \<Rightarrow> n v) Q"
  by (simp split: option.splits)

lemma sim_Let [sim_intros]: "sim st s (m e) Q \<Longrightarrow> sim st s (let x = e in m x) Q"
  by simp

lemma sim_event:
  "st s e = Some s' \<Longrightarrow> Q4 () s' \<Longrightarrow> sim st s (emit_event e) Q4"
  by (simp add: sim_def yields_def wp_simps del: accepts.simps(2))

lemma sim_release:
  "st s LockReleased = Some s' \<Longrightarrow> Q5 () s' \<Longrightarrow> sim st s release_lock Q5"
  by (simp add: sim_def yields_def wp_simps del: accepts.simps(2))

lemma sim_check:
  "(\<And>r. \<exists>s'. st s (Checked r) = Some s' \<and> Q6 r s') \<Longrightarrow> sim st s check_lock Q6"
  by (simp add: sim_def yields_def wp_simps del: accepts.simps(2))

lemma sim_acquire:
  "(\<exists>s'. st s (LockAcquired key) = Some s' \<and> Q7 None s') \<Longrightarrow>
   (\<And>e. \<exists>s'. st s (LockFailed key e) = Some s' \<and> Q7 (Some e) s') \<Longrightarrow> sim st s (acquire_lock key) Q7"
  by (auto simp: sim_def yields_def wp_simps simp del: accepts.simps(2) split: option.splits)

section \<open>Results alone\<close>

definition returns :: "('a \<Rightarrow> bool) \<Rightarrow> 'a io \<Rightarrow> bool" where
  "returns P m \<longleftrightarrow> (\<forall>w. wp m (\<lambda>r _. P r) w)"

named_theorems returns_intros \<open>rules that follow the structure of the code\<close>

lemma returns_run: "returns P m \<Longrightarrow> run_state m w = (r, w') \<Longrightarrow> P r"
  unfolding returns_def by (metis wp_runD)

lemma returns_mono: "returns P m \<Longrightarrow> (\<And>r. P r \<Longrightarrow> Q r) \<Longrightarrow> returns Q m"
  unfolding returns_def by (meson wp_mono)

lemma returns_return [returns_intros]: "P x \<Longrightarrow> returns P (ret x)"
  by (simp add: returns_def wp_simps)

lemma returns_bind_with:
  assumes "returns P m" "\<And>x. P x \<Longrightarrow> returns Q (f x)"
  shows "returns Q (m \<bind> f)"
  unfolding returns_def wp_bind
proof
  fix w :: world
  have "wp m (\<lambda>r _. P r) w" using assms(1) by (simp add: returns_def)
  then show "wp m (\<lambda>a. wp (f a) (\<lambda>r _. Q r)) w"
    by (rule wp_mono) (use assms(2) in \<open>simp add: returns_def\<close>)
qed

lemma returns_bind: "(\<And>x. returns Q (f x)) \<Longrightarrow> returns Q (m \<bind> f)"
  by (rule returns_bind_with [where P = "\<lambda>_. True"]) (simp_all add: returns_def wp_trivial)

lemma returns_if [returns_intros]:
  "(b \<Longrightarrow> returns P m) \<Longrightarrow> (\<not> b \<Longrightarrow> returns P n) \<Longrightarrow> returns P (if b then m else n)"
  by simp

lemma returns_case_sum [returns_intros]:
  "(\<And>e. r = Inl e \<Longrightarrow> returns P (m e)) \<Longrightarrow> (\<And>v. r = Inr v \<Longrightarrow> returns P (n v)) \<Longrightarrow>
   returns P (case r of Inl e \<Rightarrow> m e | Inr v \<Rightarrow> n v)"
  by (simp split: sum.splits)

lemma returns_case_option [returns_intros]:
  "(r = None \<Longrightarrow> returns P m) \<Longrightarrow> (\<And>v. r = Some v \<Longrightarrow> returns P (n v)) \<Longrightarrow>
   returns P (case r of None \<Rightarrow> m | Some v \<Rightarrow> n v)"
  by (simp split: option.splits)

lemma returns_random: "returns (\<lambda>r. case r of Inl _ \<Rightarrow> True | Inr b \<Rightarrow> length b = n) (random_bytes n)"
  by (simp add: returns_def wp_simps split: option.splits)

end
