(* ===== verification/Grafana.thy ===== *)
theory Grafana
  imports Traces
begin

text \<open>
  The methods of \<open>internal/server/grafana.go\<close> as their callers see them: each one takes the IAM
  or the legacy branch by the mode. \<open>grafana_client\<close> is the contract the rest of the program
  relies on, whichever branch is taken; it is interpreted here on the methods themselves.
\<close>

section \<open>Dispatch\<close>

definition findServiceAccount :: "grafana \<Rightarrow> string \<Rightarrow> (error + serviceAccount option) io" where
  "findServiceAccount g title =
     (if g_mode g \<noteq> grafanaAPIModeIAM then legacyFindServiceAccount g title else iamFindServiceAccount g title)"

definition createServiceAccount :: "grafana \<Rightarrow> string \<Rightarrow> (error + serviceAccount) io" where
  "createServiceAccount g title =
     (if g_mode g \<noteq> grafanaAPIModeIAM then legacyCreateServiceAccount g title else iamCreateServiceAccount g title)"

definition deleteServiceAccount :: "grafana \<Rightarrow> string \<Rightarrow> (error + unit) io" where
  "deleteServiceAccount g name =
     (if g_mode g \<noteq> grafanaAPIModeIAM then legacyDeleteServiceAccount g name else iamDeleteServiceAccount g name)"

definition tokens :: "grafana \<Rightarrow> string \<Rightarrow> (error + saToken list) io" where
  "tokens g saName = (if g_mode g \<noteq> grafanaAPIModeIAM then legacyTokens g saName else iamTokens g saName)"

definition deleteToken :: "grafana \<Rightarrow> string \<Rightarrow> string \<Rightarrow> (error + unit) io" where
  "deleteToken g saName tokenID =
     (if g_mode g \<noteq> grafanaAPIModeIAM then legacyDeleteToken g saName tokenID else iamDeleteToken g saName tokenID)"

definition newToken :: "grafana \<Rightarrow> string \<Rightarrow> string \<Rightarrow> duration \<Rightarrow> (error + issuedToken) io" where
  "newToken g saName tkName ttl =
     (if g_mode g \<noteq> grafanaAPIModeIAM then legacyNewToken g saName tkName ttl else iamNewToken g saName tkName ttl)"

definition cleanupUndeliveredToken :: "grafana \<Rightarrow> string \<Rightarrow> string \<Rightarrow> (error option) io" where
  "cleanupUndeliveredToken g saName tkName =
     (if g_mode g \<noteq> grafanaAPIModeIAM then legacyCleanupUndeliveredToken g saName tkName
      else iamCleanupUndeliveredToken g saName tkName)"

section \<open>Readiness\<close>

record apiResource =
  rs_name :: string
  rs_verbs :: "string list"

definition zero_resource :: apiResource where
  "zero_resource = \<lparr>rs_name = [], rs_verbs = []\<rparr>"

definition dec_resource :: "apiResource decoder" where
  "dec_resource = dec_struct
     [field ''name'' dec_string rs_name (\<lambda>x. rs_name_update (\<lambda>_. x)),
      field ''verbs'' (dec_list [] dec_string) rs_verbs (\<lambda>x. rs_verbs_update (\<lambda>_. x))]"

definition dec_discovery :: "apiResource list decoder" where
  "dec_discovery = dec_struct
     [field ''resources'' (dec_list zero_resource dec_resource) (\<lambda>rs. rs) (\<lambda>x _. x)]"

definition dec_items :: "serviceAccount list decoder" where
  "dec_items = dec_struct
     [field ''items'' (dec_list zero_account dec_account) (\<lambda>sas. sas) (\<lambda>x _. x)]"

definition required_verbs :: "string \<Rightarrow> string list" where
  "required_verbs name =
     (if name = ''serviceaccounts'' then [''list'', ''create'', ''delete'']
      else if name = ''serviceaccounts/tokens'' then [''get'', ''create'', ''delete''] else [])"

definition required_resources :: "string list" where
  "required_resources = [''serviceaccounts'', ''serviceaccounts/tokens'']"

definition missing_verb :: "string list \<Rightarrow> apiResource \<Rightarrow> string option" where
  "missing_verb verbs resource = List.find (\<lambda>verb. verb \<notin> set (rs_verbs resource)) verbs"

text \<open>One required resource: the first missing verb of the first matching entry, then its presence.\<close>

fun scan_resources :: "string \<Rightarrow> string list \<Rightarrow> apiResource list \<Rightarrow> bool \<Rightarrow> error option" where
  "scan_resources name verbs [] found =
     (if found then None
      else Some (Msg (''grafana IAM resource '' @ name @ '' is unavailable; enable kubernetesServiceAccountsApi and kubernetesServiceAccountTokensApi'')))"
| "scan_resources name verbs (resource # rest) found =
     (if rs_name resource \<noteq> name then scan_resources name verbs rest found
      else (case missing_verb verbs resource of
              Some verb \<Rightarrow> Some (Msg (''grafana IAM resource '' @ name @ '' lacks '' @ verb @ '' capability''))
            | None \<Rightarrow> scan_resources name verbs rest True))"

text \<open>The loop over the map literal takes its two keys in the order \<open>map_order\<close> gives.\<close>

fun check_resources :: "string list \<Rightarrow> apiResource list \<Rightarrow> error option" where
  "check_resources [] resources = None"
| "check_resources (name # names) resources =
     (case scan_resources name (required_verbs name) resources False of
        Some e \<Rightarrow> Some e | None \<Rightarrow> check_resources names resources)"

definition sum_error :: "error + 'a \<Rightarrow> error option" where
  "sum_error r = (case r of Inl e \<Rightarrow> Some e | Inr _ \<Rightarrow> None)"

definition grafana_ready :: "grafana \<Rightarrow> (error option) io" where
  "grafana_ready g =
     (if g_mode g \<noteq> grafanaAPIModeIAM then legacyReady g
      else do {
        r \<leftarrow> grafana_do g GET (''/apis/'' @ iamAPIVersion) None (Some dec_discovery) [];
        (case r of
           Inl e \<Rightarrow>
             if as_api_error e = Some 404 then
               ret (Some (Msg ''grafana IAM API is unavailable; enable kubernetesServiceAccountsApi and kubernetesServiceAccountTokensApi''))
             else ret (Some e)
         | Inr resources \<Rightarrow> do {
             order \<leftarrow> ask map_order;
             (case check_resources (order required_resources) resources of
                Some e \<Rightarrow> ret (Some e)
              | None \<Rightarrow> do {
                  d \<leftarrow> grafana_do g GET (collectionPath g @ ''?limit=1'') None (Some dec_items) [];
                  ret (sum_error d)
                })
           })
      })"

definition offers :: "apiResource list \<Rightarrow> string \<Rightarrow> bool" where
  "offers resources name \<longleftrightarrow>
     (\<exists>r \<in> set resources. rs_name r = name) \<and>
     (\<forall>r \<in> set resources. rs_name r = name \<longrightarrow> set (required_verbs name) \<subseteq> set (rs_verbs r))"

lemma missing_verb_None: "missing_verb verbs r = None \<longleftrightarrow> set verbs \<subseteq> set (rs_verbs r)"
  by (auto simp: missing_verb_def find_None_iff)

lemma scan_resources_None:
  "scan_resources name verbs rs found = None \<longleftrightarrow>
     (found \<or> (\<exists>r \<in> set rs. rs_name r = name)) \<and>
     (\<forall>r \<in> set rs. rs_name r = name \<longrightarrow> set verbs \<subseteq> set (rs_verbs r))"
proof (induction rs arbitrary: found)
  case (Cons r rs)
  then show ?case
    by (cases "missing_verb verbs r") (auto simp: missing_verb_None [symmetric] simp del: not_None_eq)
qed simp

lemma check_resources_None: "check_resources names rs = None \<longleftrightarrow> (\<forall>n \<in> set names. offers rs n)"
proof (induction names)
  case (Cons n names)
  have "scan_resources n (required_verbs n) rs False = None \<longleftrightarrow> offers rs n"
    by (simp add: scan_resources_None offers_def)
  with Cons show ?case by (cases "scan_resources n (required_verbs n) rs False") auto
qed simp

section \<open>Shapes of the events\<close>

text \<open>
  The requests the callers reason about. A token is created by a POST on a path that ends in
  \<open>/tokens\<close>, an account by any other POST.
\<close>

definition is_delete :: "event \<Rightarrow> bool" where
  "is_delete e \<longleftrightarrow> (case e of Http rq _ \<Rightarrow> rq_method rq = DELETE | _ \<Rightarrow> False)"

definition is_token_path :: "string \<Rightarrow> bool" where
  "is_token_path p \<longleftrightarrow> hasSuffix p ''/tokens''"

definition cleanup_shape :: "event list \<Rightarrow> bool" where
  "cleanup_shape evs \<longleftrightarrow> (\<exists>gs. list_all is_get gs \<and> (evs = gs \<or> (\<exists>e. evs = gs @ [e] \<and> is_delete e)))"

definition create_shape :: "error + 'a \<Rightarrow> event list \<Rightarrow> bool" where
  "create_shape r evs \<longleftrightarrow>
     (\<exists>rq rp. evs = [Http rq rp] \<and> rq_method rq = POST \<and> \<not> is_token_path (rq_path rq) \<and>
              (\<not> isl r \<longrightarrow> reply_ok rp))"

definition delete_shape :: "error + 'a \<Rightarrow> event list \<Rightarrow> bool" where
  "delete_shape r evs \<longleftrightarrow>
     (isl r \<and> evs = []) \<or>
     (\<exists>rq rp. evs = [Http rq rp] \<and> rq_method rq = DELETE \<and> (\<not> isl r \<longrightarrow> reply_ok rp))"

definition new_token_shape :: "error + 'a \<Rightarrow> event list \<Rightarrow> bool" where
  "new_token_shape r evs \<longleftrightarrow>
     (isl r \<and> evs = []) \<or>
     (\<exists>rq rp rest. evs = Http rq rp # rest \<and> rq_method rq = POST \<and> is_token_path (rq_path rq) \<and>
        cleanup_shape rest \<and> (\<not> isl r \<longrightarrow> reply_ok rp \<and> rest = []))"

lemma is_delete_Http [simp]: "is_delete (Http rq r) \<longleftrightarrow> rq_method rq = DELETE"
  by (simp add: is_delete_def)

lemma cleanup_shape_Nil [simp]: "cleanup_shape []"
  by (auto simp: cleanup_shape_def)

lemma cleanup_shape_gets: "list_all is_get gs \<Longrightarrow> cleanup_shape gs"
  by (auto simp: cleanup_shape_def)

lemma cleanup_shape_delete: "list_all is_get gs \<Longrightarrow> delete_shape r evs \<Longrightarrow> cleanup_shape (gs @ evs)"
  by (auto simp: cleanup_shape_def delete_shape_def)

section \<open>The operations have these shapes\<close>

lemma as_legacy_or_iam:
  "is_token_path (tokensPath g sa)" "is_token_path (legacyTokensPath i)"
  by (simp_all add: is_token_path_def tokensPath_def legacyTokensPath_def hasSuffix_iff)

lemma account_paths:
  "\<not> is_token_path (collectionPath g)" "\<not> is_token_path legacyServiceAccountsPath"
  by (simp_all add: is_token_path_def collectionPath_def legacyServiceAccountsPath_def hasSuffix_def)

lemma do_result_isl: "\<not> isl (do_result me p out zero rp) \<Longrightarrow> reply_ok rp"
  by (cases "do_result me p out zero rp") (auto dest: do_result_ok)

lemma yields_delete_iam: "yields delete_shape (iamDeleteToken g sa i)"
  unfolding iamDeleteToken_def
  by (intro yields_map yields_do) (auto simp: delete_shape_def isl_map_sum dest: do_result_isl)

lemma yields_delete_legacy: "yields delete_shape (legacyDeleteToken g sa i)"
  unfolding legacyDeleteToken_def
  by (auto intro!: yields_do yields_return simp: delete_shape_def dest: do_result_isl split: sum.splits)

lemma yields_delete: "yields delete_shape (deleteToken g sa i)"
  by (simp add: deleteToken_def yields_delete_iam yields_delete_legacy)

lemma yields_delete_account: "yields delete_shape (deleteServiceAccount g name)"
  unfolding deleteServiceAccount_def legacyDeleteServiceAccount_def iamDeleteServiceAccount_def
  by (auto intro!: yields_do yields_return simp: delete_shape_def dest: do_result_isl split: sum.splits)

lemma yields_create: "yields create_shape (createServiceAccount g title)"
proof (cases "g_mode g = grafanaAPIModeIAM")
  case True
  have "yields create_shape (iamCreateServiceAccount g title)"
    unfolding iamCreateServiceAccount_def yields_def
    by (auto simp: wp_simps create_shape_def account_paths intro!: wp_grafana_do dest: do_result_isl)
  with True show ?thesis by (simp add: createServiceAccount_def)
next
  case False
  have "yields create_shape (legacyCreateServiceAccount g title)"
    unfolding legacyCreateServiceAccount_def yields_def
    by (auto simp: wp_simps create_shape_def account_paths intro!: wp_grafana_do dest: do_result_ok
        split: sum.splits)
  with False show ?thesis by (simp add: createServiceAccount_def)
qed

lemma yields_cleanup_iam: "yields (\<lambda>_. cleanup_shape) (iamCleanupUndeliveredToken g sa n)"
  unfolding iamCleanupUndeliveredToken_def
  by (intro yields_map) (rule yields_mono [OF yields_delete_iam], auto dest: cleanup_shape_delete [of "[]", simplified])

lemma yields_cleanup_legacy: "yields (\<lambda>_. cleanup_shape) (legacyCleanupUndeliveredToken g sa n)"
  unfolding legacyCleanupUndeliveredToken_def
proof (rule yields_bind [OF frame_legacyTokens [unfolded frame_yields]])
  show "yields (\<lambda>_ evs. evs = [] \<or> (\<exists>r. delete_shape (r :: error + unit) evs)) (case x of
      Inl e \<Rightarrow> ret (Some (WrapTwo TokenReconciliation e))
    | Inr ts \<Rightarrow>
        let matches = filter (\<lambda>t. tk_title t = n) ts in
        if length matches \<noteq> 1 then
          ret (Some (Wrap [] TokenReconciliation
            ('': found '' @ itoa (int (length matches)) @ '' legacy tokens with the requested name'')))
        else legacyDeleteToken g sa (tk_id (hd matches)) \<bind> (\<lambda>d. ret (reconciliation_error d)))" for x
    by (auto split: sum.splits simp: Let_def intro!: yields_return yields_map
        intro: yields_mono [OF yields_delete_legacy])
qed (auto intro: cleanup_shape_gets cleanup_shape_delete)

lemma yields_cleanup: "yields (\<lambda>_. cleanup_shape) (cleanupUndeliveredToken g sa n)"
  by (simp add: cleanupUndeliveredToken_def yields_cleanup_iam yields_cleanup_legacy)

text \<open>What may follow the POST whose decoded reply is \<open>x\<close>.\<close>

definition after_post :: "error + 'a \<Rightarrow> error + 'b \<Rightarrow> event list \<Rightarrow> bool" where
  "after_post x r evs \<longleftrightarrow> cleanup_shape evs \<and> (\<not> isl r \<longrightarrow> \<not> isl x \<and> evs = [])"

lemma new_token_shape_post:
  "rq_method rq = POST \<Longrightarrow> is_token_path (rq_path rq) \<Longrightarrow> cleanup_shape fs \<Longrightarrow>
   (\<not> isl r \<Longrightarrow> reply_ok rp \<and> fs = []) \<Longrightarrow> new_token_shape r (Http rq rp # fs)"
  by (auto simp: new_token_shape_def)

text \<open>The common part of both branches: one POST, then a cleanup on each way of failing.\<close>

lemma yields_new_token_common:
  assumes path: "is_token_path path"
    and cont: "\<And>x. yields (after_post x) (f x)"
  shows "yields new_token_shape (grafana_do g POST path body out zero \<bind> f)"
proof (rule yields_bind)
  show "yields (\<lambda>x evs. \<exists>rq rp. evs = [Http rq rp] \<and> rq_method rq = POST \<and>
        is_token_path (rq_path rq) \<and> (\<not> isl x \<longrightarrow> reply_ok rp)) (grafana_do g POST path body out zero)"
    by (rule yields_do) (auto simp: path dest: do_result_isl)
  show "yields (after_post x) (f x)" for x by (rule cont)
qed (auto simp: after_post_def intro!: new_token_shape_post)

lemma yields_cleanup_failure:
  "yields (\<lambda>_. cleanup_shape) m \<Longrightarrow>
   yields (after_post x)
     (m \<bind> (\<lambda>c. ret (Inl (h c))))"
  by (rule yields_map) (auto simp: after_post_def intro: yields_mono)

lemma yields_success:
  "yields (after_post (Inr v))
     (time_now \<bind> (\<lambda>now. ret (Inr (k now))))"
  by (rule yields_map) (simp add: yields_def wp_simps after_post_def)

lemma yields_fail: "yields (after_post x) (ret (Inl e))"
  by (rule yields_return) (simp add: after_post_def)

lemma yields_new_iam: "yields new_token_shape (iamNewToken g sa n ttl)"
  unfolding iamNewToken_def
proof (rule yields_new_token_common [OF as_legacy_or_iam(1)])
  fix x :: "error + tokenReply"
  show "yields (after_post x) (case x of
        Inl e \<Rightarrow> if client_error e then ret (Inl e)
          else do { c \<leftarrow> iamCleanupUndeliveredToken g sa n; ret (Inl (join_cleanup e c)) }
      | Inr out \<Rightarrow> if tr_token out = []
          then do { c \<leftarrow> iamCleanupUndeliveredToken g sa n; ret (Inl (join_cleanup empty_token_error c)) }
          else if tr_name out \<noteq> n
          then do { c \<leftarrow> iamCleanupUndeliveredToken g sa n; ret (Inl (join_cleanup token_name_error c)) }
          else do { now \<leftarrow> time_now;
               ret (Inr \<lparr>it_secret = tr_token out, it_name = n, it_created = now,
                        it_expires = unixTime (tr_expires out)\<rparr>) })"
    by (cases x) (auto intro!: yields_cleanup_failure yields_cleanup_iam yields_success yields_fail)
qed

lemma yields_new_legacy: "yields new_token_shape (legacyNewToken g sa n ttl)"
proof (cases "legacyNumericID ''service account'' sa")
  case (Inl e)
  then show ?thesis by (simp add: legacyNewToken_def yields_return new_token_shape_def)
next
  case (Inr i)
  show ?thesis
    unfolding legacyNewToken_def Inr sum.case
  proof (rule yields_new_token_common [OF as_legacy_or_iam(2)])
    fix x :: "error + legacyTokenReply"
    show "yields (after_post x) (case x of
          Inl e \<Rightarrow> if client_error e then ret (Inl e)
            else do { c \<leftarrow> legacyCleanupUndeliveredToken g i n; ret (Inl (join_cleanup e c)) }
        | Inr out \<Rightarrow> if lr_key out = []
            then do { c \<leftarrow> legacyCleanupUndeliveredToken g i n; ret (Inl (join_cleanup empty_token_error c)) }
            else if lr_name out \<noteq> n
            then do { c \<leftarrow> legacyCleanupUndeliveredToken g i n; ret (Inl (join_cleanup token_name_error c)) }
            else do { created \<leftarrow> time_now;
                 ret (Inr \<lparr>it_secret = lr_key out, it_name = n, it_created = created,
                          it_expires = Some (created + ttl)\<rparr>) })"
      by (cases x) (auto intro!: yields_cleanup_failure yields_cleanup_legacy yields_success yields_fail)
  qed
qed

lemma yields_new: "yields new_token_shape (newToken g sa n ttl)"
  by (simp add: newToken_def yields_new_iam yields_new_legacy)

lemma frame_find: "frame is_get (findServiceAccount g title)"
  by (simp add: findServiceAccount_def frame_iamFind frame_legacyFind)

lemma frame_tokens: "frame is_get (tokens g sa)"
  by (simp add: tokens_def frame_iamTokens frame_legacyTokens)

lemma frame_ready: "frame is_get (grafana_ready g)"
  unfolding grafana_ready_def legacyReady_def by (intro frame_intros)

section \<open>The contract\<close>

text \<open>A reader of accounts and tokens never changes anything at Grafana.\<close>

locale account_reader =
  fixes find_account :: "string \<Rightarrow> (error + serviceAccount option) io"
    and list_tokens :: "string \<Rightarrow> (error + saToken list) io"
  assumes find_reads: "frame is_get (find_account title)"
    and list_reads: "frame is_get (list_tokens sa)"

text \<open>
  A client also creates and deletes. A deletion is at most one request; a token's creation is
  one POST, followed by a cleanup only when the creation is reported as failed.
\<close>

locale grafana_client = account_reader +
  fixes create_account :: "string \<Rightarrow> (error + serviceAccount) io"
    and delete_account :: "string \<Rightarrow> (error + unit) io"
    and delete_token :: "string \<Rightarrow> string \<Rightarrow> (error + unit) io"
    and new_token :: "string \<Rightarrow> string \<Rightarrow> duration \<Rightarrow> (error + issuedToken) io"
    and cleanup_token :: "string \<Rightarrow> string \<Rightarrow> (error option) io"
  assumes create_law: "yields create_shape (create_account title)"
    and delete_account_law: "yields delete_shape (delete_account sa)"
    and delete_token_law: "yields delete_shape (delete_token sa i)"
    and new_token_law: "yields new_token_shape (new_token sa n ttl)"
    and cleanup_law: "yields (\<lambda>_. cleanup_shape) (cleanup_token sa n)"

context account_reader
begin

lemma sim_find:
  "(\<And>e. is_get e \<Longrightarrow> st s e = Some s) \<Longrightarrow> (\<And>r. Q r s) \<Longrightarrow> sim st s (find_account title) Q"
  by (rule sim_frame [OF find_reads])

lemma sim_list:
  "(\<And>e. is_get e \<Longrightarrow> st s e = Some s) \<Longrightarrow> (\<And>r. Q r s) \<Longrightarrow> sim st s (list_tokens sa) Q"
  by (rule sim_frame [OF list_reads])

end

interpretation gc: grafana_client "findServiceAccount g" "tokens g" "createServiceAccount g"
    "deleteServiceAccount g" "deleteToken g" "newToken g" "cleanupUndeliveredToken g"
  for g :: grafana
  by unfold_locales
    (rule frame_find frame_tokens yields_create yields_delete_account yields_delete yields_new yields_cleanup)+

section \<open>Only the account asked for\<close>

lemma scan_accounts_titled:
  "scan_accounts title sas found = Inr (Some sa) \<Longrightarrow> sa_title sa = title \<or> found = Some sa"
  by (induction title sas found rule: scan_accounts.induct) (auto split: if_splits)

lemma returns_find_loop:
  "(case found of None \<Rightarrow> True | Some sa \<Rightarrow> sa_title sa = title) \<Longrightarrow>
   returns (\<lambda>r. case r of Inr (Some sa) \<Rightarrow> sa_title sa = title | _ \<Rightarrow> True) (find_loop n g title c seen found)"
proof (induction n arbitrary: c seen found)
  case (Suc n)
  have "case found' of None \<Rightarrow> True | Some sa \<Rightarrow> sa_title sa = title"
    if "scan_accounts title items found = Inr found'" for items found'
    using that Suc.prems scan_accounts_titled [of title items found] by (fastforce split: option.splits)
  then show ?case
    unfolding find_loop.simps
    by (intro returns_bind returns_intros Suc.IH) (auto split: option.splits)
qed (auto intro: returns_intros)

lemma scan_legacy_titled:
  "scan_legacy title ws found = Inr (Some sa) \<Longrightarrow> sa_title sa = title \<or> found = Some sa"
  by (induction title ws found rule: scan_legacy.induct)
    (auto simp: normalizeLegacyServiceAccount_def split: if_splits sum.splits)

lemma returns_legacy_find_loop:
  "(case found of None \<Rightarrow> True | Some sa \<Rightarrow> sa_title sa = title) \<Longrightarrow>
   returns (\<lambda>r. case r of Inr (Some sa) \<Rightarrow> sa_title sa = title | _ \<Rightarrow> True) (legacy_find_loop n g title p seen found)"
proof (induction n arbitrary: p seen found)
  case (Suc n)
  have "case found' of None \<Rightarrow> True | Some sa \<Rightarrow> sa_title sa = title"
    if "scan_legacy title items found = Inr found'" for items found'
    using that Suc.prems scan_legacy_titled [of title items found] by (fastforce split: option.splits)
  then show ?case
    unfolding legacy_find_loop.simps Let_def
    by (intro returns_bind returns_intros Suc.IH) (auto split: option.splits)
qed (auto intro: returns_intros)

section \<open>The listings end\<close>

lemma yields_do_one: "yields (\<lambda>_ evs. length evs = 1) (grafana_do g me path body out zero)"
  by (rule yields_do) simp

lemma yields_case_sum:
  "(\<And>e. r = Inl e \<Longrightarrow> yields P (m e)) \<Longrightarrow> (\<And>v. r = Inr v \<Longrightarrow> yields P (n v)) \<Longrightarrow>
   yields P (case r of Inl e \<Rightarrow> m e | Inr v \<Rightarrow> n v)"
  by (simp split: sum.splits)

lemma yields_no_events: "frame (\<lambda>_. False) m \<Longrightarrow> yields (\<lambda>_ evs. evs = []) m"
  unfolding frame_yields by (erule yields_mono) (auto simp: list_all_iff)

lemma find_loop_requests: "yields (\<lambda>_ evs. length evs \<le> n) (find_loop n g title c seen found)"
proof (induction n arbitrary: c seen found)
  case (Suc n)
  show ?case
    unfolding find_loop.simps
    by (rule yields_bind [OF yields_do_one, where Q = "\<lambda>_ _ evs. length evs \<le> n"])
      (auto intro!: yields_case_sum yields_return Suc.IH)
qed (simp add: yields_return)

lemma tokens_loop_requests: "yields (\<lambda>_ evs. length evs \<le> n) (tokens_loop n g sa c seen all)"
proof (induction n arbitrary: c seen all)
  case (Suc n)
  have page: "yields (\<lambda>_ evs. length evs \<le> n) (convert_wires (tp_items p) \<bind> (\<lambda>ts.
        if tp_continue p = [] then ret (Inr (all @ ts))
        else if tp_continue p \<in> set seen
        then ret (Inl (Msg ''grafana token pagination repeated a continuation token''))
        else tokens_loop n g sa (tp_continue p) (tp_continue p # seen) (all @ ts)))" for p
    by (rule yields_bind [OF yields_no_events [OF frame_convert_wires], where Q = "\<lambda>_ _ evs. length evs \<le> n"])
      (auto intro!: yields_return Suc.IH)
  show ?case
    unfolding tokens_loop.simps
    by (rule yields_bind [OF yields_do_one, where Q = "\<lambda>_ _ evs. length evs \<le> n"])
      (auto intro!: yields_case_sum yields_return page)
qed (simp add: yields_return)

lemma legacy_find_loop_requests: "yields (\<lambda>_ evs. length evs \<le> n) (legacy_find_loop n g title p seen found)"
proof (induction n arbitrary: p seen found)
  case (Suc n)
  show ?case
    unfolding legacy_find_loop.simps Let_def
    by (rule yields_bind [OF yields_do_one, where Q = "\<lambda>_ _ evs. length evs \<le> n"])
      (auto intro!: yields_case_sum yields_return Suc.IH)
qed (simp add: yields_return)

lemma wp_bounded:
  assumes "yields (\<lambda>_ evs. length evs \<le> n) m"
  shows "wp m (\<lambda>_ w'. length (w_trace w') \<le> length (w_trace w) + n) w"
proof -
  have "wp m (\<lambda>r w'. w_env w' = w_env w \<and> (\<exists>evs. w_trace w' = w_trace w @ evs \<and> length evs \<le> n)) w"
    using assms by (simp add: yields_def)
  then show ?thesis by (rule wp_mono) auto
qed

section \<open>Properties\<close>

text \<open>In both API modes the account \<open>findServiceAccount\<close> gives has exactly the title asked for, so an
  operation never touches the account of somebody else, whatever Grafana answers.\<close>

theorem found_account_has_the_title:
  "returns (\<lambda>r. case r of Inr (Some sa) \<Rightarrow> sa_title sa = title | _ \<Rightarrow> True) (findServiceAccount g title)"
  unfolding findServiceAccount_def iamFindServiceAccount_def legacyFindServiceAccount_def
  by (intro returns_intros returns_bind returns_find_loop returns_legacy_find_loop) simp_all

text \<open>The scan over a page of accounts gives the one account of the title on this and the earlier pages,
  none when there is none, and an error when there are two or more.\<close>

theorem scan_finds_the_only_account:
  "scan_accounts title sas found =
     (case (case found of None \<Rightarrow> [] | Some sa \<Rightarrow> [sa]) @ filter (\<lambda>sa. sa_title sa = title) sas of
        [] \<Rightarrow> Inr None | [sa] \<Rightarrow> Inr (Some sa) | _ \<Rightarrow> Inl (duplicate_title title))"
  using scan_accounts_spec [of title sas found] by (simp only: titled_def)


text \<open>Creating a token is one POST; what may follow is reads and at most one deletion, and only when the
  creation is reported as failed: a success is a confirmed POST and nothing else.\<close>

theorem new_token_is_one_post: "yields new_token_shape (newToken g sa n ttl)"
  by (rule gc.new_token_law)


text \<open>An identifier \<open>legacyNumericID\<close> accepts is rewritten to the canonical decimal digits of a positive
  number, so it cannot carry a path separator or a query into the request, and normalising again changes
  nothing.\<close>

theorem legacy_id_is_canonical:
  assumes "legacyNumericID kind raw = Inr i"
  shows "\<exists>n. parseInt64 raw = Some n \<and> 0 < n \<and> i = itoa n \<and> list_all is_digit i \<and> legacyNumericID kind i = Inr i"
  using legacyNumericID_canonical [OF assms] .

theorem legacy_id_is_canonical_witness:
  "\<exists>n. parseInt64 ''+0042'' = Some n \<and> 0 < n \<and> ''42'' = itoa n \<and> list_all is_digit ''42'' \<and>
     legacyNumericID ''token'' ''42'' = Inr ''42''"
proof (rule legacy_id_is_canonical)
  show "legacyNumericID ''token'' ''+0042'' = Inr ''42''" by code_simp
qed

end
