(* ===== verification/SealedCookies.thy ===== *)
theory SealedCookies
  imports Grafana
begin

text \<open>
  What the two cookie codecs (\<open>stash.go\<close> and \<open>session.go\<close>) share: a JSON document sealed
  with AES-256-GCM under a fresh nonce, the nonce in front, everything in unpadded URL base64.
\<close>

definition seal_cookie :: "bytes \<Rightarrow> bytes \<Rightarrow> bytes \<Rightarrow> bytes \<Rightarrow> string" where
  "seal_cookie key aad nonce plain = rawURLEncode (nonce @ gcm_seal key nonce plain aad)"

definition unseal_cookie :: "bytes \<Rightarrow> bytes \<Rightarrow> string \<Rightarrow> bytes option" where
  "unseal_cookie key aad cookie =
     (case rawURLDecode cookie of None \<Rightarrow> None
      | Some sealed \<Rightarrow>
          if length sealed < gcm_nonce_size then None
          else gcm_open key (take gcm_nonce_size sealed) (drop gcm_nonce_size sealed) aad)"

lemma unseal_seal:
  "length nonce = gcm_nonce_size \<Longrightarrow> unseal_cookie key aad (seal_cookie key aad nonce plain) = Some plain"
  by (simp add: unseal_cookie_def seal_cookie_def codec_simps)

lemma length_seal_cookie:
  "length nonce = gcm_nonce_size \<Longrightarrow>
   length (seal_cookie key aad nonce plain) = (4 * (28 + length plain) + 2) div 3"
  by (simp add: seal_cookie_def codec_simps algebra_simps)

lemma seal_cookie_neq_Nil: "length nonce = gcm_nonce_size \<Longrightarrow> seal_cookie key aad nonce plain \<noteq> []"
  by (auto simp: seal_cookie_def rawURLEncode_Nil)

text \<open>Nothing opens but what the same key sealed for the same use.\<close>

lemma unseal_authentic:
  assumes "unseal_cookie key aad cookie = Some plain"
  shows "\<exists>nonce. length nonce = gcm_nonce_size \<and>
           rawURLDecode cookie = rawURLDecode (seal_cookie key aad nonce plain)"
proof -
  from assms obtain sealed where *: "rawURLDecode cookie = Some sealed" "gcm_nonce_size \<le> length sealed"
      "gcm_open key (take gcm_nonce_size sealed) (drop gcm_nonce_size sealed) aad = Some plain"
    by (auto simp: unseal_cookie_def split: option.splits if_splits)
  have "sealed = take gcm_nonce_size sealed @ gcm_seal key (take gcm_nonce_size sealed) plain aad"
    using gcm_open_authentic [OF *(3)] by (metis append_take_drop_id)
  moreover have "length (take gcm_nonce_size sealed) = gcm_nonce_size" using *(2) by simp
  ultimately show ?thesis using *(1) by (metis rawURL_roundtrip seal_cookie_def)
qed

text \<open>
  The contract of a payload type: the document of a payload that satisfies \<open>ok\<close> is parsed back
  and decoded to that payload. Each codec provides it; the laws of sealing and opening follow.
\<close>

locale sealed_codec =
  fixes enc :: "'p \<Rightarrow> json" and dec :: "'p decoder" and zero :: 'p and ok :: "'p \<Rightarrow> bool"
  assumes document: "ok p \<Longrightarrow> parse_document (marshal (enc p)) = Some (enc p)"
    and decode: "ok p \<Longrightarrow> dec (enc p) zero = Some p"
begin

lemma open_seal:
  assumes "ok p" "length nonce = gcm_nonce_size"
  shows "Option.bind (unseal_cookie key aad (seal_cookie key aad nonce (marshal (enc p))))
           (\<lambda>plain. Option.bind (parse_document plain) (\<lambda>j. dec j zero)) = Some p"
  using assms by (simp add: unseal_seal document decode)

lemma seal_injective:
  assumes "ok p" "ok q" "length nonce = gcm_nonce_size" "length nonce' = gcm_nonce_size"
    and "seal_cookie key aad nonce (marshal (enc p)) = seal_cookie key aad nonce' (marshal (enc q))"
  shows "p = q"
  using open_seal [OF assms(1,3), of key aad] open_seal [OF assms(2,4), of key aad] assms(5) by simp

end

lemmas field_simps = field_def field_match_def upper_char_def is_lower_def

end
