(* ===== verification/SessionCodec.thy ===== *)
theory SessionCodec
  imports SealedCookies
begin

text \<open>
  \<open>internal/server/session.go\<close>: the sealed cookies of the native login, one for the session
  and one for the OAuth state, kept apart by the kind in their associated data.
\<close>

definition defaultSessionTTL :: duration where "defaultSessionTTL = hour"
definition maxSessionTTLSeconds :: int where "maxSessionTTLSeconds = 24 * 60 * 60"
definition oauthStateTTL :: duration where "oauthStateTTL = 10 * minute"
definition maxSessionCookie :: nat where "maxSessionCookie = 3800"
definition sessionCookieName :: string where "sessionCookieName = ''grafana_mcp_session''"
definition stateCookieName :: string where "stateCookieName = ''grafana_mcp_oauth_state''"

record sessionPayload =
  sp_version :: int
  sp_idToken :: string
  sp_expires :: int

record oauthStatePayload =
  op_version :: int
  op_state :: string
  op_nonce :: string
  op_codeVerifier :: string
  op_expires :: int

record sessionCodec =
  sc_key :: bytes
  sc_aad :: bytes

definition newSessionCodec :: "bytes \<Rightarrow> string \<Rightarrow> error + sessionCodec" where
  "newSessionCodec key basePath =
     (if length key \<noteq> 32 then Inl (Msg ''session cookie key must contain 32 bytes'')
      else Inr \<lparr>sc_key = key, sc_aad = ''grafana-mcp-native-oidc-v1'' @ [NUL] @ basePath\<rparr>)"

definition associatedData :: "sessionCodec \<Rightarrow> string \<Rightarrow> bytes" where
  "associatedData c kind = sc_aad c @ [NUL] @ kind"

definition session_seal :: "sessionCodec \<Rightarrow> json \<Rightarrow> string \<Rightarrow> (error + string) io" where
  "session_seal c document kind = do {
     r \<leftarrow> random_bytes gcm_nonce_size;
     ret (case r of Inl e \<Rightarrow> Inl e
          | Inr nonce \<Rightarrow>
              (let encoded = seal_cookie (sc_key c) (associatedData c kind) nonce (marshal document)
               in if length encoded > maxSessionCookie
                  then Inl (Msg ''native session exceeds the cookie size limit'') else Inr encoded))
   }"

definition session_open :: "sessionCodec \<Rightarrow> string \<Rightarrow> string \<Rightarrow> 'p decoder \<Rightarrow> 'p \<Rightarrow> 'p option" where
  "session_open c cookie kind out zero =
     (if cookie = [] \<or> length cookie > maxSessionCookie then None
      else Option.bind (unseal_cookie (sc_key c) (associatedData c kind) cookie)
             (\<lambda>plain. Option.bind (parse_document plain) (\<lambda>j. out j zero)))"

definition invalid_session :: error where "invalid_session = Msg ''invalid native session cookie''"

section \<open>Sessions\<close>

definition enc_session :: "sessionPayload \<Rightarrow> json" where
  "enc_session p = JObj [(''v'', JInt (sp_version p)), (''id_token'', JStr (sp_idToken p)), (''exp'', JInt (sp_expires p))]"

definition dec_session :: "sessionPayload decoder" where
  "dec_session = dec_struct
     [field ''v'' dec_int64 sp_version (\<lambda>x. sp_version_update (\<lambda>_. x)),
      field ''id_token'' dec_string sp_idToken (\<lambda>x. sp_idToken_update (\<lambda>_. x)),
      field ''exp'' dec_int64 sp_expires (\<lambda>x. sp_expires_update (\<lambda>_. x))]"

definition zero_session :: sessionPayload where
  "zero_session = \<lparr>sp_version = 0, sp_idToken = [], sp_expires = 0\<rparr>"

definition sealSession :: "sessionCodec \<Rightarrow> string \<Rightarrow> time \<Rightarrow> (error + string) io" where
  "sealSession c idTok expires =
     (if idTok = [] \<or> expires = zeroTime then ret (Inl (Msg ''native session is incomplete''))
      else session_seal c
             (enc_session \<lparr>sp_version = 1, sp_idToken = idTok, sp_expires = unixSeconds expires\<rparr>) ''session'')"

definition openSession :: "sessionCodec \<Rightarrow> string \<Rightarrow> (error + sessionPayload) io" where
  "openSession c cookie =
     (case session_open c cookie ''session'' dec_session zero_session of
        None \<Rightarrow> ret (Inl invalid_session)
      | Some p \<Rightarrow>
          if sp_version p \<noteq> 1 \<or> sp_idToken p = [] then ret (Inl (Msg ''native session expired or invalid''))
          else do {
            now \<leftarrow> time_now;
            ret (if sp_expires p \<le> unixSeconds now then Inl (Msg ''native session expired or invalid'') else Inr p)
          })"

section \<open>OAuth states\<close>

definition enc_state :: "oauthStatePayload \<Rightarrow> json" where
  "enc_state p = JObj
     [(''v'', JInt (op_version p)), (''state'', JStr (op_state p)), (''nonce'', JStr (op_nonce p)),
      (''code_verifier'', JStr (op_codeVerifier p)), (''exp'', JInt (op_expires p))]"

definition dec_state :: "oauthStatePayload decoder" where
  "dec_state = dec_struct
     [field ''v'' dec_int64 op_version (\<lambda>x. op_version_update (\<lambda>_. x)),
      field ''state'' dec_string op_state (\<lambda>x. op_state_update (\<lambda>_. x)),
      field ''nonce'' dec_string op_nonce (\<lambda>x. op_nonce_update (\<lambda>_. x)),
      field ''code_verifier'' dec_string op_codeVerifier (\<lambda>x. op_codeVerifier_update (\<lambda>_. x)),
      field ''exp'' dec_int64 op_expires (\<lambda>x. op_expires_update (\<lambda>_. x))]"

definition zero_state :: oauthStatePayload where
  "zero_state = \<lparr>op_version = 0, op_state = [], op_nonce = [], op_codeVerifier = [], op_expires = 0\<rparr>"

definition sealState :: "sessionCodec \<Rightarrow> string \<Rightarrow> string \<Rightarrow> string \<Rightarrow> (error + string) io" where
  "sealState c st nonce verifier =
     (if st = [] \<or> nonce = [] \<or> verifier = [] then ret (Inl (Msg ''native OAuth state is incomplete''))
      else do {
        now \<leftarrow> time_now;
        session_seal c (enc_state \<lparr>op_version = 1, op_state = st, op_nonce = nonce, op_codeVerifier = verifier,
            op_expires = unixSeconds (now + oauthStateTTL)\<rparr>) ''oauth-state''
      })"

definition openState :: "sessionCodec \<Rightarrow> string \<Rightarrow> (error + oauthStatePayload) io" where
  "openState c cookie =
     (case session_open c cookie ''oauth-state'' dec_state zero_state of
        None \<Rightarrow> ret (Inl invalid_session)
      | Some p \<Rightarrow>
          if op_version p \<noteq> 1 \<or> op_state p = [] \<or> op_nonce p = [] \<or> op_codeVerifier p = [] then
            ret (Inl (Msg ''native OAuth state expired or invalid''))
          else do {
            now \<leftarrow> time_now;
            ret (if op_expires p \<le> unixSeconds now then Inl (Msg ''native OAuth state expired or invalid'') else Inr p)
          })"

section \<open>Round trips\<close>

definition session_payload_ok :: "sessionPayload \<Rightarrow> bool" where
  "session_payload_ok p \<longleftrightarrow> valid_utf8 (sp_idToken p) \<and> in_int64 (sp_version p) \<and> in_int64 (sp_expires p)"

definition state_payload_ok :: "oauthStatePayload \<Rightarrow> bool" where
  "state_payload_ok p \<longleftrightarrow> valid_utf8 (op_state p) \<and> valid_utf8 (op_nonce p) \<and> valid_utf8 (op_codeVerifier p) \<and>
     in_int64 (op_version p) \<and> in_int64 (op_expires p)"

lemma dec_enc_session: "session_payload_ok p \<Longrightarrow> dec_session (enc_session p) zero_session = Some p"
  by (cases p) (simp add: session_payload_ok_def dec_session_def enc_session_def zero_session_def field_simps
      parseInt64_formatInt)

lemma enc_session_parses:
  "session_payload_ok p \<Longrightarrow> parse_document (marshal (enc_session p)) = Some (enc_session p)"
  unfolding enc_session_def session_payload_ok_def
  by (intro parse_document_flat) (auto simp: valid_utf8_ascii is_ascii_def)

lemma dec_enc_state: "state_payload_ok p \<Longrightarrow> dec_state (enc_state p) zero_state = Some p"
  by (cases p) (simp add: state_payload_ok_def dec_state_def enc_state_def zero_state_def field_simps
      parseInt64_formatInt)

lemma enc_state_parses:
  "state_payload_ok p \<Longrightarrow> parse_document (marshal (enc_state p)) = Some (enc_state p)"
  unfolding enc_state_def state_payload_ok_def
  by (intro parse_document_flat) (auto simp: valid_utf8_ascii is_ascii_def)

interpretation session: sealed_codec enc_session dec_session zero_session session_payload_ok
  by unfold_locales (rule enc_session_parses dec_enc_session, assumption)+

interpretation oauth_state: sealed_codec enc_state dec_state zero_state state_payload_ok
  by unfold_locales (rule enc_state_parses dec_enc_state, assumption)+

section \<open>What a run of the operations gives\<close>

lemma wp_session_seal:
  "wp (session_seal c d kind) Q w =
     (case entropy (w_env w) (w_draws w) of
        None \<Rightarrow> Q (Inl (Msg ''entropy source failed'')) (w\<lparr>w_draws := Suc (w_draws w)\<rparr>)
      | Some f \<Rightarrow>
          let encoded = seal_cookie (sc_key c) (associatedData c kind) (map f [0..<gcm_nonce_size]) (marshal d)
          in Q (if length encoded > maxSessionCookie
                then Inl (Msg ''native session exceeds the cookie size limit'') else Inr encoded)
               (w\<lparr>w_draws := Suc (w_draws w)\<rparr>))"
  by (simp add: session_seal_def wp_simps Let_def split: option.splits)

lemma session_open_sealed:
  "length (seal_cookie (sc_key c) (associatedData c kind) nonce plain) \<le> maxSessionCookie \<Longrightarrow>
   length nonce = gcm_nonce_size \<Longrightarrow>
   session_open c (seal_cookie (sc_key c) (associatedData c kind) nonce plain) kind out zero =
     Option.bind (parse_document plain) (\<lambda>j. out j zero)"
  by (simp add: session_open_def seal_cookie_neq_Nil unseal_seal)

lemma frame_session [frame_intros]:
  "frame A (openSession c v)" "frame A (openState c v)" "frame A (sealSession c i e)" "frame A (sealState c s n cv)"
  unfolding openSession_def openState_def sealSession_def sealState_def session_seal_def
  by (intro frame_intros)+

section \<open>Properties\<close>

lemma wp_openSession_sealed:
  assumes "session_payload_ok p" "sp_version p = 1" "sp_idToken p \<noteq> []" "length nonce = gcm_nonce_size"
    and "length (seal_cookie (sc_key c) (associatedData c ''session'') nonce (marshal (enc_session p))) \<le> maxSessionCookie"
    and "unixSeconds (clock (w_env w) (w_ticks w)) < sp_expires p"
  shows "wp (openSession c (seal_cookie (sc_key c) (associatedData c ''session'') nonce (marshal (enc_session p))))
     (\<lambda>r w'. r = Inr p) w"
  using assms by (simp add: openSession_def session_open_sealed session.document session.decode wp_simps)

definition reopens :: "sessionCodec \<Rightarrow> string \<Rightarrow> time \<Rightarrow> error + string \<Rightarrow> bool" where
  "reopens c idTok expires r \<longleftrightarrow>
     (\<forall>v w. r = Inr v \<longrightarrow> unixSeconds (clock (w_env w) (w_ticks w)) < unixSeconds expires \<longrightarrow>
        wp (openSession c v) (\<lambda>o1 _. o1 = Inr \<lparr>sp_version = 1, sp_idToken = idTok, sp_expires = unixSeconds expires\<rparr>) w)"

text \<open>C30: Whatever \<open>sealSession\<close> gives, \<open>openSession\<close> of the same codec opens to the same ID token until the
  session's expiry; a session that would not fit a cookie is refused instead of being cut off.\<close>

theorem session_round_trip:
  assumes "valid_utf8 idTok" "in_int64 (unixSeconds expires)"
  shows "wp (sealSession c idTok expires) (\<lambda>r w'. reopens c idTok expires r) w"
proof -
  let ?p = "\<lparr>sp_version = 1, sp_idToken = idTok, sp_expires = unixSeconds expires\<rparr>"
  have ok: "session_payload_ok ?p" using assms by (simp add: session_payload_ok_def in_int64_def)
  have "reopens c idTok expires (Inr (seal_cookie (sc_key c) (associatedData c ''session'')
      (map f [0..<gcm_nonce_size]) (marshal (enc_session ?p))))"
    if "idTok \<noteq> []" "length (seal_cookie (sc_key c) (associatedData c ''session'') (map f [0..<gcm_nonce_size])
        (marshal (enc_session ?p))) \<le> maxSessionCookie" for f
    using wp_openSession_sealed [OF ok _ _ _ that(2)] that(1) by (auto simp: reopens_def)
  then show ?thesis
    unfolding sealSession_def
    by (auto simp: wp_simps wp_session_seal Let_def reopens_def split: option.splits)
qed

definition example_codec :: sessionCodec where
  "example_codec =
     \<lparr>sc_key = replicate 32 (CHR ''k''), sc_aad = ''grafana-mcp-native-oidc-v1'' @ [NUL] @ ''/mcp''\<rparr>"

theorem session_round_trip_witness:
  "wp (sealSession example_codec ''eyJhbGciOi.payload.sig'' (1700003600 * second))
     (\<lambda>r w'. reopens example_codec ''eyJhbGciOi.payload.sig'' (1700003600 * second) r) example_world"
  by (rule session_round_trip) (code_simp | simp add: in_int64_def unixSeconds_def second_def)+

text \<open>The two kinds of cookies of the login are sealed under different associated data, and so are the
  cookies of different base paths: a cookie of one is never authentic for the other.\<close>

theorem cookie_kinds_differ:
  assumes "newSessionCodec key base1 = Inr c1" "newSessionCodec key base2 = Inr c2"
    and "NUL \<notin> set base1" "NUL \<notin> set base2" "(base1, kind1) \<noteq> (base2, kind2)"
  shows "associatedData c1 kind1 \<noteq> associatedData c2 kind2"
proof
  assume same: "associatedData c1 kind1 = associatedData c2 kind2"
  have tw: "takeWhile (\<lambda>c. c \<noteq> NUL) (b @ NUL # k) = b" if "NUL \<notin> set b" for b k :: string
    using that by (induction b) auto
  have "base1 @ NUL # kind1 = base2 @ NUL # kind2"
    using assms(1,2) same by (auto simp: newSessionCodec_def associatedData_def split: if_splits)
  then show False using tw [OF assms(3), of kind1] tw [OF assms(4), of kind2] assms(5) by auto
qed

theorem cookie_kinds_differ_witness:
  "associatedData example_codec ''session'' \<noteq> associatedData example_codec ''oauth-state''"
  by (rule cookie_kinds_differ [of "replicate 32 (CHR ''k'')" "''/mcp''" _ "''/mcp''"])
    (simp_all add: newSessionCodec_def example_codec_def)

end
