(* ===== verification/FlashCodec.thy ===== *)
theory FlashCodec
  imports SealedCookies
begin

text \<open>
  \<open>internal/server/stash.go\<close>: the cookie that carries a new token over one redirect, sealed
  with AES-256-GCM and bound to the identity it was issued to, and the CSRF tokens of the page.
\<close>

definition flashCookieName :: string where "flashCookieName = ''grafana_mcp_flash''"

record flashCodec =
  fc_key :: bytes
  fc_csrfKey :: bytes
  fc_ttl :: duration
  fc_aad :: bytes

record flashPayload =
  fp_version :: int
  fp_email :: string
  fp_token :: string
  fp_expires :: int
  fp_tokenCreated :: int
  fp_tokenExpires :: int
  fp_partial :: bool

record flashPreparation =
  pr_nonce :: bytes
  pr_expires :: int

record openedFlash =
  of_token :: string
  of_partial :: bool
  of_tokenCreated :: time
  of_tokenExpires :: "time option"

record deliveryPreparation =
  dp_success :: flashPreparation
  dp_partial :: flashPreparation

definition newFlashCodec :: "bytes \<Rightarrow> duration \<Rightarrow> string \<Rightarrow> error + flashCodec" where
  "newFlashCodec key ttl basePath =
     (if length key \<noteq> 32 then Inl (Msg ''flash cookie key must contain 32 bytes'')
      else Inr \<lparr>fc_key = key, fc_csrfKey = sha256 (key @ ''csrf-v1''), fc_ttl = ttl,
                fc_aad = ''grafana-mcp-flash-v1'' @ [NUL] @ basePath\<rparr>)"

section \<open>Sealing\<close>

definition prepare :: "flashCodec \<Rightarrow> (error + flashPreparation) io" where
  "prepare c = do {
     r \<leftarrow> random_bytes gcm_nonce_size;
     (case r of Inl e \<Rightarrow> ret (Inl e)
      | Inr nonce \<Rightarrow> do {
          now \<leftarrow> time_now;
          ret (Inr \<lparr>pr_nonce = nonce, pr_expires = unixSeconds (now + fc_ttl c)\<rparr>)
        })
   }"

definition prepareDelivery :: "flashCodec \<Rightarrow> (error + deliveryPreparation) io" where
  "prepareDelivery c = do {
     r \<leftarrow> prepare c;
     (case r of Inl e \<Rightarrow> ret (Inl e)
      | Inr success \<Rightarrow> do {
          q \<leftarrow> prepare c;
          ret (case q of Inl e \<Rightarrow> Inl e
               | Inr partial \<Rightarrow> Inr \<lparr>dp_success = success, dp_partial = partial\<rparr>)
        })
   }"

definition enc_flash :: "flashPayload \<Rightarrow> json" where
  "enc_flash p = JObj
     ([(''v'', JInt (fp_version p)), (''email'', JStr (fp_email p)), (''token'', JStr (fp_token p)),
       (''exp'', JInt (fp_expires p)), (''tokenCreated'', JInt (fp_tokenCreated p)),
       (''tokenExpires'', JInt (fp_tokenExpires p))] @
      (if fp_partial p then [(''partial'', JBool True)] else []))"

definition dec_flash :: "flashPayload decoder" where
  "dec_flash = dec_struct
     [field ''v'' dec_int64 fp_version (\<lambda>x. fp_version_update (\<lambda>_. x)),
      field ''email'' dec_string fp_email (\<lambda>x. fp_email_update (\<lambda>_. x)),
      field ''token'' dec_string fp_token (\<lambda>x. fp_token_update (\<lambda>_. x)),
      field ''exp'' dec_int64 fp_expires (\<lambda>x. fp_expires_update (\<lambda>_. x)),
      field ''tokenCreated'' dec_int64 fp_tokenCreated (\<lambda>x. fp_tokenCreated_update (\<lambda>_. x)),
      field ''tokenExpires'' dec_int64 fp_tokenExpires (\<lambda>x. fp_tokenExpires_update (\<lambda>_. x)),
      field ''partial'' dec_bool fp_partial (\<lambda>x. fp_partial_update (\<lambda>_. x))]"

definition zero_flash :: flashPayload where
  "zero_flash = \<lparr>fp_version = 0, fp_email = [], fp_token = [], fp_expires = 0, fp_tokenCreated = 0,
     fp_tokenExpires = 0, fp_partial = False\<rparr>"

definition flash_payload ::
  "flashPreparation \<Rightarrow> string \<Rightarrow> string \<Rightarrow> bool \<Rightarrow> time \<Rightarrow> time option \<Rightarrow> flashPayload" where
  "flash_payload prepared email token partial created tokenExpires =
     \<lparr>fp_version = 1, fp_email = email, fp_token = token, fp_expires = pr_expires prepared,
      fp_tokenCreated = unixSeconds created,
      fp_tokenExpires = (case tokenExpires of None \<Rightarrow> 0 | Some t \<Rightarrow> unixSeconds t),
      fp_partial = partial\<rparr>"

definition sealPrepared ::
  "flashCodec \<Rightarrow> flashPreparation \<Rightarrow> string \<Rightarrow> string \<Rightarrow> bool \<Rightarrow> time \<Rightarrow> time option \<Rightarrow> string" where
  "sealPrepared c prepared email token partial created tokenExpires =
     seal_cookie (fc_key c) (fc_aad c) (pr_nonce prepared)
       (marshal (enc_flash (flash_payload prepared email token partial created tokenExpires)))"

definition flash_seal :: "flashCodec \<Rightarrow> string \<Rightarrow> string \<Rightarrow> (error + string) io" where
  "flash_seal c email token = do {
     r \<leftarrow> prepare c;
     (case r of Inl e \<Rightarrow> ret (Inl e)
      | Inr prepared \<Rightarrow> do {
          now \<leftarrow> time_now;
          ret (Inr (sealPrepared c prepared email token False now None))
        })
   }"

section \<open>Opening\<close>

text \<open>The steps before the clock is read: base64, the nonce, the tag, the document.\<close>

definition flash_decode :: "flashCodec \<Rightarrow> string \<Rightarrow> flashPayload option" where
  "flash_decode c value =
     Option.bind (unseal_cookie (fc_key c) (fc_aad c) value)
       (\<lambda>plain. Option.bind (parse_document plain) (\<lambda>j. dec_flash j zero_flash))"

definition flash_open :: "flashCodec \<Rightarrow> string \<Rightarrow> string \<Rightarrow> (error + openedFlash) io" where
  "flash_open c value email =
     (case flash_decode c value of None \<Rightarrow> ret (Inl (Msg ''invalid flash cookie''))
      | Some payload \<Rightarrow>
          if fp_version payload \<noteq> 1 \<or> fp_token payload = [] \<or> fp_email payload \<noteq> email then
            ret (Inl (Msg ''flash cookie belongs to another identity''))
          else do {
            now \<leftarrow> time_now;
            ret (if unixSeconds now \<ge> fp_expires payload then Inl (Msg ''flash cookie expired'')
                 else Inr \<lparr>of_token = fp_token payload, of_partial = fp_partial payload,
                           of_tokenCreated = timeUnix (fp_tokenCreated payload),
                           of_tokenExpires = unixTime (fp_tokenExpires payload)\<rparr>)
          })"

section \<open>CSRF tokens\<close>

definition csrf_mac :: "flashCodec \<Rightarrow> string \<Rightarrow> string \<Rightarrow> bytes" where
  "csrf_mac c email payload = hmac_sha256 (fc_csrfKey c) (email @ [NUL] @ payload)"

definition csrf_token :: "flashCodec \<Rightarrow> string \<Rightarrow> int \<Rightarrow> bytes \<Rightarrow> string" where
  "csrf_token c email expires nonce =
     (let payload = itoa expires @ ''.'' @ rawURLEncode nonce
      in payload @ ''.'' @ rawURLEncode (csrf_mac c email payload))"

definition csrf :: "flashCodec \<Rightarrow> string \<Rightarrow> (error + string) io" where
  "csrf c email = do {
     r \<leftarrow> random_bytes 16;
     (case r of Inl e \<Rightarrow> ret (Inl e)
      | Inr nonce \<Rightarrow> do {
          now \<leftarrow> time_now;
          ret (Inr (csrf_token c email (unixSeconds (now + fc_ttl c)) nonce))
        })
   }"

definition validateCSRF :: "flashCodec \<Rightarrow> string \<Rightarrow> string \<Rightarrow> (error option) io" where
  "validateCSRF c value email =
     (case splitOn CHR ''.'' value of
        [p0, p1, p2] \<Rightarrow>
          (case parseInt64 p0 of None \<Rightarrow> ret (Some (Msg ''expired CSRF token''))
           | Some exp \<Rightarrow> do {
               now \<leftarrow> time_now;
               ret (if unixSeconds now \<ge> exp then Some (Msg ''expired CSRF token'')
                    else (case rawURLDecode p2 of None \<Rightarrow> Some (Msg ''invalid CSRF token'')
                          | Some got \<Rightarrow>
                              if got = csrf_mac c email (p0 @ ''.'' @ p1) then None
                              else Some (Msg ''invalid CSRF token'')))
             })
      | _ \<Rightarrow> ret (Some (Msg ''invalid CSRF token'')))"

section \<open>Round trips\<close>

lemma parse_JInt: "in_int64 i \<Longrightarrow> dec_int64 (JInt i) x = Some i"
  by (simp add: parseInt64_formatInt)

definition flash_payload_ok :: "flashPayload \<Rightarrow> bool" where
  "flash_payload_ok p \<longleftrightarrow> valid_utf8 (fp_email p) \<and> valid_utf8 (fp_token p) \<and> in_int64 (fp_version p) \<and>
     in_int64 (fp_expires p) \<and> in_int64 (fp_tokenCreated p) \<and> in_int64 (fp_tokenExpires p)"

lemma dec_enc_flash:
  assumes "flash_payload_ok p"
  shows "dec_flash (enc_flash p) zero_flash = Some p"
  using assms by (cases p) (simp add: flash_payload_ok_def dec_flash_def enc_flash_def zero_flash_def field_simps
      parseInt64_formatInt)

lemma enc_flash_parses:
  assumes "flash_payload_ok p"
  shows "parse_document (marshal (enc_flash p)) = Some (enc_flash p)"
  using assms unfolding enc_flash_def flash_payload_ok_def
  by (intro parse_document_flat) (auto simp: valid_utf8_ascii is_ascii_def)

interpretation flash: sealed_codec enc_flash dec_flash zero_flash flash_payload_ok
  by unfold_locales (rule enc_flash_parses dec_enc_flash, assumption)+

lemma flash_decode_sealPrepared:
  assumes "length (pr_nonce pr) = gcm_nonce_size" "flash_payload_ok (flash_payload pr email token partial created texp)"
  shows "flash_decode c (sealPrepared c pr email token partial created texp) =
         Some (flash_payload pr email token partial created texp)"
  unfolding flash_decode_def sealPrepared_def using assms by (intro flash.open_seal)

text \<open>Whatever decodes was sealed under this codec's key and associated data.\<close>

lemma flash_decode_authentic:
  assumes "flash_decode c value = Some p"
  shows "\<exists>nonce plain. length nonce = gcm_nonce_size \<and>
           rawURLDecode value = rawURLDecode (seal_cookie (fc_key c) (fc_aad c) nonce plain) \<and>
           Option.bind (parse_document plain) (\<lambda>j. dec_flash j zero_flash) = Some p"
proof -
  from assms obtain plain where plain: "unseal_cookie (fc_key c) (fc_aad c) value = Some plain"
      "Option.bind (parse_document plain) (\<lambda>j. dec_flash j zero_flash) = Some p"
    by (cases "unseal_cookie (fc_key c) (fc_aad c) value") (simp_all add: flash_decode_def)
  with unseal_authentic [OF plain(1)] show ?thesis by blast
qed

section \<open>What a run of the operations gives\<close>

lemma wp_flash_open:
  "wp (flash_open c value email) Q w =
     (case flash_decode c value of None \<Rightarrow> Q (Inl (Msg ''invalid flash cookie'')) w
      | Some p \<Rightarrow>
          if fp_version p \<noteq> 1 \<or> fp_token p = [] \<or> fp_email p \<noteq> email then
            Q (Inl (Msg ''flash cookie belongs to another identity'')) w
          else Q (if unixSeconds (clock (w_env w) (w_ticks w)) \<ge> fp_expires p then Inl (Msg ''flash cookie expired'')
                  else Inr \<lparr>of_token = fp_token p, of_partial = fp_partial p,
                            of_tokenCreated = timeUnix (fp_tokenCreated p),
                            of_tokenExpires = unixTime (fp_tokenExpires p)\<rparr>)
                 (w\<lparr>w_ticks := Suc (w_ticks w)\<rparr>))"
  by (simp add: flash_open_def wp_simps split: option.splits)

text \<open>The decision of \<open>validateCSRF\<close> at an instant.\<close>

definition csrf_accepts :: "flashCodec \<Rightarrow> time \<Rightarrow> string \<Rightarrow> string \<Rightarrow> bool" where
  "csrf_accepts c now value email \<longleftrightarrow>
     (case splitOn CHR ''.'' value of
        [p0, p1, p2] \<Rightarrow>
          (case parseInt64 p0 of None \<Rightarrow> False
           | Some exp \<Rightarrow> unixSeconds now < exp \<and> rawURLDecode p2 = Some (csrf_mac c email (p0 @ ''.'' @ p1)))
      | _ \<Rightarrow> False)"

lemma wp_validateCSRF:
  "wp (validateCSRF c value email)
     (\<lambda>r w'. (r = None \<longleftrightarrow> csrf_accepts c (clock (w_env w) (w_ticks w)) value email) \<and> extends A w w') w"
  unfolding validateCSRF_def csrf_accepts_def
  by (auto simp: wp_simps split: option.splits list.splits)

lemma itoa_no_dot: "CHR ''.'' \<notin> set (itoa i)"
  by (auto dest: itoa_chars simp: is_digit_def)

lemma csrf_accepts_token:
  assumes "in_int64 exp" "unixSeconds now < exp"
  shows "csrf_accepts c now (csrf_token c email exp nonce) email"
  using assms unfolding csrf_accepts_def csrf_token_def Let_def
  by (simp add: splitOn_append splitOn_no_sep itoa_no_dot rawURLEncode_no_dot codec_simps parseInt64_formatInt)

text \<open>
  The message of the MAC determines the identity and the rest of the token, because neither an
  email nor the rest of a token holds a NUL.
\<close>

lemma csrf_message_inj:
  assumes "NUL \<notin> set e1" "NUL \<notin> set e2" "e1 @ [NUL] @ p1 = e2 @ [NUL] @ p2"
  shows "e1 = e2 \<and> p1 = p2"
proof -
  have tw: "takeWhile (\<lambda>c. c \<noteq> NUL) (e @ [NUL] @ p) = e" if "NUL \<notin> set e" for e p
    using that by (induction e) auto
  show ?thesis using tw [OF assms(1), of p1] tw [OF assms(2), of p2] assms(3) by auto
qed

lemma csrf_accepts_parts:
  assumes "csrf_accepts c now value email"
  shows "\<exists>p0 p1 p2 exp. value = p0 @ ''.'' @ p1 @ ''.'' @ p2 \<and> parseInt64 p0 = Some exp \<and>
           unixSeconds now < exp \<and> rawURLDecode p2 = Some (csrf_mac c email (p0 @ ''.'' @ p1))"
proof -
  obtain p0 p1 p2 exp where parts: "splitOn CHR ''.'' value = [p0, p1, p2]"
    and rest: "parseInt64 p0 = Some exp" "unixSeconds now < exp"
      "rawURLDecode p2 = Some (csrf_mac c email (p0 @ ''.'' @ p1))"
    using assms by (auto simp: csrf_accepts_def split: list.splits option.splits)
  have "value = joinWith ''.'' [p0, p1, p2]"
    using joinWith_splitOn [of "CHR ''.''" "value"] parts by simp
  with rest show ?thesis by auto
qed

lemma csrf_token_other_identity:
  assumes "csrf_accepts c now (csrf_token c e1 exp nonce) e2"
  shows "csrf_mac c e1 (itoa exp @ ''.'' @ rawURLEncode nonce) = csrf_mac c e2 (itoa exp @ ''.'' @ rawURLEncode nonce)"
  using assms unfolding csrf_accepts_def csrf_token_def Let_def
  by (simp add: splitOn_append splitOn_no_sep itoa_no_dot rawURLEncode_no_dot codec_simps split: option.splits)

lemma frame_csrf [frame_intros]: "frame A (csrf c email)"
  unfolding csrf_def by (intro frame_intros)

lemma frame_prepare [frame_intros]: "frame A (prepareDelivery c)"
  unfolding prepareDelivery_def prepare_def by (intro frame_intros)

lemma frame_flash_open [frame_intros]: "frame A (flash_open c v e)"
  by (simp add: frame_def wp_flash_open split: option.splits)

lemma frame_validateCSRF [frame_intros]: "frame A (validateCSRF c v e)"
  unfolding frame_def by (auto intro: wp_mono [OF wp_validateCSRF])

section \<open>Properties\<close>

definition opens_for :: "flashCodec \<Rightarrow> string \<Rightarrow> string \<Rightarrow> time \<Rightarrow> openedFlash \<Rightarrow> bool" where
  "opens_for c cookie email now f \<longleftrightarrow>
     (\<exists>p nonce plain. length nonce = gcm_nonce_size \<and>
        rawURLDecode cookie = rawURLDecode (seal_cookie (fc_key c) (fc_aad c) nonce plain) \<and>
        flash_decode c cookie = Some p \<and> fp_email p = email \<and> fp_token p = of_token f \<and> of_token f \<noteq> [] \<and>
        fp_partial p = of_partial f \<and> unixSeconds now < fp_expires p)"

text \<open>C10: A delivery cookie opens only for the identity it was sealed for, under the same key and base path and
  before it expires; what it gives is the token that was sealed. Everything else is an error.\<close>

theorem flash_opens_only_its_own:
  "wp (flash_open c cookie email)
     (\<lambda>r w'. case r of Inl _ \<Rightarrow> True | Inr f \<Rightarrow> opens_for c cookie email (clock (w_env w) (w_ticks w)) f) w"
proof (cases "flash_decode c cookie")
  case (Some p)
  show ?thesis
    unfolding wp_flash_open
    using flash_decode_authentic [OF Some] by (auto simp: Some opens_for_def)
qed (simp add: wp_flash_open)

text \<open>C18: A sealed delivery opens again to exactly what was sealed, for its identity and until it expires.\<close>

theorem flash_round_trip:
  assumes "length (pr_nonce pr) = gcm_nonce_size"
    and "flash_payload_ok (flash_payload pr email token partial created texp)"
    and "token \<noteq> []" "unixSeconds (clock (w_env w) (w_ticks w)) < pr_expires pr"
  shows "wp (flash_open c (sealPrepared c pr email token partial created texp) email)
     (\<lambda>r w'. r = Inr \<lparr>of_token = token, of_partial = partial, of_tokenCreated = timeUnix (unixSeconds created),
        of_tokenExpires = unixTime (case texp of None \<Rightarrow> 0 | Some t \<Rightarrow> unixSeconds t)\<rparr>) w"
  unfolding wp_flash_open flash_decode_sealPrepared [OF assms(1,2)]
  using assms(3,4) by (simp add: flash_payload_def)

definition example_flash :: flashCodec where
  "example_flash =
     \<lparr>fc_key = replicate 32 (CHR ''k''), fc_csrfKey = replicate 32 (CHR ''c''), fc_ttl = 5 * minute,
      fc_aad = ''/setup-mcp''\<rparr>"

definition example_preparation :: flashPreparation where
  "example_preparation = \<lparr>pr_nonce = ''nonce-12byte'', pr_expires = 1700000300\<rparr>"

theorem flash_round_trip_witness:
  "wp (flash_open example_flash (sealPrepared example_flash example_preparation ''ann@corp.io'' ''glsa_1'' False (1700000000 * second) None) ''ann@corp.io'')
     (\<lambda>r w'. r = Inr \<lparr>of_token = ''glsa_1'', of_partial = False,
        of_tokenCreated = timeUnix (unixSeconds (1700000000 * second)), of_tokenExpires = unixTime 0\<rparr>) example_world"
proof -
  have ok: "flash_payload_ok (flash_payload example_preparation ''ann@corp.io'' ''glsa_1'' False (1700000000 * second) None)"
    by code_simp
  show ?thesis
    using flash_round_trip [OF _ ok, of example_world example_flash]
    by (simp add: example_preparation_def example_world_def example_env_def unixSeconds_def second_def)
qed

text \<open>A CSRF token made for an identity is accepted for that identity until it expires.\<close>

theorem csrf_round_trip:
  assumes "in_int64 exp" "unixSeconds (clock (w_env w) (w_ticks w)) < exp"
  shows "wp (validateCSRF c (csrf_token c email exp nonce) email) (\<lambda>r w'. r = None) w"
  by (rule wp_mono [OF wp_validateCSRF [where A = "\<lambda>_. True"]]) (use csrf_accepts_token [OF assms] in simp)

theorem csrf_round_trip_witness:
  "wp (validateCSRF example_flash (csrf_token example_flash ''ann@corp.io'' 1700000300 ''nonce'') ''ann@corp.io'') (\<lambda>r w'. r = None) example_world"
  by (rule csrf_round_trip) (simp_all add: in_int64_def example_world_def example_env_def unixSeconds_def second_def)



end
