(* ===== verification/GoUrl.thy ===== *)
theory GoUrl
  imports GoConv
begin

text \<open>
  \<open>net/url.Parse\<close> as far as the program looks at its result, with the address check that
  bracketed hosts go through (\<open>net/netip.ParseAddr\<close>), and \<open>net.JoinHostPort\<close>.
\<close>

section \<open>Percent escapes\<close>

definition is_hex :: "char \<Rightarrow> bool" where
  "is_hex c \<longleftrightarrow> is_digit c \<or> (65 \<le> byte_of c \<and> byte_of c \<le> 70) \<or> (97 \<le> byte_of c \<and> byte_of c \<le> 102)"

definition hex_digit :: "char \<Rightarrow> nat" where
  "hex_digit c = (if is_digit c then byte_of c - 48 else if byte_of c \<le> 70 then byte_of c - 55 else byte_of c - 87)"

definition host_escape :: "char \<Rightarrow> bool" where
  "host_escape c \<longleftrightarrow> \<not> (is_alnum c \<or> c \<in> set ''!$&()*+,;=:[]<>-_.~'' \<or> byte_of c \<in> {34, 39})"

datatype url_mode = HostMode | ZoneMode | OtherMode

fun url_unescape :: "url_mode \<Rightarrow> string \<Rightarrow> string option" where
  "url_unescape mode [] = Some []"
| "url_unescape mode (c # s) =
     (if c = CHR ''%'' then
        (case s of a # b # t \<Rightarrow>
           if \<not> is_hex a \<or> \<not> is_hex b then None
           else (let v = 16 * hex_digit a + hex_digit b in
             if mode = HostMode \<and> v < 128 \<and> v \<noteq> 37 then None
             else if mode = ZoneMode \<and> v \<noteq> 37 \<and> v \<noteq> 32 \<and> host_escape (char_of v) then None
             else map_option ((#) (char_of v)) (url_unescape mode t))
         | _ \<Rightarrow> None)
      else if mode \<noteq> OtherMode \<and> is_ascii c \<and> host_escape c then None
      else map_option ((#) c) (url_unescape mode s))"

section \<open>Addresses\<close>

text \<open>A decimal octet: one to three digits, at most 255, no leading zero.\<close>

definition ip4_octet :: "string \<Rightarrow> bool" where
  "ip4_octet s \<longleftrightarrow> s \<noteq> [] \<and> length s \<le> 3 \<and> list_all is_digit s \<and>
     (length s > 1 \<longrightarrow> hd s \<noteq> CHR ''0'') \<and> (case parseDigits s of Some n \<Rightarrow> n \<le> 255 | None \<Rightarrow> False)"

definition ip4_fields :: "string \<Rightarrow> bool" where
  "ip4_fields s \<longleftrightarrow> (let fs = splitOn CHR ''.'' s in length fs = 4 \<and> list_all ip4_octet fs)"

text \<open>
  The fields of an IPv6 address: \<open>n\<close> of its eight groups are still free, \<open>gap\<close> says whether
  \<open>::\<close> was seen. Four octets may stand for the last two groups.
\<close>

fun ip6_fields :: "nat \<Rightarrow> bool \<Rightarrow> string \<Rightarrow> bool" where
  "ip6_fields 0 gap s = (s = [] \<and> \<not> gap)"
| "ip6_fields (Suc n) gap s =
     (let h = takeWhile is_hex s; r = dropWhile is_hex s in
      if h = [] \<or> length h > 4 then False
      else if r \<noteq> [] \<and> hd r = CHR ''.'' then
        (if n = 0 \<or> (\<not> gap \<and> n \<noteq> 1) then False else ip4_fields s \<and> (n = 1 \<longrightarrow> \<not> gap))
      else if r = [] then (if n = 0 then \<not> gap else gap)
      else if hd r \<noteq> CHR '':'' \<or> length r = 1 then False
      else if hd (tl r) = CHR '':'' then
        (if gap then False else if length r = 2 then n > 0 else ip6_fields n True (drop 2 r))
      else ip6_fields n gap (tl r))"

definition ip6_valid :: "string \<Rightarrow> bool" where
  "ip6_valid s =
     (let (addr, zone, found) = cut CHR ''%'' s in
      if found \<and> zone = [] then False
      else if hasPrefix addr ''::'' then (length addr = 2 \<or> ip6_fields 8 True (drop 2 addr))
      else ip6_fields 8 False addr)"

section \<open>URLs\<close>

record url =
  u_scheme :: string
  u_user :: bool
  u_host :: string
  u_path :: string
  u_rawQuery :: string
  u_forceQuery :: bool
  u_fragment :: string

fun scheme_of :: "string \<Rightarrow> string \<Rightarrow> (string \<times> string) option" where
  "scheme_of raw [] = Some ([], raw)"
| "scheme_of raw (c # s) =
     (if is_lower c \<or> is_upper c then scheme_of raw s
      else if is_digit c \<or> c = CHR ''+'' \<or> c = CHR ''-'' \<or> c = CHR ''.'' then
        (if length raw = length (c # s) then Some ([], raw) else scheme_of raw s)
      else if c = CHR '':'' then
        (if length raw = length (c # s) then None else Some (take (length raw - length (c # s)) raw, s))
      else Some ([], raw))"

definition validOptionalPort :: "string \<Rightarrow> bool" where
  "validOptionalPort port \<longleftrightarrow> (case port of [] \<Rightarrow> True | c # ds \<Rightarrow> c = CHR '':'' \<and> list_all is_digit ds)"

definition validUserinfo :: "string \<Rightarrow> bool" where
  "validUserinfo s \<longleftrightarrow> list_all (\<lambda>c. is_alnum c \<or> c \<in> set ''-._:~!$&()*+,;=%@'' \<or> byte_of c = 39) s"

text \<open>The part before the last occurrence of a character and the part after it.\<close>

fun cut_last :: "char \<Rightarrow> string \<Rightarrow> (string \<times> string) option" where
  "cut_last c [] = None"
| "cut_last c (x # s) =
     (case cut_last c s of Some (a, b) \<Rightarrow> Some (x # a, b) | None \<Rightarrow> if x = c then Some ([], s) else None)"

text \<open>The address between the brackets; an escaped percent sign starts its zone.\<close>

definition unescape_literal :: "string \<Rightarrow> string option" where
  "unescape_literal hostname =
     (case indexOf hostname ''%25'' of
        None \<Rightarrow> url_unescape HostMode hostname
      | Some i \<Rightarrow> Option.bind (url_unescape HostMode (take i hostname)) (\<lambda>a.
                   map_option (\<lambda>b. a @ b) (url_unescape ZoneMode (drop i hostname))))"

definition parseHost :: "string \<Rightarrow> string option" where
  "parseHost host =
     (case cut_last CHR ''['' host of
        Some (prior, _) \<Rightarrow>
          if prior \<noteq> [] then None
          else (case cut_last CHR '']'' (tl host) of None \<Rightarrow> None
                | Some (hostname, colonPort) \<Rightarrow>
                    if \<not> validOptionalPort colonPort then None
                    else (case unescape_literal hostname of None \<Rightarrow> None
                          | Some addr \<Rightarrow> if ip6_valid addr then Some (''['' @ addr @ '']'' @ colonPort) else None))
      | None \<Rightarrow>
          (case cut CHR '':'' host of (_, port, found) \<Rightarrow>
             if found \<and> \<not> validOptionalPort (CHR '':'' # port) then None else url_unescape HostMode host))"

definition parseAuthority :: "string \<Rightarrow> (bool \<times> string) option" where
  "parseAuthority authority =
     (case cut_last CHR ''@'' authority of
        None \<Rightarrow> map_option (Pair False) (parseHost authority)
      | Some (userinfo, host) \<Rightarrow>
          (case parseHost host of None \<Rightarrow> None
           | Some h \<Rightarrow> if validUserinfo userinfo \<and> url_unescape OtherMode userinfo \<noteq> None then Some (True, h) else None))"

definition is_control :: "char \<Rightarrow> bool" where
  "is_control c \<longleftrightarrow> byte_of c < 32 \<or> byte_of c = 127"

text \<open>Everything but the fragment.\<close>

definition url_parse_base :: "string \<Rightarrow> url option" where
  "url_parse_base raw =
     (if list_ex is_control raw then None
      else if raw = ''*'' then
        Some \<lparr>u_scheme = [], u_user = False, u_host = [], u_path = ''*'', u_rawQuery = [], u_forceQuery = False, u_fragment = []\<rparr>
      else (case scheme_of raw raw of None \<Rightarrow> None
       | Some (scheme, rest) \<Rightarrow>
         (let scheme = map lower_char scheme;
              force = hasSuffix rest ''?'' \<and> count_list rest CHR ''?'' = 1;
              (rest, query) = (if force then (butlast rest, [])
                               else (case cut CHR ''?'' rest of (a, b, _) \<Rightarrow> (a, b)));
              u = \<lparr>u_scheme = scheme, u_user = False, u_host = [], u_path = [], u_rawQuery = query,
                   u_forceQuery = force, u_fragment = []\<rparr>
          in if \<not> hasPrefix rest ''/'' \<and> scheme \<noteq> [] then Some u
             else if \<not> hasPrefix rest ''/'' \<and> CHR '':'' \<in> set (takeWhile (\<lambda>c. c \<noteq> CHR ''/'') rest) then None
             else if (scheme \<noteq> [] \<or> \<not> hasPrefix rest ''///'') \<and> hasPrefix rest ''//'' then
               (let authority = takeWhile (\<lambda>c. c \<noteq> CHR ''/'') (drop 2 rest);
                    path = dropWhile (\<lambda>c. c \<noteq> CHR ''/'') (drop 2 rest)
                in case parseAuthority authority of None \<Rightarrow> None
                   | Some (user, host) \<Rightarrow>
                       map_option (\<lambda>p. u\<lparr>u_user := user, u_host := host, u_path := p\<rparr>) (url_unescape OtherMode path))
             else map_option (\<lambda>p. u\<lparr>u_path := p\<rparr>) (url_unescape OtherMode rest))))"

definition url_parse :: "string \<Rightarrow> url option" where
  "url_parse raw =
     (case cut CHR ''#'' raw of (base, frag, _) \<Rightarrow>
        Option.bind (url_parse_base base) (\<lambda>u. map_option (\<lambda>f. u\<lparr>u_fragment := f\<rparr>) (url_unescape OtherMode frag)))"

definition split_host_port :: "string \<Rightarrow> string \<times> string" where
  "split_host_port hostport =
     (let (host, port) = (case cut_last CHR '':'' hostport of
            Some (h, p) \<Rightarrow> if validOptionalPort (CHR '':'' # p) then (h, p) else (hostport, [])
          | None \<Rightarrow> (hostport, []))
      in (if hasPrefix host ''['' \<and> hasSuffix host '']'' then butlast (tl host) else host, port))"

definition u_hostname :: "url \<Rightarrow> string" where "u_hostname u = fst (split_host_port (u_host u))"
definition u_port :: "url \<Rightarrow> string" where "u_port u = snd (split_host_port (u_host u))"

definition joinHostPort :: "string \<Rightarrow> string \<Rightarrow> string" where
  "joinHostPort host port =
     (if CHR '':'' \<in> set host then ''['' @ host @ '']:'' @ port else host @ '':'' @ port)"

end
