(* ===== verification/Config.thy ===== *)
theory Config
  imports SessionCodec FlashCodec GoUrl
begin

text \<open>
  \<open>internal/server/config.go\<close>: the settings, how they are read from the environment of the
  process, and what a configuration that was accepted satisfies.
\<close>

section \<open>Settings\<close>

record config =
  cfg_Addr :: string
  cfg_BasePath :: string
  cfg_AppPublicURL :: string
  cfg_AppOrigin :: string
  cfg_AuthMode :: string
  cfg_GrafanaURL :: string
  cfg_GrafanaToken :: string
  cfg_GrafanaAPIMode :: string
  cfg_GrafanaNamespace :: string
  cfg_PublicURL :: string
  cfg_Issuer :: string
  cfg_ClientID :: string
  cfg_OIDCClientSecret :: string
  cfg_OIDCScopes :: "string list"
  cfg_IDTokenSource :: string
  cfg_IDTokenHeader :: string
  cfg_IDTokenCookie :: string
  cfg_RequiredGroups :: "string list"
  cfg_AllowAllAuthenticatedUsers :: bool
  cfg_EnableEnvSetup :: bool
  cfg_TokenTTL :: duration
  cfg_FlashCookieKey :: bytes
  cfg_FlashTTL :: duration
  cfg_SessionCookieKey :: bytes
  cfg_SessionTTL :: duration
  cfg_StartupTimeout :: duration
  cfg_ReadinessTTL :: duration
  cfg_RotationLockMode :: string
  cfg_RotationLease :: string
  cfg_PodNamespace :: string
  cfg_PodName :: string
  cfg_RotationTokenFile :: string
  cfg_RotationCAFile :: string

text \<open>
  The process's surroundings: its environment variables (an unset one reads as the empty
  string), its files, the order in which a range over a map visits the given keys, the case
  table of the library, and whether a file holds PEM certificates.
\<close>

record host =
  h_getenv :: "string \<Rightarrow> string"
  h_readFile :: "string \<Rightarrow> error + string"
  h_order :: "string list \<Rightarrow> string list"
  h_lower :: "string \<Rightarrow> string"
  h_certificates :: "string \<Rightarrow> bool"

section \<open>Reading values\<close>

definition getenv_or :: "host \<Rightarrow> string \<Rightarrow> string \<Rightarrow> string" where
  "getenv_or h key fallback = (if h_getenv h key \<noteq> [] then h_getenv h key else fallback)"

definition splitList :: "string \<Rightarrow> string list" where
  "splitList v = filter (\<lambda>p. p \<noteq> []) (map trimSpace (splitOn CHR '','' v))"

fun add_scopes :: "string list \<Rightarrow> string list \<Rightarrow> string list" where
  "add_scopes [] out = out"
| "add_scopes (part # parts) out =
     (let p = trimSpace part
      in add_scopes parts (if p \<noteq> [] \<and> p \<notin> set out then out @ [p] else out))"

definition splitScopes :: "string \<Rightarrow> string list" where
  "splitScopes v =
     add_scopes (fieldsBy (\<lambda>c. c = CHR '','' \<or> c = CHR '' '' \<or> c = TAB \<or> c = LF \<or> c = CR) v) []"

definition boolEnv :: "host \<Rightarrow> string \<Rightarrow> error + bool" where
  "boolEnv h key =
     (if h_getenv h key = [] then Inr False
      else (case parseBool (h_getenv h key) of
              None \<Rightarrow> Inl (Msg (key @ '' must be true or false'')) | Some b \<Rightarrow> Inr b))"

definition secretEnv :: "host \<Rightarrow> string \<Rightarrow> string \<Rightarrow> error + string" where
  "secretEnv h valueKey fileKey =
     (let v = h_getenv h valueKey; file = h_getenv h fileKey in
      if v \<noteq> [] \<and> file \<noteq> [] then Inl (Msg (''set only one of '' @ valueKey @ '' and '' @ fileKey))
      else if v \<noteq> [] then Inr v
      else if file = [] then Inl (Msg (''set one of '' @ valueKey @ '' and '' @ fileKey))
      else (case h_readFile h file of
              Inl e \<Rightarrow> Inl (Wrap (''reading '' @ fileKey @ '': '') e [])
            | Inr b \<Rightarrow> if trimSpace b = [] then Inl (Msg (fileKey @ '' is empty'')) else Inr (trimSpace b)))"

definition header_char :: "char \<Rightarrow> bool" where
  "header_char c \<longleftrightarrow> is_alnum c \<or> c \<in> set ''!#$%&*+-.^_`|~'' \<or> byte_of c = 39"

definition validHeaderName :: "string \<Rightarrow> bool" where
  "validHeaderName name \<longleftrightarrow> name \<noteq> [] \<and> list_all header_char name"

section \<open>Origins\<close>

definition default_port :: "string \<Rightarrow> string \<Rightarrow> bool" where
  "default_port scheme port \<longleftrightarrow> scheme = ''https'' \<and> port = ''443'' \<or> scheme = ''http'' \<and> port = ''80''"

text \<open>The port of an origin in canonical form: none when absent or the scheme's default.\<close>

definition origin_port :: "string \<Rightarrow> string \<Rightarrow> string option" where
  "origin_port scheme port =
     (if port = [] then Some []
      else (case parseInt64 port of None \<Rightarrow> None
            | Some number \<Rightarrow>
                if number < 1 \<or> number > 65535 then None
                else Some (if default_port scheme (itoa number) then [] else itoa number)))"

definition normalizeOrigin :: "(string \<Rightarrow> string) \<Rightarrow> string \<Rightarrow> error + string" where
  "normalizeOrigin uni raw =
     (case url_parse raw of None \<Rightarrow> Inl (Msg ''invalid origin'')
      | Some u \<Rightarrow>
          if u_hostname u = [] \<or> (u_scheme u \<noteq> ''https'' \<and> u_scheme u \<noteq> ''http'') \<or> u_user u \<or>
             (u_path u \<noteq> [] \<and> u_path u \<noteq> ''/'') \<or> u_rawQuery u \<noteq> [] \<or> u_forceQuery u \<or> u_fragment u \<noteq> []
          then Inl (Msg ''invalid origin'')
          else (case origin_port (u_scheme u) (u_port u) of None \<Rightarrow> Inl (Msg ''invalid origin port'')
                | Some port \<Rightarrow>
                    (let name = toLower uni (u_hostname u);
                         full = (if port \<noteq> [] then joinHostPort name port
                                 else if CHR '':'' \<in> set name then ''['' @ name @ '']'' else name)
                     in Inr (u_scheme u @ ''://'' @ full))))"

section \<open>\<open>FromEnv\<close>\<close>

definition and_then :: "'e + 'a \<Rightarrow> ('a \<Rightarrow> 'e + 'b) \<Rightarrow> 'e + 'b" where
  "and_then r f = (case r of Inl e \<Rightarrow> Inl e | Inr x \<Rightarrow> f x)"

definition reject_if :: "bool \<Rightarrow> string \<Rightarrow> error + unit" where
  "reject_if b msg = (if b then Inl (Msg msg) else Inr ())"

lemma and_then_Inr: "and_then r f = Inr y \<longleftrightarrow> (\<exists>x. r = Inr x \<and> f x = Inr y)"
  by (cases r) (simp_all add: and_then_def)

lemma reject_if_Inr [simp]: "reject_if b msg = Inr u \<longleftrightarrow> \<not> b"
  by (simp add: reject_if_def)

definition initial_config :: "host \<Rightarrow> bool \<Rightarrow> bool \<Rightarrow> config" where
  "initial_config h allowAll enableEnvSetup =
     \<lparr>cfg_Addr = getenv_or h ''LISTEN_ADDR'' '':8080'',
      cfg_BasePath = ''/'' @ trimSet ''/'' (getenv_or h ''BASE_PATH'' ''/setup-mcp''),
      cfg_AppPublicURL = trimRight ''/'' (getenv_or h ''APP_PUBLIC_URL'' []),
      cfg_AppOrigin = [],
      cfg_AuthMode = getenv_or h ''AUTH_MODE'' ''proxy'',
      cfg_GrafanaURL = trimRight ''/'' (getenv_or h ''GRAFANA_URL'' []),
      cfg_GrafanaToken = [],
      cfg_GrafanaAPIMode = getenv_or h ''GRAFANA_API_MODE'' ''legacy'',
      cfg_GrafanaNamespace = getenv_or h ''GRAFANA_NAMESPACE'' ''default'',
      cfg_PublicURL = trimRight ''/'' (getenv_or h ''GRAFANA_PUBLIC_URL'' []),
      cfg_Issuer = trimRight ''/'' (getenv_or h ''OIDC_ISSUER'' []),
      cfg_ClientID = getenv_or h ''OIDC_CLIENT_ID'' ''grafana-mcp-setup'',
      cfg_OIDCClientSecret = [],
      cfg_OIDCScopes = splitScopes (getenv_or h ''OIDC_SCOPES'' ''openid,profile,email,groups''),
      cfg_IDTokenSource = getenv_or h ''ID_TOKEN_SOURCE'' ''header'',
      cfg_IDTokenHeader = getenv_or h ''ID_TOKEN_HEADER'' ''X-Grafana-MCP-ID-Token'',
      cfg_IDTokenCookie = getenv_or h ''ID_TOKEN_COOKIE'' ''mcp_id_token'',
      cfg_RequiredGroups = splitList (h_getenv h ''REQUIRED_GROUPS''),
      cfg_AllowAllAuthenticatedUsers = allowAll,
      cfg_EnableEnvSetup = enableEnvSetup,
      cfg_TokenTTL = 0,
      cfg_FlashCookieKey = [],
      cfg_FlashTTL = 5 * minute,
      cfg_SessionCookieKey = [],
      cfg_SessionTTL = defaultSessionTTL,
      cfg_StartupTimeout = 10 * second,
      cfg_ReadinessTTL = 10 * second,
      cfg_RotationLockMode = getenv_or h ''ROTATION_LOCK_MODE'' ''local'',
      cfg_RotationLease = getenv_or h ''ROTATION_LEASE_NAME'' ''grafana-mcp-rotation'',
      cfg_PodNamespace = h_getenv h ''POD_NAMESPACE'',
      cfg_PodName = h_getenv h ''POD_NAME'',
      cfg_RotationTokenFile = ''/var/run/secrets/rotation-lock/token'',
      cfg_RotationCAFile = ''/var/run/secrets/rotation-lock/ca.crt''\<rparr>"

definition with_openid :: "config \<Rightarrow> config" where
  "with_openid c =
     (if ''openid'' \<notin> set (cfg_OIDCScopes c) then c\<lparr>cfg_OIDCScopes := ''openid'' # cfg_OIDCScopes c\<rparr> else c)"

definition with_ttl :: "host \<Rightarrow> config \<Rightarrow> error + config" where
  "with_ttl h c =
     (case parseInt64 (getenv_or h ''TOKEN_TTL_DAYS'' ''90'') of
        None \<Rightarrow> Inl (Msg ''TOKEN_TTL_DAYS must be an integer from 1 to 365'')
      | Some days \<Rightarrow>
          if days \<le> 0 \<or> days > 365 then Inl (Msg ''TOKEN_TTL_DAYS must be an integer from 1 to 365'')
          else Inr (c\<lparr>cfg_TokenTTL := days * 24 * hour\<rparr>))"

definition decode_key :: "string \<Rightarrow> string \<Rightarrow> error + bytes" where
  "decode_key name encoded =
     (case stdDecode encoded of
        None \<Rightarrow> Inl (Msg (name @ '' must be base64 for exactly 32 bytes''))
      | Some key \<Rightarrow> if length key \<noteq> 32 then Inl (Msg (name @ '' must be base64 for exactly 32 bytes'')) else Inr key)"

definition with_secrets :: "host \<Rightarrow> config \<Rightarrow> error + config" where
  "with_secrets h c =
     and_then (secretEnv h ''GRAFANA_ADMIN_TOKEN'' ''GRAFANA_ADMIN_TOKEN_FILE'') (\<lambda>tok.
     and_then (secretEnv h ''FLASH_COOKIE_KEY'' ''FLASH_COOKIE_KEY_FILE'') (\<lambda>flashEncoded.
     and_then (decode_key ''FLASH_COOKIE_KEY'' flashEncoded) (\<lambda>key.
       Inr (c\<lparr>cfg_GrafanaToken := tok, cfg_FlashCookieKey := key\<rparr>))))"

definition session_ttl :: "host \<Rightarrow> error + duration" where
  "session_ttl h =
     (let bad = Inl (Msg (''SESSION_TTL_SECONDS must be an integer from 1 to '' @ itoa maxSessionTTLSeconds)) in
      case parseInt64 (getenv_or h ''SESSION_TTL_SECONDS'' ''3600'') of None \<Rightarrow> bad
      | Some seconds \<Rightarrow> if seconds \<le> 0 \<or> seconds > maxSessionTTLSeconds then bad else Inr (seconds * second))"

definition with_native :: "host \<Rightarrow> config \<Rightarrow> error + config" where
  "with_native h c =
     (if cfg_AuthMode c \<noteq> ''native'' then Inr c
      else and_then (secretEnv h ''OIDC_CLIENT_SECRET'' ''OIDC_CLIENT_SECRET_FILE'') (\<lambda>secret.
           and_then (secretEnv h ''SESSION_COOKIE_KEY'' ''SESSION_COOKIE_KEY_FILE'') (\<lambda>encoded.
           and_then (decode_key ''SESSION_COOKIE_KEY'' encoded) (\<lambda>key.
           and_then (session_ttl h) (\<lambda>ttl.
             Inr (c\<lparr>cfg_OIDCClientSecret := secret, cfg_SessionCookieKey := key, cfg_SessionTTL := ttl\<rparr>))))))"

definition required_setting :: "config \<Rightarrow> string \<Rightarrow> string" where
  "required_setting c name =
     (if name = ''APP_PUBLIC_URL'' then cfg_AppPublicURL c else if name = ''GRAFANA_URL'' then cfg_GrafanaURL c
      else if name = ''GRAFANA_PUBLIC_URL'' then cfg_PublicURL c else if name = ''OIDC_ISSUER'' then cfg_Issuer c
      else cfg_GrafanaNamespace c)"

definition required_names :: "string list" where
  "required_names = [''APP_PUBLIC_URL'', ''GRAFANA_URL'', ''GRAFANA_PUBLIC_URL'', ''OIDC_ISSUER'', ''GRAFANA_NAMESPACE'']"

fun check_required :: "config \<Rightarrow> string list \<Rightarrow> error + unit" where
  "check_required c [] = Inr ()"
| "check_required c (name # names) =
     (if required_setting c name = [] then Inl (Msg (name @ '' is required'')) else check_required c names)"

definition check_source :: "config \<Rightarrow> error + unit" where
  "check_source c =
     (if cfg_AuthMode c \<noteq> ''proxy'' then Inr ()
      else if cfg_IDTokenSource c \<noteq> ''header'' \<and> cfg_IDTokenSource c \<noteq> ''cookie'' then
        Inl (Msg ''ID_TOKEN_SOURCE must be header or cookie'')
      else if cfg_IDTokenSource c = ''header'' \<and> \<not> validHeaderName (cfg_IDTokenHeader c) then
        Inl (Msg ''ID_TOKEN_HEADER must be a valid HTTP header name in header mode'')
      else if cfg_IDTokenSource c = ''cookie'' \<and> cfg_IDTokenCookie c = [] then
        Inl (Msg ''ID_TOKEN_COOKIE is required in cookie mode'')
      else if cfg_IDTokenSource c = ''cookie'' \<and> \<not> validHeaderName (cfg_IDTokenCookie c) then
        Inl (Msg ''ID_TOKEN_COOKIE must be a valid cookie name in cookie mode'')
      else Inr ())"

definition bad_base_path :: "string \<Rightarrow> bool" where
  "bad_base_path p \<longleftrightarrow>
     p = ''/'' \<or> containsAny p (''{}?#% '' @ [TAB, CR, LF]) \<or> containsSub p ''//'' \<or> containsSub p ''/../'' \<or>
     hasSuffix p ''/..''"

definition check_modes :: "config \<Rightarrow> error + unit" where
  "check_modes c =
     and_then (reject_if (bad_base_path (cfg_BasePath c)) ''BASE_PATH must be a non-root, unescaped URL path'') (\<lambda>_.
     and_then (reject_if (cfg_RotationLockMode c \<noteq> ''local'' \<and> cfg_RotationLockMode c \<noteq> ''kubernetes'')
       ''ROTATION_LOCK_MODE must be local or kubernetes'') (\<lambda>_.
     and_then (reject_if (cfg_GrafanaAPIMode c \<noteq> ''legacy'' \<and> cfg_GrafanaAPIMode c \<noteq> ''iam'')
       ''GRAFANA_API_MODE must be legacy or iam'') (\<lambda>_.
     reject_if (cfg_RotationLockMode c = ''kubernetes'' \<and>
         (cfg_RotationLease c = [] \<or> cfg_PodNamespace c = [] \<or> cfg_PodName c = []))
       ''ROTATION_LEASE_NAME, POD_NAMESPACE, and POD_NAME are required in kubernetes lock mode'')))"

definition with_origin :: "host \<Rightarrow> config \<Rightarrow> error + config" where
  "with_origin h c =
     (case normalizeOrigin (h_lower h) (cfg_AppPublicURL c) of
        Inl _ \<Rightarrow> Inl (Msg ''APP_PUBLIC_URL must contain only an absolute http or https origin'')
      | Inr origin \<Rightarrow>
          if cfg_AuthMode c = ''native'' \<and> \<not> hasPrefix origin ''https://''
          then Inl (Msg ''APP_PUBLIC_URL must use https in native auth mode'')
          else Inr (c\<lparr>cfg_AppOrigin := origin, cfg_AppPublicURL := origin\<rparr>))"

definition good_url :: "string \<Rightarrow> bool" where
  "good_url raw \<longleftrightarrow>
     (case url_parse raw of None \<Rightarrow> False
      | Some u \<Rightarrow> u_scheme u \<noteq> [] \<and> u_host u \<noteq> [] \<and> (u_scheme u = ''https'' \<or> u_scheme u = ''http'') \<and> \<not> u_user u \<and>
               u_rawQuery u = [] \<and> u_fragment u = [])"

fun check_urls :: "config \<Rightarrow> string list \<Rightarrow> error + unit" where
  "check_urls c [] = Inr ()"
| "check_urls c (name # names) =
     (if \<not> good_url (required_setting c name)
      then Inl (Msg (name @ '' must be an absolute http or https URL without credentials, query, or fragment''))
      else check_urls c names)"

definition fromEnv :: "host \<Rightarrow> error + config" where
  "fromEnv h =
     and_then (boolEnv h ''ENABLE_ENV_SETUP'') (\<lambda>enableEnvSetup.
     and_then (boolEnv h ''ALLOW_ALL_AUTHENTICATED_USERS'') (\<lambda>allowAll.
     let c = initial_config h allowAll enableEnvSetup in
     and_then (reject_if (cfg_AuthMode c \<noteq> ''proxy'' \<and> cfg_AuthMode c \<noteq> ''native'') ''AUTH_MODE must be proxy or native'') (\<lambda>_.
     and_then (with_ttl h (with_openid c)) (\<lambda>c.
     and_then (with_secrets h c) (\<lambda>c.
     and_then (with_native h c) (\<lambda>c.
     and_then (check_required c (h_order h required_names)) (\<lambda>_.
     and_then (reject_if (cfg_RequiredGroups c = [] \<and> \<not> cfg_AllowAllAuthenticatedUsers c)
       ''REQUIRED_GROUPS must be nonempty unless ALLOW_ALL_AUTHENTICATED_USERS=true'') (\<lambda>_.
     and_then (check_source c) (\<lambda>_.
     and_then (check_modes c) (\<lambda>_.
     and_then (with_origin h c) (\<lambda>c.
     and_then (check_urls c (h_order h [''GRAFANA_URL'', ''GRAFANA_PUBLIC_URL''])) (\<lambda>_. Inr c))))))))))))"

section \<open>An example\<close>

definition example_host :: host where
  "example_host =
     \<lparr>h_getenv = (\<lambda>k. case map_of
        [(''APP_PUBLIC_URL'', ''https://mcp.corp.io''), (''GRAFANA_URL'', ''http://grafana:3000''),
         (''GRAFANA_PUBLIC_URL'', ''https://grafana.corp.io''), (''OIDC_ISSUER'', ''https://id.corp.io''),
         (''REQUIRED_GROUPS'', ''sre, dev''), (''GRAFANA_ADMIN_TOKEN'', ''glsa_admin''),
         (''FLASH_COOKIE_KEY'', ''MDEyMzQ1Njc4OTAxMjM0NTY3ODkwMTIzNDU2Nzg5MDE='')] k of None \<Rightarrow> [] | Some v \<Rightarrow> v),
      h_readFile = (\<lambda>_. Inl Canceled), h_order = (\<lambda>ks. ks), h_lower = (\<lambda>s. s), h_certificates = (\<lambda>_. False)\<rparr>"

definition example_config :: config where
  "example_config = initial_config example_host False False"

end
