(* ===== verification/LeaseLock.thy ===== *)
theory LeaseLock
  imports Config "HOL-Library.Char_ord" "HOL-Library.List_Lexorder"
begin

text \<open>
  \<open>internal/server/lock.go\<close>, the lock for several pods: a Kubernetes Lease that is taken over
  only when it has no holder or has expired, written with the resource version it was read at,
  renewed in the background and checked before every change.
\<close>

section \<open>The locker\<close>

record leaseLocker =
  lk_baseURL :: string
  lk_leaseName :: string
  lk_namespace :: string
  lk_podName :: string
  lk_tokenFile :: string
  lk_leaseDuration :: duration

definition newLeaseLocker :: "host \<Rightarrow> config \<Rightarrow> error + leaseLocker" where
  "newLeaseLocker h cfg =
     (let name = h_getenv h ''KUBERNETES_SERVICE_HOST''; port = getenv_or h ''KUBERNETES_SERVICE_PORT'' ''443'' in
      if name = [] then Inl (Msg ''KUBERNETES_SERVICE_HOST is required in kubernetes lock mode'')
      else (case h_readFile h (cfg_RotationCAFile cfg) of
              Inl e \<Rightarrow> Inl (Wrap ''reading Kubernetes CA: '' e [])
            | Inr caPEM \<Rightarrow>
                if \<not> h_certificates h caPEM then Inl (Msg ''kubernetes CA contains no certificates'')
                else Inr \<lparr>lk_baseURL = ''https://'' @ joinHostPort name port, lk_leaseName = cfg_RotationLease cfg,
                          lk_namespace = cfg_PodNamespace cfg, lk_podName = cfg_PodName cfg,
                          lk_tokenFile = cfg_RotationTokenFile cfg, lk_leaseDuration = 15 * second\<rparr>))"

datatype mutationLocker = LocalLocker | LeaseLocker leaseLocker

definition newMutationLocker :: "host \<Rightarrow> config \<Rightarrow> error + mutationLocker" where
  "newMutationLocker h cfg =
     (if cfg_RotationLockMode cfg = ''kubernetes'' then map_sum id LeaseLocker (newLeaseLocker h cfg)
      else Inr LocalLocker)"

section \<open>The Lease object\<close>

record kubeLease =
  kl_apiVersion :: string
  kl_kind :: string
  kl_name :: string
  kl_namespace :: string
  kl_resourceVersion :: string
  kl_uid :: string
  kl_labels :: "(string \<times> string) list"
  kl_annotations :: "(string \<times> string) list"
  kl_owners :: "json list"
  kl_finalizers :: "string list"
  kl_holder :: string
  kl_duration :: int
  kl_acquireTime :: string
  kl_renewTime :: string
  kl_transitions :: int

definition zero_lease :: kubeLease where
  "zero_lease =
     \<lparr>kl_apiVersion = [], kl_kind = [], kl_name = [], kl_namespace = [], kl_resourceVersion = [], kl_uid = [],
      kl_labels = [], kl_annotations = [], kl_owners = [], kl_finalizers = [], kl_holder = [], kl_duration = 0,
      kl_acquireTime = [], kl_renewTime = [], kl_transitions = 0\<rparr>"

fun dec_raw :: "json decoder" where "dec_raw j _ = Some j"

definition dec_lease :: "kubeLease decoder" where
  "dec_lease = dec_struct
     [field ''apiVersion'' dec_string kl_apiVersion (\<lambda>x. kl_apiVersion_update (\<lambda>_. x)),
      field ''kind'' dec_string kl_kind (\<lambda>x. kl_kind_update (\<lambda>_. x)),
      (''metadata'', dec_struct
        [field ''name'' dec_string kl_name (\<lambda>x. kl_name_update (\<lambda>_. x)),
         field ''namespace'' dec_string kl_namespace (\<lambda>x. kl_namespace_update (\<lambda>_. x)),
         field ''resourceVersion'' dec_string kl_resourceVersion (\<lambda>x. kl_resourceVersion_update (\<lambda>_. x)),
         field ''uid'' dec_string kl_uid (\<lambda>x. kl_uid_update (\<lambda>_. x)),
         field ''labels'' dec_map kl_labels (\<lambda>x. kl_labels_update (\<lambda>_. x)),
         field ''annotations'' dec_map kl_annotations (\<lambda>x. kl_annotations_update (\<lambda>_. x)),
         field ''ownerReferences'' (dec_list JNull dec_raw) kl_owners (\<lambda>x. kl_owners_update (\<lambda>_. x)),
         field ''finalizers'' (dec_list [] dec_string) kl_finalizers (\<lambda>x. kl_finalizers_update (\<lambda>_. x))]),
      (''spec'', dec_struct
        [field ''holderIdentity'' dec_string kl_holder (\<lambda>x. kl_holder_update (\<lambda>_. x)),
         field ''leaseDurationSeconds'' dec_int32 kl_duration (\<lambda>x. kl_duration_update (\<lambda>_. x)),
         field ''acquireTime'' dec_string kl_acquireTime (\<lambda>x. kl_acquireTime_update (\<lambda>_. x)),
         field ''renewTime'' dec_string kl_renewTime (\<lambda>x. kl_renewTime_update (\<lambda>_. x)),
         field ''leaseTransitions'' dec_int32 kl_transitions (\<lambda>x. kl_transitions_update (\<lambda>_. x))])]"

text \<open>Members with \<open>omitempty\<close>; the keys of a map are written in ascending order.\<close>

definition opt_int :: "string \<Rightarrow> int \<Rightarrow> (string \<times> json) list" where
  "opt_int name i = (if i = 0 then [] else [(name, JInt i)])"

definition opt_map :: "string \<Rightarrow> (string \<times> string) list \<Rightarrow> (string \<times> json) list" where
  "opt_map name m = (if m = [] then [] else [(name, JObj (map (\<lambda>(k, v). (k, JStr v)) (sort_key fst m)))])"

definition opt_list :: "string \<Rightarrow> json list \<Rightarrow> (string \<times> json) list" where
  "opt_list name vs = (if vs = [] then [] else [(name, JArr vs)])"

definition enc_lease :: "kubeLease \<Rightarrow> json" where
  "enc_lease l = JObj
     [(''apiVersion'', JStr (kl_apiVersion l)), (''kind'', JStr (kl_kind l)),
      (''metadata'', JObj ([(''name'', JStr (kl_name l)), (''namespace'', JStr (kl_namespace l)),
          (''resourceVersion'', JStr (kl_resourceVersion l))] @ optional ''uid'' (kl_uid l) @
          opt_map ''labels'' (kl_labels l) @ opt_map ''annotations'' (kl_annotations l) @
          opt_list ''ownerReferences'' (kl_owners l) @ opt_list ''finalizers'' (map JStr (kl_finalizers l)))),
      (''spec'', JObj (optional ''holderIdentity'' (kl_holder l) @ opt_int ''leaseDurationSeconds'' (kl_duration l) @
          optional ''acquireTime'' (kl_acquireTime l) @ optional ''renewTime'' (kl_renewTime l) @
          opt_int ''leaseTransitions'' (kl_transitions l)))]"

definition initial_lease :: "leaseLocker \<Rightarrow> json" where
  "initial_lease l = JObj
     [(''apiVersion'', JStr ''coordination.k8s.io/v1''), (''kind'', JStr ''Lease''),
      (''metadata'', JObj [(''name'', JStr (lk_leaseName l)), (''namespace'', JStr (lk_namespace l))]),
      (''spec'', JObj [])]"

section \<open>Requests\<close>

definition lease_collection :: "leaseLocker \<Rightarrow> string" where
  "lease_collection l = ''/apis/coordination.k8s.io/v1/namespaces/'' @ pathEscape (lk_namespace l) @ ''/leases''"

definition lease_path :: "leaseLocker \<Rightarrow> string" where
  "lease_path l = lease_collection l @ ''/'' @ pathEscape (lk_leaseName l)"

text \<open>The status, zero when there was no reply, and the decoded document or an error.\<close>

definition lease_result :: "string \<Rightarrow> 'a decoder option \<Rightarrow> 'a \<Rightarrow> reply \<Rightarrow> int \<times> (error + 'a)" where
  "lease_result method out zero r =
     (case r of NetError e \<Rightarrow> (0, Inl e)
      | Reply status body \<Rightarrow>
          if status \<ge> 300 then
            (status, Inl (Msg (''kubernetes Lease '' @ method @ '' returned HTTP '' @ itoa status)))
          else (case out of None \<Rightarrow> (status, Inr zero)
           | Some d \<Rightarrow> (case Option.bind (decode_first (take 1048576 body)) (\<lambda>j. d j zero) of
                          None \<Rightarrow> (status, Inl (Foreign ''*json.Error'' ''invalid response'' None))
                        | Some x \<Rightarrow> (status, Inr x))))"

definition lease_request ::
  "leaseLocker \<Rightarrow> string \<Rightarrow> json option \<Rightarrow> 'a decoder option \<Rightarrow> 'a \<Rightarrow> (int \<times> (error + 'a)) io" where
  "lease_request l method body out zero = do {
     t \<leftarrow> os_readFile (lk_tokenFile l);
     (case t of Inl e \<Rightarrow> ret (0, Inl (Wrap ''reading Kubernetes token: '' e []))
      | Inr token \<Rightarrow> do {
          r \<leftarrow> http_call \<lparr>rq_method = method, rq_base = lk_baseURL l,
                 rq_path = (if method = POST then lease_collection l else lease_path l),
                 rq_bearer = trimSpace token, rq_body = map_option marshal body\<rparr>;
          ret (lease_result method out zero r)
        })
   }"

definition readLease :: "leaseLocker \<Rightarrow> bool \<Rightarrow> (error + kubeLease) io" where
  "readLease l create = do {
     (status, r) \<leftarrow> lease_request l GET None (Some dec_lease) zero_lease;
     (if status \<noteq> 404 \<or> \<not> create then ret r
      else do {
        (status, p) \<leftarrow> lease_request l POST (Some (initial_lease l)) None ();
        (if isl p \<and> status \<noteq> 409 then ret (Inl (projl p))
         else do {
           (_, q) \<leftarrow> lease_request l GET None (Some dec_lease) zero_lease;
           ret q
         })
      })
   }"

definition lease_ready :: "leaseLocker \<Rightarrow> (error option) io" where
  "lease_ready l = do { r \<leftarrow> readLease l True; ret (sum_error r) }"

section \<open>Taking and renewing\<close>

definition randomHolder :: "string \<Rightarrow> (error + string) io" where
  "randomHolder pod = do {
     r \<leftarrow> random_bytes 12;
     ret (case r of Inl e \<Rightarrow> Inl e | Inr b \<Rightarrow> Inr (pod @ ''-'' @ hexEncode b))
   }"

definition wrap32 :: "int \<Rightarrow> int" where
  "wrap32 i = (i + 2 ^ 31) mod 2 ^ 32 - 2 ^ 31"

text \<open>
  What \<open>update\<close> does with a Lease it read: an error, nothing (the Lease is somebody else's), or
  the Lease to write back.
\<close>

definition lease_expiry :: "kubeLease \<Rightarrow> time option" where
  "lease_expiry lease =
     (if kl_renewTime lease = [] then Some zeroTime
      else map_option (\<lambda>t. t + kl_duration lease * second) (parse_micro (kl_renewTime lease)))"

definition taken_lease :: "leaseLocker \<Rightarrow> string \<Rightarrow> time \<Rightarrow> kubeLease \<Rightarrow> kubeLease" where
  "taken_lease l holder now lease =
     (let lease = (if kl_holder lease = holder then lease
                   else lease\<lparr>kl_transitions := wrap32 (kl_transitions lease + 1), kl_acquireTime := format_micro now\<rparr>)
      in lease\<lparr>kl_holder := holder, kl_duration := truncDiv (lk_leaseDuration l) second,
               kl_renewTime := format_micro now\<rparr>)"

definition lease_decide ::
  "leaseLocker \<Rightarrow> string \<Rightarrow> bool \<Rightarrow> kubeLease \<Rightarrow> time \<Rightarrow> error + kubeLease option" where
  "lease_decide l holder acquire lease now =
     (case lease_expiry lease of
        None \<Rightarrow> Inl (Wrap ''parsing Lease renewTime: '' (Foreign ''*time.ParseError'' ''invalid time'' None) [])
      | Some expires \<Rightarrow>
          (let ours = (kl_holder lease = holder); available = (kl_holder lease = [] \<or> \<not> expires > now)
           in if \<not> acquire \<and> \<not> ours then Inr None
              else if \<not> ours \<and> \<not> available then Inr None
              else Inr (Some (taken_lease l holder now lease))))"

definition lease_update :: "leaseLocker \<Rightarrow> string \<Rightarrow> bool \<Rightarrow> (error + bool) io" where
  "lease_update l holder acquire = do {
     r \<leftarrow> readLease l acquire;
     (case r of Inl e \<Rightarrow> ret (Inl e)
      | Inr lease \<Rightarrow> do {
          now \<leftarrow> time_now;
          (case lease_decide l holder acquire lease now of
             Inl e \<Rightarrow> ret (Inl e)
           | Inr None \<Rightarrow> ret (Inr False)
           | Inr (Some lease') \<Rightarrow> do {
               (status, p) \<leftarrow> lease_request l PUT (Some (enc_lease lease')) (Some dec_lease) zero_lease;
               ret (if status = 409 \<and> acquire then Inr False
                    else (case p of Inl e \<Rightarrow> Inl e | Inr _ \<Rightarrow> Inr True))
             })
        })
   }"

record leaseGuard =
  lg_locker :: leaseLocker
  lg_holder :: string
  lg_lost :: "error option"
  lg_lastRenew :: time

text \<open>The attempts go on until the deadline of the caller's context, one per tick.\<close>

fun acquire_loop :: "nat \<Rightarrow> leaseLocker \<Rightarrow> string \<Rightarrow> (error + leaseGuard) io" where
  "acquire_loop 0 l holder = ret (Inl DeadlineExceeded)"
| "acquire_loop (Suc n) l holder = do {
     attemptedAt \<leftarrow> time_now;
     r \<leftarrow> lease_update l holder True;
     (case r of Inl e \<Rightarrow> ret (Inl e)
      | Inr acquired \<Rightarrow>
          if acquired then ret (Inr \<lparr>lg_locker = l, lg_holder = holder, lg_lost = None, lg_lastRenew = attemptedAt\<rparr>)
          else acquire_loop n l holder)
   }"

definition lease_acquire :: "leaseLocker \<Rightarrow> (error + leaseGuard) io" where
  "lease_acquire l = do {
     h \<leftarrow> randomHolder (lk_podName l);
     (case h of Inl e \<Rightarrow> ret (Inl e)
      | Inr holder \<Rightarrow> do { n \<leftarrow> ask lock_ticks; acquire_loop n l holder })
   }"

definition lease_expired :: "leaseGuard \<Rightarrow> time \<Rightarrow> bool" where
  "lease_expired g now \<longleftrightarrow> \<not> lg_lastRenew g + lk_leaseDuration (lg_locker g) > now"

text \<open>One tick of the background renewal, and whether it goes on.\<close>

definition renew_tick :: "leaseGuard \<Rightarrow> (leaseGuard \<times> bool) io" where
  "renew_tick g = do {
     now \<leftarrow> time_now;
     (if lease_expired g now then
        ret (g\<lparr>lg_lost := Some (Msg ''kubernetes rotation Lease expired before renewal'')\<rparr>, False)
      else do {
        attemptedAt \<leftarrow> time_now;
        r \<leftarrow> lease_update (lg_locker g) (lg_holder g) False;
        (if r \<noteq> Inr True then ret (g\<lparr>lg_lost := Some (Msg ''kubernetes rotation Lease was lost'')\<rparr>, False)
         else ret (g\<lparr>lg_lastRenew := attemptedAt\<rparr>, True))
      })
   }"

definition lease_check :: "leaseGuard \<Rightarrow> time \<Rightarrow> error option" where
  "lease_check g now =
     (if lg_lost g = None \<and> lease_expired g now then Some (Msg ''kubernetes rotation Lease expired'') else lg_lost g)"

definition lease_Check :: "leaseGuard \<Rightarrow> (error option) io" where
  "lease_Check g =
     (if lg_lost g = None then do { now \<leftarrow> time_now; ret (lease_check g now) } else ret (lg_lost g))"

definition released_lease :: "time \<Rightarrow> kubeLease \<Rightarrow> kubeLease" where
  "released_lease now lease = lease\<lparr>kl_holder := [], kl_renewTime := format_micro now\<rparr>"

definition lease_release :: "leaseGuard \<Rightarrow> unit io" where
  "lease_release g = do {
     (_, r) \<leftarrow> lease_request (lg_locker g) GET None (Some dec_lease) zero_lease;
     (case r of Inl _ \<Rightarrow> ret ()
      | Inr lease \<Rightarrow>
          if kl_holder lease \<noteq> lg_holder g then ret ()
          else do {
            now \<leftarrow> time_now;
            _ \<leftarrow> lease_request (lg_locker g) PUT (Some (enc_lease (released_lease now lease))) None ();
            ret ()
          })
   }"

end
