(* ===== verification/LocalLock.thy ===== *)
theory LocalLock
  imports Main
begin

text \<open>
  \<open>internal/server/lock.go\<close>, the lock for one process: a table of locks by key, each with a
  one-slot channel and a count of those who hold or want it; the entry goes when the count is
  zero. The steps are the program's: what it does under the mutex of the table is one step, and
  so is each operation on a channel.
\<close>

section \<open>State and steps\<close>

text \<open>
  A lock is named by the address it was allocated at, since the table may hold different locks
  of one key at different times. \<open>rdy\<close> says that the channel of a lock holds its token.
\<close>

record localLocker =
  ll_locks :: "string \<Rightarrow> nat option"
  ll_ready :: "nat \<Rightarrow> bool"
  ll_refs :: "nat \<Rightarrow> nat"
  ll_next :: nat

datatype process =
    Outside
  | Waiting string nat
  | Inside string nat
  | Unlocked string nat
  | Cancelled string nat
  | Finished

record localState =
  st_locker :: localLocker
  st_proc :: "nat \<Rightarrow> process"

definition newLocalLocker :: localLocker where
  "newLocalLocker = \<lparr>ll_locks = (\<lambda>_. None), ll_ready = (\<lambda>_. False), ll_refs = (\<lambda>_. 0), ll_next = 0\<rparr>"

text \<open>The first half of \<open>Acquire\<close>, under the mutex: find or make the lock, and count it.\<close>

definition local_enter :: "localLocker \<Rightarrow> string \<Rightarrow> nat \<times> localLocker" where
  "local_enter l key =
     (let (i, l) = (case ll_locks l key of
            Some i \<Rightarrow> (i, l)
          | None \<Rightarrow> (ll_next l, l\<lparr>ll_locks := (ll_locks l)(key \<mapsto> ll_next l), ll_ready := (ll_ready l)(ll_next l := True),
                       ll_refs := (ll_refs l)(ll_next l := 0), ll_next := Suc (ll_next l)\<rparr>))
      in (i, l\<lparr>ll_refs := (ll_refs l)(i := Suc (ll_refs l i))\<rparr>))"

text \<open>Receiving from the channel, sending to it, and the part of \<open>releaseRef\<close> under the mutex.\<close>

definition local_take :: "localLocker \<Rightarrow> nat \<Rightarrow> localLocker" where
  "local_take l i = l\<lparr>ll_ready := (ll_ready l)(i := False)\<rparr>"

definition local_put :: "localLocker \<Rightarrow> nat \<Rightarrow> localLocker" where
  "local_put l i = l\<lparr>ll_ready := (ll_ready l)(i := True)\<rparr>"

definition local_unref :: "localLocker \<Rightarrow> string \<Rightarrow> nat \<Rightarrow> localLocker" where
  "local_unref l key i =
     (let l = l\<lparr>ll_refs := (ll_refs l)(i := ll_refs l i - 1)\<rparr>
      in if ll_refs l i = 0 then l\<lparr>ll_locks := (ll_locks l)(key := None)\<rparr> else l)"

definition moved :: "localState \<Rightarrow> nat \<Rightarrow> process \<Rightarrow> localLocker \<Rightarrow> localState" where
  "moved s p c l = \<lparr>st_locker = l, st_proc = (st_proc s)(p := c)\<rparr>"

text \<open>
  The select of \<open>Acquire\<close> takes either ready case. Sending blocks while the channel is full; a
  guard releases once, later calls do nothing.
\<close>

inductive local_step :: "localState \<Rightarrow> localState \<Rightarrow> bool" where
  arrive: "st_proc s p = Outside \<Longrightarrow> local_enter (st_locker s) key = (i, l) \<Longrightarrow>
    local_step s (moved s p (Waiting key i) l)"
| take: "st_proc s p = Waiting key i \<Longrightarrow> ll_ready (st_locker s) i \<Longrightarrow>
    local_step s (moved s p (Inside key i) (local_take (st_locker s) i))"
| cancel: "st_proc s p = Waiting key i \<Longrightarrow> local_step s (moved s p (Cancelled key i) (st_locker s))"
| unlock: "st_proc s p = Inside key i \<Longrightarrow> \<not> ll_ready (st_locker s) i \<Longrightarrow>
    local_step s (moved s p (Unlocked key i) (local_put (st_locker s) i))"
| unref: "st_proc s p = Unlocked key i \<or> st_proc s p = Cancelled key i \<Longrightarrow>
    local_step s (moved s p Finished (local_unref (st_locker s) key i))"

definition local_initial :: localState where
  "local_initial = \<lparr>st_locker = newLocalLocker, st_proc = (\<lambda>_. Outside)\<rparr>"

inductive local_reachable :: "localState \<Rightarrow> bool" where
  base: "local_reachable local_initial"
| step: "local_reachable s \<Longrightarrow> local_step s s' \<Longrightarrow> local_reachable s'"

section \<open>The invariant\<close>

fun uses :: "process \<Rightarrow> (string \<times> nat) option" where
  "uses (Waiting k i) = Some (k, i)"
| "uses (Inside k i) = Some (k, i)"
| "uses (Unlocked k i) = Some (k, i)"
| "uses (Cancelled k i) = Some (k, i)"
| "uses _ = None"

definition users :: "(nat \<Rightarrow> process) \<Rightarrow> nat \<Rightarrow> nat set" where
  "users f i = {p. \<exists>k. uses (f p) = Some (k, i)}"

definition insiders :: "(nat \<Rightarrow> process) \<Rightarrow> nat \<Rightarrow> nat set" where
  "insiders f i = {p. \<exists>k. f p = Inside k i}"

text \<open>
  The count of a lock is the number of its users; a lock in use is the one the table has for
  the key; whoever is inside took the token, and exactly one of the two is there.
\<close>

definition local_inv :: "localState \<Rightarrow> bool" where
  "local_inv s \<longleftrightarrow>
     (\<forall>i. finite (users (st_proc s) i) \<and> ll_refs (st_locker s) i = card (users (st_proc s) i)) \<and>
     (\<forall>p k i. uses (st_proc s p) = Some (k, i) \<longrightarrow> ll_locks (st_locker s) k = Some i) \<and>
     (\<forall>k i. ll_locks (st_locker s) k = Some i \<longrightarrow> i < ll_next (st_locker s) \<and> users (st_proc s) i \<noteq> {}) \<and>
     (\<forall>k k' i. ll_locks (st_locker s) k = Some i \<longrightarrow> ll_locks (st_locker s) k' = Some i \<longrightarrow> k = k') \<and>
     (\<forall>k i. ll_locks (st_locker s) k = Some i \<longrightarrow>
        (if ll_ready (st_locker s) i then insiders (st_proc s) i = {} else \<exists>p. insiders (st_proc s) i = {p}))"

lemma users_upd:
  "users (f(p := c)) i = (if \<exists>k. uses c = Some (k, i) then insert p (users f i) else users f i - {p})"
  by (auto simp: users_def)

lemma insiders_upd:
  "insiders (f(p := c)) i = (if \<exists>k. c = Inside k i then insert p (insiders f i) else insiders f i - {p})"
  by (auto simp: insiders_def)

lemma insiders_users: "insiders f i \<subseteq> users f i"
  by (auto simp: insiders_def users_def)

lemma users_iff: "p \<in> users f i \<longleftrightarrow> (\<exists>k. uses (f p) = Some (k, i))"
  by (simp add: users_def)

lemma insiders_iff: "p \<in> insiders f i \<longleftrightarrow> (\<exists>k. f p = Inside k i)"
  by (simp add: insiders_def)

lemma local_invD:
  assumes "local_inv s"
  shows "finite (users (st_proc s) i)" "ll_refs (st_locker s) i = card (users (st_proc s) i)"
    and "uses (st_proc s p) = Some (k, i) \<Longrightarrow> ll_locks (st_locker s) k = Some i"
    and "ll_locks (st_locker s) k = Some i \<Longrightarrow> i < ll_next (st_locker s) \<and> users (st_proc s) i \<noteq> {}"
    and "ll_locks (st_locker s) k = Some i \<Longrightarrow> ll_locks (st_locker s) k' = Some i \<Longrightarrow> k = k'"
    and "ll_locks (st_locker s) k = Some i \<Longrightarrow>
        (if ll_ready (st_locker s) i then insiders (st_proc s) i = {} else \<exists>p. insiders (st_proc s) i = {p})"
  using assms unfolding local_inv_def by blast+

text \<open>An address that was not handed out yet has no users.\<close>

lemma fresh_users: "local_inv s \<Longrightarrow> users (st_proc s) (ll_next (st_locker s)) = {}"
  using local_invD(3,4) by (fastforce simp: users_def)

text \<open>A move that keeps the users of every lock.\<close>

lemma local_inv_same_users:
  assumes inv: "local_inv s" and u: "uses (st_proc s p) = Some (k, i)" "uses c = Some (k, i)"
    and l: "ll_locks l = ll_locks (st_locker s)" "ll_refs l = ll_refs (st_locker s)" "ll_next l = ll_next (st_locker s)"
    and token: "\<And>k j. ll_locks l k = Some j \<Longrightarrow>
        (if ll_ready l j then insiders ((st_proc s)(p := c)) j = {} else \<exists>q. insiders ((st_proc s)(p := c)) j = {q})"
  shows "local_inv (moved s p c l)"
proof -
  have users: "users ((st_proc s)(p := c)) j = users (st_proc s) j" for j
    using u by (auto simp: users_upd users_iff)
  have uses: "ll_locks l k' = Some j" if "uses (((st_proc s)(p := c)) q) = Some (k', j)" for q k' j
    using that u local_invD(3) [OF inv] l(1) by (auto split: if_splits)
  show ?thesis
    unfolding local_inv_def moved_def localState.simps users
  proof (intro conjI allI impI)
    show "finite (users (st_proc s) j)" "ll_refs l j = card (users (st_proc s) j)" for j
      using local_invD(1,2) [OF inv] l by simp_all
    show "ll_locks l k = Some j" if "uses (((st_proc s)(p := c)) q) = Some (k, j)" for q k j
      using that by (rule uses)
    show "j < ll_next l" "users (st_proc s) j \<noteq> {}" if "ll_locks l k = Some j" for k j
      using local_invD(4) [OF inv] that l by simp_all
    show "k = k'" if "ll_locks l k = Some j" "ll_locks l k' = Some j" for k k' j
      using local_invD(5) [OF inv] that l by metis
    show "if ll_ready l j then insiders ((st_proc s)(p := c)) j = {} else \<exists>q. insiders ((st_proc s)(p := c)) j = {q}"
      if "ll_locks l k = Some j" for k j
      using that by (rule token)
  qed
qed

lemma local_inv_arrive:
  assumes inv: "local_inv s" and p: "st_proc s p = Outside" and e: "local_enter (st_locker s) key = (i, l)"
  shows "local_inv (moved s p (Waiting key i) l)"
proof -
  have pu: "p \<notin> users (st_proc s) j" and pi: "p \<notin> insiders (st_proc s) j" for j
    using p by (auto simp: users_iff insiders_iff)
  have users: "users ((st_proc s)(p := Waiting key i)) j = (if j = i then insert p (users (st_proc s) i) else users (st_proc s) j)"
    and insiders: "insiders ((st_proc s)(p := Waiting key i)) j = insiders (st_proc s) j" for j
    using pu pi by (auto simp: users_upd insiders_upd)
  show ?thesis
  proof (cases "ll_locks (st_locker s) key")
    case (Some j)
    then have l: "i = j" "l = (st_locker s)\<lparr>ll_refs := (ll_refs (st_locker s))(j := Suc (ll_refs (st_locker s) j))\<rparr>"
      using e by (auto simp: local_enter_def)
    show ?thesis
      unfolding local_inv_def moved_def localState.simps users insiders
      using local_invD [OF inv] pu Some by (intro conjI allI impI) (auto simp: l p split: if_splits)
  next
    case None
    have fresh: "users (st_proc s) (ll_next (st_locker s)) = {}" "insiders (st_proc s) (ll_next (st_locker s)) = {}"
      using fresh_users [OF inv] insiders_users by fastforce+
    have unused: "ll_locks (st_locker s) k \<noteq> Some (ll_next (st_locker s))" for k
      using local_invD(4) [OF inv] by fastforce
    have nokey: "uses (st_proc s q) \<noteq> Some (key, j)" for q j
      using local_invD(3) [OF inv] None by fastforce
    have l: "i = ll_next (st_locker s)" "ll_locks l = (ll_locks (st_locker s))(key \<mapsto> i)"
        "ll_ready l = (ll_ready (st_locker s))(i := True)" "ll_refs l = (ll_refs (st_locker s))(i := 1)"
        "ll_next l = Suc i"
      using e None by (auto simp: local_enter_def)
    show ?thesis
      unfolding local_inv_def moved_def localState.simps users insiders
      using local_invD [OF inv] pu fresh unused nokey
      by (intro conjI allI impI) (auto simp: l less_Suc_eq split: if_splits)
  qed
qed

lemma local_inv_unref:
  assumes inv: "local_inv s" and p: "st_proc s p = Unlocked key i \<or> st_proc s p = Cancelled key i"
  shows "local_inv (moved s p Finished (local_unref (st_locker s) key i))"
proof -
  let ?l = "local_unref (st_locker s) key i" and ?f = "(st_proc s)(p := Finished)"
  have pu: "p \<in> users (st_proc s) j \<longleftrightarrow> j = i" and pi: "p \<notin> insiders (st_proc s) j" for j
    using p by (auto simp: users_iff insiders_iff)
  have users: "users ?f j = users (st_proc s) j - {p}" and insiders: "insiders ?f j = insiders (st_proc s) j" for j
    using pi by (auto simp: users_upd insiders_upd)
  have key: "ll_locks (st_locker s) key = Some i" using local_invD(3) [OF inv, of p key i] p by auto
  have card: "card (users (st_proc s) j - {p}) = (if j = i then ll_refs (st_locker s) i - 1 else ll_refs (st_locker s) j)" for j
    using local_invD(1,2) [OF inv] pu by (auto simp: card_Diff_singleton)
  have l: "ll_ready ?l = ll_ready (st_locker s)" "ll_next ?l = ll_next (st_locker s)"
      "ll_refs ?l = (ll_refs (st_locker s))(i := ll_refs (st_locker s) i - 1)"
      "ll_locks ?l = (if ll_refs (st_locker s) i - 1 = 0 then (ll_locks (st_locker s))(key := None) else ll_locks (st_locker s))"
    by (simp_all add: local_unref_def Let_def)
  have empty: "users (st_proc s) j - {p} = {} \<longleftrightarrow> j = i \<and> ll_refs (st_locker s) i - 1 = 0"
    if "users (st_proc s) j \<noteq> {}" for j
  proof (cases "j = i")
    case True
    have "users (st_proc s) i - {p} = {} \<longleftrightarrow> card (users (st_proc s) i - {p}) = 0"
      using local_invD(1) [OF inv, of i] by (simp only: card_eq_0_iff) simp
    with True card [of i] show ?thesis by simp
  qed (use that pu [of j] in auto)
  show ?thesis
    unfolding local_inv_def moved_def localState.simps users insiders l
  proof (intro conjI allI impI)
    fix q k j
    assume q: "uses (?f q) = Some (k, j)"
    then have "q \<noteq> p" and q': "uses (st_proc s q) = Some (k, j)" by (auto split: if_splits)
    then have "ll_locks (st_locker s) k = Some j" using local_invD(3) [OF inv] by blast
    moreover have "j \<noteq> i" if "ll_refs (st_locker s) i - 1 = 0"
    proof
      assume "j = i"
      then have "q \<in> users (st_proc s) i - {p}" using q' \<open>q \<noteq> p\<close> by (auto simp: users_iff)
      then show False using card [of i] that local_invD(1) [OF inv, of i] by (auto simp: card_eq_0_iff)
    qed
    ultimately show "(if ll_refs (st_locker s) i - 1 = 0 then (ll_locks (st_locker s))(key := None) else ll_locks (st_locker s)) k = Some j"
      using key by auto
  next
    fix k j
    assume "(if ll_refs (st_locker s) i - 1 = 0 then (ll_locks (st_locker s))(key := None) else ll_locks (st_locker s)) k = Some j"
    then have k: "ll_locks (st_locker s) k = Some j" "ll_refs (st_locker s) i - 1 = 0 \<Longrightarrow> k \<noteq> key" by (auto split: if_splits)
    show "j < ll_next (st_locker s)" using local_invD(4) [OF inv k(1)] by simp
    show "users (st_proc s) j - {p} \<noteq> {}"
      using empty [of j] local_invD(4,5) [OF inv] k key by blast
    show "if ll_ready (st_locker s) j then insiders (st_proc s) j = {} else \<exists>p. insiders (st_proc s) j = {p}"
      by (rule local_invD(6) [OF inv k(1)])
  next
    fix k k' j
    assume "(if ll_refs (st_locker s) i - 1 = 0 then (ll_locks (st_locker s))(key := None) else ll_locks (st_locker s)) k = Some j"
      "(if ll_refs (st_locker s) i - 1 = 0 then (ll_locks (st_locker s))(key := None) else ll_locks (st_locker s)) k' = Some j"
    then show "k = k'" using local_invD(5) [OF inv, of k j k'] by (auto split: if_splits)
  qed (use local_invD(1) [OF inv] card in auto)
qed

lemma local_inv_step:
  assumes "local_step s s'" "local_inv s"
  shows "local_inv s'"
  using assms
proof cases
  case (take p key i)
  have key: "ll_locks (st_locker s) key = Some i"
    using local_invD(3) [OF assms(2), of p key i] take by simp
  have none: "insiders (st_proc s) i = {}"
    using local_invD(6) [OF assms(2) key] take by simp
  show ?thesis
    unfolding take(1)
  proof (rule local_inv_same_users [OF assms(2)])
    fix k j
    assume "ll_locks (local_take (st_locker s) i) k = Some j"
    then have k: "ll_locks (st_locker s) k = Some j" by (simp add: local_take_def)
    show "if ll_ready (local_take (st_locker s) i) j then insiders ((st_proc s)(p := Inside key i)) j = {}
          else \<exists>q. insiders ((st_proc s)(p := Inside key i)) j = {q}"
      using local_invD(6) [OF assms(2) k] none take(2) by (auto simp: local_take_def insiders_upd insiders_iff)
  qed (use take in \<open>auto simp: local_take_def\<close>)
next
  case (cancel p key i)
  show ?thesis
    unfolding cancel(1)
  proof (rule local_inv_same_users [OF assms(2)])
    fix k j
    assume k: "ll_locks (st_locker s) k = Some j"
    have "insiders ((st_proc s)(p := Cancelled key i)) j = insiders (st_proc s) j"
      using cancel(2) by (auto simp: insiders_upd insiders_iff)
    then show "if ll_ready (st_locker s) j then insiders ((st_proc s)(p := Cancelled key i)) j = {}
          else \<exists>q. insiders ((st_proc s)(p := Cancelled key i)) j = {q}"
      using local_invD(6) [OF assms(2) k] by simp
  qed (use cancel in auto)
next
  case (unlock p key i)
  have key: "ll_locks (st_locker s) key = Some i" using local_invD(3) [OF assms(2), of p key i] unlock by simp
  have "p \<in> insiders (st_proc s) i" using unlock(2) by (auto simp: insiders_iff)
  then have only: "insiders (st_proc s) i = {p}"
    using local_invD(6) [OF assms(2) key] unlock(3) by auto
  show ?thesis
    unfolding unlock(1)
  proof (rule local_inv_same_users [OF assms(2)])
    fix k j
    assume "ll_locks (local_put (st_locker s) i) k = Some j"
    then have k: "ll_locks (st_locker s) k = Some j" by (simp add: local_put_def)
    have "insiders ((st_proc s)(p := Unlocked key i)) j = (if j = i then {} else insiders (st_proc s) j)"
      using unlock(2) only by (auto simp: insiders_upd insiders_iff)
    then show "if ll_ready (local_put (st_locker s) i) j then insiders ((st_proc s)(p := Unlocked key i)) j = {}
          else \<exists>q. insiders ((st_proc s)(p := Unlocked key i)) j = {q}"
      using local_invD(6) [OF assms(2) k] by (auto simp: local_put_def)
  qed (use unlock in \<open>auto simp: local_put_def\<close>)
qed (auto intro: local_inv_arrive local_inv_unref simp: assms(2))

lemma local_inv_reachable: "local_reachable s \<Longrightarrow> local_inv s"
proof (induction rule: local_reachable.induct)
  case base
  then show ?case
    by (simp add: local_inv_def local_initial_def newLocalLocker_def users_def)
next
  case (step s s')
  then show ?case using local_inv_step by blast
qed

section \<open>Mutual exclusion\<close>

text \<open>
  What every kind of lock promises: in a reachable state at most one guard of a key permits
  changes. A client needs nothing else about the lock it was given.
\<close>

locale rotation_lock =
  fixes reachable :: "'s \<Rightarrow> bool"
    and permitted :: "'s \<Rightarrow> 'k \<Rightarrow> 'c \<Rightarrow> bool"
  assumes exclusive: "reachable s \<Longrightarrow> permitted s k c \<Longrightarrow> permitted s k d \<Longrightarrow> c = d"
begin

lemma one_permitted:
  assumes "reachable s"
  shows "card {c. permitted s k c} \<le> 1"
proof (cases "{c. permitted s k c} = {}")
  case False
  then obtain c where "permitted s k c" by auto
  then have "{c. permitted s k c} = {c}" using exclusive [OF assms] by auto
  then show ?thesis by simp
qed simp

lemma others_wait: "reachable s \<Longrightarrow> permitted s k c \<Longrightarrow> d \<noteq> c \<Longrightarrow> \<not> permitted s k d"
  using exclusive by blast

end

definition inside :: "localState \<Rightarrow> string \<Rightarrow> nat \<Rightarrow> bool" where
  "inside s key p \<longleftrightarrow> (\<exists>i. st_proc s p = Inside key i)"

lemma inside_exclusive:
  assumes "local_reachable s" "inside s key p" "inside s key q"
  shows "p = q"
proof -
  note inv = local_inv_reachable [OF assms(1)]
  obtain i j where i: "st_proc s p = Inside key i" "st_proc s q = Inside key j"
    using assms(2,3) by (auto simp: inside_def)
  then have k: "ll_locks (st_locker s) key = Some i" "ll_locks (st_locker s) key = Some j"
    using local_invD(3) [OF inv, of p key i] local_invD(3) [OF inv, of q key j] by simp_all
  then have "p \<in> insiders (st_proc s) i" "q \<in> insiders (st_proc s) i" using i by (auto simp: insiders_iff)
  then show ?thesis using local_invD(6) [OF inv k(1)] by (auto split: if_splits)
qed

interpretation local_lock: rotation_lock local_reachable inside
  by unfold_locales (rule inside_exclusive)

text \<open>Nothing is left behind: the table has an entry exactly for the keys in use.\<close>

lemma table_in_use:
  assumes "local_reachable s"
  shows "ll_locks (st_locker s) key = Some i \<longleftrightarrow> (\<exists>p. uses (st_proc s p) = Some (key, i))"
proof -
  note inv = local_inv_reachable [OF assms]
  show ?thesis
  proof
    assume k: "ll_locks (st_locker s) key = Some i"
    then obtain p k' where "uses (st_proc s p) = Some (k', i)"
      using local_invD(4) [OF inv] by (fastforce simp: users_def)
    moreover have "k' = key"
      using local_invD(3) [OF inv calculation] local_invD(5) [OF inv k] by metis
    ultimately show "\<exists>p. uses (st_proc s p) = Some (key, i)" by blast
  qed (use local_invD(3) [OF inv] in blast)
qed

text \<open>A release never blocks: the channel of a lock somebody holds is empty.\<close>

lemma release_ready: "local_reachable s \<Longrightarrow> st_proc s p = Inside key i \<Longrightarrow> \<not> ll_ready (st_locker s) i"
proof -
  assume r: "local_reachable s" and p: "st_proc s p = Inside key i"
  note inv = local_inv_reachable [OF r]
  have "ll_locks (st_locker s) key = Some i" using local_invD(3) [OF inv, of p key i] p by simp
  then show ?thesis using local_invD(6) [OF inv] p by (fastforce simp: insiders_def split: if_splits)
qed

section \<open>Properties\<close>

text \<open>C8: In every reachable state of the process lock at most one request is inside the section of a key.\<close>

theorem local_lock_excludes:
  assumes "local_reachable s"
  shows "card {p. inside s key p} \<le> 1"
  by (rule local_lock.one_permitted [OF assms])

definition local_example :: localState where
  "local_example =
     (let (i, l) = local_enter newLocalLocker ''ann@corp.io''; s = moved local_initial 1 (Waiting ''ann@corp.io'' i) l;
          s = moved s 1 (Inside ''ann@corp.io'' i) (local_take (st_locker s) i);
          (j, l) = local_enter (st_locker s) ''ann@corp.io''
      in moved s 2 (Waiting ''ann@corp.io'' j) l)"

lemma local_example_reachable: "local_reachable local_example"
proof -
  let ?k = "''ann@corp.io''"
  let ?l1 = "snd (local_enter newLocalLocker ?k)"
  let ?s1 = "moved local_initial 1 (Waiting ?k 0) ?l1"
  let ?s2 = "moved ?s1 1 (Inside ?k 0) (local_take ?l1 0)"
  let ?l3 = "snd (local_enter (local_take ?l1 0) ?k)"
  have "local_step local_initial ?s1"
    by (rule local_step.arrive) (simp_all add: local_initial_def local_enter_def newLocalLocker_def)
  moreover have "local_step ?s1 ?s2"
    using local_step.take [of ?s1 1 ?k 0] by (simp add: moved_def local_enter_def newLocalLocker_def)
  moreover have "local_step ?s2 (moved ?s2 2 (Waiting ?k 0) ?l3)"
    by (rule local_step.arrive)
      (simp_all add: moved_def local_initial_def local_enter_def newLocalLocker_def local_take_def)
  ultimately have "local_reachable (moved ?s2 2 (Waiting ?k 0) ?l3)"
    by (meson local_reachable.intros)
  then show ?thesis
    by (simp add: local_example_def local_enter_def newLocalLocker_def moved_def local_take_def)
qed

text \<open>One request is inside and another waits.\<close>

theorem local_lock_excludes_witness:
  "inside local_example ''ann@corp.io'' 1 \<and> card {p. inside local_example ''ann@corp.io'' p} \<le> 1"
proof -
  have "inside local_example ''ann@corp.io'' 1"
    by (simp add: inside_def local_example_def local_enter_def newLocalLocker_def moved_def local_take_def local_initial_def)
  then show ?thesis using local_lock_excludes [OF local_example_reachable] by blast
qed

text \<open>C31: The table of the process lock holds an entry exactly for the keys somebody holds or waits for, so it
  does not grow with the identities that were served.\<close>

theorem local_table_has_no_leftovers:
  assumes "local_reachable s"
  shows "ll_locks (st_locker s) key = Some i \<longleftrightarrow> (\<exists>p. uses (st_proc s p) = Some (key, i))"
  by (rule table_in_use [OF assms])

theorem local_table_has_no_leftovers_witness:
  "ll_locks (st_locker local_example) ''bob@corp.io'' = Some 0 \<longleftrightarrow>
     (\<exists>p. uses (st_proc local_example p) = Some (''bob@corp.io'', 0))"
  by (rule local_table_has_no_leftovers [OF local_example_reachable])

text \<open>Releasing never blocks: while a request is inside, the channel of its lock is empty, so the send of
  \<open>releaseRef\<close> finds room, and the request can always take its next step.\<close>

theorem local_release_never_blocks:
  assumes "local_reachable s" "st_proc s p = Inside key i"
  shows "local_step s (moved s p (Unlocked key i) (local_put (st_locker s) i))"
  using local_step.unlock [OF assms(2) release_ready [OF assms]] .

theorem local_release_never_blocks_witness:
  "local_step local_example (moved local_example 1 (Unlocked ''ann@corp.io'' 0) (local_put (st_locker local_example) 0))"
  by (rule local_release_never_blocks [OF local_example_reachable])
    (simp add: local_example_def local_enter_def newLocalLocker_def moved_def local_take_def local_initial_def)

end
