(* ===== verification/LeaseProtocol.thy ===== *)
theory LeaseProtocol
  imports LeaseLock LocalLock
begin

text \<open>
  Many pods and one Lease: the clients of \<open>LeaseLock\<close> interleaved with the API server, with
  requests that are delayed, lost or applied after their sender gave up. The server applies a
  write only at the resource version it was based on. The result is mutual exclusion of the
  guards, up to the microsecond to which a Lease records its renewal.
\<close>

section \<open>The system\<close>

text \<open>
  A client is one call of \<open>Acquire\<close>, named by its random holder. \<open>Deciding\<close> has read the Lease
  (at a version), \<open>Writing\<close> has sent its update; a guard goes through the same on renewal. A
  client that gave up is \<open>Gone\<close>, and its last write may still be on its way: it is then stray.
\<close>

datatype client =
    Absent
  | Reading time
  | Deciding time nat kubeLease
  | Writing time nat kubeLease
  | Holding leaseGuard
  | Renewing leaseGuard time
  | Redeciding leaseGuard time nat kubeLease
  | Rewriting leaseGuard time nat kubeLease
  | Leaving nat kubeLease
  | Gone

record cluster =
  c_now :: time
  c_version :: nat
  c_lease :: kubeLease
  c_client :: "string \<Rightarrow> client"
  c_stray :: "(nat \<times> kubeLease) set"

fun guard_of :: "client \<Rightarrow> leaseGuard option" where
  "guard_of (Holding g) = Some g"
| "guard_of (Renewing g t) = Some g"
| "guard_of (Redeciding g t v k) = Some g"
| "guard_of (Rewriting g t v k) = Some g"
| "guard_of _ = None"

definition with_client :: "cluster \<Rightarrow> string \<Rightarrow> client \<Rightarrow> cluster" where
  "with_client s h c = s\<lparr>c_client := (c_client s)(h := c)\<rparr>"

definition lost_guard :: "leaseGuard \<Rightarrow> leaseGuard" where
  "lost_guard g = g\<lparr>lg_lost := Some (Msg ''kubernetes rotation Lease was lost'')\<rparr>"

definition written :: "cluster \<Rightarrow> kubeLease \<Rightarrow> cluster" where
  "written s k = s\<lparr>c_version := Suc (c_version s), c_lease := k\<rparr>"

definition strays :: "cluster \<Rightarrow> nat \<Rightarrow> kubeLease \<Rightarrow> cluster" where
  "strays s v k = s\<lparr>c_stray := insert (v, k) (c_stray s)\<rparr>"

text \<open>The last instant of the year 9999, the end of what the layout of \<open>renewTime\<close> can hold.\<close>

definition last_instant :: time where "last_instant = 253402300800 * second - 1"

inductive lease_step :: "leaseLocker \<Rightarrow> cluster \<Rightarrow> cluster \<Rightarrow> bool" for l where
  tick: "0 \<le> d \<Longrightarrow> c_now s + d \<le> last_instant \<Longrightarrow> lease_step l s (s\<lparr>c_now := c_now s + d\<rparr>)"
| start: "c_client s h = Absent \<Longrightarrow> h \<noteq> [] \<Longrightarrow> lease_step l s (with_client s h (Reading (c_now s)))"
| read: "c_client s h = Reading t \<Longrightarrow> lease_step l s (with_client s h (Deciding t (c_version s) (c_lease s)))"
| decide: "c_client s h = Deciding t v k \<Longrightarrow> lease_decide l h True k (c_now s) = Inr (Some k') \<Longrightarrow>
    lease_step l s (with_client s h (Writing t v k'))"
| wait: "c_client s h = Deciding t v k \<Longrightarrow> lease_decide l h True k (c_now s) = Inr None \<Longrightarrow>
    lease_step l s (with_client s h (Reading (c_now s)))"
| put: "c_client s h = Writing t v k \<Longrightarrow> v = c_version s \<Longrightarrow>
    lease_step l s (with_client (written s k) h
      (Holding \<lparr>lg_locker = l, lg_holder = h, lg_lost = None, lg_lastRenew = t\<rparr>))"
| conflict: "c_client s h = Writing t v k \<Longrightarrow> v \<noteq> c_version s \<Longrightarrow>
    lease_step l s (with_client s h (Reading (c_now s)))"
| abandon: "c_client s h = Writing t v k \<Longrightarrow> lease_step l s (strays (with_client s h Gone) v k)"
| renew: "c_client s h = Holding g \<Longrightarrow> lg_lost g = None \<Longrightarrow> \<not> lease_expired g u \<Longrightarrow> u \<le> c_now s \<Longrightarrow>
    lease_step l s (with_client s h (Renewing g (c_now s)))"
| reread: "c_client s h = Renewing g t \<Longrightarrow>
    lease_step l s (with_client s h (Redeciding g t (c_version s) (c_lease s)))"
| redecide: "c_client s h = Redeciding g t v k \<Longrightarrow> lease_decide l h False k (c_now s) = Inr (Some k') \<Longrightarrow>
    lease_step l s (with_client s h (Rewriting g t v k'))"
| reput: "c_client s h = Rewriting g t v k \<Longrightarrow> v = c_version s \<Longrightarrow>
    lease_step l s (with_client (written s k) h (Holding (g\<lparr>lg_lastRenew := t\<rparr>)))"
| lose: "guard_of (c_client s h) = Some g \<Longrightarrow> lease_step l s (with_client s h (Holding (lost_guard g)))"
| lose_stray: "c_client s h = Rewriting g t v k \<Longrightarrow>
    lease_step l s (strays (with_client s h (Holding (lost_guard g))) v k)"
| leave: "c_client s h = Holding g \<Longrightarrow> kl_holder (c_lease s) = h \<Longrightarrow>
    lease_step l s (with_client s h (Leaving (c_version s) (c_lease s)))"
| release: "c_client s h = Leaving v k \<Longrightarrow>
    lease_step l s (strays (with_client s h Gone) v (released_lease (c_now s) k))"
| quit: "lease_step l s (with_client s h Gone)"
| deliver: "(v, k) \<in> c_stray s \<Longrightarrow> v = c_version s \<Longrightarrow> lease_step l s (written s k)"

text \<open>At first the Lease is as \<open>readLease\<close> creates it, and nobody has asked for it.\<close>

definition lease_initial :: "cluster \<Rightarrow> bool" where
  "lease_initial s \<longleftrightarrow> 0 \<le> c_now s \<and> c_now s \<le> last_instant \<and> kl_holder (c_lease s) = [] \<and>
     c_client s = (\<lambda>_. Absent) \<and> c_stray s = {}"

inductive lease_reachable :: "leaseLocker \<Rightarrow> cluster \<Rightarrow> bool" for l where
  base: "lease_initial s \<Longrightarrow> lease_reachable l s"
| step: "lease_reachable l s \<Longrightarrow> lease_step l s s' \<Longrightarrow> lease_reachable l s'"

section \<open>Times on the wire\<close>

definition trunc_us :: "time \<Rightarrow> time" where "trunc_us t = t - t mod microsecond"

lemma trunc_us_bounds: "trunc_us t \<le> t" "t - trunc_us t < microsecond"
  by (simp_all add: trunc_us_def microsecond_def)

lemma trunc_us_mono: "s \<le> t \<Longrightarrow> trunc_us s \<le> trunc_us t"
  by (simp add: trunc_us_def minus_mod_eq_mult_div microsecond_def zdiv_mono1)

lemma year_start_far:
  assumes "10000 \<le> y"
  shows "3652059 \<le> year_start y"
proof -
  define z where "z = y - 1"
  have "9999 \<le> z" using assms by (simp add: z_def)
  moreover have "z - 3 \<le> 4 * (z div 4)" "100 * (z div 100) \<le> z" "24 \<le> z div 400" using calculation by simp_all
  ultimately show ?thesis by (simp add: year_start_def z_def [symmetric])
qed

lemma year_start_past:
  assumes "y < 0"
  shows "year_start y + 366 \<le> 0"
proof -
  define z where "z = y - 1"
  have "z \<le> -2" using assms by (simp add: z_def)
  moreover have "4 * (z div 4) \<le> z" "z - 99 \<le> 100 * (z div 100)" "400 * (z div 400) \<le> z" by simp_all
  ultimately show ?thesis by (simp add: year_start_def z_def [symmetric])
qed

lemma parse_renewTime:
  assumes "0 \<le> t" "t \<le> last_instant"
  shows "parse_micro (format_micro t) = Some (trunc_us t)"
proof -
  define day where "day = fst (clock_of t) + unix_epoch_day"
  obtain y m d where date: "civil_date day = (y, m, d)" by (cases "civil_date day")
  obtain yd where yd: "day_year day = (y, yd)"
    using date by (auto simp: civil_date_def split: prod.splits)
  note parts = day_year_correct [OF yd]
  have "719162 \<le> day" "day < 3652059"
    using assms by (simp_all add: day_def clock_of_def unix_epoch_day_def last_instant_def second_def)
  then have "\<not> y < 0" "\<not> 10000 \<le> y"
    using parts year_start_far [of y] year_start_past [of y] by (auto split: if_splits)
  then show ?thesis
    using parse_micro_format [of t y m d] date by (simp add: day_def trunc_us_def)
qed

lemma format_micro_nonempty: "format_micro t \<noteq> []"
  by (simp add: format_micro_def Let_def split: prod.splits)

section \<open>The invariant\<close>

text \<open>
  A snapshot of the Lease is true as long as its version is current. A guard that is not lost
  is covered: the Lease still names it, renewed no earlier than the guard believes, or the time
  it believes to have has run out. A write in flight was decided on a snapshot.
\<close>

definition snap :: "cluster \<Rightarrow> nat \<Rightarrow> kubeLease \<Rightarrow> bool" where
  "snap s v k \<longleftrightarrow> v \<le> c_version s \<and> (v = c_version s \<longrightarrow> k = c_lease s)"

definition decided :: "leaseLocker \<Rightarrow> cluster \<Rightarrow> string \<Rightarrow> bool \<Rightarrow> time \<Rightarrow> nat \<Rightarrow> kubeLease \<Rightarrow> bool" where
  "decided l s h acquire t v k' \<longleftrightarrow>
     (\<exists>k n. snap s v k \<and> 0 \<le> t \<and> t \<le> n \<and> n \<le> c_now s \<and> lease_decide l h acquire k n = Inr (Some k'))"

definition covered :: "cluster \<Rightarrow> string \<Rightarrow> time \<Rightarrow> bool" where
  "covered s h t \<longleftrightarrow>
     (kl_holder (c_lease s) = h \<and> kl_duration (c_lease s) = 15 \<and>
        (\<exists>r. parse_micro (kl_renewTime (c_lease s)) = Some r \<and> trunc_us t \<le> r)) \<or>
     trunc_us t + 15 * second \<le> c_now s"

definition guard_ok :: "leaseLocker \<Rightarrow> cluster \<Rightarrow> string \<Rightarrow> leaseGuard \<Rightarrow> bool" where
  "guard_ok l s h g \<longleftrightarrow> lg_locker g = l \<and> (lg_lost g = None \<longrightarrow> covered s h (lg_lastRenew g))"

fun client_ok :: "leaseLocker \<Rightarrow> cluster \<Rightarrow> string \<Rightarrow> client \<Rightarrow> bool" where
  "client_ok l s h Absent = True"
| "client_ok l s h (Reading t) = (0 \<le> t \<and> t \<le> c_now s)"
| "client_ok l s h (Deciding t v k) = (0 \<le> t \<and> t \<le> c_now s \<and> snap s v k)"
| "client_ok l s h (Writing t v k) = decided l s h True t v k"
| "client_ok l s h (Holding g) = guard_ok l s h g"
| "client_ok l s h (Renewing g t) = (guard_ok l s h g \<and> 0 \<le> t \<and> t \<le> c_now s)"
| "client_ok l s h (Redeciding g t v k) = (guard_ok l s h g \<and> 0 \<le> t \<and> t \<le> c_now s \<and> snap s v k)"
| "client_ok l s h (Rewriting g t v k) = (guard_ok l s h g \<and> decided l s h False t v k)"
| "client_ok l s h (Leaving v k) = (snap s v k \<and> kl_holder k = h)"
| "client_ok l s h Gone = True"

definition retired :: "client \<Rightarrow> bool" where
  "retired c \<longleftrightarrow> (\<exists>v k. c = Leaving v k) \<or> c = Gone \<or> (\<exists>g. c = Holding g \<and> lg_lost g \<noteq> None)"

fun active :: "client \<Rightarrow> bool" where
  "active Absent = False"
| "active Gone = False"
| "active (Leaving v k) = False"
| "active _ = True"

lemma guard_active: "guard_of c = Some g \<Longrightarrow> active c"
  by (cases c) auto

text \<open>Who decided on a write of \<open>k'\<close> over version \<open>v\<close>: a taking or a release by \<open>h\<close>.\<close>

definition authored :: "leaseLocker \<Rightarrow> cluster \<Rightarrow> string \<Rightarrow> nat \<Rightarrow> kubeLease \<Rightarrow> bool" where
  "authored l s h v k' \<longleftrightarrow>
     (\<exists>k n. snap s v k \<and> n \<le> c_now s \<and>
        ((\<exists>acquire. lease_decide l h acquire k n = Inr (Some k')) \<or> kl_holder k = h \<and> k' = released_lease n k))"

definition stray_ok :: "leaseLocker \<Rightarrow> cluster \<Rightarrow> nat \<times> kubeLease \<Rightarrow> bool" where
  "stray_ok l s p \<longleftrightarrow> (\<exists>h. retired (c_client s h) \<and> authored l s h (fst p) (snd p))"

definition lease_inv :: "leaseLocker \<Rightarrow> cluster \<Rightarrow> bool" where
  "lease_inv l s \<longleftrightarrow>
     0 \<le> c_now s \<and> c_now s \<le> last_instant \<and> (\<forall>h. active (c_client s h) \<longrightarrow> h \<noteq> []) \<and>
     (\<forall>h. client_ok l s h (c_client s h)) \<and> (\<forall>p \<in> c_stray s. stray_ok l s p)"

text \<open>How a step may change the server and the clock, and what it keeps.\<close>

definition evolves :: "cluster \<Rightarrow> cluster \<Rightarrow> bool" where
  "evolves s s' \<longleftrightarrow> c_now s \<le> c_now s' \<and>
     (c_version s' = c_version s \<and> c_lease s' = c_lease s \<or> c_version s' = Suc (c_version s))"

lemma snap_evolves: "evolves s s' \<Longrightarrow> snap s v k \<Longrightarrow> snap s' v k"
  by (auto simp: evolves_def snap_def)

lemma evolves_now: "evolves s s' \<Longrightarrow> c_now s \<le> c_now s'"
  by (simp add: evolves_def)

lemma decided_evolves: "evolves s s' \<Longrightarrow> decided l s h a t v k \<Longrightarrow> decided l s' h a t v k"
  unfolding decided_def by (meson snap_evolves evolves_now order_trans)

lemma authored_evolves: "evolves s s' \<Longrightarrow> authored l s h v k \<Longrightarrow> authored l s' h v k"
  unfolding authored_def
  by (elim exE conjE) (intro exI conjI, erule (1) snap_evolves, erule order_trans, erule evolves_now, assumption)

lemma client_ok_evolves:
  "evolves s s' \<Longrightarrow> (\<And>t. covered s h t \<Longrightarrow> covered s' h t) \<Longrightarrow> client_ok l s h c \<Longrightarrow> client_ok l s' h c"
  by (cases c) (auto simp: guard_ok_def intro: snap_evolves decided_evolves, auto simp: evolves_def)

text \<open>A write by one client leaves every other client covered.\<close>

lemma authored_others:
  assumes "authored l s h v k'" "v = c_version s" "h' \<noteq> h" "h' \<noteq> []" "covered s h' t"
  shows "covered (written s k') h' t"
proof (cases "trunc_us t + 15 * second \<le> c_now s")
  case True
  then show ?thesis by (simp add: covered_def written_def)
next
  case False
  with assms(5) obtain r where r: "kl_holder (c_lease s) = h'" "kl_duration (c_lease s) = 15"
      "parse_micro (kl_renewTime (c_lease s)) = Some r" "trunc_us t \<le> r"
    by (auto simp: covered_def)
  have "kl_renewTime (c_lease s) \<noteq> []"
    using r(3) by (auto simp: parse_micro_def parse_prefix_def num4_def)
  with r have expiry: "lease_expiry (c_lease s) = Some (r + 15 * second)" by (simp add: lease_expiry_def)
  obtain n acquire where n: "n \<le> c_now s" "lease_decide l h acquire (c_lease s) n = Inr (Some k')"
    using assms(1-3) r(1) by (auto simp: authored_def snap_def)
  then have "r + 15 * second \<le> n"
    using expiry r(1) assms(3,4) by (auto simp: lease_decide_def Let_def split: if_splits)
  with n(1) r(4) False show ?thesis by simp
qed

text \<open>A client's own write names it, renewed no earlier than the attempt began.\<close>

lemma decided_covers:
  assumes "decided l s h acquire t v k'" "c_now s \<le> last_instant" "lk_leaseDuration l = 15 * second"
  shows "covered (written s k') h t"
proof -
  obtain k n where n: "0 \<le> t" "t \<le> n" "n \<le> c_now s" "lease_decide l h acquire k n = Inr (Some k')"
    using assms(1) by (auto simp: decided_def)
  then have "k' = taken_lease l h n k"
    by (auto simp: lease_decide_def Let_def split: option.splits if_splits)
  moreover have "parse_micro (format_micro n) = Some (trunc_us n)"
    using n assms(2) by (intro parse_renewTime) auto
  ultimately show ?thesis
    using n(2) assms(3)
    by (auto simp: covered_def written_def taken_lease_def Let_def truncDiv_def second_def intro: trunc_us_mono)
qed

section \<open>Every step keeps it\<close>

text \<open>
  A step that changes one client and, perhaps, the server: the client's own obligations, and
  that the others stay covered and the strays' authors retired, are what is left to show.
\<close>

lemma lease_inv_update:
  assumes inv: "lease_inv l s" and ev: "evolves s s'" and time: "c_now s' \<le> last_instant"
    and others: "\<And>h'. h' \<noteq> h \<Longrightarrow> c_client s' h' = c_client s h'"
    and covers: "\<And>h' t. h' \<noteq> h \<Longrightarrow> h' \<noteq> [] \<Longrightarrow> covered s h' t \<Longrightarrow> covered s' h' t"
    and own: "client_ok l s' h (c_client s' h)"
    and name: "active (c_client s' h) \<Longrightarrow> h \<noteq> []"
    and retire: "retired (c_client s h) \<Longrightarrow> retired (c_client s' h)"
    and stray: "\<And>p. p \<in> c_stray s' \<Longrightarrow> p \<in> c_stray s \<or> stray_ok l s' p"
  shows "lease_inv l s'"
  unfolding lease_inv_def
proof (intro conjI allI impI ballI)
  show "0 \<le> c_now s'" "c_now s' \<le> last_instant"
    using inv evolves_now [OF ev] time by (simp_all add: lease_inv_def)
  show "h' \<noteq> []" if "active (c_client s' h')" for h'
    using that name others [of h'] inv by (cases "h' = h") (auto simp: lease_inv_def)
  show "client_ok l s' h' (c_client s' h')" for h'
  proof (cases "h' = h")
    case False
    have ok: "client_ok l s h' (c_client s h')" using inv by (simp add: lease_inv_def)
    show ?thesis
    proof (cases "guard_of (c_client s h') = None")
      case True
      with ok ev show ?thesis
        unfolding others [OF False]
        by (cases "c_client s h'") (auto intro: snap_evolves decided_evolves dest: evolves_now)
    next
      case guard: False
      then have "h' \<noteq> []" using inv guard_active by (auto simp: lease_inv_def)
      then show ?thesis
        unfolding others [OF False] by (intro client_ok_evolves [OF ev _ ok] covers False)
    qed
  qed (use own in simp)
  show "stray_ok l s' p" if "p \<in> c_stray s'" for p
  proof (cases "p \<in> c_stray s")
    case True
    then obtain h' where h': "retired (c_client s h')" "authored l s h' (fst p) (snd p)"
      using inv by (auto simp: lease_inv_def stray_ok_def)
    moreover have "retired (c_client s' h')" using h'(1) retire others [of h'] by (cases "h' = h") auto
    ultimately show ?thesis using authored_evolves [OF ev] by (auto simp: stray_ok_def)
  next
    case False
    with stray [OF that] show ?thesis by simp
  qed
qed

lemma with_client_fields [simp]:
  "c_now (with_client s h c) = c_now s" "c_version (with_client s h c) = c_version s"
  "c_lease (with_client s h c) = c_lease s" "c_stray (with_client s h c) = c_stray s"
  "c_client (with_client s h c) = (c_client s)(h := c)"
  by (simp_all add: with_client_def)

lemma written_fields [simp]:
  "c_now (written s k) = c_now s" "c_version (written s k) = Suc (c_version s)" "c_lease (written s k) = k"
  "c_stray (written s k) = c_stray s" "c_client (written s k) = c_client s"
  by (simp_all add: written_def)

lemma strays_fields [simp]:
  "c_now (strays s v k) = c_now s" "c_version (strays s v k) = c_version s" "c_lease (strays s v k) = c_lease s"
  "c_stray (strays s v k) = insert (v, k) (c_stray s)" "c_client (strays s v k) = c_client s"
  by (simp_all add: strays_def)

lemma covered_same:
  "c_lease s' = c_lease s \<Longrightarrow> c_now s \<le> c_now s' \<Longrightarrow> covered s h t \<Longrightarrow> covered s' h t"
  by (auto simp: covered_def)

text \<open>A step of one client that leaves the server as it is.\<close>

lemma lease_inv_client:
  assumes "lease_inv l s" "client_ok l s h c"
    and "active c \<Longrightarrow> h \<noteq> []"
    and "retired (c_client s h) \<Longrightarrow> retired c"
  shows "lease_inv l (with_client s h c)"
proof (rule lease_inv_update [OF assms(1), of _ h])
  have ev: "evolves s (with_client s h c)" by (simp add: evolves_def)
  show "client_ok l (with_client s h c) h (c_client (with_client s h c) h)"
    using client_ok_evolves [OF ev covered_same assms(2)] by simp
qed (use assms in \<open>auto simp: evolves_def lease_inv_def intro: covered_same\<close>)

lemma lease_inv_stray:
  assumes "lease_inv l s" "retired (c_client s h)" "authored l s h v k"
  shows "lease_inv l (strays s v k)"
proof (rule lease_inv_update [OF assms(1), of _ h])
  have ev: "evolves s (strays s v k)" by (simp add: evolves_def)
  have ok: "client_ok l s h (c_client s h)" using assms(1) by (simp add: lease_inv_def)
  show "client_ok l (strays s v k) h (c_client (strays s v k) h)"
    using client_ok_evolves [OF ev covered_same ok] by simp
  show "p \<in> c_stray s \<or> stray_ok l (strays s v k) p" if "p \<in> c_stray (strays s v k)" for p
    using that assms(2) authored_evolves [OF ev assms(3)] by (auto simp: stray_ok_def)
qed (use assms in \<open>auto simp: evolves_def lease_inv_def intro: covered_same\<close>)

text \<open>A write that the server applies.\<close>

lemma lease_inv_written:
  assumes "lease_inv l s" "authored l s h (c_version s) k" "client_ok l (written s k) h c"
    and "active c \<Longrightarrow> h \<noteq> []" "retired (c_client s h) \<Longrightarrow> retired c"
  shows "lease_inv l (with_client (written s k) h c)"
proof (rule lease_inv_update [OF assms(1), of _ h])
  let ?s' = "with_client (written s k) h c"
  show "evolves s ?s'" by (simp add: evolves_def)
  show "covered ?s' h' t" if "h' \<noteq> h" "h' \<noteq> []" "covered s h' t" for h' t
    using authored_others [OF assms(2) refl that] by (rule covered_same [rotated 2]) simp_all
  have ev: "evolves (written s k) ?s'" by (simp add: evolves_def)
  have cov: "covered (written s k) h t \<Longrightarrow> covered ?s' h t" for t
    by (rule covered_same [of ?s' "written s k"]) simp_all
  show "client_ok l ?s' h (c_client ?s' h)"
    using client_ok_evolves [OF ev cov assms(3)] by simp
qed (use assms in \<open>auto simp: lease_inv_def\<close>)

lemma decided_authored: "decided l s h a t v k \<Longrightarrow> authored l s h v k"
  by (auto simp: decided_def authored_def)

lemma authored_client [simp]: "authored l (with_client s h' c) h v k = authored l s h v k"
  by (simp add: authored_def snap_def)

lemma client_ok_at: "lease_inv l s \<Longrightarrow> c_client s h = c \<Longrightarrow> client_ok l s h c"
  by (auto simp: lease_inv_def)

lemma active_at: "lease_inv l s \<Longrightarrow> active (c_client s h) \<Longrightarrow> h \<noteq> []"
  by (simp add: lease_inv_def)

lemma guard_ok_at: "lease_inv l s \<Longrightarrow> guard_of (c_client s h) = Some g \<Longrightarrow> guard_ok l s h g"
  using client_ok_at [of l s h "c_client s h"] by (cases "c_client s h") auto

lemma snap_current [simp]: "snap s (c_version s) (c_lease s)"
  by (simp add: snap_def)

lemmas step_simps = retired_def decided_def lease_inv_def

lemma lease_inv_step:
  assumes "lease_step l s s'" "lease_inv l s" "lk_leaseDuration l = 15 * second"
  shows "lease_inv l s'"
  using assms(1,2)
proof cases
  case (tick d)
  have ev: "evolves s s'" using tick by (simp add: evolves_def)
  have cov: "covered s h t \<Longrightarrow> covered s' h t" for h t
    by (rule covered_same [of s' s]) (use tick in simp_all)
  have ok: "client_ok l s' [] (c_client s [])"
    using client_ok_evolves [OF ev cov client_ok_at [OF assms(2) refl]] .
  show ?thesis
    by (rule lease_inv_update [OF assms(2) ev, of "[]"])
      (use tick ok cov active_at [OF assms(2), of "[]"] in auto)
next
  case (put h t v k)
  have d: "decided l s h True t v k" using client_ok_at [OF assms(2) put(2)] by simp
  show ?thesis
    unfolding put(1)
    by (rule lease_inv_written [OF assms(2)])
      (use put d decided_authored [OF d] decided_covers [OF d _ assms(3)] assms(2) active_at [OF assms(2), of h]
        in \<open>auto simp: guard_ok_def lease_inv_def retired_def\<close>)
next
  case (reput h g t v k)
  have d: "decided l s h False t v k" and g: "guard_ok l s h g" using client_ok_at [OF assms(2) reput(2)] by simp_all
  show ?thesis
    unfolding reput(1)
    by (rule lease_inv_written [OF assms(2)])
      (use reput d g decided_authored [OF d] decided_covers [OF d _ assms(3)] assms(2) active_at [OF assms(2), of h]
        in \<open>auto simp: guard_ok_def lease_inv_def retired_def\<close>)
next
  case (deliver v k)
  then obtain h where h: "retired (c_client s h)" "authored l s h v k"
    using assms(2) by (auto simp: lease_inv_def stray_ok_def)
  have same: "written s k = with_client (written s k) h (c_client s h)" by (simp add: with_client_def written_def)
  have ok: "client_ok l s h (c_client s h)" using client_ok_at [OF assms(2) refl] .
  have "client_ok l (written s k) h (c_client s h)"
    using ok h(1) by (auto simp: retired_def guard_ok_def snap_def)
  with h deliver same show ?thesis
    by (metis lease_inv_written [OF assms(2)] active_at [OF assms(2)])
next
  case (abandon h t v k)
  show ?thesis
    unfolding abandon(1)
    by (rule lease_inv_stray [where h = h])
      (use client_ok_at [OF assms(2) abandon(2)] decided_authored abandon in
        \<open>auto simp: retired_def authored_def snap_def intro!: lease_inv_client assms(2)\<close>)
next
  case (lose_stray h g t v k)
  have g: "guard_ok l s h (lost_guard g)"
    using guard_ok_at [OF assms(2), of h g] lose_stray by (simp add: guard_ok_def lost_guard_def)
  have "lease_inv l (with_client s h (Holding (lost_guard g)))"
    by (rule lease_inv_client [OF assms(2)])
      (use g lose_stray active_at [OF assms(2), of h] in \<open>auto simp: retired_def lost_guard_def\<close>)
  then show ?thesis
    unfolding lose_stray(1)
    by (rule lease_inv_stray [where h = h])
      (use client_ok_at [OF assms(2) lose_stray(2)] decided_authored in \<open>auto simp: retired_def lost_guard_def\<close>)
next
  case (release h v k)
  show ?thesis
    unfolding release(1)
    by (rule lease_inv_stray [where h = h])
      (use client_ok_at [OF assms(2) release(2)] release in
        \<open>auto simp: retired_def authored_def snap_def intro!: lease_inv_client assms(2)\<close>)
next
  case (lose h g)
  show ?thesis
    unfolding lose(1)
    by (rule lease_inv_client)
      (use guard_ok_at [OF assms(2) lose(2)] active_at [OF assms(2)] guard_active [OF lose(2)] assms(2) in
        \<open>auto simp: guard_ok_def lost_guard_def retired_def\<close>)
next
  case (start h)
  show ?thesis
    unfolding start(1)
    by (rule lease_inv_client [OF assms(2)])
      (use client_ok_at [OF assms(2) start(2)] active_at [OF assms(2), of h] start assms(2) in \<open>auto simp: step_simps\<close>)
next
  case (read h t)
  show ?thesis
    unfolding read(1)
    by (rule lease_inv_client [OF assms(2)])
      (use client_ok_at [OF assms(2) read(2)] active_at [OF assms(2), of h] read assms(2) in \<open>auto simp: step_simps\<close>)
next
  case (decide h t v k k')
  show ?thesis
    unfolding decide(1)
    by (rule lease_inv_client [OF assms(2)])
      (use client_ok_at [OF assms(2) decide(2)] active_at [OF assms(2), of h] decide assms(2) in \<open>auto simp: step_simps\<close>)
next
  case (wait h t v k)
  show ?thesis
    unfolding wait(1)
    by (rule lease_inv_client [OF assms(2)])
      (use client_ok_at [OF assms(2) wait(2)] active_at [OF assms(2), of h] wait assms(2) in \<open>auto simp: step_simps\<close>)
next
  case (conflict h t v k)
  show ?thesis
    unfolding conflict(1)
    by (rule lease_inv_client [OF assms(2)])
      (use client_ok_at [OF assms(2) conflict(2)] active_at [OF assms(2), of h] conflict assms(2) in \<open>auto simp: step_simps\<close>)
next
  case (renew h g u)
  show ?thesis
    unfolding renew(1)
    by (rule lease_inv_client [OF assms(2)])
      (use client_ok_at [OF assms(2) renew(2)] active_at [OF assms(2), of h] renew assms(2) in \<open>auto simp: step_simps\<close>)
next
  case (reread h g t)
  show ?thesis
    unfolding reread(1)
    by (rule lease_inv_client [OF assms(2)])
      (use client_ok_at [OF assms(2) reread(2)] active_at [OF assms(2), of h] reread assms(2) in \<open>auto simp: step_simps\<close>)
next
  case (redecide h g t v k k')
  show ?thesis
    unfolding redecide(1)
    by (rule lease_inv_client [OF assms(2)])
      (use client_ok_at [OF assms(2) redecide(2)] active_at [OF assms(2), of h] redecide assms(2) in \<open>auto simp: step_simps\<close>)
next
  case (leave h g)
  show ?thesis
    unfolding leave(1)
    by (rule lease_inv_client [OF assms(2)])
      (use client_ok_at [OF assms(2) leave(2)] active_at [OF assms(2), of h] leave assms(2) in \<open>auto simp: step_simps\<close>)
next
  case (quit h)
  show ?thesis
    unfolding quit by (rule lease_inv_client [OF assms(2)]) (auto simp: step_simps)
qed

lemma lease_inv_reachable:
  assumes "lease_reachable l s" "lk_leaseDuration l = 15 * second"
  shows "lease_inv l s"
  using assms(1)
proof induction
  case (base s)
  then show ?case by (simp add: lease_initial_def lease_inv_def)
next
  case (step s s')
  then show ?case using lease_inv_step assms(2) by blast
qed

section \<open>Mutual exclusion\<close>

text \<open>The guard of \<open>h\<close> permits a change at \<open>now\<close>.\<close>

definition permits :: "cluster \<Rightarrow> string \<Rightarrow> time \<Rightarrow> bool" where
  "permits s h now \<longleftrightarrow> (case guard_of (c_client s h) of None \<Rightarrow> False | Some g \<Rightarrow> lease_check g now = None)"

lemma permits_holder:
  assumes "lease_reachable l s" "lk_leaseDuration l = 15 * second" "permits s h (c_now s + microsecond - 1)"
  shows "kl_holder (c_lease s) = h"
proof -
  obtain g where g: "guard_of (c_client s h) = Some g" "lease_check g (c_now s + microsecond - 1) = None"
    using assms(3) by (auto simp: permits_def split: option.splits)
  have ok: "guard_ok l s h g"
    using guard_ok_at [OF lease_inv_reachable [OF assms(1,2)] g(1)] .
  have live: "lg_lost g = None" "c_now s + microsecond - 1 < lg_lastRenew g + 15 * second"
    using g(2) ok assms(2) by (auto simp: lease_check_def lease_expired_def guard_ok_def split: if_splits)
  then show ?thesis
    using ok trunc_us_bounds(2) [of "lg_lastRenew g"] by (auto simp: guard_ok_def covered_def)
qed

text \<open>
  The Lease is one lock for all keys. Its contract holds of the guards that would still pass a
  check at the end of the current microsecond, in a system whose locker has the program's
  lease duration.
\<close>

definition lease_system :: "leaseLocker \<Rightarrow> cluster \<Rightarrow> bool" where
  "lease_system l s \<longleftrightarrow> lk_leaseDuration l = 15 * second \<and> lease_reachable l s"

definition lease_permitted :: "cluster \<Rightarrow> unit \<Rightarrow> string \<Rightarrow> bool" where
  "lease_permitted s key h \<longleftrightarrow> permits s h (c_now s + microsecond - 1)"

interpretation lease: rotation_lock "lease_system l" lease_permitted for l
proof unfold_locales
  fix s k c d
  assume "lease_system l s" "lease_permitted s k c" "lease_permitted s k d"
  then have "kl_holder (c_lease s) = c" "kl_holder (c_lease s) = d"
    using permits_holder by (auto simp: lease_system_def lease_permitted_def)
  then show "c = d" by simp
qed

section \<open>Properties\<close>


definition example_locker :: leaseLocker where
  "example_locker = \<lparr>lk_baseURL = ''https://10.0.0.1:443'', lk_leaseName = ''grafana-mcp-rotation'',
     lk_namespace = ''mcp'', lk_podName = ''mcp-0'', lk_tokenFile = ''token'', lk_leaseDuration = 15 * second\<rparr>"

definition example_start :: cluster where
  "example_start = \<lparr>c_now = 1700000000 * second, c_version = 1, c_lease = zero_lease, c_client = (\<lambda>_. Absent), c_stray = {}\<rparr>"

definition example_held :: cluster where
  "example_held =
     (let now = c_now example_start; k = taken_lease example_locker ''mcp-0-a1'' now zero_lease
      in with_client (written example_start k) ''mcp-0-a1''
           (Holding \<lparr>lg_locker = example_locker, lg_holder = ''mcp-0-a1'', lg_lost = None, lg_lastRenew = now\<rparr>))"

lemma example_held_reachable: "lease_reachable example_locker example_held"
proof -
  let ?h = "''mcp-0-a1''" and ?now = "c_now example_start"
  let ?k = "taken_lease example_locker ?h ?now zero_lease"
  let ?s1 = "with_client example_start ?h (Reading ?now)"
  let ?s2 = "with_client ?s1 ?h (Deciding ?now 1 zero_lease)"
  let ?s3 = "with_client ?s2 ?h (Writing ?now 1 ?k)"
  have decided: "lease_decide example_locker ?h True zero_lease ?now = Inr (Some ?k)"
    apply (simp add: lease_decide_def lease_expiry_def zero_lease_def Let_def) done
  have fields: "c_version example_start = 1" "c_lease example_start = zero_lease"
    by (simp_all add: example_start_def)
  have "lease_initial example_start"
    by (simp add: lease_initial_def example_start_def zero_lease_def last_instant_def second_def)
  moreover have "lease_step example_locker example_start ?s1"
    by (rule lease_step.start) (simp_all add: example_start_def)
  moreover have "lease_step example_locker ?s1 ?s2"
    using lease_step.read [of ?s1 ?h ?now example_locker] by (simp add: fields)
  moreover have "lease_step example_locker ?s2 ?s3"
    by (rule lease_step.decide [where k = zero_lease]) (simp_all add: decided fields)
  moreover have "lease_step example_locker ?s3 (with_client (written ?s3 ?k) ?h
      (Holding \<lparr>lg_locker = example_locker, lg_holder = ?h, lg_lost = None, lg_lastRenew = ?now\<rparr>))"
    by (rule lease_step.put) (simp_all add: fields)
  ultimately have "lease_reachable example_locker (with_client (written ?s3 ?k) ?h
      (Holding \<lparr>lg_locker = example_locker, lg_holder = ?h, lg_lost = None, lg_lastRenew = ?now\<rparr>))"
    by (meson lease_reachable.intros)
  then show ?thesis
    by (simp add: example_held_def Let_def with_client_def written_def fun_upd_def [symmetric])
qed

lemma example_permitted: "lease_permitted example_held () ''mcp-0-a1''"
  by (simp add: lease_permitted_def permits_def example_held_def Let_def lease_check_def lease_expired_def
      example_start_def example_locker_def second_def microsecond_def)


text \<open>A guard that passes its check is the holder the Lease names, so the permission a request acts on is
  the one the API server recorded.\<close>

theorem permitted_guard_holds_the_lease:
  assumes "lease_reachable l s" "lk_leaseDuration l = 15 * second" "permits s h (c_now s + microsecond - 1)"
  shows "kl_holder (c_lease s) = h"
  by (rule permits_holder [OF assms])

theorem permitted_guard_holds_the_lease_witness: "kl_holder (c_lease example_held) = ''mcp-0-a1''"
  by (rule permitted_guard_holds_the_lease [OF example_held_reachable])
    (use example_permitted in \<open>simp_all add: lease_permitted_def example_locker_def\<close>)

text \<open>A renewal time written to the Lease is read back as the same instant, to the microsecond, for every
  instant from 1970 to the end of the year 9999.\<close>

theorem renew_time_round_trip:
  assumes "0 \<le> t" "t \<le> last_instant"
  shows "parse_micro (format_micro t) = Some (trunc_us t)"
  by (rule parse_renewTime [OF assms])

theorem renew_time_round_trip_witness:
  "parse_micro (format_micro 1700000000123456789) = Some 1700000000123456000"
  using renew_time_round_trip [of 1700000000123456789]
  by (simp add: last_instant_def second_def trunc_us_def microsecond_def)

end
