(* ===== verification/Wire.thy ===== *)
theory Wire
  imports Formats LeaseProtocol
begin

text \<open>
  The Lease between the program and the API server: a document that is printed compactly is read back
  as the same document, a Lease as the same Lease with everything it carries for others; and an update
  that succeeds replaced, on a server that checks resource versions, exactly the Lease it was decided
  from. This is what the steps of \<open>LeaseProtocol\<close> assume of the code.
\<close>

section \<open>Compact documents\<close>

fun wire_json :: "json \<Rightarrow> bool" where
  "wire_json JNull = True"
| "wire_json (JBool b) = True"
| "wire_json (JNum n) = (case parseInt64 n of None \<Rightarrow> False | Some i \<Rightarrow> n = itoa i)"
| "wire_json (JStr s) = valid_utf8 s"
| "wire_json (JArr vs) = list_all wire_json vs"
| "wire_json (JObj kvs) = list_all (\<lambda>kv. valid_utf8 (fst kv) \<and> wire_json (snd kv)) kvs"

definition compact :: "json \<Rightarrow> bool" where
  "compact v \<longleftrightarrow> (\<forall>f t. weight v \<le> f \<longrightarrow> ends_number t \<longrightarrow> value_json f (marshal v @ t) = Some (v, t))"

lemma compactD: "compact v \<Longrightarrow> weight v \<le> f \<Longrightarrow> ends_number t \<Longrightarrow> value_json f (marshal v @ t) = Some (v, t)"
  by (simp add: compact_def)

lemma elems_compact:
  assumes "vs \<noteq> []" "list_all compact vs" "sum_list (map (\<lambda>v. Suc (weight v)) vs) \<le> f"
  shows "elems_json f (joinWith '','' (map marshal vs) @ CHR '']'' # t) = Some (vs, t)"
  using assms
proof (induction vs arbitrary: f)
  case (Cons v vs)
  then obtain g where f: "f = Suc g" by (cases f) auto
  have v: "ends_number r \<Longrightarrow> value_json g (marshal v @ r) = Some (v, r)" for r
    using Cons.prems f by (intro compactD) auto
  show ?case
  proof (cases "vs = []")
    case True
    then show ?thesis by (simp add: f elems_json.simps v skip_ws_head punctuation_ws)
  next
    case False
    then have "elems_json g (joinWith '','' (map marshal vs) @ CHR '']'' # t) = Some (vs, t)"
      using Cons f by (intro Cons.IH) auto
    with False show ?thesis by (simp add: f elems_json.simps(2) v joinWith_Cons skip_ws_head punctuation_ws)
  qed
qed simp

lemma members_compact:
  assumes "kvs \<noteq> []" "list_all (\<lambda>kv. valid_utf8 (fst kv) \<and> compact (snd kv)) kvs"
      "sum_list (map (\<lambda>kv. Suc (weight (snd kv))) kvs) \<le> f"
  shows "members_json f (joinWith '','' (map (\<lambda>kv. quoteJSON (fst kv) @ '':'' @ marshal (snd kv)) kvs) @ CHR ''}'' # t)
     = Some (kvs, t)"
  using assms
proof (induction kvs arbitrary: f)
  case (Cons kv kvs)
  obtain k v where kv: "kv = (k, v)" by (cases kv)
  obtain g where f: "f = Suc g" using Cons.prems by (cases f) auto
  have v: "ends_number r \<Longrightarrow> value_json g (marshal v @ r) = Some (v, r)" for r
    using Cons.prems f kv by (intro compactD) auto
  have k: "valid_utf8 k" using Cons.prems kv by simp
  show ?case
  proof (cases "kvs = []")
    case True
    then show ?thesis
      by (simp add: kv f members_json.simps skip_ws_quote string_body_escape [OF k] skip_ws_head punctuation_ws v)
  next
    case False
    then have "members_json g (joinWith '','' (map (\<lambda>kv. quoteJSON (fst kv) @ '':'' @ marshal (snd kv)) kvs) @ CHR ''}'' # t)
        = Some (kvs, t)"
      using Cons f kv by (intro Cons.IH) auto
    with False show ?thesis
      by (simp add: kv f members_json.simps(2) skip_ws_quote string_body_escape [OF k] skip_ws_head punctuation_ws v
          joinWith_Cons)
  qed
qed simp

text \<open>The first character of a printed value: no white space, and no bracket that would close a container.\<close>

lemma itoa_first: "\<exists>c u. itoa i = c # u \<and> (c = CHR ''-'' \<or> is_digit c)"
  using itoa_head [of i] by metis

lemma marshal_head: "wire_json v \<Longrightarrow> \<exists>c u. marshal v = c # u \<and> \<not> is_ws c \<and> c \<noteq> CHR '']''"
proof (cases v)
  case (JNum n)
  moreover assume "wire_json v"
  ultimately obtain i where "n = itoa i" by (auto split: option.splits)
  then show ?thesis using JNum itoa_first [of i] by (auto simp: is_ws_def is_digit_def)
qed (auto simp: quoteJSON_def is_ws_def)

lemma value_open:
  "s \<noteq> [] \<Longrightarrow> \<not> is_ws (hd s) \<Longrightarrow> hd s \<noteq> CHR '']'' \<Longrightarrow>
   value_json (Suc f) (CHR ''['' # s) = map_option (\<lambda>(m, r). (JArr m, r)) (elems_json f s)"
  "s \<noteq> [] \<Longrightarrow> \<not> is_ws (hd s) \<Longrightarrow> hd s \<noteq> CHR ''}'' \<Longrightarrow>
   value_json (Suc f) (CHR ''{'' # s) = map_option (\<lambda>(m, r). (JObj m, r)) (members_json f s)"
  by (cases s; simp add: value_json.simps skip_ws_head punctuation_ws)+

lemma weight_pos: "0 < weight v"
  by (cases v) auto

lemma compact_flat: "flat_value v \<Longrightarrow> compact v"
  unfolding compact_def
proof (intro allI impI)
  fix f t
  assume "flat_value v" "weight v \<le> f" "ends_number t"
  then show "value_json f (marshal v @ t) = Some (v, t)"
    using value_json_flat [of v t "f - 1"] weight_pos [of v] by (cases f) auto
qed

lemma compact_null: "compact JNull"
  unfolding compact_def
proof (intro allI impI)
  fix f t
  assume "weight JNull \<le> f"
  then obtain g where "f = Suc g" by (cases f) auto
  then show "value_json f (marshal JNull @ t) = Some (JNull, t)"
    by (simp add: value_json.simps skip_ws_def is_ws_def hasPrefix_def)
qed

lemma wire_json_compact: "wire_json v \<Longrightarrow> compact v"
proof (induction v)
  case (JArr vs)
  have IH: "list_all compact vs" using JArr by (auto simp: list_all_iff)
  show ?case
    unfolding compact_def
  proof (intro allI impI)
    fix f t
    assume "weight (JArr vs) \<le> f"
    then obtain g where f: "f = Suc g" and g: "sum_list (map (\<lambda>v. Suc (weight v)) vs) \<le> g" by (cases f) auto
    show "value_json f (marshal (JArr vs) @ t) = Some (JArr vs, t)"
    proof (cases "vs = []")
      case True
      then show ?thesis by (simp add: f value_json.simps skip_ws_head punctuation_ws)
    next
      case False
      define s where "s = joinWith '','' (map marshal vs) @ CHR '']'' # t"
      have "wire_json (hd vs)" using JArr.prems False by (cases vs) auto
      then have "\<exists>c u. s = c # u \<and> (\<not> is_ws c \<and> c \<noteq> CHR '']'')"
        unfolding s_def by (intro joined_head False marshal_head)
      then have "value_json f (CHR ''['' # s) = map_option (\<lambda>(m, r). (JArr m, r)) (elems_json g s)"
        unfolding f by (intro value_open) auto
      with False show ?thesis using elems_compact [OF False IH g, of t] by (simp add: s_def)
    qed
  qed
next
  case (JObj kvs)
  have IH: "list_all (\<lambda>kv. valid_utf8 (fst kv) \<and> compact (snd kv)) kvs"
    using JObj by (fastforce simp: list_all_iff)
  show ?case
    unfolding compact_def
  proof (intro allI impI)
    fix f t
    assume "weight (JObj kvs) \<le> f"
    then obtain g where f: "f = Suc g" and g: "sum_list (map (\<lambda>kv. Suc (weight (snd kv))) kvs) \<le> g" by (cases f) auto
    show "value_json f (marshal (JObj kvs) @ t) = Some (JObj kvs, t)"
    proof (cases "kvs = []")
      case True
      then show ?thesis by (simp add: f value_json.simps skip_ws_head punctuation_ws)
    next
      case False
      define s where "s = joinWith '','' (map (\<lambda>kv. quoteJSON (fst kv) @ '':'' @ marshal (snd kv)) kvs) @ CHR ''}'' # t"
      have "\<exists>c u. s = c # u \<and> c = QUOTE"
        unfolding s_def by (intro joined_head False) (simp add: quoteJSON_def)
      then have "value_json f (CHR ''{'' # s) = map_option (\<lambda>(m, r). (JObj m, r)) (members_json g s)"
        unfolding f by (intro value_open) (auto simp: is_ws_def)
      with False show ?thesis using members_compact [OF False IH g, of t] by (simp add: s_def)
    qed
  qed
qed (auto intro!: compact_flat compact_null split: option.splits)

lemma weight_compact: "wire_json v \<Longrightarrow> weight v \<le> length (marshal v)"
proof (induction v)
  case (JArr vs)
  show ?case
  proof (cases "vs = []")
    case False
    have "sum_list (map (\<lambda>v. Suc (weight v)) vs) \<le> sum_list (map (\<lambda>x. Suc (length x)) (map marshal vs))"
      using JArr by (auto simp: comp_def list_all_iff intro!: sum_list_mono)
    also have "\<dots> \<le> Suc (length (joinWith '','' (map marshal vs)))"
      using False by (intro length_joined) auto
    finally show ?thesis using False by simp
  qed simp
next
  case (JObj kvs)
  show ?case
  proof (cases "kvs = []")
    case False
    have "sum_list (map (\<lambda>kv. Suc (weight (snd kv))) kvs) \<le>
        sum_list (map (\<lambda>x. Suc (length x)) (map (\<lambda>kv. quoteJSON (fst kv) @ '':'' @ marshal (snd kv)) kvs))"
      using JObj by (auto simp: comp_def list_all_iff intro!: sum_list_mono) (fastforce intro: le_SucI trans_le_add2)
    also have "\<dots> \<le> Suc (length (joinWith '','' (map (\<lambda>kv. quoteJSON (fst kv) @ '':'' @ marshal (snd kv)) kvs)))"
      using False by (intro length_joined) auto
    finally show ?thesis using False by simp
  qed simp
next
  case (JNum n)
  then obtain i where "n = itoa i" by (auto split: option.splits)
  then show ?case using itoa_first [of i] by (auto simp: Suc_le_eq)
qed (auto simp: quoteJSON_def Suc_le_eq simp flip: length_greater_0_conv)

lemma parse_marshal:
  assumes "wire_json v"
  shows "parse_document (marshal v) = Some v" "decode_first (marshal v) = Some v"
proof -
  have "weight v \<le> parse_fuel (marshal v)"
    using weight_compact [OF assms] by (simp add: parse_fuel_def)
  from compactD [OF wire_json_compact [OF assms] this, of "[]"]
  show "parse_document (marshal v) = Some v" "decode_first (marshal v) = Some v"
    by (simp_all add: parse_document_def decode_first_def skip_ws_def)
qed

section \<open>The Lease\<close>

definition keyed :: "(string \<times> string) list \<Rightarrow> bool" where
  "keyed m \<longleftrightarrow> distinct (map fst m) \<and> list_all (\<lambda>(k, v). valid_utf8 k \<and> valid_utf8 v) m"

text \<open>What an API server stores: strings of UTF-8, numbers of 32 bits, and no key twice.\<close>

definition lease_wf :: "kubeLease \<Rightarrow> bool" where
  "lease_wf k \<longleftrightarrow>
     list_all valid_utf8 [kl_apiVersion k, kl_kind k, kl_name k, kl_namespace k, kl_resourceVersion k, kl_uid k,
        kl_holder k, kl_acquireTime k, kl_renewTime k] \<and>
     keyed (kl_labels k) \<and> keyed (kl_annotations k) \<and> list_all wire_json (kl_owners k) \<and>
     list_all valid_utf8 (kl_finalizers k) \<and> in_int32 (kl_duration k) \<and> in_int32 (kl_transitions k)"

text \<open>Maps have no order; the encoder writes their keys in ascending order.\<close>

definition canonical :: "kubeLease \<Rightarrow> kubeLease" where
  "canonical k = k\<lparr>kl_labels := sort_key fst (kl_labels k), kl_annotations := sort_key fst (kl_annotations k)\<rparr>"

lemma dec_entries_strings:
  "distinct (map fst (m @ kvs)) \<Longrightarrow> dec_entries (map (\<lambda>(k, v). (k, JStr v)) kvs) m = Some (m @ kvs)"
proof (induction kvs arbitrary: m)
  case (Cons kv kvs)
  obtain k v where kv: "kv = (k, v)" by (cases kv)
  have "filter (\<lambda>e. fst e \<noteq> k) m = m" using Cons.prems by (auto simp: kv filter_id_conv)
  then show ?case using Cons.IH [of "m @ [(k, v)]"] Cons.prems by (simp add: kv)
qed simp

lemma dec_opt_map:
  "keyed m \<Longrightarrow> dec_map (JObj (map (\<lambda>(k, v). (k, JStr v)) (sort_key fst m))) [] = Some (sort_key fst m)"
proof -
  assume "keyed m"
  then have "distinct (map fst (sort_key fst m))"
    by (simp add: keyed_def distinct_map)
  then show ?thesis using dec_entries_strings [of "[]"] by simp
qed

lemma dec_raw_list: "dec_list JNull dec_raw (JArr vs) [] = Some vs"
proof -
  have "dec_elems JNull dec_raw vs old = Some vs" for old by (induction vs arbitrary: old) simp_all
  then show ?thesis by simp
qed

lemma dec_string_list: "dec_list [] dec_string (JArr (map JStr ss)) [] = Some ss"
proof -
  have "dec_elems [] dec_string (map JStr ss) old = Some ss" for old by (induction ss arbitrary: old) simp_all
  then show ?thesis by simp
qed

lemma dec_int32_itoa: "in_int32 i \<Longrightarrow> dec_int32 (JInt i) x = Some i"
  using parseInt64_formatInt [of i] by (simp add: in_int32_def in_int64_def)

lemma lease_names:
  "\<not> field_match ''apiVersion'' ''kind''" "\<not> field_match ''apiVersion'' ''metadata''" "\<not> field_match ''kind'' ''metadata''"
  "\<not> field_match ''apiVersion'' ''spec''" "\<not> field_match ''kind'' ''spec''" "\<not> field_match ''metadata'' ''spec''"
  by (simp_all add: field_match_def upper_char_def is_lower_def)

lemma metadata_names:
  "list_all (\<lambda>n. \<not> field_match ''name'' n)
     [''namespace'', ''resourceVersion'', ''uid'', ''labels'', ''annotations'', ''ownerReferences'', ''finalizers'']"
  "list_all (\<lambda>n. \<not> field_match ''namespace'' n)
     [''resourceVersion'', ''uid'', ''labels'', ''annotations'', ''ownerReferences'', ''finalizers'']"
  "list_all (\<lambda>n. \<not> field_match ''resourceVersion'' n) [''uid'', ''labels'', ''annotations'', ''ownerReferences'', ''finalizers'']"
  "list_all (\<lambda>n. \<not> field_match ''uid'' n) [''labels'', ''annotations'', ''ownerReferences'', ''finalizers'']"
  "list_all (\<lambda>n. \<not> field_match ''labels'' n) [''annotations'', ''ownerReferences'', ''finalizers'']"
  "list_all (\<lambda>n. \<not> field_match ''annotations'' n) [''ownerReferences'', ''finalizers'']"
  "\<not> field_match ''ownerReferences'' ''finalizers''"
  by (simp_all add: field_match_def upper_char_def is_lower_def)

lemma spec_names:
  "list_all (\<lambda>n. \<not> field_match ''holderIdentity'' n) [''leaseDurationSeconds'', ''acquireTime'', ''renewTime'', ''leaseTransitions'']"
  "list_all (\<lambda>n. \<not> field_match ''leaseDurationSeconds'' n) [''acquireTime'', ''renewTime'', ''leaseTransitions'']"
  "list_all (\<lambda>n. \<not> field_match ''acquireTime'' n) [''renewTime'', ''leaseTransitions'']"
  "\<not> field_match ''renewTime'' ''leaseTransitions''"
  by (simp_all add: field_match_def upper_char_def is_lower_def)

lemmas member_names = lease_names metadata_names [simplified] spec_names [simplified]

lemma dec_members_append:
  "dec_members fs (xs @ ys) a = (case dec_members fs xs a of None \<Rightarrow> None | Some b \<Rightarrow> dec_members fs ys b)"
  by (induction fs xs a rule: dec_members.induct) (auto split: option.splits)

definition metadata_fields :: "(string \<times> kubeLease decoder) list" where
  "metadata_fields =
     [field ''name'' dec_string kl_name (\<lambda>x. kl_name_update (\<lambda>_. x)),
      field ''namespace'' dec_string kl_namespace (\<lambda>x. kl_namespace_update (\<lambda>_. x)),
      field ''resourceVersion'' dec_string kl_resourceVersion (\<lambda>x. kl_resourceVersion_update (\<lambda>_. x)),
      field ''uid'' dec_string kl_uid (\<lambda>x. kl_uid_update (\<lambda>_. x)),
      field ''labels'' dec_map kl_labels (\<lambda>x. kl_labels_update (\<lambda>_. x)),
      field ''annotations'' dec_map kl_annotations (\<lambda>x. kl_annotations_update (\<lambda>_. x)),
      field ''ownerReferences'' (dec_list JNull dec_raw) kl_owners (\<lambda>x. kl_owners_update (\<lambda>_. x)),
      field ''finalizers'' (dec_list [] dec_string) kl_finalizers (\<lambda>x. kl_finalizers_update (\<lambda>_. x))]"

definition spec_fields :: "(string \<times> kubeLease decoder) list" where
  "spec_fields =
     [field ''holderIdentity'' dec_string kl_holder (\<lambda>x. kl_holder_update (\<lambda>_. x)),
      field ''leaseDurationSeconds'' dec_int32 kl_duration (\<lambda>x. kl_duration_update (\<lambda>_. x)),
      field ''acquireTime'' dec_string kl_acquireTime (\<lambda>x. kl_acquireTime_update (\<lambda>_. x)),
      field ''renewTime'' dec_string kl_renewTime (\<lambda>x. kl_renewTime_update (\<lambda>_. x)),
      field ''leaseTransitions'' dec_int32 kl_transitions (\<lambda>x. kl_transitions_update (\<lambda>_. x))]"

lemma dec_lease_parts:
  "dec_lease = dec_struct
     [field ''apiVersion'' dec_string kl_apiVersion (\<lambda>x. kl_apiVersion_update (\<lambda>_. x)),
      field ''kind'' dec_string kl_kind (\<lambda>x. kl_kind_update (\<lambda>_. x)),
      (''metadata'', dec_struct metadata_fields), (''spec'', dec_struct spec_fields)]"
  by (simp add: dec_lease_def metadata_fields_def spec_fields_def)

lemma decode_metadata:
  assumes "keyed (kl_labels k)" "keyed (kl_annotations k)"
    and "a = zero_lease\<lparr>kl_apiVersion := v, kl_kind := d\<rparr>"
  shows "dec_struct metadata_fields (JObj ([(''name'', JStr (kl_name k)), (''namespace'', JStr (kl_namespace k)),
          (''resourceVersion'', JStr (kl_resourceVersion k))] @ optional ''uid'' (kl_uid k) @
          opt_map ''labels'' (kl_labels k) @ opt_map ''annotations'' (kl_annotations k) @
          opt_list ''ownerReferences'' (kl_owners k) @ opt_list ''finalizers'' (map JStr (kl_finalizers k)))) a
     = Some (a\<lparr>kl_name := kl_name k, kl_namespace := kl_namespace k, kl_resourceVersion := kl_resourceVersion k,
          kl_uid := kl_uid k, kl_labels := sort_key fst (kl_labels k), kl_annotations := sort_key fst (kl_annotations k),
          kl_owners := kl_owners k, kl_finalizers := kl_finalizers k\<rparr>)"
  using assms(3) dec_opt_map [OF assms(1)] dec_opt_map [OF assms(2)] dec_raw_list [of "kl_owners k"]
    dec_string_list [of "kl_finalizers k"]
  by (simp add: metadata_fields_def field_def member_names zero_lease_def optional_def opt_map_def opt_list_def
      del: dec_map.simps dec_list.simps)

lemma decode_spec:
  assumes "in_int32 (kl_duration k)" "in_int32 (kl_transitions k)"
    and "kl_holder a = []" "kl_duration a = 0" "kl_acquireTime a = []" "kl_renewTime a = []" "kl_transitions a = 0"
  shows "dec_struct spec_fields (JObj (optional ''holderIdentity'' (kl_holder k) @ opt_int ''leaseDurationSeconds'' (kl_duration k) @
          optional ''acquireTime'' (kl_acquireTime k) @ optional ''renewTime'' (kl_renewTime k) @
          opt_int ''leaseTransitions'' (kl_transitions k))) a
     = Some (a\<lparr>kl_holder := kl_holder k, kl_duration := kl_duration k, kl_acquireTime := kl_acquireTime k,
          kl_renewTime := kl_renewTime k, kl_transitions := kl_transitions k\<rparr>)"
  using assms(3-7) dec_int32_itoa [OF assms(1)] dec_int32_itoa [OF assms(2)]
  by (simp add: spec_fields_def field_def member_names optional_def opt_int_def del: dec_int32.simps)

lemma zero_lease_spec:
  "kl_holder zero_lease = []" "kl_duration zero_lease = 0" "kl_acquireTime zero_lease = []" "kl_renewTime zero_lease = []"
  "kl_transitions zero_lease = 0"
  by (simp_all add: zero_lease_def)

lemma canonical_fields:
  "canonical k = zero_lease\<lparr>kl_apiVersion := kl_apiVersion k, kl_kind := kl_kind k,
     kl_name := kl_name k, kl_namespace := kl_namespace k, kl_resourceVersion := kl_resourceVersion k,
     kl_uid := kl_uid k, kl_labels := sort_key fst (kl_labels k), kl_annotations := sort_key fst (kl_annotations k),
     kl_owners := kl_owners k, kl_finalizers := kl_finalizers k, kl_holder := kl_holder k, kl_duration := kl_duration k,
     kl_acquireTime := kl_acquireTime k, kl_renewTime := kl_renewTime k, kl_transitions := kl_transitions k\<rparr>"
  by (simp add: canonical_def zero_lease_def)

lemma decode_enc_lease:
  assumes "lease_wf k"
  shows "dec_lease (enc_lease k) zero_lease = Some (canonical k)"
proof -
  define a where "a = zero_lease\<lparr>kl_apiVersion := kl_apiVersion k, kl_kind := kl_kind k\<rparr>"
  have keyed: "keyed (kl_labels k)" "keyed (kl_annotations k)" and small: "in_int32 (kl_duration k)" "in_int32 (kl_transitions k)"
    using assms by (simp_all add: lease_wf_def)
  show ?thesis
    using decode_metadata [OF keyed a_def] unfolding dec_lease_parts enc_lease_def
    by (subst dec_struct.simps(1))
      (simp add: field_def member_names a_def decode_spec small zero_lease_spec canonical_fields del: dec_struct.simps)
qed

lemma wire_lease: "lease_wf k \<Longrightarrow> wire_json (enc_lease k)"
proof -
  assume wf: "lease_wf k"
  have names: "list_all valid_utf8 [''apiVersion'', ''kind'', ''metadata'', ''spec'', ''name'', ''namespace'', ''resourceVersion'',
      ''uid'', ''labels'', ''annotations'', ''ownerReferences'', ''finalizers'', ''holderIdentity'', ''leaseDurationSeconds'',
      ''acquireTime'', ''renewTime'', ''leaseTransitions'']"
    by (auto intro!: valid_utf8_ascii simp: is_ascii_def)
  have ints: "list_all (\<lambda>kv. valid_utf8 (fst kv) \<and> wire_json (snd kv)) (opt_int n i)" if "valid_utf8 n" "in_int32 i" for n i
    using that parseInt64_formatInt [of i] by (auto simp: opt_int_def in_int32_def in_int64_def)
  have maps: "list_all (\<lambda>kv. valid_utf8 (fst kv) \<and> wire_json (snd kv)) (opt_map n m)" if "valid_utf8 n" "keyed m" for n m
    using that by (auto simp: opt_map_def keyed_def list_all_iff)
  have strings: "list_all (\<lambda>kv. valid_utf8 (fst kv) \<and> wire_json (snd kv)) (optional n x)" if "valid_utf8 n" "valid_utf8 x" for n x
    using that by (simp add: optional_def)
  have lists: "list_all (\<lambda>kv. valid_utf8 (fst kv) \<and> wire_json (snd kv)) (opt_list n vs)" if "valid_utf8 n" "list_all wire_json vs" for n vs
    using that by (simp add: opt_list_def)
  show ?thesis
    using wf names by (simp add: enc_lease_def lease_wf_def ints maps strings lists list.pred_map comp_def)
qed

section \<open>Property\<close>

text \<open>C29: A Lease that is written is read back as the same Lease: whoever holds it and since when, the resource
  version it was based on, and all that other programs keep in it, its labels, annotations, owners and
  finalizers; only the order of the keys is the encoder's.\<close>

theorem lease_round_trip:
  assumes "lease_wf k" "length (marshal (enc_lease k)) \<le> 1048576" "status < 300"
  shows "lease_result method (Some dec_lease) zero_lease (Reply status (marshal (enc_lease k))) = (status, Inr (canonical k))"
  using assms by (simp add: lease_result_def parse_marshal [OF wire_lease] decode_enc_lease)

definition example_lease :: kubeLease where
  "example_lease =
     zero_lease\<lparr>kl_apiVersion := ''coordination.k8s.io/v1'', kl_kind := ''Lease'', kl_name := ''grafana-mcp-rotation'',
       kl_namespace := ''mcp'', kl_resourceVersion := ''7'', kl_labels := [(''team'', ''sre''), (''app'', ''mcp'')],
       kl_owners := [JObj [(''controller'', JBool True), (''uid'', JStr ''u-1'')]], kl_finalizers := [''hold''],
       kl_holder := ''mcp-1-00ff'', kl_duration := 15, kl_renewTime := ''2023-11-14T22:13:20.000000Z'', kl_transitions := 3\<rparr>"

theorem lease_round_trip_witness:
  "lease_result GET (Some dec_lease) zero_lease (Reply 200 (marshal (enc_lease example_lease))) =
     (200, Inr (example_lease\<lparr>kl_labels := [(''app'', ''mcp''), (''team'', ''sre'')]\<rparr>))"
proof -
  have "lease_wf example_lease" by code_simp
  moreover have "length (marshal (enc_lease example_lease)) \<le> 1048576"
    by (simp add: example_lease_def zero_lease_def enc_lease_def optional_def opt_int_def opt_map_def opt_list_def quoteJSON_def
        escape_string.simps escape_ascii_def is_ascii_def formatInt_def natDigits.simps)
  moreover have "canonical example_lease = example_lease\<lparr>kl_labels := [(''app'', ''mcp''), (''team'', ''sre'')]\<rparr>" by code_simp
  ultimately show ?thesis using lease_round_trip [of example_lease 200 GET] by simp
qed

end
