(* ===== verification/LeaseRefinement.thy ===== *)
theory LeaseRefinement
  imports Wire Traces
begin

text \<open>
  The code of the Lease lock against an API server that checks resource versions: what \<open>update\<close> reports
  as a success replaced exactly the Lease it was decided from, so \<open>Acquire\<close> and \<open>renew\<close> take the
  steps of \<open>LeaseProtocol\<close>, whose exclusion then holds of the program.
\<close>

section \<open>The API server\<close>

text \<open>
  \<open>stored tr\<close> is the Lease at the server when it handles the request that follows the events \<open>tr\<close> of
  this process; other pods may change it between any two of them. What is documented of the Kubernetes
  API: a read gives the stored object, a stored object changes only together with its resource
  version, and an update is accepted only with the current one.
\<close>

definition lease_call :: "leaseLocker \<Rightarrow> string \<Rightarrow> request \<Rightarrow> bool" where
  "lease_call l method rq \<longleftrightarrow> rq_method rq = method \<and> rq_base rq = lk_baseURL l \<and> rq_path rq = lease_path l"

definition sent_lease :: "request \<Rightarrow> kubeLease option" where
  "sent_lease rq = Option.bind (Option.bind (rq_body rq) parse_document) (\<lambda>j. dec_lease j zero_lease)"

definition conforming_api :: "leaseLocker \<Rightarrow> (event list \<Rightarrow> kubeLease) \<Rightarrow> (event list \<Rightarrow> request \<Rightarrow> reply) \<Rightarrow> bool" where
  "conforming_api l stored net \<longleftrightarrow>
     (\<forall>tr. lease_wf (stored tr)) \<and>
     (\<forall>tr rq st k. lease_call l GET rq \<longrightarrow> lease_result GET (Some dec_lease) zero_lease (net tr rq) = (st, Inr k) \<longrightarrow>
        k = stored tr) \<and>
     (\<forall>tr evs. kl_resourceVersion (stored (tr @ evs)) = kl_resourceVersion (stored tr) \<longrightarrow> stored (tr @ evs) = stored tr) \<and>
     (\<forall>tr rq st body k. lease_call l PUT rq \<longrightarrow> sent_lease rq = Some k \<longrightarrow> net tr rq = Reply st body \<longrightarrow> st < 300 \<longrightarrow>
        kl_resourceVersion k = kl_resourceVersion (stored tr))"

section \<open>Well-formed Leases\<close>

lemma valid_utf8_append:
  assumes "valid_utf8 s" "list_all is_ascii t"
  shows "valid_utf8 (s @ t)"
  using assms(1)
proof (induction s rule: valid_utf8.induct)
  case (1 s)
  show ?case
  proof (cases "s = []")
    case True
    then show ?thesis using assms(2) by (simp add: valid_utf8_ascii)
  next
    case False
    then have n: "rune_len s \<noteq> 0" and rest: "valid_utf8 (drop (rune_len s) s)"
      using "1.prems" by (auto simp: valid_utf8.simps [of s] split: if_splits)
    have eq: "take (rune_len s) s @ drop (rune_len s) s @ t = s @ t" by (simp flip: append_assoc)
    have same: "rune_len (s @ t) = rune_len s" using rune_len_take [OF n, of "drop (rune_len s) s @ t"] unfolding eq .
    have "valid_utf8 (drop (rune_len s) s @ t)" using "1.IH" False n rest by simp
    then show ?thesis using False n rune_len_le [of s] by (subst valid_utf8.simps) (simp add: same)
  qed
qed

lemma ascii_digits: "list_all is_digit s \<Longrightarrow> list_all is_ascii s"
  by (auto simp: list_all_iff is_digit_def is_ascii_def)

lemma ascii_numerals: "list_all is_ascii (pad_digits n i)" "list_all is_ascii (natDigits 10 m)"
proof -
  have "nat (j mod 10) < 10" for j :: int by simp
  then have "is_digit (digit_char (nat (j mod 10)))" for j :: int using digit_char_decimal by blast
  then have "list_all is_digit (pad_digits n i)" by (induction n arbitrary: i) auto
  then show "list_all is_ascii (pad_digits n i)" by (rule ascii_digits)
  show "list_all is_ascii (natDigits 10 m)" by (intro ascii_digits natDigits_digits)
qed

lemma format_micro_ascii: "list_all is_ascii (format_micro t)"
proof -
  have "list_all is_ascii (format_year y)" for y by (simp add: format_year_def ascii_numerals) (simp add: is_ascii_def)
  moreover have "list_all is_ascii ''-T:.Z''" by (simp add: is_ascii_def)
  ultimately show ?thesis by (simp add: format_micro_def Let_def ascii_numerals split: prod.split)
qed

lemma wrap32_range: "in_int32 (wrap32 i)" "in_int32 15"
  by (simp_all add: in_int32_def wrap32_def)

lemma taken_lease_wf:
  "lease_wf k \<Longrightarrow> valid_utf8 h \<Longrightarrow> lk_leaseDuration l = 15 * second \<Longrightarrow> lease_wf (taken_lease l h now k)"
  by (simp add: lease_wf_def taken_lease_def Let_def valid_utf8_ascii [OF format_micro_ascii] wrap32_range
      truncDiv_def second_def)

lemma taken_lease_version [simp]: "kl_resourceVersion (taken_lease l h now k) = kl_resourceVersion k"
  by (simp add: taken_lease_def Let_def)

lemma decide_taken: "lease_decide l h acquire k now = Inr (Some k') \<Longrightarrow> k' = taken_lease l h now k"
  by (auto simp: lease_decide_def Let_def split: option.splits if_splits)

lemma sent_enc_lease:
  assumes "lease_wf k" "rq_body rq = Some (marshal (enc_lease k))"
  shows "sent_lease rq = Some (canonical k)"
  using assms(2) by (simp add: sent_lease_def parse_marshal [OF wire_lease [OF assms(1)]] decode_enc_lease [OF assms(1)])

section \<open>Reading\<close>

definition conforming :: "leaseLocker \<Rightarrow> (event list \<Rightarrow> kubeLease) \<Rightarrow> world \<Rightarrow> bool" where
  "conforming l stored w \<longleftrightarrow> conforming_api l stored (network (w_env w))"

text \<open>What a computation does to the clock and the trace: they only grow.\<close>

definition later :: "world \<Rightarrow> world \<Rightarrow> bool" where
  "later w w' \<longleftrightarrow> w_env w' = w_env w \<and> w_ticks w \<le> w_ticks w' \<and> (\<exists>evs. w_trace w' = w_trace w @ evs)"

lemma later_refl [simp]: "later w w"
  by (simp add: later_def)

lemma later_trans: "later u v \<Longrightarrow> later v w \<Longrightarrow> later u w"
  by (auto simp: later_def)

lemma later_steps [simp]: "later w (emit e w)" "later w (w\<lparr>w_ticks := Suc (w_ticks w)\<rparr>)"
  by (simp_all add: later_def)

lemma conforming_later: "later w w' \<Longrightarrow> conforming l stored w' = conforming l stored w"
  by (simp add: later_def conforming_def)

text \<open>A Lease that was read is the one stored at some point on the way.\<close>

definition seen :: "(event list \<Rightarrow> kubeLease) \<Rightarrow> world \<Rightarrow> kubeLease \<Rightarrow> world \<Rightarrow> bool" where
  "seen stored w k w' \<longleftrightarrow> (\<exists>es fs. w_trace w' = w_trace w @ es @ fs \<and> k = stored (w_trace w @ es))"

lemma seen_later: "later u v \<Longrightarrow> seen stored v k w \<Longrightarrow> seen stored u k w"
  unfolding later_def seen_def by (metis append.assoc)

lemma seen_now: "k = stored (w_trace w) \<Longrightarrow> seen stored w k (emit e w)"
  unfolding seen_def by (rule exI [of _ "[]"]) simp

lemma lease_request_later: "wp (lease_request l m b d z) (\<lambda>_ w'. later w w') w"
  unfolding lease_request_def by (auto simp: wp_simps split: sum.split)

lemma get_reads_stored:
  assumes "conforming l stored w"
  shows "wp (lease_request l GET None (Some dec_lease) zero_lease)
     (\<lambda>(st, r) w'. later w w' \<and> (\<forall>k. r = Inr k \<longrightarrow> seen stored w k w')) w"
proof -
  have "k = stored tr" if "lease_result GET (Some dec_lease) zero_lease (network (w_env w) tr rq) = (st, Inr k)" "lease_call l GET rq"
    for tr rq st k
    using assms that unfolding conforming_def conforming_api_def by blast
  moreover have "GET \<noteq> POST" by (simp add: GET_def POST_def)
  ultimately show ?thesis
    unfolding lease_request_def
    by (auto simp: wp_simps lease_call_def intro: seen_now split: sum.split prod.split)
qed

lemma readLease_stored:
  assumes "conforming l stored w"
  shows "wp (readLease l create) (\<lambda>r w'. later w w' \<and> (\<forall>k. r = Inr k \<longrightarrow> seen stored w k w')) w"
proof -
  have again: "wp (lease_request l GET None (Some dec_lease) zero_lease)
      (\<lambda>(st, r) w'. later w w' \<and> (\<forall>k. r = Inr k \<longrightarrow> seen stored w k w')) v" if "later w v" for v
    by (rule wp_mono [OF get_reads_stored]) (use assms that conforming_later [OF that] in \<open>auto intro: later_trans seen_later\<close>)
  have created: "wp (lease_request l POST (Some (initial_lease l)) None ())
      (\<lambda>(st, p) v. wp (if isl p \<and> st \<noteq> 409 then ret (Inl (projl p))
         else lease_request l GET None (Some dec_lease) zero_lease \<bind> (\<lambda>(_, q). ret q))
       (\<lambda>r w'. later w w' \<and> (\<forall>k. r = Inr k \<longrightarrow> seen stored w k w')) v) u" if "later w u" for u
    by (rule wp_mono [OF lease_request_later])
      (auto simp: wp_simps intro!: wp_mono [OF again] split: prod.splits intro: later_trans [OF that])
  show ?thesis
    unfolding readLease_def wp_bind
    by (rule wp_mono [OF get_reads_stored [OF assms]])
      (auto simp: wp_simps intro!: wp_mono [OF created] split: prod.splits)
qed

section \<open>Replacing\<close>

text \<open>An accepted update: the Lease \<open>k\<close> that was stored was replaced by \<open>k'\<close>.\<close>

definition accepted_put :: "leaseLocker \<Rightarrow> kubeLease \<Rightarrow> event \<Rightarrow> bool" where
  "accepted_put l k' e \<longleftrightarrow>
     (\<exists>rq st body. e = Http rq (Reply st body) \<and> lease_call l PUT rq \<and> rq_body rq = Some (marshal (enc_lease k')) \<and> st < 300)"

lemma lease_result_accepted:
  "lease_result m out z rp = (st, Inr x) \<Longrightarrow> \<exists>body. rp = Reply st body \<and> st < 300"
  by (auto simp: lease_result_def split: reply.splits if_splits option.splits)

lemma put_swaps:
  assumes "conforming l stored v" "lease_wf k'" "kl_resourceVersion k' = kl_resourceVersion k" "seen stored w k v"
  shows "wp (lease_request l PUT (Some (enc_lease k')) out z)
     (\<lambda>(st, p) w'. later v w' \<and>
        (\<forall>x. p = Inr x \<longrightarrow> (\<exists>e. w_trace w' = w_trace v @ [e] \<and> accepted_put l k' e \<and> stored (w_trace v) = k))) v"
proof -
  obtain es fs where seen: "w_trace v = (w_trace w @ es) @ fs" "k = stored (w_trace w @ es)"
    using assms(4) by (auto simp: seen_def)
  have same: "stored (w_trace v) = k"
    if "lease_call l PUT rq" "rq_body rq = Some (marshal (enc_lease k'))" "network (w_env v) (w_trace v) rq = Reply st body" "st < 300"
    for rq st body
  proof -
    have "kl_resourceVersion (canonical k') = kl_resourceVersion (stored (w_trace v))"
      using assms(1) that sent_enc_lease [OF assms(2) that(2)] unfolding conforming_def conforming_api_def by blast
    then have "kl_resourceVersion (stored (w_trace v)) = kl_resourceVersion (stored (w_trace w @ es))"
      using assms(3) seen(2) by (simp add: canonical_def)
    then show ?thesis
      using assms(1) seen unfolding conforming_def conforming_api_def by metis
  qed
  have accepted: "accepted_put l k' (Http rq (Reply st body))"
    if "lease_call l PUT rq" "rq_body rq = Some (marshal (enc_lease k'))" "st < 300" for rq st body
    using that by (auto simp: accepted_put_def)
  have "PUT \<noteq> POST" by (simp add: PUT_def POST_def)
  then show ?thesis
    unfolding lease_request_def
    by (auto simp: wp_simps lease_call_def split: sum.split prod.split
        dest!: lease_result_accepted intro!: accepted same)
qed

definition swapped ::
  "leaseLocker \<Rightarrow> (event list \<Rightarrow> kubeLease) \<Rightarrow> string \<Rightarrow> bool \<Rightarrow> world \<Rightarrow> kubeLease \<Rightarrow> time \<Rightarrow> kubeLease \<Rightarrow> world \<Rightarrow> bool" where
  "swapped l stored h acquire w k n k' w' \<longleftrightarrow>
     (\<exists>es e. w_trace w' = (w_trace w @ es) @ [e] \<and> accepted_put l k' e \<and> k = stored (w_trace w @ es)) \<and>
     lease_decide l h acquire k n = Inr (Some k') \<and>
     (\<exists>i. w_ticks w \<le> i \<and> i < w_ticks w' \<and> n = clock (w_env w) i)"

lemma update_swaps:
  assumes "conforming l stored w" "valid_utf8 h" "lk_leaseDuration l = 15 * second"
  shows "wp (lease_update l h acquire)
     (\<lambda>r w'. later w w' \<and> (r = Inr True \<longrightarrow> (\<exists>k n k'. swapped l stored h acquire w k n k' w'))) w"
proof -
  have stored_wf: "lease_wf (stored tr)" for tr
    using assms(1) by (simp add: conforming_def conforming_api_def)
  have put: "wp (lease_request l PUT (Some (enc_lease k')) (Some dec_lease) zero_lease)
      (\<lambda>(st, p) w'. later w w' \<and> (\<forall>x. p = Inr x \<longrightarrow> swapped l stored h acquire w k n k' w')) (v\<lparr>w_ticks := Suc (w_ticks v)\<rparr>)"
    if v: "later w v" "seen stored w k v" and k': "lease_decide l h acquire k n = Inr (Some k')" and n: "n = clock (w_env v) (w_ticks v)"
    for k n k' v
  proof (rule wp_mono [OF put_swaps [where w = w and stored = stored and k = k]])
    show "conforming l stored (v\<lparr>w_ticks := Suc (w_ticks v)\<rparr>)"
      using assms(1) conforming_later [OF later_trans [OF v(1) later_steps(2)]] by simp
    show "lease_wf k'"
      using decide_taken [OF k'] v(2) stored_wf taken_lease_wf assms(2,3) by (auto simp: seen_def)
    show "kl_resourceVersion k' = kl_resourceVersion k" using decide_taken [OF k'] by simp
    show "seen stored w k (v\<lparr>w_ticks := Suc (w_ticks v)\<rparr>)" using v(2) by (simp add: seen_def)
  qed (use v k' n in \<open>auto simp: swapped_def later_def\<close>)
  show ?thesis
    unfolding lease_update_def wp_bind
    by (rule wp_mono [OF readLease_stored [OF assms(1)]])
      (auto simp: wp_simps intro!: wp_mono [OF put] intro: later_trans
        split: sum.splits option.splits prod.splits if_splits; blast)
qed

section \<open>Acquiring\<close>

text \<open>A guard that \<open>Acquire\<close> gives out, and the steps of the protocol it has taken.\<close>

definition takes :: "leaseLocker \<Rightarrow> leaseGuard \<Rightarrow> kubeLease \<Rightarrow> time \<Rightarrow> kubeLease \<Rightarrow> bool" where
  "takes l g k n k' \<longleftrightarrow>
     lg_locker g = l \<and> lg_holder g \<noteq> [] \<and> lg_lost g = None \<and> lg_lastRenew g \<le> n \<and>
     (\<forall>s. c_client s (lg_holder g) = Reading (lg_lastRenew g) \<longrightarrow> c_lease s = k \<longrightarrow> c_now s = n \<longrightarrow>
        (lease_step l)\<^sup>*\<^sup>* s (with_client (written s k') (lg_holder g) (Holding g)))"

lemma with_client_twice [simp]: "with_client (with_client s h c) h d = with_client s h d"
  by (simp add: with_client_def)

lemma written_client [simp]: "written (with_client s h c) k = with_client (written s k) h c"
  by (simp add: with_client_def written_def)

lemma protocol_takes:
  assumes "lease_decide l h True (c_lease s) (c_now s) = Inr (Some k')" "c_client s h = Reading t"
  shows "(lease_step l)\<^sup>*\<^sup>* s (with_client (written s k') h
     (Holding \<lparr>lg_locker = l, lg_holder = h, lg_lost = None, lg_lastRenew = t\<rparr>))"
proof -
  let ?d = "with_client s h (Deciding t (c_version s) (c_lease s))"
  let ?w = "with_client s h (Writing t (c_version s) k')"
  have "lease_step l s ?d" by (rule lease_step.read [OF assms(2)])
  moreover have "lease_step l ?d ?w"
    using lease_step.decide [of ?d h t "c_version s" "c_lease s" l k'] assms(1) by (simp add: with_client_def)
  moreover have "lease_step l ?w (with_client (written s k') h
      (Holding \<lparr>lg_locker = l, lg_holder = h, lg_lost = None, lg_lastRenew = t\<rparr>))"
    using lease_step.put [of ?w h t "c_version s" k' l] by simp
  ultimately show ?thesis by (meson converse_rtranclp_into_rtranclp r_into_rtranclp)
qed

definition granted :: "leaseLocker \<Rightarrow> (event list \<Rightarrow> kubeLease) \<Rightarrow> world \<Rightarrow> leaseGuard \<Rightarrow> world \<Rightarrow> bool" where
  "granted l stored w g w' \<longleftrightarrow>
     (\<exists>k n k' v. later w v \<and> swapped l stored (lg_holder g) True v k n k' w' \<and> takes l g k n k')"

lemma granted_later: "later w v \<Longrightarrow> granted l stored v g w' \<Longrightarrow> granted l stored w g w'"
  unfolding granted_def by (blast intro: later_trans)

lemma acquire_loop_grants:
  assumes "conforming l stored w" "valid_utf8 h" "h \<noteq> []" "lk_leaseDuration l = 15 * second" "mono (clock (w_env w))"
  shows "wp (acquire_loop n l h) (\<lambda>r w'. later w w' \<and> (\<forall>g. r = Inr g \<longrightarrow> granted l stored w g w')) w"
  using assms(1,5)
proof (induction n arbitrary: w)
  case 0
  show ?case by (simp add: wp_simps)
next
  case (Suc n)
  let ?v = "w\<lparr>w_ticks := Suc (w_ticks w)\<rparr>" and ?t = "clock (w_env w) (w_ticks w)"
  let ?g = "\<lparr>lg_locker = l, lg_holder = h, lg_lost = None, lg_lastRenew = ?t\<rparr>"
  have v: "later w ?v" by simp
  have won: "granted l stored w ?g w'" if swap: "swapped l stored h True ?v k m k' w'" for k m k' w'
  proof -
    have "?t \<le> m" using swap Suc.prems(2) by (auto simp: swapped_def mono_def)
    then have "takes l ?g k m k'"
      using swap protocol_takes assms(3) by (auto simp: takes_def swapped_def)
    then show ?thesis using swap v unfolding granted_def by fastforce
  qed
  have again: "wp (acquire_loop n l h) (\<lambda>r w'. later w w' \<and> (\<forall>g. r = Inr g \<longrightarrow> granted l stored w g w')) u"
    if u: "later ?v u" for u
  proof -
    have wu: "later w u" using later_trans [OF v u] .
    moreover have "mono (clock (w_env u))" using Suc.prems(2) wu by (simp add: later_def)
    ultimately show ?thesis
      using Suc.IH [of u] conforming_later [OF wu] Suc.prems(1)
      by (intro wp_mono [OF Suc.IH]) (auto intro: later_trans granted_later)
  qed
  have attempt: "wp (lease_update l h True)
      (\<lambda>r w'. later ?v w' \<and> (r = Inr True \<longrightarrow> (\<exists>k m k'. swapped l stored h True ?v k m k' w'))) ?v"
    by (rule update_swaps [OF _ assms(2,4)]) (use Suc.prems(1) conforming_later [OF v] in simp)
  show ?case
    by (simp add: wp_simps, rule wp_mono [OF attempt])
      (auto simp: wp_simps intro: won again later_trans [OF v] split: sum.splits if_splits)
qed

lemma acquire_grants:
  assumes "conforming l stored w" "valid_utf8 (lk_podName l)" "lk_leaseDuration l = 15 * second" "mono (clock (w_env w))"
  shows "wp (lease_acquire l) (\<lambda>r w'. \<forall>g. r = Inr g \<longrightarrow> granted l stored w g w') w"
proof -
  have "list_all is_ascii ''-0123456789abcdef''" by (simp add: is_ascii_def)
  then have "list_all is_ascii (''-'' @ hexEncode b)" for b
    using hexEncode_chars [of b] by (auto simp: list_all_iff)
  then have pod: "valid_utf8 (lk_podName l @ ''-'' @ hexEncode b)" for b by (rule valid_utf8_append [OF assms(2)])
  let ?v = "w\<lparr>w_draws := Suc (w_draws w)\<rparr>"
  have v: "later w ?v" by (simp add: later_def)
  have loop: "wp (acquire_loop n l (lk_podName l @ ''-'' @ hexEncode b)) (\<lambda>r w'. \<forall>g. r = Inr g \<longrightarrow> granted l stored w g w') ?v"
    for n b
    by (rule wp_mono [OF acquire_loop_grants [OF _ pod _ assms(3)]])
      (use assms(1,4) conforming_later [OF v] v in \<open>auto intro: granted_later\<close>)
  show ?thesis
    unfolding lease_acquire_def randomHolder_def
    using loop by (auto simp: wp_simps split: option.split)
qed

section \<open>Renewing\<close>

text \<open>A renewal that went through, and the steps of the protocol it has taken: one before the read, the others at the write.\<close>

definition renews :: "leaseLocker \<Rightarrow> leaseGuard \<Rightarrow> leaseGuard \<Rightarrow> kubeLease \<Rightarrow> time \<Rightarrow> kubeLease \<Rightarrow> bool" where
  "renews l g g' k n k' \<longleftrightarrow>
     (\<exists>t \<le> n. g' = g\<lparr>lg_lastRenew := t\<rparr> \<and>
        (\<forall>s. c_client s (lg_holder g) = Holding g \<longrightarrow> c_now s = t \<longrightarrow>
           lease_step l s (with_client s (lg_holder g) (Renewing g t))) \<and>
        (\<forall>s. c_client s (lg_holder g) = Renewing g t \<longrightarrow> c_lease s = k \<longrightarrow> c_now s = n \<longrightarrow>
           (lease_step l)\<^sup>*\<^sup>* s (with_client (written s k') (lg_holder g) (Holding g'))))"

lemma protocol_renews:
  assumes "lease_decide l h False (c_lease s) (c_now s) = Inr (Some k')" "c_client s h = Renewing g t"
  shows "(lease_step l)\<^sup>*\<^sup>* s (with_client (written s k') h (Holding (g\<lparr>lg_lastRenew := t\<rparr>)))"
proof -
  let ?d = "with_client s h (Redeciding g t (c_version s) (c_lease s))"
  let ?w = "with_client s h (Rewriting g t (c_version s) k')"
  have "lease_step l s ?d" by (rule lease_step.reread [OF assms(2)])
  moreover have "lease_step l ?d ?w"
    using lease_step.redecide [of ?d h g t "c_version s" "c_lease s" l k'] assms(1) by (simp add: with_client_def)
  moreover have "lease_step l ?w (with_client (written s k') h (Holding (g\<lparr>lg_lastRenew := t\<rparr>)))"
    using lease_step.reput [of ?w h g t "c_version s" k' l] by simp
  ultimately show ?thesis by (meson converse_rtranclp_into_rtranclp r_into_rtranclp)
qed

definition renewed :: "(event list \<Rightarrow> kubeLease) \<Rightarrow> world \<Rightarrow> leaseGuard \<Rightarrow> leaseGuard \<Rightarrow> world \<Rightarrow> bool" where
  "renewed stored w g g' w' \<longleftrightarrow>
     (\<exists>k n k' v. later w v \<and> swapped (lg_locker g) stored (lg_holder g) False v k n k' w' \<and> renews (lg_locker g) g g' k n k')"

lemma tick_renews:
  assumes "conforming (lg_locker g) stored w" "valid_utf8 (lg_holder g)" "lk_leaseDuration (lg_locker g) = 15 * second"
    and "lg_lost g = None" "mono (clock (w_env w))"
  shows "wp (renew_tick g) (\<lambda>r w'. if snd r then renewed stored w g (fst r) w' else lg_lost (fst r) \<noteq> None) w"
proof -
  let ?l = "lg_locker g" and ?h = "lg_holder g"
  let ?u = "clock (w_env w) (w_ticks w)" and ?t = "clock (w_env w) (Suc (w_ticks w))"
  let ?v = "w\<lparr>w_ticks := Suc (Suc (w_ticks w))\<rparr>"
  have v: "later w ?v" by (simp add: later_def)
  have "?u \<le> ?t" using assms(5) by (simp add: monoD)
  then have first: "lease_step ?l s (with_client s ?h (Renewing g ?t))"
    if "\<not> lease_expired g ?u" "c_client s ?h = Holding g" "c_now s = ?t" for s
    using lease_step.renew [OF that(2) assms(4) that(1), of ?l] that(3) by simp
  have won: "renewed stored w g (g\<lparr>lg_lastRenew := ?t\<rparr>) w'"
    if swap: "swapped ?l stored ?h False ?v k m k' w'" and live: "\<not> lease_expired g ?u" for k m k' w'
  proof -
    have "?t \<le> m" using swap assms(5) by (auto simp: swapped_def mono_def)
    then have "renews ?l g (g\<lparr>lg_lastRenew := ?t\<rparr>) k m k'"
      unfolding renews_def using swap first [OF live] protocol_renews
      by (intro exI [of _ ?t]) (auto simp: swapped_def)
    then show ?thesis using swap v unfolding renewed_def by blast
  qed
  have attempt: "wp (lease_update ?l ?h False)
      (\<lambda>r w'. later ?v w' \<and> (r = Inr True \<longrightarrow> (\<exists>k m k'. swapped ?l stored ?h False ?v k m k' w'))) ?v"
    by (rule update_swaps [OF _ assms(2,3)]) (use assms(1) conforming_later [OF v] in simp)
  show ?thesis
    unfolding renew_tick_def
    by (auto simp: wp_simps) (rule wp_mono [OF attempt], auto simp: wp_simps intro: won)
qed

section \<open>Taking over\<close>

lemma protocol_takes_over:
  assumes "lk_leaseDuration l = 15 * second" "c_client s h = Absent" "h \<noteq> []" "lease_expiry (c_lease s) = Some e"
    and "c_now s \<le> last_instant" "e \<le> last_instant"
  shows "\<exists>s'. (lease_step l)\<^sup>*\<^sup>* s s' \<and> c_now s' = max (c_now s) e \<and> lease_permitted s' () h \<and>
     (\<forall>h'. h' \<noteq> h \<longrightarrow> c_client s' h' = c_client s h')"
proof -
  define m where "m = max (c_now s) e"
  let ?s1 = "s\<lparr>c_now := m\<rparr>"
  let ?s2 = "with_client ?s1 h (Reading m)"
  let ?k = "taken_lease l h m (c_lease s)"
  let ?s3 = "with_client (written ?s2 ?k) h (Holding \<lparr>lg_locker = l, lg_holder = h, lg_lost = None, lg_lastRenew = m\<rparr>)"
  have "lease_step l s ?s1"
    using lease_step.tick [of "m - c_now s" s l] assms(5,6) by (simp add: m_def)
  moreover have "lease_step l ?s1 ?s2"
    using lease_step.start [of ?s1 h l] assms(2,3) by simp
  moreover have "lease_decide l h True (c_lease ?s2) (c_now ?s2) = Inr (Some ?k)"
    using assms(4) by (simp add: lease_decide_def with_client_def m_def)
  then have "(lease_step l)\<^sup>*\<^sup>* ?s2 ?s3" by (rule protocol_takes) (simp add: with_client_def)
  ultimately have "(lease_step l)\<^sup>*\<^sup>* s ?s3" by (meson converse_rtranclp_into_rtranclp)
  moreover have "lease_permitted ?s3 () h"
    by (simp add: lease_permitted_def permits_def with_client_def written_def lease_check_def lease_expired_def assms(1)
        microsecond_def second_def)
  moreover have "c_now ?s3 = m" "\<forall>h'. h' \<noteq> h \<longrightarrow> c_client ?s3 h' = c_client s h'"
    by (simp_all add: with_client_def written_def)
  ultimately show ?thesis unfolding m_def by blast
qed

section \<open>An API server\<close>

text \<open>A Lease at version 1 and one accepted update; updates with another resource version conflict.\<close>

definition free_lease :: kubeLease where
  "free_lease = zero_lease\<lparr>kl_name := ''grafana-mcp-rotation'', kl_namespace := ''mcp'', kl_resourceVersion := ''1''\<rparr>"

definition held_lease :: kubeLease where
  "held_lease = free_lease\<lparr>kl_holder := ''mcp-0-a1'', kl_duration := 15, kl_renewTime := ''2023-11-14T22:13:20.000000Z''\<rparr>"

definition next_lease :: kubeLease where
  "next_lease = free_lease\<lparr>kl_resourceVersion := ''2''\<rparr>"

definition example_stored :: "kubeLease \<Rightarrow> event list \<Rightarrow> kubeLease" where
  "example_stored k tr =
     (if list_ex (\<lambda>e. case e of Http rq (Reply st _) \<Rightarrow> rq_method rq = PUT \<and> st < 300 | _ \<Rightarrow> False) tr then next_lease else k)"

definition example_api :: "kubeLease \<Rightarrow> event list \<Rightarrow> request \<Rightarrow> reply" where
  "example_api k tr rq =
     (if rq_method rq = GET then Reply 200 (marshal (enc_lease (example_stored k tr)))
      else case sent_lease rq of
             None \<Rightarrow> Reply 400 []
           | Some k' \<Rightarrow> if kl_resourceVersion k' = kl_resourceVersion (example_stored k tr)
                       then Reply 200 (marshal (enc_lease next_lease)) else Reply 409 [])"

definition api_world :: "kubeLease \<Rightarrow> world" where
  "api_world k = example_world\<lparr>w_env := example_env\<lparr>network := example_api k, read_file := (\<lambda>_ _. Inr ''token''), lock_ticks := 1\<rparr>\<rparr>"

text \<open>Leases that survive the wire.\<close>

definition portable :: "kubeLease \<Rightarrow> bool" where
  "portable k \<longleftrightarrow> lease_wf k \<and> canonical k = k \<and> length (marshal (enc_lease k)) \<le> 1048576"

lemma portable_document:
  "portable k \<Longrightarrow> lease_result m (Some dec_lease) zero_lease (Reply 200 (marshal (enc_lease k))) = (200, Inr k)"
  by (simp add: portable_def lease_result_def parse_marshal wire_lease decode_enc_lease)

lemma example_leases:
  "portable free_lease" "portable held_lease" "portable next_lease"
  "kl_resourceVersion free_lease = ''1''" "kl_resourceVersion held_lease = ''1''" "kl_resourceVersion next_lease = ''2''"
proof -
  have "list_all (\<lambda>k. lease_wf k \<and> canonical k = k) [free_lease, held_lease, next_lease]" by code_simp
  moreover have "length (marshal (enc_lease free_lease)) \<le> 1048576" "length (marshal (enc_lease next_lease)) \<le> 1048576"
    "length (marshal (enc_lease held_lease)) \<le> 1048576"
    by (simp_all add: free_lease_def next_lease_def held_lease_def zero_lease_def enc_lease_def optional_def opt_int_def
        opt_map_def opt_list_def quoteJSON_def escape_string.simps escape_ascii_def is_ascii_def formatInt_def natDigits.simps)
  ultimately show "portable free_lease" "portable held_lease" "portable next_lease" by (simp_all add: portable_def)
qed (simp_all add: free_lease_def held_lease_def next_lease_def)

lemma example_methods: "GET \<noteq> POST" "PUT \<noteq> POST" "PUT \<noteq> GET"
  by (simp_all add: GET_def POST_def PUT_def)

lemma example_stored_cases: "example_stored k tr = k \<or> example_stored k tr = next_lease"
  by (simp add: example_stored_def)

lemma example_conforming:
  assumes "portable k" "kl_resourceVersion k = ''1''"
  shows "conforming l (example_stored k) (api_world k)"
proof -
  have portable: "portable (example_stored k tr)" for tr
    using example_stored_cases [of k tr] assms(1) example_leases(3) by auto
  have "network (w_env (api_world k)) = example_api k" by (simp add: api_world_def)
  moreover have "conforming_api l (example_stored k) (example_api k)"
    unfolding conforming_api_def
  proof (intro conjI allI impI)
    show "lease_wf (example_stored k tr)" for tr using portable [of tr] by (simp add: portable_def)
  next
    fix tr rq st k'
    assume "lease_call l GET rq" "lease_result GET (Some dec_lease) zero_lease (example_api k tr rq) = (st, Inr k')"
    then show "k' = example_stored k tr"
      using portable_document [OF portable [of tr]] by (simp add: example_api_def lease_call_def)
  next
    fix tr evs
    assume "kl_resourceVersion (example_stored k (tr @ evs)) = kl_resourceVersion (example_stored k tr)"
    then show "example_stored k (tr @ evs) = example_stored k tr"
      using example_stored_cases [of k tr] example_stored_cases [of k "tr @ evs"] example_leases(6) assms(2) by auto
  next
    fix tr rq st body k'
    assume "lease_call l PUT rq" "sent_lease rq = Some k'" "example_api k tr rq = Reply st body" "st < 300"
    then show "kl_resourceVersion k' = kl_resourceVersion (example_stored k tr)"
      using example_methods by (auto simp: example_api_def lease_call_def split: if_splits)
  qed
  ultimately show ?thesis by (simp add: conforming_def)
qed

lemma example_sent:
  assumes "valid_utf8 h" "portable k" "rq_body rq = Some (marshal (enc_lease (taken_lease example_locker h now k)))"
  shows "\<exists>k'. sent_lease rq = Some k' \<and> kl_resourceVersion k' = kl_resourceVersion k"
  using sent_enc_lease [OF taken_lease_wf [OF _ assms(1)] assms(3)] assms(2)
  by (auto simp: example_locker_def canonical_def portable_def)

lemma example_update:
  assumes "valid_utf8 h" "w_trace w = []" "network (w_env w) = example_api k" "read_file (w_env w) = (\<lambda>_ _. Inr ''token'')"
    and "portable k" "\<And>now. lease_decide example_locker h acquire k now = Inr (Some (taken_lease example_locker h now k))"
  shows "wp (lease_update example_locker h acquire) (\<lambda>r _. r = Inr True) w"
proof -
  have fresh: "example_stored k [] = k" "\<And>rq rp. rq_method rq = GET \<Longrightarrow> example_stored k [Http rq rp] = k"
    using example_methods by (simp_all add: example_stored_def split: reply.splits)
  have accepted: "lease_result PUT (Some dec_lease) zero_lease (example_api k [Http rq rp] rq') = (200, Inr next_lease)"
    if "rq_method rq = GET" "rq_method rq' = PUT"
      "rq_body rq' = Some (marshal (enc_lease (taken_lease example_locker h now k)))" for rq rp rq' now
    using example_sent [OF assms(1,5) that(3)] that example_methods fresh(2) [OF that(1)] portable_document [OF example_leases(3)]
    by (auto simp: example_api_def)
  show ?thesis
    using assms(2-4) example_methods portable_document [OF assms(5)]
    by (simp add: lease_update_def readLease_def lease_request_def wp_simps example_api_def [of k "[]"] fresh
        assms(6) accepted)
qed

lemma api_world_fields:
  "entropy (w_env (api_world k)) n = Some (\<lambda>i. char_of i)" "lock_ticks (w_env (api_world k)) = Suc 0"
  "w_trace (api_world k) = []" "network (w_env (api_world k)) = example_api k"
  "read_file (w_env (api_world k)) = (\<lambda>_ _. Inr ''token'')"
  by (simp_all add: api_world_def example_world_def example_env_def)

lemma api_world_clock: "mono (clock (w_env (api_world k)))"
  by (simp add: api_world_def example_world_def example_env_def mono_def)

section \<open>Properties\<close>

text \<open>C4: Against an API server that checks resource versions, a call of \<open>Acquire\<close> that gives out a guard has, whatever
  the other pods did meanwhile, replaced on the server exactly the Lease it decided on by the one that names
  its holder, and its guard counts from an instant before that decision: it has taken the steps read, decide
  and put of the protocol, in which no two guards permit a change at once.\<close>

theorem acquire_refines_the_protocol:
  assumes "conforming l stored w" "valid_utf8 (lk_podName l)" "lk_leaseDuration l = 15 * second" "mono (clock (w_env w))"
  shows "wp (lease_acquire l) (\<lambda>r w'. \<forall>g. r = Inr g \<longrightarrow> granted l stored w g w') w"
  by (rule acquire_grants [OF assms])

theorem acquire_refines_the_protocol_witness:
  "wp (lease_acquire example_locker)
     (\<lambda>r w'. \<exists>g. r = Inr g \<and> granted example_locker (example_stored free_lease) (api_world free_lease) g w') (api_world free_lease)"
proof -
  have pod: "valid_utf8 (lk_podName example_locker)" by code_simp
  have "list_all is_ascii (''mcp-0-'' @ hexEncode b)" for b
  proof -
    have "list_all is_ascii ''mcp-0-0123456789abcdef''" by (simp add: is_ascii_def)
    then show ?thesis using hexEncode_chars [of b] by (auto simp: list_all_iff)
  qed
  then have holder: "valid_utf8 (lk_podName example_locker @ CHR ''-'' # hexEncode b)" for b
    using valid_utf8_ascii [of "''mcp-0-'' @ hexEncode b"] by (simp add: example_locker_def)
  have decides: "lease_decide example_locker h True free_lease now = Inr (Some (taken_lease example_locker h now free_lease))" for h now
    by (simp add: lease_decide_def lease_expiry_def free_lease_def zero_lease_def)
  have update: "wp (lease_update example_locker (lk_podName example_locker @ CHR ''-'' # hexEncode b) True) (\<lambda>r _. r = Inr True)
      (api_world free_lease\<lparr>w_draws := d, w_ticks := t\<rparr>)" for b d t
    by (rule example_update [OF holder _ _ _ example_leases(1) decides]) (simp_all add: api_world_fields)
  have "wp (lease_acquire example_locker) (\<lambda>r _. \<exists>g. r = Inr g) (api_world free_lease)"
    unfolding lease_acquire_def randomHolder_def
    by (simp add: wp_simps api_world_fields) (rule wp_mono [OF update], simp add: wp_simps)
  from wp_conj [OF this acquire_refines_the_protocol [OF example_conforming [OF example_leases(1,4)] pod _ api_world_clock]]
  show ?thesis by (rule wp_mono) (auto simp: example_locker_def)
qed

text \<open>C5: One tick of the background renewal either loses the guard, so that no later check passes, or has replaced
  on the server exactly the Lease it found in the holder's name, and the guard then counts from an instant
  before the read: it has taken the steps renew, reread, redecide and reput of the protocol.\<close>

theorem renewal_refines_the_protocol:
  assumes "conforming (lg_locker g) stored w" "valid_utf8 (lg_holder g)" "lk_leaseDuration (lg_locker g) = 15 * second"
    and "lg_lost g = None" "mono (clock (w_env w))"
  shows "wp (renew_tick g) (\<lambda>r w'. if snd r then renewed stored w g (fst r) w' else lg_lost (fst r) \<noteq> None) w"
  by (rule tick_renews [OF assms])

theorem renewal_refines_the_protocol_witness:
  "wp (renew_tick \<lparr>lg_locker = example_locker, lg_holder = ''mcp-0-a1'', lg_lost = None, lg_lastRenew = 1699999999 * second\<rparr>)
     (\<lambda>r w'. snd r \<and> renewed (example_stored held_lease) (api_world held_lease)
        \<lparr>lg_locker = example_locker, lg_holder = ''mcp-0-a1'', lg_lost = None, lg_lastRenew = 1699999999 * second\<rparr> (fst r) w')
     (api_world held_lease)"
proof -
  let ?g = "\<lparr>lg_locker = example_locker, lg_holder = ''mcp-0-a1'', lg_lost = None, lg_lastRenew = 1699999999 * second\<rparr>"
  have holder: "valid_utf8 ''mcp-0-a1''" by code_simp
  have expiry: "lease_expiry held_lease = Some (1700000015 * second)" by code_simp
  have decides: "lease_decide example_locker ''mcp-0-a1'' False held_lease now =
      Inr (Some (taken_lease example_locker ''mcp-0-a1'' now held_lease))" for now
    by (simp add: lease_decide_def expiry) (simp add: held_lease_def)
  have update: "wp (lease_update example_locker ''mcp-0-a1'' False) (\<lambda>r _. r = Inr True) (api_world held_lease\<lparr>w_ticks := t\<rparr>)" for t
    by (rule example_update [OF holder _ _ _ example_leases(2) decides]) (simp_all add: api_world_fields)
  have live: "\<not> lease_expired ?g (clock (w_env (api_world held_lease)) n)" if "n = w_ticks (api_world held_lease)" for n
    using that by (simp add: lease_expired_def api_world_def example_world_def example_env_def example_locker_def second_def)
  have "wp (renew_tick ?g) (\<lambda>r _. snd r) (api_world held_lease)"
    unfolding renew_tick_def
    by (simp add: wp_simps live) (rule wp_mono [OF update], simp add: wp_simps)
  moreover have "wp (renew_tick ?g) (\<lambda>r w'. if snd r then renewed (example_stored held_lease) (api_world held_lease) ?g (fst r) w'
      else lg_lost (fst r) \<noteq> None) (api_world held_lease)"
    by (rule renewal_refines_the_protocol)
      (use example_conforming [OF example_leases(2,5)] holder api_world_clock in \<open>simp_all add: example_locker_def\<close>)
  ultimately have "wp (renew_tick ?g) (\<lambda>r w'. snd r \<and> (if snd r then renewed (example_stored held_lease) (api_world held_lease) ?g (fst r) w'
      else lg_lost (fst r) \<noteq> None)) (api_world held_lease)" by (rule wp_conj)
  then show ?thesis by (rule wp_mono) auto
qed

text \<open>C7: A pod that crashed or lost its network never keeps the lock: as soon as the time its last renewal gave it has
  run out, a pod that asks takes the Lease over, and its guard permits changes at that instant, without any
  other pod doing anything.\<close>

theorem expired_lease_is_taken_over:
  assumes "lk_leaseDuration l = 15 * second" "c_client s h = Absent" "h \<noteq> []" "lease_expiry (c_lease s) = Some e"
    and "c_now s \<le> last_instant" "e \<le> last_instant"
  shows "\<exists>s'. (lease_step l)\<^sup>*\<^sup>* s s' \<and> c_now s' = max (c_now s) e \<and> lease_permitted s' () h \<and>
     (\<forall>h'. h' \<noteq> h \<longrightarrow> c_client s' h' = c_client s h')"
  by (rule protocol_takes_over [OF assms])

theorem expired_lease_is_taken_over_witness:
  "\<exists>s'. (lease_step example_locker)\<^sup>*\<^sup>* example_held s' \<and> c_now s' = 1700000015 * second \<and> lease_permitted s' () ''mcp-1-b2'' \<and>
     c_client s' ''mcp-0-a1'' = c_client example_held ''mcp-0-a1''"
proof -
  have "lease_expiry (c_lease example_held) = Some (1700000015 * second)"
  proof -
    have "lease_expiry (taken_lease example_locker ''mcp-0-a1'' (1700000000 * second) zero_lease) = Some (1700000015 * second)"
      using parse_renewTime [of "1700000000 * second"]
      by (simp add: lease_expiry_def taken_lease_def format_micro_nonempty example_locker_def zero_lease_def truncDiv_def
          last_instant_def second_def trunc_us_def microsecond_def)
    then show ?thesis by (simp add: example_held_def Let_def with_client_def written_def example_start_def)
  qed
  moreover have "c_now example_held = 1700000000 * second" "c_client example_held ''mcp-1-b2'' = Absent"
    by (simp_all add: example_held_def Let_def with_client_def written_def example_start_def)
  ultimately obtain s' where "(lease_step example_locker)\<^sup>*\<^sup>* example_held s' \<and> c_now s' = max (c_now example_held) (1700000015 * second) \<and>
      lease_permitted s' () ''mcp-1-b2'' \<and> (\<forall>h'. h' \<noteq> ''mcp-1-b2'' \<longrightarrow> c_client s' h' = c_client example_held h')"
    using expired_lease_is_taken_over [of example_locker example_held "''mcp-1-b2''" "1700000015 * second"]
    by (auto simp: example_locker_def last_instant_def second_def)
  moreover have "max (c_now example_held) (1700000015 * second) = 1700000015 * second"
    using \<open>c_now example_held = 1700000000 * second\<close> by (simp add: second_def)
  ultimately show ?thesis by (intro exI [of _ s']) simp
qed

end
