(* ===== verification/Rotation.thy ===== *)
theory Rotation
  imports LeaseLock
begin

text \<open>
  The heart of \<open>internal/server/server.go\<close>: who may act (\<open>authorise\<close>), which token is live,
  and the two operations that change credentials, \<open>issue\<close> and \<open>revoke\<close>, with their audit
  records and metrics.
\<close>

section \<open>The server\<close>

record server =
  s_cfg :: config
  s_grafana :: grafana
  s_flash :: flashCodec
  s_session :: "sessionCodec option"
  s_oauth :: bool
  s_verifier :: bool
  s_metrics :: bool
  s_locker :: mutationLocker

definition maxFlashCookieValue :: nat where "maxFlashCookieValue = 3800"

definition recordAction :: "server \<Rightarrow> string \<Rightarrow> string \<Rightarrow> unit io" where
  "recordAction s action outcome =
     (if s_metrics s then update_metrics (RecordAction action outcome) else ret ())"

definition recordAuth :: "server \<Rightarrow> string \<Rightarrow> unit io" where
  "recordAuth s kind = (if s_metrics s then update_metrics (RecordAuth kind) else ret ())"

section \<open>Identities\<close>

definition validEmail :: "string \<Rightarrow> bool" where
  "validEmail email \<longleftrightarrow>
     (if length email = 0 \<or> length email > 254 \<or> count_list email CHR ''@'' \<noteq> 1 then False
      else (let (user, domain, _) = cut CHR ''@'' email
            in if user = [] \<or> domain = [] then False
               else \<not> containsAny email [CHR '' '', TAB, CR, LF, NUL]))"

definition auth_error :: "bool \<Rightarrow> string \<Rightarrow> error" where
  "auth_error forbidden text = AuthError forbidden (Msg text)"

definition authorise :: "server \<Rightarrow> string \<Rightarrow> string list \<Rightarrow> (error + string) io" where
  "authorise s email groups =
     (if \<not> validEmail email then ret (Inl (auth_error False ''the ID token carries no usable email''))
      else if cfg_RequiredGroups (s_cfg s) \<noteq> [] \<and>
              \<not> list_ex (\<lambda>want. want \<in> set groups) (cfg_RequiredGroups (s_cfg s)) then do {
        _ \<leftarrow> recordAuth s ''authorization_denial'';
        ret (Inl (auth_error True ''the identity lacks a required group''))
      } else do {
        uni \<leftarrow> ask unicode_lower;
        ret (Inr (toLower uni email))
      })"

definition title_of :: "string \<Rightarrow> string" where
  "title_of email = ''mcp-'' @ email"

definition ttlDays :: "server \<Rightarrow> int" where
  "ttlDays s = truncDiv (cfg_TokenTTL (s_cfg s)) (24 * hour)"

section \<open>Accounts and live tokens\<close>

definition validateServiceAccount :: "serviceAccount \<Rightarrow> error option" where
  "validateServiceAccount sa =
     (if sa_disabled sa then Some (Wrap [] ServiceAccountState '': disabled'')
      else if sa_role sa \<noteq> ''Viewer'' then Some (Wrap [] ServiceAccountState ('': role '' @ goQuote (sa_role sa)))
      else None)"

definition is_live :: "time \<Rightarrow> saToken \<Rightarrow> bool" where
  "is_live now t \<longleftrightarrow>
     \<not> (tk_revoked t \<or> tk_hasExpired t \<or> (case tk_expiration t of None \<Rightarrow> False | Some e \<Rightarrow> now > e))"

fun newest_live :: "time \<Rightarrow> saToken list \<Rightarrow> saToken option \<Rightarrow> saToken option" where
  "newest_live now [] newest = newest"
| "newest_live now (t # ts) newest =
     (if \<not> is_live now t then newest_live now ts newest
      else if (case newest of None \<Rightarrow> True | Some n \<Rightarrow> tk_created t > tk_created n)
      then newest_live now ts (Some t) else newest_live now ts newest)"

definition liveToken :: "server \<Rightarrow> string \<Rightarrow> (error + saToken option) io" where
  "liveToken s email = do {
     r \<leftarrow> findServiceAccount (s_grafana s) (title_of email);
     (case r of Inl e \<Rightarrow> ret (Inl e) | Inr None \<Rightarrow> ret (Inr None)
      | Inr (Some sa) \<Rightarrow>
          (case validateServiceAccount sa of Some e \<Rightarrow> ret (Inl e)
           | None \<Rightarrow> do {
               q \<leftarrow> tokens (s_grafana s) (sa_name sa);
               (case q of Inl e \<Rightarrow> ret (Inl e)
                | Inr ts \<Rightarrow> do { now \<leftarrow> time_now; ret (Inr (newest_live now ts None)) })
             }))
   }"

section \<open>Audit\<close>

definition actorID :: "(string \<Rightarrow> string) \<Rightarrow> string \<Rightarrow> string" where
  "actorID uni email = hexEncode (take 8 (sha256 (toLower uni email)))"

definition auditReason :: "error \<Rightarrow> string" where
  "auditReason e =
     (if errors_is e DeadlineExceeded then ''timeout''
      else if errors_is e Canceled then ''canceled''
      else if errors_is e ServiceAccountState then ''invalid_service_account''
      else if errors_is e TokenReconciliation then ''token_reconciliation_required''
      else (case as_api_error e of
              Some status \<Rightarrow>
                if status = 401 then ''grafana_unauthorized'' else if status = 403 then ''grafana_forbidden''
                else if status = 404 then ''grafana_not_found'' else if status = 409 then ''grafana_conflict''
                else ''grafana_api_error''
            | None \<Rightarrow> if is_delivery_error e then ''delivery_preparation_failed'' else ''operation_failed''))"

definition audit_attrs ::
  "server \<Rightarrow> (string \<Rightarrow> string) \<Rightarrow> string \<Rightarrow> string \<Rightarrow> string \<Rightarrow> error option \<Rightarrow> (string \<times> string) list
   \<Rightarrow> (string \<times> string) list" where
  "audit_attrs s uni request_id action email err details =
     [(''event'', action), (''issuer'', cfg_Issuer (s_cfg s)), (''actor'', actorID uni email), (''request_id'', request_id)] @
     [(''result'', if action = ''token_issued_partial_cleanup'' \<or> action = ''tokens_revoked_partial'' then ''partial''
                  else if err \<noteq> None then ''failure'' else ''success'')] @
     (case err of
        Some e \<Rightarrow> [(''reason'', auditReason e), (''error_type'', error_type e)]
      | None \<Rightarrow> if action = ''token_issued_partial_cleanup''
                then [(''reason'', ''old_token_cleanup_incomplete'')] else []) @ details"

definition audit ::
  "server \<Rightarrow> string \<Rightarrow> string \<Rightarrow> string \<Rightarrow> error option \<Rightarrow> (string \<times> string) list \<Rightarrow> unit io" where
  "audit s request_id action email err details = do {
     uni \<leftarrow> ask unicode_lower;
     emit_event (Audit (audit_attrs s uni request_id action email err details))
   }"

section \<open>Issuing\<close>

record issueResult =
  ir_token :: string
  ir_flashCookie :: string
  ir_partialCleanup :: bool
  ir_accountID :: string
  ir_tokenName :: string

definition no_issue :: issueResult where
  "no_issue = \<lparr>ir_token = [], ir_flashCookie = [], ir_partialCleanup = False, ir_accountID = [], ir_tokenName = []\<rparr>"

text \<open>
  Go returns a result beside the error, and the handler reports both: the model's result is a
  pair. \<open>delete_old\<close> is the loop over the tokens listed before the new one was made; the result
  says whether every one of them was deleted.
\<close>

fun delete_old :: "grafana \<Rightarrow> string \<Rightarrow> saToken list \<Rightarrow> bool io" where
  "delete_old g account [] = ret True"
| "delete_old g account (t # ts) = do {
     c \<leftarrow> check_lock;
     (case c of Some e \<Rightarrow> ret False
      | None \<Rightarrow> do {
          r \<leftarrow> deleteToken g account (tk_id t);
          (case r of Inl e \<Rightarrow> ret False | Inr _ \<Rightarrow> delete_old g account ts)
        })
   }"

definition cookie_limit_error :: error where
  "cookie_limit_error = Msg ''replacement token exceeded the delivery cookie limit''"

text \<open>From the new token on: seal both cookies, then delete the old tokens.\<close>

definition deliver ::
  "server \<Rightarrow> string \<Rightarrow> deliveryPreparation \<Rightarrow> string \<Rightarrow> saToken list \<Rightarrow> issueResult \<Rightarrow> issuedToken
   \<Rightarrow> (issueResult \<times> error option) io" where
  "deliver s email prepared account old issued created =
     (let issued = issued\<lparr>ir_token := it_secret created\<rparr>;
          successCookie = sealPrepared (s_flash s) (dp_success prepared) email (it_secret created) False
                            (it_created created) (it_expires created);
          partialCookie = sealPrepared (s_flash s) (dp_partial prepared) email (it_secret created) True
                            (it_created created) (it_expires created)
      in if length successCookie > maxFlashCookieValue \<or> length partialCookie > maxFlashCookieValue then do {
           c \<leftarrow> cleanupUndeliveredToken (s_grafana s) account (it_name created);
           ret (issued, Some (case c of None \<Rightarrow> cookie_limit_error | Some e \<Rightarrow> Join [cookie_limit_error, e]))
         } else do {
           complete \<leftarrow> delete_old (s_grafana s) account old;
           ret (if complete then issued\<lparr>ir_flashCookie := successCookie\<rparr>
                else issued\<lparr>ir_partialCleanup := True, ir_flashCookie := partialCookie\<rparr>, None)
         })"

text \<open>From the account on: list the old tokens, name the new one, create it under a fresh check.\<close>

definition rotate ::
  "server \<Rightarrow> string \<Rightarrow> deliveryPreparation \<Rightarrow> serviceAccount \<Rightarrow> (issueResult \<times> error option) io" where
  "rotate s email prepared sa =
     (case validateServiceAccount sa of Some e \<Rightarrow> ret (no_issue, Some e)
      | None \<Rightarrow> do {
          r \<leftarrow> tokens (s_grafana s) (sa_name sa);
          (case r of Inl e \<Rightarrow> ret (no_issue, Some e)
           | Inr old \<Rightarrow> do {
               rnd \<leftarrow> random_bytes 6;
               (case rnd of Inl e \<Rightarrow> ret (no_issue, Some e)
                | Inr b \<Rightarrow> do {
                    now \<leftarrow> time_now;
                    let newName = tokenName now b;
                    c \<leftarrow> check_lock;
                    (case c of Some e \<Rightarrow> ret (no_issue, Some e)
                     | None \<Rightarrow> do {
                         let issued = no_issue\<lparr>ir_accountID := sa_name sa, ir_tokenName := newName\<rparr>;
                         created \<leftarrow> newToken (s_grafana s) (sa_name sa) newName (cfg_TokenTTL (s_cfg s));
                         (case created of Inl e \<Rightarrow> ret (issued, Some e)
                          | Inr t \<Rightarrow> deliver s email prepared (sa_name sa) old issued t)
                       })
                  })
             })
        })"

text \<open>The result also names the action, which the deferred metrics record.\<close>

definition locked_issue ::
  "server \<Rightarrow> string \<Rightarrow> deliveryPreparation \<Rightarrow> (string \<times> issueResult \<times> error option) io" where
  "locked_issue s email prepared = do {
     r \<leftarrow> findServiceAccount (s_grafana s) (title_of email);
     (case r of Inl e \<Rightarrow> ret (''issue'', no_issue, Some e)
      | Inr (Some sa) \<Rightarrow> do { q \<leftarrow> rotate s email prepared sa; ret (''reissue'', q) }
      | Inr None \<Rightarrow> do {
          c \<leftarrow> check_lock;
          (case c of Some e \<Rightarrow> ret (''issue'', no_issue, Some e)
           | None \<Rightarrow> do {
               a \<leftarrow> createServiceAccount (s_grafana s) (title_of email);
               (case a of Inl e \<Rightarrow> ret (''issue'', no_issue, Some e)
                | Inr sa \<Rightarrow> do { q \<leftarrow> rotate s email prepared sa; ret (''issue'', q) })
             })
        })
   }"

definition issue_outcome :: "issueResult \<Rightarrow> error option \<Rightarrow> string" where
  "issue_outcome issued err =
     (if err \<noteq> None then ''failure'' else if ir_partialCleanup issued then ''partial'' else ''success'')"

text \<open>Deferred calls run last in, first out: the lock is released, then the metric is recorded.\<close>

definition issue :: "server \<Rightarrow> string \<Rightarrow> deliveryPreparation \<Rightarrow> (issueResult \<times> error option) io" where
  "issue s email prepared = do {
     g \<leftarrow> acquire_lock email;
     (case g of
        Some e \<Rightarrow> do { _ \<leftarrow> recordAction s ''issue'' ''failure''; ret (no_issue, Some e) }
      | None \<Rightarrow> do {
          (action, issued, err) \<leftarrow> locked_issue s email prepared;
          _ \<leftarrow> release_lock;
          _ \<leftarrow> recordAction s action (issue_outcome issued err);
          ret (issued, err)
        })
   }"

definition prepareAndIssue :: "server \<Rightarrow> string \<Rightarrow> (issueResult \<times> error option) io" where
  "prepareAndIssue s email = do {
     r \<leftarrow> prepareDelivery (s_flash s);
     (case r of
        Inl e \<Rightarrow> do { _ \<leftarrow> recordAction s ''issue'' ''failure''; ret (no_issue, Some (DeliveryPreparationError e)) }
      | Inr prepared \<Rightarrow> issue s email prepared)
   }"

section \<open>Revoking\<close>

fun revoke_loop ::
  "grafana \<Rightarrow> string \<Rightarrow> saToken list \<Rightarrow> nat \<Rightarrow> nat \<Rightarrow> error list \<Rightarrow> (error option \<times> nat \<times> nat) io" where
  "revoke_loop g account [] attempted deleted errs =
     ret (errors_join (map Some errs), attempted, deleted)"
| "revoke_loop g account (t # ts) attempted deleted errs = do {
     c \<leftarrow> check_lock;
     (case c of Some e \<Rightarrow> ret (errors_join (map Some (errs @ [e])), attempted, deleted)
      | None \<Rightarrow> do {
          r \<leftarrow> deleteToken g account (tk_id t);
          (case r of Inl e \<Rightarrow> revoke_loop g account ts (Suc attempted) deleted (errs @ [e])
           | Inr _ \<Rightarrow> revoke_loop g account ts (Suc attempted) (Suc deleted) errs)
        })
   }"

text \<open>The error, the account, and how many deletions were attempted and confirmed.\<close>

definition locked_revoke :: "server \<Rightarrow> string \<Rightarrow> (error option \<times> string \<times> nat \<times> nat) io" where
  "locked_revoke s email = do {
     r \<leftarrow> findServiceAccount (s_grafana s) (title_of email);
     (case r of Inl e \<Rightarrow> ret (Some e, [], 0, 0)
      | Inr None \<Rightarrow> ret (None, [], 0, 0)
      | Inr (Some sa) \<Rightarrow>
          if sa_role sa \<noteq> ''Viewer'' then
            ret (Some (Wrap [] ServiceAccountState ('': refusing revoke for role '' @ goQuote (sa_role sa))), sa_name sa, 0, 0)
          else do {
            q \<leftarrow> tokens (s_grafana s) (sa_name sa);
            (case q of Inl e \<Rightarrow> ret (Some e, sa_name sa, 0, 0)
             | Inr ts \<Rightarrow> do {
                 (err, attempted, deleted) \<leftarrow> revoke_loop (s_grafana s) (sa_name sa) ts 0 0 [];
                 ret (err, sa_name sa, attempted, deleted)
               })
          })
   }"

definition revoke_outcome :: "error option \<Rightarrow> nat \<Rightarrow> string" where
  "revoke_outcome err deleted =
     (if err = None then ''success'' else if deleted > 0 then ''partial'' else ''failure'')"

definition revoke_event :: "string \<Rightarrow> string" where
  "revoke_event outcome =
     (if outcome = ''failure'' then ''revoke_failed'' else if outcome = ''partial'' then ''tokens_revoked_partial''
      else ''tokens_revoked'')"

definition revoke_report ::
  "server \<Rightarrow> string \<Rightarrow> string \<Rightarrow> error option \<times> string \<times> nat \<times> nat \<Rightarrow> unit io" where
  "revoke_report s request_id email r =
     (case r of (err, account, attempted, deleted) \<Rightarrow> do {
        let outcome = revoke_outcome err deleted;
        _ \<leftarrow> recordAction s ''revoke'' outcome;
        audit s request_id (revoke_event outcome) email err
          [(''service_account_id'', account), (''attempted'', itoa (int attempted)), (''deleted'', itoa (int deleted))]
      })"

definition revoke :: "server \<Rightarrow> string \<Rightarrow> string \<Rightarrow> (error option) io" where
  "revoke s request_id email = do {
     g \<leftarrow> acquire_lock email;
     (case g of
        Some e \<Rightarrow> do { _ \<leftarrow> revoke_report s request_id email (Some e, [], 0, 0); ret (Some e) }
      | None \<Rightarrow> do {
          r \<leftarrow> locked_revoke s email;
          _ \<leftarrow> release_lock;
          _ \<leftarrow> revoke_report s request_id email r;
          ret (fst r)
        })
   }"

end
