(* ===== verification/RotationProtocol.thy ===== *)
theory RotationProtocol
  imports Rotation
begin

text \<open>
  The protocol \<open>issue\<close> and \<open>revoke\<close> promise to follow, as abstract machines over the trace, and
  the simulation that shows they do.
\<close>

section \<open>The rotation protocol\<close>

text \<open>
  \<open>Old\<close>: only the old tokens exist. \<open>New ds\<close>: Grafana confirmed a new token, and the deletions
  of the paths \<open>ds\<close> were confirmed since. \<open>Undone\<close>: the creation of a token was not confirmed,
  so one request may remove what it may have left. \<open>Halted ds\<close>: nothing may be changed any more.
  A phase also says whether the lock is held and whether the last event was a successful check
  of it, the permit that every change but the cleanup of a new token needs.
\<close>

datatype stage = Old | Undone | New "string list" | Halted "string list"

datatype phase = Unlocked | Held bool stage | Done stage

fun rotation_http :: "bool \<Rightarrow> stage \<Rightarrow> request \<Rightarrow> reply \<Rightarrow> stage option" where
  "rotation_http permit st rq rp =
     (if rq_method rq = GET then Some st
      else if rq_method rq = POST then
        (if permit \<and> st = Old
         then Some (if is_token_path (rq_path rq) then if reply_ok rp then New [] else Undone else Old)
         else None)
      else if rq_method rq = DELETE then
        (case st of
           New ds \<Rightarrow>
             if permit then Some (if reply_ok rp then New (ds @ [rq_path rq]) else Halted ds)
             else if ds = [] then Some (Halted []) else None
         | Undone \<Rightarrow> Some (Halted [])
         | _ \<Rightarrow> None)
      else None)"

fun rotation :: "string \<Rightarrow> phase machine" where
  "rotation key Unlocked (LockAcquired k) = (if k = key then Some (Held False Old) else None)"
| "rotation key Unlocked (LockFailed k e) = (if k = key then Some (Done Old) else None)"
| "rotation key (Held permit st) (Http rq rp) = map_option (Held False) (rotation_http permit st rq rp)"
| "rotation key (Held permit st) (Checked None) =
     (case st of Old \<Rightarrow> Some (Held True st) | New ds \<Rightarrow> Some (Held True st) | _ \<Rightarrow> None)"
| "rotation key (Held permit st) (Checked (Some e)) =
     Some (Held False (case st of New ds \<Rightarrow> Halted ds | Halted ds \<Rightarrow> Halted ds | _ \<Rightarrow> Halted []))"
| "rotation key (Held permit st) LockReleased = Some (Done st)"
| "rotation key _ _ = None"

text \<open>What each outcome of \<open>issue\<close> means in the protocol: after an error no old token is gone.\<close>

fun issue_ends :: "issueResult \<times> error option \<Rightarrow> stage \<Rightarrow> bool" where
  "issue_ends (issued, Some e) st \<longleftrightarrow> st \<in> {Old, Undone, New [], Halted []}"
| "issue_ends (issued, None) st \<longleftrightarrow>
     (if ir_partialCleanup issued then \<exists>ds. st = New ds \<or> st = Halted ds else \<exists>ds. st = New ds)"

section \<open>The simulation\<close>

lemma rotation_get: "is_get e \<Longrightarrow> rotation key (Held False st) e = Some (Held False st)"
  by (auto simp: is_get_def split: event.splits)

lemma sim_find_rotation:
  "(\<And>r. Q r (Held False st)) \<Longrightarrow> sim (rotation key) (Held False st) (findServiceAccount g title) Q"
  by (rule gc.sim_find) (simp_all add: rotation_get)

lemma sim_tokens_rotation:
  "(\<And>r. Q r (Held False st)) \<Longrightarrow> sim (rotation key) (Held False st) (tokens g sa) Q"
  by (rule gc.sim_list) (simp_all add: rotation_get)

lemma accepts_gets: "list_all is_get gs \<Longrightarrow> accepts (rotation key) (Held False st) gs = Some (Held False st)"
  by (erule accepts_loop) (rule rotation_get)

lemma is_delete_iff: "is_delete e \<longleftrightarrow> (\<exists>rq rp. e = Http rq rp \<and> rq_method rq = DELETE)"
  by (cases e) (simp_all add: is_delete_def)

lemma accepts_cleanup:
  assumes "cleanup_shape evs" "st = Undone \<or> st = New []"
  shows "\<exists>st'. accepts (rotation key) (Held False st) evs = Some (Held False st') \<and> st' \<in> {st, Halted []}"
proof -
  from assms(1) obtain gs where gs: "list_all is_get gs" and evs: "evs = gs \<or> (\<exists>e. evs = gs @ [e] \<and> is_delete e)"
    by (auto simp: cleanup_shape_def)
  from evs show ?thesis
  proof
    assume "\<exists>e. evs = gs @ [e] \<and> is_delete e"
    then obtain rq rp where "evs = gs @ [Http rq rp]" "rq_method rq = DELETE"
      by (auto simp: is_delete_iff)
    with assms(2) show ?thesis by (auto simp: accepts_append accepts_gets [OF gs])
  qed (auto simp: accepts_gets [OF gs])
qed

lemma sim_create_rotation:
  "(\<And>r. Q r (Held False Old)) \<Longrightarrow>
   sim (rotation key) (Held True Old) (createServiceAccount g title) Q"
  by (rule sim_yields [OF gc.create_law]) (auto simp: create_shape_def)

lemma sim_new_token_rotation:
  assumes "\<And>e st. st \<in> {Old, Undone, New [], Halted []} \<Longrightarrow> \<exists>p. p = False \<and> Q (Inl e) (Held p st)"
    and "\<And>e. Q (Inl e) (Held True Old)" "\<And>t. Q (Inr t) (Held False (New []))"
  shows "sim (rotation key) (Held True Old) (newToken g sa n ttl) Q"
proof (rule sim_yields [OF gc.new_token_law])
  fix r :: "error + issuedToken" and evs
  assume shape: "new_token_shape r evs"
  show "\<exists>s'. accepts (rotation key) (Held True Old) evs = Some s' \<and> Q r s'"
  proof (cases r)
    case (Inr t)
    with shape assms(3) show ?thesis by (auto simp: new_token_shape_def)
  next
    case (Inl e)
    show ?thesis
    proof (cases evs)
      case Nil
      with Inl assms(2) show ?thesis by simp
    next
      case (Cons ev rest)
      with shape obtain rq rp where ev: "ev = Http rq rp" "rq_method rq = POST" "is_token_path (rq_path rq)"
          "cleanup_shape rest"
        by (auto simp: new_token_shape_def)
      then obtain st' where "accepts (rotation key) (Held False (if reply_ok rp then New [] else Undone)) rest =
          Some (Held False st')" "st' \<in> {New [], Undone, Halted []}"
        using accepts_cleanup [of rest "if reply_ok rp then New [] else Undone" key]
        by (cases "reply_ok rp") auto
      then have "accepts (rotation key) (Held True Old) evs = Some (Held False st')" "st' \<in> {New [], Undone, Halted []}"
        using ev Cons by auto
      with assms(1) [of st' e] Inl show ?thesis by auto
    qed
  qed
qed

lemma sim_cleanup_rotation:
  assumes "\<And>c. Q c (Held False (New []))" "\<And>c. Q c (Held False (Halted []))"
  shows "sim (rotation key) (Held False (New [])) (cleanupUndeliveredToken g sa n) Q"
proof (rule sim_yields [OF gc.cleanup_law])
  fix r evs
  assume "cleanup_shape evs"
  then show "\<exists>s'. accepts (rotation key) (Held False (New [])) evs = Some s' \<and> Q r s'"
    using accepts_cleanup [of evs "New []" key] assms by auto
qed

lemma sim_delete_rotation:
  assumes "\<And>e. Q (Inl e) (Held True (New ds))" "\<And>e. Q (Inl e) (Held False (Halted ds))"
    and "\<And>r p. Q r (Held False (New (ds @ [p])))"
  shows "sim (rotation key) (Held True (New ds)) (deleteToken g sa i) Q"
proof (rule sim_yields [OF gc.delete_token_law])
  fix r :: "error + unit" and evs
  assume "delete_shape r evs"
  then show "\<exists>s'. accepts (rotation key) (Held True (New ds)) evs = Some s' \<and> Q r s'"
    using assms by (cases r) (auto simp: delete_shape_def)
qed

lemma sim_delete_old:
  "sim (rotation key) (Held p (New ds)) (delete_old g sa ts)
     (\<lambda>complete s'. \<exists>p' ds'. s' = Held p' (New ds') \<or> \<not> complete \<and> s' = Held p' (Halted ds'))"
proof (induction ts arbitrary: p ds)
  case Nil
  then show ?case by (auto intro!: sim_return)
next
  case (Cons t ts)
  show ?case
    unfolding delete_old.simps
  proof (rule sim_bind [where P = "\<lambda>c s'. (c = None \<longrightarrow> s' = Held True (New ds)) \<and> (c \<noteq> None \<longrightarrow> s' = Held False (Halted ds))"],
      goal_cases check rest)
    case check
    have "\<exists>s'. rotation key (Held p (New ds)) (Checked r) = Some s' \<and> (r = None \<longrightarrow> s' = Held True (New ds)) \<and>
        (r \<noteq> None \<longrightarrow> s' = Held False (Halted ds))" for r
      by (cases r) auto
    then show ?case by (rule sim_check)
  next
    case (rest c s')
    then show ?case
      by (cases c) (auto intro!: sim_return sim_bind [OF sim_delete_rotation [where
          Q = "\<lambda>r s'. (\<exists>p ds. s' = Held p (New ds)) \<or> isl r \<and> (\<exists>p ds. s' = Held p (Halted ds))"]]
          Cons.IH split: sum.splits)
  qed
qed

text \<open>Under the lock every step ends in a phase that matches the outcome so far.\<close>

definition held_ends :: "issueResult \<times> error option \<Rightarrow> phase \<Rightarrow> bool" where
  "held_ends r s \<longleftrightarrow> (\<exists>p st. s = Held p st \<and> issue_ends r st)"

lemma held_endsI: "issue_ends r st \<Longrightarrow> held_ends r (Held p st)"
  by (auto simp: held_ends_def)

lemma sim_deliver:
  assumes "ir_partialCleanup issued = False"
  shows "sim (rotation key) (Held False (New [])) (deliver s email prepared account old issued t) held_ends"
  unfolding deliver_def Let_def
  by (intro sim_if sim_bind [OF sim_cleanup_rotation [where
          Q = "\<lambda>_ s'. s' = Held False (New []) \<or> s' = Held False (Halted [])"]] sim_return
        sim_bind [OF sim_delete_old])
    (use assms in \<open>auto intro: held_endsI split: if_splits\<close>)

text \<open>The same rules for an operation followed by the rest of the code.\<close>

lemma bind_quiet:
  "(\<And>t. sim st s (f t) Q) \<Longrightarrow> sim st s (time_now \<bind> f) Q"
  "(\<And>r. sim st s (f2 r) Q) \<Longrightarrow> sim st s (random_bytes n \<bind> f2) Q"
  "(\<And>r. sim st s (f3 r) Q) \<Longrightarrow> sim st s (ask h \<bind> f3) Q"
  "(\<And>r. sim st s (f4 r) Q) \<Longrightarrow> sim st s (update_metrics k \<bind> f4) Q"
  by (rule sim_bind [where P = "\<lambda>_ s'. s' = s"]; (rule sim_intros)?; simp)+

lemma bind_reads:
  "(\<And>r. sim (rotation key) (Held False st) (f r) Q) \<Longrightarrow>
   sim (rotation key) (Held False st) (findServiceAccount g title \<bind> f) Q"
  "(\<And>r. sim (rotation key) (Held False st) (f2 r) Q) \<Longrightarrow>
   sim (rotation key) (Held False st) (tokens g sa \<bind> f2) Q"
  by (rule sim_bind [where P = "\<lambda>_ s'. s' = Held False st"]; (rule sim_find_rotation sim_tokens_rotation)?; simp)+

lemma bind_check_old:
  assumes "sim (rotation key) (Held True Old) (f None) Q"
    and "\<And>e. sim (rotation key) (Held False (Halted [])) (f (Some e)) Q"
  shows "sim (rotation key) (Held False Old) (check_lock \<bind> f) Q"
proof (rule sim_bind)
  show "sim (rotation key) (Held False Old) check_lock
      (\<lambda>c s'. s' = (if c = None then Held True Old else Held False (Halted [])))"
    by (rule sim_check) (rename_tac r, case_tac r; simp)
qed (use assms in \<open>auto split: if_splits\<close>)

lemma bind_create:
  assumes "\<And>r. sim (rotation key) (Held False Old) (f r) Q"
  shows "sim (rotation key) (Held True Old) (createServiceAccount g title \<bind> f) Q"
  by (rule sim_bind [OF sim_create_rotation [where Q = "\<lambda>_ s'. s' = Held False Old"]]) (simp_all add: assms)

lemma bind_new_token:
  assumes "\<And>e p st. st \<in> {Old, Undone, New [], Halted []} \<Longrightarrow> sim (rotation key) (Held p st) (f (Inl e)) Q"
    and "\<And>t. sim (rotation key) (Held False (New [])) (f (Inr t)) Q"
  shows "sim (rotation key) (Held True Old) (newToken g sa n ttl \<bind> f) Q"
proof (rule sim_bind)
  show "sim (rotation key) (Held True Old) (newToken g sa n ttl)
      (\<lambda>r s'. (isl r \<and> (\<exists>p st. s' = Held p st \<and> st \<in> {Old, Undone, New [], Halted []})) \<or>
              (\<not> isl r \<and> s' = Held False (New [])))"
    by (rule sim_new_token_rotation) auto
next
  fix r :: "error + issuedToken" and s'
  assume "(isl r \<and> (\<exists>p st. s' = Held p st \<and> st \<in> {Old, Undone, New [], Halted []})) \<or>
              (\<not> isl r \<and> s' = Held False (New []))"
  then show "sim (rotation key) s' (f r) Q" using assms by (cases r) auto
qed

lemma sim_rotate: "sim (rotation key) (Held False Old) (rotate s email prepared sa) held_ends"
  unfolding rotate_def Let_def
  by (intro sim_intros bind_quiet bind_reads bind_check_old bind_new_token sim_deliver)
    (auto intro!: held_endsI sim_return simp: no_issue_def)

lemma sim_locked_issue:
  "sim (rotation key) (Held False Old) (locked_issue s email prepared) (\<lambda>(action, r). held_ends r)"
  unfolding locked_issue_def
  by (intro sim_intros bind_reads bind_check_old bind_create sim_bind [OF sim_rotate])
    (auto intro!: held_endsI sim_return simp: no_issue_def)

lemma bind_release:
  "sim (rotation key) (Done st) (f ()) Q \<Longrightarrow> sim (rotation key) (Held p st) (release_lock \<bind> f) Q"
  by (rule sim_bind [where P = "\<lambda>_ s'. s' = Done st"]) (auto intro: sim_release)

lemma bind_record:
  "sim st s' (f ()) Q \<Longrightarrow> sim st s' (recordAction s a o1 \<bind> f) Q"
  "sim st s' (f ()) Q \<Longrightarrow> sim st s' (recordAuth s k \<bind> f) Q"
  unfolding recordAction_def recordAuth_def
  by (rule sim_bind [where P = "\<lambda>_ s''. s'' = s'"]; (intro sim_intros)?; simp)+

lemma bind_acquire:
  assumes "sim (rotation key) (Held False Old) (f None) Q" "\<And>e. sim (rotation key) (Done Old) (f (Some e)) Q"
  shows "sim (rotation key) Unlocked (acquire_lock key \<bind> f) Q"
proof (rule sim_bind)
  show "sim (rotation key) Unlocked (acquire_lock key) (\<lambda>g s'. s' = (if g = None then Held False Old else Done Old))"
    by (rule sim_acquire) auto
qed (use assms in \<open>auto split: if_splits\<close>)

lemma sim_issue:
  "sim (rotation email) Unlocked (issue s email prepared) (\<lambda>r s'. \<exists>st. s' = Done st \<and> issue_ends r st)"
  unfolding issue_def
  by (intro sim_intros bind_acquire bind_record sim_bind [OF sim_locked_issue])
    (auto simp: held_ends_def intro!: sim_intros bind_release bind_record)

text \<open>
  Revocation: the same lock, and nothing but deletions of tokens, each under a fresh permit.
\<close>

datatype guard = Free | Guarded bool | Closed

fun guarded_http :: "bool \<Rightarrow> request \<Rightarrow> guard option" where
  "guarded_http permit rq =
     (if rq_method rq = GET then Some (Guarded False)
      else if permit \<and> rq_method rq = DELETE then Some (Guarded False) else None)"

fun guarded :: "(string \<Rightarrow> bool) \<Rightarrow> guard machine" where
  "guarded keys Free (LockAcquired k) = (if keys k then Some (Guarded False) else None)"
| "guarded keys Free (LockFailed k e) = (if keys k then Some Closed else None)"
| "guarded keys (Guarded permit) (Http rq rp) = guarded_http permit rq"
| "guarded keys (Guarded permit) (Checked r) = Some (Guarded (r = None))"
| "guarded keys (Guarded permit) LockReleased = Some Free"
| "guarded keys Free (Printed line) = Some Free"
| "guarded keys (Guarded permit) (Printed line) = Some (Guarded permit)"
| "guarded keys Free (Audit attrs) = Some Free"
| "guarded keys Closed (Audit attrs) = Some Closed"
| "guarded keys _ _ = None"

lemma guarded_get: "is_get e \<Longrightarrow> guarded keys (Guarded False) e = Some (Guarded False)"
  by (cases e) (simp_all add: is_get_def)

lemma guarded_reads:
  "(\<And>r. sim (guarded keys) (Guarded False) (f r) Q) \<Longrightarrow>
   sim (guarded keys) (Guarded False) (findServiceAccount g title \<bind> f) Q"
  "(\<And>r. sim (guarded keys) (Guarded False) (f2 r) Q) \<Longrightarrow>
   sim (guarded keys) (Guarded False) (tokens g sa \<bind> f2) Q"
  by (rule sim_bind [where P = "\<lambda>_ s'. s' = Guarded False"];
      (rule gc.sim_find gc.sim_list)?; simp add: guarded_get)+

lemma guarded_acquire:
  assumes "keys k" "sim (guarded keys) (Guarded False) (f None) Q" "\<And>e. sim (guarded keys) Closed (f (Some e)) Q"
  shows "sim (guarded keys) Free (acquire_lock k \<bind> f) Q"
proof (rule sim_bind)
  show "sim (guarded keys) Free (acquire_lock k) (\<lambda>g s'. s' = (if g = None then Guarded False else Closed))"
    using assms(1) by (intro sim_acquire) auto
qed (use assms in \<open>auto split: if_splits\<close>)

lemma guarded_check:
  assumes "sim (guarded keys) (Guarded True) (f None) Q" "\<And>e. sim (guarded keys) (Guarded False) (f (Some e)) Q"
  shows "sim (guarded keys) (Guarded p) (check_lock \<bind> f) Q"
proof (rule sim_bind)
  show "sim (guarded keys) (Guarded p) check_lock (\<lambda>c s'. s' = Guarded (c = None))"
    by (rule sim_check) simp
  show "sim (guarded keys) s' (f c) Q" if "s' = Guarded (c = None)" for c s'
    using assms that by (cases c) auto
qed

lemma guarded_delete_shape:
  "delete_shape r evs \<Longrightarrow> \<exists>p. accepts (guarded keys) (Guarded True) evs = Some (Guarded p)"
  by (auto simp: delete_shape_def)

lemma guarded_delete:
  assumes "\<And>r p. sim (guarded keys) (Guarded p) (f r) Q"
  shows "sim (guarded keys) (Guarded True) (deleteToken g sa i \<bind> f) Q"
proof (rule sim_bind)
  show "sim (guarded keys) (Guarded True) (deleteToken g sa i) (\<lambda>_ s'. \<exists>p. s' = Guarded p)"
    by (rule sim_yields [OF gc.delete_token_law]) (auto dest: guarded_delete_shape)
qed (use assms in auto)

lemma guarded_delete_account:
  assumes "\<And>r p. sim (guarded keys) (Guarded p) (f r) Q"
  shows "sim (guarded keys) (Guarded True) (deleteServiceAccount g sa \<bind> f) Q"
proof (rule sim_bind)
  show "sim (guarded keys) (Guarded True) (deleteServiceAccount g sa) (\<lambda>_ s'. \<exists>p. s' = Guarded p)"
    by (rule sim_yields [OF gc.delete_account_law]) (auto dest: guarded_delete_shape)
qed (use assms in auto)

lemma guarded_release:
  "sim (guarded keys) Free (f ()) Q \<Longrightarrow> sim (guarded keys) (Guarded p) (release_lock \<bind> f) Q"
  by (rule sim_bind [where P = "\<lambda>_ s'. s' = Free"]) (auto intro: sim_release)

lemma sim_revoke_loop:
  "sim (guarded keys) (Guarded p) (revoke_loop g sa ts a d errs) (\<lambda>_ s'. \<exists>q. s' = Guarded q)"
proof (induction ts arbitrary: p a d errs)
  case (Cons t ts)
  show ?case
    unfolding revoke_loop.simps
    by (intro guarded_check sim_intros guarded_delete Cons.IH) auto
qed (auto intro: sim_return)

lemma sim_locked_revoke:
  "sim (guarded keys) (Guarded False) (locked_revoke s email) (\<lambda>_ s'. \<exists>q. s' = Guarded q)"
  unfolding locked_revoke_def
  by (intro guarded_reads sim_intros sim_bind [OF sim_revoke_loop]) (auto intro!: sim_intros)

lemma sim_audit:
  "s' \<in> {Free, Closed} \<Longrightarrow> sim (guarded keys) s' (audit s i a em er ds) (\<lambda>_ t. t = s')"
  unfolding audit_def by (intro bind_quiet(3) sim_event) auto

lemma sim_revoke_report:
  "s' \<in> {Free, Closed} \<Longrightarrow> sim (guarded keys) s' (revoke_report s i em r) (\<lambda>_ t. t = s')"
  unfolding revoke_report_def Let_def
  by (cases r) (auto intro!: bind_record(1) sim_audit)

lemma sim_revoke:
  "sim (guarded (\<lambda>k. k = email)) Free (revoke s request_id email) (\<lambda>_ s'. s' \<in> {Free, Closed})"
  unfolding revoke_def
  by (intro guarded_acquire refl sim_intros sim_bind [OF sim_locked_revoke] sim_bind [OF sim_revoke_report])
    (auto intro!: guarded_release sim_bind [OF sim_revoke_report] sim_return)

end
