(* ===== verification/Reconcile.thy ===== *)
theory Reconcile
  imports RotationProtocol LeaseLock
begin

text \<open>
  \<open>internal/server/reconcile.go\<close>: the two maintenance commands, which report what they would do
  and, when told to apply it, delete under the rotation lock.
\<close>

section \<open>The commands\<close>

record cleanupOptions =
  co_apply :: bool
  co_deleteExpired :: bool
  co_keepToken :: string

definition cleanup_grafana :: "config \<Rightarrow> grafana" where
  "cleanup_grafana cfg =
     \<lparr>g_base = cfg_GrafanaURL cfg, g_token = cfg_GrafanaToken cfg, g_mode = cfg_GrafanaAPIMode cfg,
      g_namespace = cfg_GrafanaNamespace cfg, g_metrics = False\<rparr>"

definition cleanupClient :: "host \<Rightarrow> config \<Rightarrow> error + grafana \<times> mutationLocker" where
  "cleanupClient h cfg = and_then (newMutationLocker h cfg) (\<lambda>locker. Inr (cleanup_grafana cfg, locker))"

definition invalid_target :: "string \<Rightarrow> error" where
  "invalid_target raw = Msg (''invalid email target '' @ goQuote raw)"

fun collect_targets :: "(string \<Rightarrow> string) \<Rightarrow> string list \<Rightarrow> string list \<Rightarrow> error + string list" where
  "collect_targets uni [] out = Inr out"
| "collect_targets uni (raw # rest) out =
     (let email = toLower uni (trimSpace raw) in
      if email = [] \<or> CHR ''@'' \<notin> set email then Inl (invalid_target raw)
      else collect_targets uni rest (if email \<in> set out then out else out @ [email]))"

definition normalizeTargets :: "(string \<Rightarrow> string) \<Rightarrow> string list \<Rightarrow> error + string list" where
  "normalizeTargets uni emails =
     (if emails = [] then Inl (Msg ''at least one --email target is required'')
      else collect_targets uni emails [])"

definition show_bool :: "bool \<Rightarrow> string" where
  "show_bool b = (if b then ''true'' else ''false'')"

definition print :: "string list \<Rightarrow> unit io" where
  "print parts = emit_event (Printed (concat parts @ [LF]))"

section \<open>Reconciling one identity\<close>

definition is_expired :: "time \<Rightarrow> saToken \<Rightarrow> bool" where
  "is_expired now t \<longleftrightarrow>
     tk_revoked t \<or> tk_hasExpired t \<or> (case tk_expiration t of None \<Rightarrow> False | Some e \<Rightarrow> \<not> e > now)"

definition is_candidate :: "cleanupOptions \<Rightarrow> time \<Rightarrow> saToken \<Rightarrow> bool" where
  "is_candidate opts now t \<longleftrightarrow>
     (co_keepToken opts \<noteq> [] \<and> tk_title t \<noteq> co_keepToken opts) \<or> (co_deleteExpired opts \<and> is_expired now t)"

text \<open>The single pass over the tokens: the counts, the candidates, and whether the token to keep was seen.\<close>

fun classify :: "cleanupOptions \<Rightarrow> time \<Rightarrow> saToken list \<Rightarrow> nat \<times> nat \<times> saToken list \<times> bool
    \<Rightarrow> nat \<times> nat \<times> saToken list \<times> bool" where
  "classify opts now [] acc = acc"
| "classify opts now (t # ts) (active, expired, candidates, keepFound) =
     classify opts now ts
       (if is_expired now t then active else Suc active, if is_expired now t then Suc expired else expired,
        if is_candidate opts now t then candidates @ [t] else candidates,
        keepFound \<or> (tk_title t = co_keepToken opts \<and> \<not> is_expired now t))"

fun delete_candidates ::
  "grafana \<Rightarrow> bool \<Rightarrow> string \<Rightarrow> string \<Rightarrow> saToken list \<Rightarrow> (error option) io" where
  "delete_candidates g apply_changes email account [] = ret None"
| "delete_candidates g apply_changes email account (t # ts) =
     (if \<not> apply_changes then do {
        _ \<leftarrow> print [email, '' token='', tk_title t, '' action=delete_token dry_run=true''];
        delete_candidates g apply_changes email account ts
      } else do {
        c \<leftarrow> check_lock;
        (case c of Some e \<Rightarrow> ret (Some e)
         | None \<Rightarrow> do {
             r \<leftarrow> deleteToken g account (tk_id t);
             (case r of Inl e \<Rightarrow> ret (Some e)
              | Inr _ \<Rightarrow> do {
                  _ \<leftarrow> print [email, '' token='', tk_title t, '' action=deleted_token dry_run=false''];
                  delete_candidates g apply_changes email account ts
                })
           })
      })"

definition reconcileOne :: "grafana \<Rightarrow> string \<Rightarrow> cleanupOptions \<Rightarrow> (error option) io" where
  "reconcileOne g email opts = do {
     r \<leftarrow> findServiceAccount g (title_of email);
     (case r of Inl e \<Rightarrow> ret (Some e)
      | Inr None \<Rightarrow> do {
          _ \<leftarrow> print [email, '' account=missing action=none dry_run='', show_bool (\<not> co_apply opts)];
          ret None
        }
      | Inr (Some sa) \<Rightarrow>
          (case validateServiceAccount sa of
             Some e \<Rightarrow> ret (Some (Wrap (email @ '': '') e []))
           | None \<Rightarrow> do {
               q \<leftarrow> tokens g (sa_name sa);
               (case q of Inl e \<Rightarrow> ret (Some e)
                | Inr ts \<Rightarrow> do {
                    now \<leftarrow> time_now;
                    let (active, expired, candidates, keepFound) = classify opts now ts (0, 0, [], co_keepToken opts = []);
                    (if \<not> keepFound then
                       ret (Some (Msg (''keep token '' @ goQuote (co_keepToken opts) @ '' does not exist or is not live'')))
                     else do {
                       _ \<leftarrow> print [email, '' account='', sa_name sa, '' role='', sa_role sa, '' disabled='', show_bool (sa_disabled sa),
                              '' tokens='', itoa (int (length ts)), '' active='', itoa (int active), '' expired='', itoa (int expired),
                              '' planned_deletes='', itoa (int (length candidates)), '' dry_run='', show_bool (\<not> co_apply opts)];
                       delete_candidates g (co_apply opts) email (sa_name sa) candidates
                     })
                  })
             }))
   }"

fun reconcile_all :: "grafana \<Rightarrow> cleanupOptions \<Rightarrow> string list \<Rightarrow> (error option) io" where
  "reconcile_all g opts [] = ret None"
| "reconcile_all g opts (email # emails) = do {
     a \<leftarrow> acquire_lock email;
     (case a of Some e \<Rightarrow> ret (Some e)
      | None \<Rightarrow> do {
          r \<leftarrow> reconcileOne g email opts;
          _ \<leftarrow> release_lock;
          (case r of Some e \<Rightarrow> ret (Some e) | None \<Rightarrow> reconcile_all g opts emails)
        })
   }"

definition reconcile :: "host \<Rightarrow> config \<Rightarrow> string list \<Rightarrow> cleanupOptions \<Rightarrow> (error option) io" where
  "reconcile h cfg emails opts =
     (case normalizeTargets (h_lower h) emails of Inl e \<Rightarrow> ret (Some e)
      | Inr targets \<Rightarrow>
          if co_apply opts \<and> \<not> co_deleteExpired opts \<and> co_keepToken opts = [] then
            ret (Some (Msg ''reconcile --apply requires --delete-expired or --keep-token''))
          else if co_keepToken opts \<noteq> [] \<and> length targets \<noteq> 1 then
            ret (Some (Msg ''--keep-token requires exactly one --email target''))
          else (case cleanupClient h cfg of Inl e \<Rightarrow> ret (Some e)
                | Inr (g, locker) \<Rightarrow> reconcile_all g opts targets))"

section \<open>Offboarding\<close>

text \<open>One target under its lock: an error ends the command, the lock is released on every path.\<close>

definition offboardOne :: "grafana \<Rightarrow> bool \<Rightarrow> string \<Rightarrow> (error option) io" where
  "offboardOne g apply_changes email = do {
     r \<leftarrow> findServiceAccount g (title_of email);
     (case r of Inl e \<Rightarrow> do { _ \<leftarrow> release_lock; ret (Some e) }
      | Inr None \<Rightarrow> do {
          _ \<leftarrow> print [email, '' account=missing action=none dry_run='', show_bool (\<not> apply_changes)];
          _ \<leftarrow> release_lock;
          ret None
        }
      | Inr (Some sa) \<Rightarrow>
          if sa_role sa \<noteq> ''Viewer'' then do {
            _ \<leftarrow> release_lock;
            ret (Some (Msg (email @ '': refusing to delete service account with role '' @ goQuote (sa_role sa))))
          } else if \<not> apply_changes then do {
            _ \<leftarrow> print [email, '' account='', sa_name sa, '' action=delete_service_account dry_run=true''];
            _ \<leftarrow> release_lock;
            ret None
          } else do {
            c \<leftarrow> check_lock;
            (case c of Some e \<Rightarrow> do { _ \<leftarrow> release_lock; ret (Some e) }
             | None \<Rightarrow> do {
                 d \<leftarrow> deleteServiceAccount g (sa_name sa);
                 _ \<leftarrow> release_lock;
                 (case d of Inl e \<Rightarrow> ret (Some e)
                  | Inr _ \<Rightarrow> do {
                      _ \<leftarrow> print [email, '' account='', sa_name sa, '' action=deleted_service_account dry_run=false''];
                      ret None
                    })
               })
          })
   }"

fun offboard_all :: "grafana \<Rightarrow> bool \<Rightarrow> string list \<Rightarrow> (error option) io" where
  "offboard_all g apply_changes [] = ret None"
| "offboard_all g apply_changes (email # emails) = do {
     a \<leftarrow> acquire_lock email;
     (case a of Some e \<Rightarrow> ret (Some e)
      | None \<Rightarrow> do {
          r \<leftarrow> offboardOne g apply_changes email;
          (case r of Some e \<Rightarrow> ret (Some e) | None \<Rightarrow> offboard_all g apply_changes emails)
        })
   }"

definition offboard :: "host \<Rightarrow> config \<Rightarrow> string list \<Rightarrow> bool \<Rightarrow> (error option) io" where
  "offboard h cfg emails apply_changes =
     (case normalizeTargets (h_lower h) emails of Inl e \<Rightarrow> ret (Some e)
      | Inr targets \<Rightarrow>
          (case cleanupClient h cfg of Inl e \<Rightarrow> ret (Some e)
           | Inr (g, locker) \<Rightarrow> offboard_all g apply_changes targets))"

section \<open>Targets\<close>

lemma collect_targets_Inr:
  "collect_targets uni raws out = Inr ts \<Longrightarrow> distinct out \<Longrightarrow>
   distinct ts \<and> set ts = set out \<union> set (map (\<lambda>r. toLower uni (trimSpace r)) raws) \<and>
   (\<forall>r \<in> set raws. CHR ''@'' \<in> set (toLower uni (trimSpace r)))"
  by (induction raws arbitrary: out) (auto simp: Let_def split: if_splits)

section \<open>The pass over the tokens\<close>

lemma classify_spec:
  "classify opts now ts (a, e, cs, k) =
     (a + length (filter (\<lambda>t. \<not> is_expired now t) ts), e + length (filter (is_expired now) ts),
      cs @ filter (is_candidate opts now) ts,
      k \<or> (\<exists>t \<in> set ts. tk_title t = co_keepToken opts \<and> \<not> is_expired now t))"
  by (induction ts arbitrary: a e cs k) auto

text \<open>The token to keep is no candidate while it is live, nor without its title is any live token spared.\<close>

lemma candidate_live:
  "\<not> is_expired now t \<Longrightarrow> is_candidate opts now t \<longleftrightarrow> co_keepToken opts \<noteq> [] \<and> tk_title t \<noteq> co_keepToken opts"
  by (simp add: is_candidate_def)

section \<open>Both commands follow the guarded protocol\<close>

lemma sim_print:
  "s \<in> {Free, Guarded p} \<Longrightarrow> sim (guarded keys) s (f ()) Q \<Longrightarrow> sim (guarded keys) s (print parts \<bind> f) Q"
  unfolding print_def by (rule sim_bind [where P = "\<lambda>_ s'. s' = s"]) (auto intro: sim_event)

lemma sim_print_held: "sim (guarded keys) (Guarded p) (f ()) Q \<Longrightarrow> sim (guarded keys) (Guarded p) (print parts \<bind> f) Q"
  by (rule sim_print) auto

lemma sim_print_free: "sim (guarded keys) Free (f ()) Q \<Longrightarrow> sim (guarded keys) Free (print parts \<bind> f) Q"
  by (rule sim_print) auto

lemma sim_delete_candidates:
  "sim (guarded keys) (Guarded p) (delete_candidates g a email sa ts) (\<lambda>_ s'. \<exists>q. s' = Guarded q)"
proof (induction ts arbitrary: p)
  case (Cons t ts)
  show ?case
    unfolding delete_candidates.simps
    by (intro sim_intros sim_print_held guarded_check guarded_delete Cons.IH) auto
qed (auto intro: sim_return)

lemma sim_reconcileOne:
  "sim (guarded keys) (Guarded False) (reconcileOne g email opts) (\<lambda>_ s'. \<exists>q. s' = Guarded q)"
  unfolding reconcileOne_def Let_def case_prod_unfold
  by (intro guarded_reads sim_intros sim_print_held sim_delete_candidates bind_quiet) auto

lemma sim_reconcile_all:
  "(\<forall>e \<in> set emails. keys e) \<Longrightarrow>
   sim (guarded keys) Free (reconcile_all g opts emails) (\<lambda>_ s'. s' \<in> {Free, Closed})"
proof (induction emails)
  case (Cons e emails)
  then show ?case
    by (auto intro!: guarded_acquire sim_bind [OF sim_reconcileOne] guarded_release sim_intros)
qed (auto intro: sim_return)

lemma sim_offboardOne:
  "sim (guarded keys) (Guarded False) (offboardOne g a email) (\<lambda>_ s'. s' = Free)"
  unfolding offboardOne_def
  by (intro guarded_reads sim_intros sim_print_held guarded_release guarded_check guarded_delete_account sim_print_free) auto

lemma sim_offboard_all:
  "(\<forall>e \<in> set emails. keys e) \<Longrightarrow>
   sim (guarded keys) Free (offboard_all g a emails) (\<lambda>_ s'. s' \<in> {Free, Closed})"
proof (induction emails)
  case (Cons e emails)
  then show ?case
    by (auto intro!: guarded_acquire sim_bind [OF sim_offboardOne] sim_intros)
qed (auto intro: sim_return)

section \<open>Dry runs\<close>

text \<open>Without \<open>--apply\<close> nothing is ever changed: the only requests are GETs.\<close>

definition dry_event :: "event \<Rightarrow> bool" where
  "dry_event e \<longleftrightarrow> is_get e \<or> (\<exists>l. e = Printed l) \<or> (\<exists>k. e = LockAcquired k) \<or> (\<exists>k x. e = LockFailed k x) \<or> e = LockReleased"

lemma frame_print: "frame dry_event (print parts)"
  by (simp add: print_def frame_def wp_simps dry_event_def)

lemma frame_lock_events: "frame dry_event (acquire_lock k)" "frame dry_event release_lock"
  by (simp_all add: frame_def wp_simps dry_event_def split: option.splits)

lemma frame_dry_reads: "frame dry_event (findServiceAccount g t)" "frame dry_event (tokens g sa)"
  by (rule frame_mono [OF gc.find_reads] frame_mono [OF gc.list_reads]; simp add: dry_event_def)+

lemmas dry_intros = frame_intros frame_print frame_lock_events frame_dry_reads

lemma frame_dry_candidates: "frame dry_event (delete_candidates g False email sa ts)"
  by (induction ts) (auto intro!: dry_intros)

lemma frame_dry_reconcileOne: "\<not> co_apply opts \<Longrightarrow> frame dry_event (reconcileOne g email opts)"
  unfolding reconcileOne_def Let_def case_prod_unfold
  by (auto intro!: dry_intros frame_dry_candidates)

lemma frame_dry_reconcile: "\<not> co_apply opts \<Longrightarrow> frame dry_event (reconcile_all g opts emails)"
  by (induction emails) (auto intro!: dry_intros frame_dry_reconcileOne)

lemma frame_dry_offboard: "frame dry_event (offboard_all g False emails)"
  unfolding offboardOne_def by (induction emails) (auto intro!: dry_intros simp: offboardOne_def)

section \<open>Properties\<close>

lemma wp_sim:
  assumes "sim st s m Q"
  shows "wp m (\<lambda>r w'. \<exists>evs s'. w_trace w' = w_trace w @ evs \<and> accepts st s evs = Some s' \<and> Q r s') w"
proof -
  have "wp m (\<lambda>r w'. w_env w' = w_env w \<and> (\<exists>evs. w_trace w' = w_trace w @ evs \<and>
      (\<exists>s'. accepts st s evs = Some s' \<and> Q r s'))) w"
    using assms by (simp add: sim_def yields_def)
  then show ?thesis by (rule wp_mono) blast
qed

lemma targets_locked:
  "normalizeTargets uni emails = Inr targets \<Longrightarrow> \<forall>e \<in> set targets. e \<in> toLower uni ` trimSpace ` set emails"
  using collect_targets_Inr [of uni emails "[]" targets] by (auto simp: normalizeTargets_def split: if_splits)

lemma sim_idle: "sim (guarded keys) Free (ret x) (\<lambda>_ s'. s' \<in> {Free, Closed})"
  by (rule sim_return) simp

lemmas command_intros =
  sim_idle [simplified insert_iff empty_iff HOL.simp_thms]
  sim_reconcile_all [simplified insert_iff empty_iff HOL.simp_thms]
  sim_offboard_all [simplified insert_iff empty_iff HOL.simp_thms]



lemma dry_runs_frame:
  assumes "\<not> co_apply opts"
  shows "frame dry_event (reconcile h cfg emails opts)" "frame dry_event (offboard h cfg emails False)"
proof -
  show "frame dry_event (reconcile h cfg emails opts)"
    unfolding reconcile_def
    by (auto intro!: frame_return frame_dry_reconcile assms split: sum.splits)
  show "frame dry_event (offboard h cfg emails False)"
    unfolding offboard_def by (auto intro!: frame_return frame_dry_offboard split: sum.splits)
qed

text \<open>Without \<open>--apply\<close> neither command changes anything: whatever Grafana answers, the only requests are
  GETs.\<close>

theorem dry_runs_change_nothing:
  assumes "\<not> co_apply opts"
  shows "frame dry_event (reconcile h cfg emails opts) \<and> frame dry_event (offboard h cfg emails (co_apply opts))"
  using assms dry_runs_frame [OF assms] by simp

theorem dry_runs_change_nothing_witness:
  "frame dry_event (reconcile example_host example_config [''ann@corp.io''] \<lparr>co_apply = False, co_deleteExpired = True, co_keepToken = []\<rparr>) \<and>
   frame dry_event (offboard example_host example_config [''ann@corp.io''] False)"
  using dry_runs_change_nothing [of "\<lparr>co_apply = False, co_deleteExpired = True, co_keepToken = []\<rparr>"] by simp


text \<open>A live token that bears the name to keep is never selected for deletion, and without a name to keep no
  live token is: what \<open>reconcile\<close> deletes is expired, or live under another name than the one kept.\<close>

theorem kept_token_is_no_candidate:
  "filter (\<lambda>t. is_candidate opts now t \<and> \<not> is_expired now t) ts =
     (if co_keepToken opts = [] then [] else filter (\<lambda>t. tk_title t \<noteq> co_keepToken opts \<and> \<not> is_expired now t) ts)"
  by (induction ts) (auto simp: is_candidate_def)

text \<open>The targets of a command are the given emails in lower case and without surrounding space, each once,
  and a command with an unusable target does nothing at all.\<close>

theorem targets_are_normalised:
  assumes "normalizeTargets uni emails = Inr targets"
  shows "distinct targets \<and> set targets = toLower uni ` trimSpace ` set emails \<and> targets \<noteq> [] \<and>
     list_all (\<lambda>e. CHR ''@'' \<in> set e) targets"
proof -
  have ne: "emails \<noteq> []" and c: "collect_targets uni emails [] = Inr targets"
    using assms by (auto simp: normalizeTargets_def split: if_splits)
  show ?thesis
    using collect_targets_Inr [OF c] ne by (auto simp: list_all_iff image_image)
qed

theorem targets_are_normalised_witness:
  "distinct [''ann@corp.io''] \<and>
   set [''ann@corp.io''] = toLower (\<lambda>s. s) ` trimSpace ` set [''  Ann@corp.io '', ''ann@CORP.io''] \<and>
   [''ann@corp.io''] \<noteq> [] \<and> list_all (\<lambda>e. CHR ''@'' \<in> set e) [''ann@corp.io'']"
proof (rule targets_are_normalised)
  show "normalizeTargets (\<lambda>s. s) [''  Ann@corp.io '', ''ann@CORP.io''] = Inr [''ann@corp.io'']" by code_simp
qed

end
