(* ===== verification/RotationFacts.thy ===== *)
theory RotationFacts
  imports RotationProtocol
begin

text \<open>What the operations of \<open>server.go\<close> compute, besides the requests they make.\<close>

section \<open>The live token\<close>

lemma newest_live_fold:
  "newest_live now ts init = Some t \<Longrightarrow>
   (init = Some t \<or> t \<in> set ts \<and> is_live now t) \<and>
   (\<forall>u \<in> set ts. is_live now u \<longrightarrow> tk_created u \<le> tk_created t) \<and>
   (\<forall>n. init = Some n \<longrightarrow> tk_created n \<le> tk_created t)"
proof (induction now ts init arbitrary: t rule: newest_live.induct)
  case (2 now u ts init)
  show ?case
  proof (cases "is_live now u \<and> (case init of None \<Rightarrow> True | Some n \<Rightarrow> tk_created u > tk_created n)")
    case True
    with 2 show ?thesis by (fastforce split: option.splits)
  next
    case False
    with 2 show ?thesis by (fastforce split: option.splits if_splits)
  qed
qed simp

lemma newest_live_None: "newest_live now ts init = None \<longleftrightarrow> init = None \<and> (\<forall>u \<in> set ts. \<not> is_live now u)"
  by (induction now ts init rule: newest_live.induct) (auto split: option.splits)

section \<open>Counting deletions\<close>

lemma errors_join_Some: "errors_join (map Some es) = None \<longleftrightarrow> es = []"
  by (cases es) (auto simp: errors_join_def List.map_filter_def)

definition revoke_counts :: "nat \<Rightarrow> nat \<Rightarrow> error list \<Rightarrow> nat \<Rightarrow> error option \<times> nat \<times> nat \<Rightarrow> bool" where
  "revoke_counts a d errs n r \<longleftrightarrow>
     (case r of (err, a', d') \<Rightarrow>
        a \<le> a' \<and> a' \<le> a + n \<and> d \<le> d' \<and> d' - d \<le> a' - a \<and>
        (err = None \<longleftrightarrow> errs = [] \<and> a' = a + n \<and> d' = d + n))"

lemma returns_revoke_loop: "returns (revoke_counts a d errs (length ts)) (revoke_loop g sa ts a d errs)"
proof (induction ts arbitrary: a d errs)
  case Nil
  then show ?case by (auto intro!: returns_return simp: revoke_counts_def errors_join_Some [of "[]", simplified] errors_join_Some)
next
  case (Cons t ts)
  have step: "returns (revoke_counts a d errs (length (t # ts))) (revoke_loop g sa ts (Suc a) d (errs @ [e]))" for e
    by (rule returns_mono [OF Cons.IH]) (auto simp: revoke_counts_def)
  have step2: "returns (revoke_counts a d errs (length (t # ts))) (revoke_loop g sa ts (Suc a) (Suc d) errs)"
    by (rule returns_mono [OF Cons.IH]) (auto simp: revoke_counts_def)
  have halt: "revoke_counts a d errs (length (t # ts)) (errors_join (map Some (errs @ [e])), a, d)" for e
    unfolding revoke_counts_def by (auto simp: errors_join_Some simp del: map_append)
  show ?case
    unfolding revoke_loop.simps
    by (intro returns_bind returns_intros step step2 halt)
qed

section \<open>The delivery cookie\<close>

lemma returns_prepare:
  "returns (\<lambda>r. case r of Inl _ \<Rightarrow> True | Inr p \<Rightarrow> length (pr_nonce p) = gcm_nonce_size) (prepare c)"
  unfolding prepare_def
  by (rule returns_bind_with [OF returns_random]) (auto intro!: returns_intros returns_bind split: sum.splits)

definition prepared_ok :: "deliveryPreparation \<Rightarrow> bool" where
  "prepared_ok p \<longleftrightarrow> length (pr_nonce (dp_success p)) = gcm_nonce_size \<and> length (pr_nonce (dp_partial p)) = gcm_nonce_size"

lemma returns_prepareDelivery:
  "returns (\<lambda>r. case r of Inl _ \<Rightarrow> True | Inr p \<Rightarrow> prepared_ok p) (prepareDelivery c)"
  unfolding prepareDelivery_def
proof (rule returns_bind_with [OF returns_prepare])
  fix x :: "error + flashPreparation"
  assume x: "case x of Inl _ \<Rightarrow> True | Inr p \<Rightarrow> length (pr_nonce p) = gcm_nonce_size"
  show "returns (\<lambda>r. case r of Inl _ \<Rightarrow> True | Inr p \<Rightarrow> prepared_ok p)
      (case x of Inl e \<Rightarrow> ret (Inl e)
       | Inr success \<Rightarrow> prepare c \<bind> (\<lambda>q. ret (case q of Inl e \<Rightarrow> Inl e
            | Inr partial \<Rightarrow> Inr \<lparr>dp_success = success, dp_partial = partial\<rparr>)))"
    using x by (auto intro!: returns_intros returns_bind_with [OF returns_prepare] simp: prepared_ok_def split: sum.splits)
qed

text \<open>
  A successful issue delivers a cookie that is within the limit and was sealed for this
  identity with this token and this outcome.
\<close>

definition delivers :: "server \<Rightarrow> string \<Rightarrow> issueResult \<times> error option \<Rightarrow> bool" where
  "delivers s email r \<longleftrightarrow>
     (case r of (issued, Some e) \<Rightarrow> ir_flashCookie issued = []
      | (issued, None) \<Rightarrow>
          length (ir_flashCookie issued) \<le> maxFlashCookieValue \<and>
          (\<exists>pr created expires. length (pr_nonce pr) = gcm_nonce_size \<and>
             ir_flashCookie issued =
               sealPrepared (s_flash s) pr email (ir_token issued) (ir_partialCleanup issued) created expires))"

lemma delivers_error [simp]: "delivers s email (issued, Some e) \<longleftrightarrow> ir_flashCookie issued = []"
  by (simp add: delivers_def)

lemma returns_deliver:
  assumes "prepared_ok prepared" "\<not> ir_partialCleanup issued" "ir_flashCookie issued = []"
  shows "returns (delivers s email) (deliver s email prepared account old issued t)"
  using assms unfolding deliver_def Let_def
  by (intro returns_intros returns_bind) (auto simp: delivers_def prepared_ok_def)

lemma returns_rotate:
  assumes "prepared_ok prepared"
  shows "returns (delivers s email) (rotate s email prepared sa)"
  unfolding rotate_def Let_def
  by (intro returns_intros returns_bind returns_deliver assms) (simp_all add: no_issue_def)

lemma returns_issue:
  assumes "prepared_ok prepared"
  shows "returns (delivers s email) (issue s email prepared)"
proof -
  have "returns (\<lambda>(a, r). delivers s email r) (locked_issue s email prepared)"
    unfolding locked_issue_def
    by (intro returns_intros returns_bind returns_bind_with [OF returns_rotate [OF assms]])
      (auto simp: no_issue_def intro: returns_intros)
  then have *: "returns (delivers s email) (locked_issue s email prepared \<bind> (\<lambda>(action, issued, err). do {
          _ \<leftarrow> release_lock; _ \<leftarrow> recordAction s action (issue_outcome issued err); ret (issued, err) }))"
    by (rule returns_bind_with) (auto intro!: returns_bind returns_intros)
  show ?thesis
    unfolding issue_def
    by (intro returns_bind returns_intros *) (simp add: no_issue_def)
qed

lemma returns_prepareAndIssue: "returns (delivers s email) (prepareAndIssue s email)"
  unfolding prepareAndIssue_def
  by (rule returns_bind_with [OF returns_prepareDelivery])
    (auto intro!: returns_intros returns_bind returns_issue simp: no_issue_def split: sum.splits)

section \<open>Emails\<close>

lemma takeWhile_until: "c \<notin> set u \<Longrightarrow> takeWhile (\<lambda>x. x \<noteq> c) (u @ c # v) = u"
  by (induction u) auto

lemma validEmail_parts:
  assumes "validEmail email"
  shows "\<exists>user domain. email = user @ ''@'' @ domain \<and> user \<noteq> [] \<and> domain \<noteq> [] \<and>
           CHR ''@'' \<notin> set user \<and> CHR ''@'' \<notin> set domain \<and> NUL \<notin> set email \<and> length email \<le> 254"
proof -
  have one: "count_list email CHR ''@'' = 1" and len: "length email \<le> 254"
    using assms by (auto simp: validEmail_def split: if_splits)
  then have "CHR ''@'' \<in> set email" by (metis count_notin zero_neq_one)
  then obtain user domain where e: "email = user @ CHR ''@'' # domain" "CHR ''@'' \<notin> set user"
    by (meson split_list_first)
  have "count_list domain CHR ''@'' = 0" using one e by simp
  then have "CHR ''@'' \<notin> set domain" by (metis count_list_0_iff)
  moreover have "cut CHR ''@'' email = (user, domain, True)"
    using takeWhile_until [OF e(2), of domain] e(1) by (simp add: cut_def Let_def)
  ultimately show ?thesis using assms e len
    by (auto simp: validEmail_def containsAny_def list_ex_iff split: if_splits)
qed

section \<open>Deleting the old tokens\<close>

text \<open>The path under which a token is deleted, when its identifiers can be used at all.\<close>

definition token_path :: "grafana \<Rightarrow> string \<Rightarrow> string \<Rightarrow> string option" where
  "token_path g account i =
     (if g_mode g = grafanaAPIModeIAM then Some (tokensPath g account @ ''/'' @ pathEscape i)
      else (case (legacyNumericID ''service account'' account, legacyNumericID ''service account token'' i) of
              (Inr a, Inr b) \<Rightarrow> Some (legacyTokensPath a @ ''/'' @ b) | _ \<Rightarrow> None))"

definition deletes :: "grafana \<Rightarrow> string \<Rightarrow> saToken \<Rightarrow> event \<Rightarrow> bool" where
  "deletes g account t e \<longleftrightarrow>
     (\<exists>rq rp. e = Http rq rp \<and> rq_method rq = DELETE \<and> token_path g account (tk_id t) = Some (rq_path rq) \<and> reply_ok rp)"

lemma deleteToken_path:
  "yields (\<lambda>r evs. \<not> isl r \<longrightarrow> (\<exists>e. evs = [e] \<and> deletes g account t e)) (deleteToken g account (tk_id t))"
  unfolding deleteToken_def iamDeleteToken_def legacyDeleteToken_def
  by (auto intro!: yields_map yields_do yields_return simp: deletes_def token_path_def isl_map_sum
      dest: do_result_isl split: sum.splits)

lemma yields_check: "yields (\<lambda>r evs. evs = [Checked r]) check_lock"
  by (simp add: yields_def wp_simps)

definition all_deleted :: "grafana \<Rightarrow> string \<Rightarrow> saToken list \<Rightarrow> bool \<Rightarrow> event list \<Rightarrow> bool" where
  "all_deleted g account ts complete evs \<longleftrightarrow>
     complete \<longrightarrow> list_all2 (deletes g account) ts (filter is_delete evs)"

lemma deletes_is_delete: "deletes g account t e \<Longrightarrow> is_delete e"
  by (auto simp: deletes_def)

lemma is_delete_Checked [simp]: "\<not> is_delete (Checked r)"
  by (simp add: is_delete_def)

lemma yields_delete_old: "yields (all_deleted g account ts) (delete_old g account ts)"
proof (induction ts)
  case Nil
  then show ?case by (simp add: yields_return all_deleted_def)
next
  case (Cons t ts)
  have tail: "yields (all_deleted g account (t # ts)) (deleteToken g account (tk_id t) \<bind>
      (\<lambda>r. case r of Inl e \<Rightarrow> ret False | Inr _ \<Rightarrow> delete_old g account ts))"
    by (rule yields_bind [OF deleteToken_path, where Q = "\<lambda>r b evs. if isl r then \<not> b else all_deleted g account ts b evs"])
      (auto simp: all_deleted_def deletes_is_delete split: sum.splits if_splits intro!: yields_return
        intro: yields_mono [OF Cons.IH])
  show ?case
    unfolding delete_old.simps
    by (rule yields_bind [OF yields_check, where Q = "\<lambda>r b evs. if r = None then all_deleted g account (t # ts) b evs else \<not> b"])
      (auto simp: all_deleted_def split: option.splits if_splits intro!: yields_return intro: yields_mono [OF tail])
qed

section \<open>Properties\<close>



text \<open>C11: \<open>prepareAndIssue\<close> without an error gives a cookie within the limit of 3800 bytes that is the
  sealing, under the server's codec, of the requester's email with the issued token and the outcome;
  with an error it gives no cookie.\<close>

theorem issue_delivers_its_token: "returns (delivers s email) (prepareAndIssue s email)"
  by (rule returns_prepareAndIssue)

text \<open>C15: When the loop over the old tokens reports that it is complete, it sent one deletion for each of them,
  in their order and under their own paths, and Grafana confirmed every one; so an issue that is not
  partial leaves none of the tokens it listed.\<close>

theorem complete_rotation_deletes_every_old_token: "yields (all_deleted g account old) (delete_old g account old)"
  by (rule yields_delete_old)

text \<open>\<open>revoke\<close>'s loop counts what it does: it reports success exactly when every listed token was
  attempted and every deletion was confirmed, and it never counts more deletions than attempts.\<close>

theorem revoke_loop_counts:
  "returns (\<lambda>(err, attempted, deleted). deleted \<le> attempted \<and> attempted \<le> length ts \<and>
     (err = None \<longleftrightarrow> attempted = length ts \<and> deleted = length ts)) (revoke_loop g account ts 0 0 [])"
  by (rule returns_mono [OF returns_revoke_loop]) (auto simp: revoke_counts_def)

text \<open>C38: The token \<open>liveToken\<close> shows is a listed live one, and no live one was created later; it shows
  none exactly when no listed token is live.\<close>

theorem live_token_is_newest:
  "case newest_live now ts None of
     None \<Rightarrow> filter (is_live now) ts = []
   | Some t \<Rightarrow> t \<in> set (filter (is_live now) ts) \<and>
       list_all (\<lambda>u. tk_created u \<le> tk_created t) (filter (is_live now) ts)"
proof (cases "newest_live now ts None")
  case None
  then show ?thesis using newest_live_None [of now ts None] by (simp add: filter_empty_conv)
next
  case (Some t)
  then show ?thesis using newest_live_fold [OF Some] by (auto simp: list_all_iff)
qed

text \<open>An email \<open>validEmail\<close> accepts has exactly one at sign between two nonempty parts, no NUL and
  at most 254 bytes, so it can be part of a MAC message and of an account title.\<close>

theorem valid_email_parts:
  assumes "validEmail email"
  shows "\<exists>user domain. email = user @ ''@'' @ domain \<and> user \<noteq> [] \<and> domain \<noteq> [] \<and>
     CHR ''@'' \<notin> set user \<and> CHR ''@'' \<notin> set domain \<and> NUL \<notin> set email \<and> length email \<le> 254"
  using validEmail_parts [OF assms] .

theorem valid_email_parts_witness:
  "\<exists>user domain. ''ann@corp.io'' = user @ ''@'' @ domain \<and> user \<noteq> [] \<and> domain \<noteq> [] \<and>
     CHR ''@'' \<notin> set user \<and> CHR ''@'' \<notin> set domain \<and> NUL \<notin> set ''ann@corp.io'' \<and> length ''ann@corp.io'' \<le> 254"
proof (rule valid_email_parts)
  show "validEmail ''ann@corp.io''" by code_simp
qed

end
