(* ===== verification/Assets.thy ===== *)
theory Assets
  imports GoCrypto GoConv
begin

text \<open>
  \<open>internal/server/assets.go\<close>: the stylesheet and the script, served under names that carry a
  hash of their content. The two embedded files are parameters.
\<close>

section \<open>Paths\<close>

text \<open>\<open>path.Ext\<close>: from the last dot of the last element on.\<close>

definition path_ext :: "string \<Rightarrow> string" where
  "path_ext s =
     (let r = rev s; t = takeWhile (\<lambda>c. c \<noteq> CHR ''.'' \<and> c \<noteq> CHR ''/'') r
      in case drop (length t) r of c # _ \<Rightarrow> if c = CHR ''.'' then CHR ''.'' # rev t else [] | [] \<Rightarrow> [])"

text \<open>\<open>path.Base\<close>: the last element, without trailing slashes.\<close>

definition path_base :: "string \<Rightarrow> string" where
  "path_base s =
     (if s = [] then ''.''
      else let t = trimRight ''/'' s; e = rev (takeWhile (\<lambda>c. c \<noteq> CHR ''/'') (rev t))
           in if e = [] then ''/'' else e)"

definition trimSuffix :: "string \<Rightarrow> string \<Rightarrow> string" where
  "trimSuffix s p = (if hasSuffix s p then take (length s - length p) s else s)"

section \<open>The assets\<close>

record asset =
  as_name :: string
  as_contentType :: string
  as_body :: bytes

definition load_asset :: "string \<Rightarrow> string \<Rightarrow> bytes \<Rightarrow> asset" where
  "load_asset src kind body =
     (let base = trimSuffix (path_base src) (path_ext src);
          name = base @ ''.'' @ take 12 (hexEncode (sha256 body)) @ path_ext src
      in \<lparr>as_name = name, as_contentType = kind, as_body = body\<rparr>)"

text \<open>The map by name, as the list of its entries in the order the range visits them.\<close>

definition loadAssets :: "bytes \<Rightarrow> bytes \<Rightarrow> asset list" where
  "loadAssets css js =
     [load_asset ''assets/app.css'' ''text/css; charset=utf-8'' css,
      load_asset ''assets/app.js'' ''text/javascript; charset=utf-8'' js]"

definition assetName :: "asset list \<Rightarrow> string \<Rightarrow> string" where
  "assetName assets source =
     (let prefix = trimSuffix source (path_ext source) @ ''.''
      in case find (\<lambda>a. hasPrefix (as_name a) prefix \<and> path_ext (as_name a) = path_ext source) assets of
           Some a \<Rightarrow> as_name a | None \<Rightarrow> source)"

definition find_asset :: "asset list \<Rightarrow> string \<Rightarrow> asset option" where
  "find_asset assets name = find (\<lambda>a. as_name a = name) assets"

section \<open>Every name the page asks for is served\<close>

lemma hexEncode_plain: "c \<in> set (hexEncode bs) \<Longrightarrow> c \<noteq> CHR ''.'' \<and> c \<noteq> CHR ''/''"
  using hexEncode_chars [of bs] by auto

lemma path_ext_append:
  assumes "\<forall>c \<in> set e. c \<noteq> CHR ''.'' \<and> c \<noteq> CHR ''/''"
  shows "path_ext (b @ CHR ''.'' # e) = CHR ''.'' # e"
proof -
  have "takeWhile (\<lambda>c. c \<noteq> CHR ''.'' \<and> c \<noteq> CHR ''/'') (rev e @ CHR ''.'' # rev b) = rev e"
    using assms by (subst takeWhile_append2) auto
  then show ?thesis by (simp add: path_ext_def)
qed

lemma path_ext_append':
  "\<forall>c \<in> set e. c \<noteq> CHR ''.'' \<and> c \<noteq> CHR ''/'' \<Longrightarrow> path_ext (CHR ''.'' # e) = CHR ''.'' # e"
  using path_ext_append [of e "[]"] by simp

lemma asset_names:
  "map as_name (loadAssets css js) =
     [''app.'' @ take 12 (hexEncode (sha256 css)) @ ''.css'', ''app.'' @ take 12 (hexEncode (sha256 js)) @ ''.js'']"
proof -
  have "path_ext ''assets/app.css'' = ''.css''" "path_ext ''assets/app.js'' = ''.js''"
      "path_base ''assets/app.css'' = ''app.css''" "path_base ''assets/app.js'' = ''app.js''"
    by code_simp+
  then show ?thesis by (simp add: loadAssets_def load_asset_def trimSuffix_def hasSuffix_def)
qed

lemma asset_exts:
  "path_ext (''app.'' @ h @ ''.css'') = ''.css''" "path_ext (''app.'' @ h @ ''.js'') = ''.js''"
  using path_ext_append [of "''css''" "''app.'' @ h"] path_ext_append [of "''js''" "''app.'' @ h"] by simp_all

lemma source_exts: "path_ext ''app.css'' = ''.css''" "path_ext ''app.js'' = ''.js''"
  by code_simp+

text \<open>The two names differ whatever the files hold, so each finds its own content.\<close>

lemma asset_names_differ: "''app.'' @ g @ ''.css'' \<noteq> ''app.'' @ h @ ''.js''"
proof
  assume "''app.'' @ g @ ''.css'' = ''app.'' @ h @ ''.js''"
  then have "path_ext (''app.'' @ g @ ''.css'') = path_ext (''app.'' @ h @ ''.js'')" by (rule arg_cong)
  then show False unfolding asset_exts by simp
qed

lemma assetName_source:
  "assetName (loadAssets css js) ''app.css'' = ''app.'' @ take 12 (hexEncode (sha256 css)) @ ''.css''"
  "assetName (loadAssets css js) ''app.js'' = ''app.'' @ take 12 (hexEncode (sha256 js)) @ ''.js''"
proof -
  obtain a b where ab: "loadAssets css js = [a, b]" by (simp add: loadAssets_def)
  then have names: "as_name a = ''app.'' @ take 12 (hexEncode (sha256 css)) @ ''.css''"
      "as_name b = ''app.'' @ take 12 (hexEncode (sha256 js)) @ ''.js''"
    using asset_names [of css js] by simp_all
  show "assetName (loadAssets css js) ''app.css'' = ''app.'' @ take 12 (hexEncode (sha256 css)) @ ''.css''"
    "assetName (loadAssets css js) ''app.js'' = ''app.'' @ take 12 (hexEncode (sha256 js)) @ ''.js''"
    using asset_exts [of "take 12 (hexEncode (sha256 css))"] asset_exts [of "take 12 (hexEncode (sha256 js))"]
    by (simp_all add: assetName_def ab names trimSuffix_def hasSuffix_def hasPrefix_def Let_def source_exts)
qed

lemma find_asset_source:
  "map_option as_body (find_asset (loadAssets css js) (assetName (loadAssets css js) ''app.css'')) = Some css"
  "map_option as_body (find_asset (loadAssets css js) (assetName (loadAssets css js) ''app.js'')) = Some js"
proof -
  obtain a b where ab: "loadAssets css js = [a, b]" "as_body a = css" "as_body b = js"
    by (simp add: loadAssets_def load_asset_def Let_def)
  then have names: "as_name a = ''app.'' @ take 12 (hexEncode (sha256 css)) @ ''.css''"
      "as_name b = ''app.'' @ take 12 (hexEncode (sha256 js)) @ ''.js''"
    using asset_names [of css js] by simp_all
  then have "as_name a \<noteq> as_name b" using asset_names_differ by metis
  then show "map_option as_body (find_asset (loadAssets css js) (assetName (loadAssets css js) ''app.css'')) = Some css"
    "map_option as_body (find_asset (loadAssets css js) (assetName (loadAssets css js) ''app.js'')) = Some js"
    unfolding assetName_source names [symmetric] by (simp_all add: ab find_asset_def)
qed

section \<open>Properties\<close>

text \<open>The names the page asks for are served, each with the content it was derived from, whatever the two
  files hold.\<close>

theorem assets_are_served:
  "map_option as_body (find_asset (loadAssets css js) (assetName (loadAssets css js) ''app.css'')) = Some css \<and>
   map_option as_body (find_asset (loadAssets css js) (assetName (loadAssets css js) ''app.js'')) = Some js"
  by (simp add: find_asset_source)

end
