(* ===== verification/Http.thy ===== *)
theory Http
  imports Reconcile RotationFacts Formats Assets
begin

text \<open>
  The HTTP side of \<open>server.go\<close>: identities, the verification of requests that change something,
  the handlers, the readiness cache, and the middleware around them.
\<close>

section \<open>Requests and responses\<close>

text \<open>
  A parsed request: its path, decoded and as \<open>EscapedPath\<close> gives it, its raw query, the value of a header (empty when absent), of a cookie, of a query parameter,
  the form (absent when it cannot be parsed), and the request identifier of its context.
\<close>

record httpRequest =
  hr_method :: string
  hr_path :: string
  hr_escapedPath :: string
  hr_rawQuery :: string
  hr_header :: "string \<Rightarrow> string"
  hr_cookie :: "string \<Rightarrow> string option"
  hr_query :: "string \<Rightarrow> string"
  hr_form :: "(string \<Rightarrow> string) option"
  hr_id :: string

record cookie =
  ck_name :: string
  ck_value :: string
  ck_path :: string
  ck_secure :: bool
  ck_httpOnly :: bool
  ck_lax :: bool
  ck_maxAge :: int
  ck_expires :: time

record pageData =
  pd_Email :: string
  pd_BasePath :: string
  pd_Formats :: "mcpFormat list"
  pd_State :: string
  pd_Token :: string
  pd_Mask :: string
  pd_Spent :: bool
  pd_Created :: string
  pd_Expires :: string
  pd_ExpiresIn :: string
  pd_LastUsed :: string
  pd_TTLDays :: int
  pd_PublicURL :: string
  pd_CSRFToken :: string
  pd_CSPNonce :: string
  pd_StyleURL :: string
  pd_ScriptURL :: string
  pd_PartialCleanup :: bool
  pd_EnableEnvSetup :: bool
  pd_NativeAuth :: bool

text \<open>
  A body is a text, the page made from its data, the exposition of the metrics, or a redirect: to a path of this program, or to
  the provider with the state, the nonce and the challenge of a login.
\<close>

datatype body =
    Text string
  | Page pageData
  | RedirectTo string
  | MetricsPage metrics
  | RedirectToProvider string string string

record response =
  rsp_status :: int
  rsp_headers :: "(string \<times> string) list"
  rsp_cookies :: "cookie list"
  rsp_body :: body

definition respond :: "cookie list \<Rightarrow> int \<Rightarrow> body \<Rightarrow> response" where
  "respond cookies status b = \<lparr>rsp_status = status, rsp_headers = [], rsp_cookies = cookies, rsp_body = b\<rparr>"

definition http_error :: "cookie list \<Rightarrow> string \<Rightarrow> int \<Rightarrow> response" where
  "http_error cookies msg status =
     (respond cookies status (Text (msg @ [LF])))\<lparr>rsp_headers :=
        [(''Content-Type'', ''text/plain; charset=utf-8''), (''X-Content-Type-Options'', ''nosniff'')]\<rparr>"

definition redirect :: "cookie list \<Rightarrow> string \<Rightarrow> int \<Rightarrow> response" where
  "redirect cookies target status = respond cookies status (RedirectTo target)"

section \<open>Identities\<close>

definition verifyIDToken :: "server \<Rightarrow> string \<Rightarrow> string \<Rightarrow> (error + idToken \<times> claims) io" where
  "verifyIDToken s raw expectedNonce =
     (if \<not> s_verifier s then do {
        _ \<leftarrow> recordAuth s ''oidc_failure'';
        ret (Inl (auth_error False ''OIDC verifier is unavailable''))
      } else do {
        r \<leftarrow> oidc_verify raw;
        (case r of
           Inl _ \<Rightarrow> do { _ \<leftarrow> recordAuth s ''oidc_failure''; ret (Inl (auth_error False ''ID token verification failed'')) }
         | Inr tok \<Rightarrow>
             (case id_claims tok of
                None \<Rightarrow> do { _ \<leftarrow> recordAuth s ''oidc_failure''; ret (Inl (auth_error False ''ID token claims are invalid'')) }
              | Some c \<Rightarrow>
                  if expectedNonce \<noteq> [] \<and> cl_nonce c \<noteq> expectedNonce then do {
                    _ \<leftarrow> recordAuth s ''oidc_failure'';
                    ret (Inl (auth_error False ''ID token nonce mismatch''))
                  } else ret (Inr (tok, c))))
      })"

definition identityFromIDToken :: "server \<Rightarrow> string \<Rightarrow> string \<Rightarrow> (error + string) io" where
  "identityFromIDToken s raw expectedNonce = do {
     r \<leftarrow> verifyIDToken s raw expectedNonce;
     (case r of Inl e \<Rightarrow> ret (Inl e) | Inr (tok, c) \<Rightarrow> authorise s (cl_email c) (cl_groups c))
   }"

definition auth_failure :: "server \<Rightarrow> string \<Rightarrow> (error + 'a) io" where
  "auth_failure s msg = do { _ \<leftarrow> recordAuth s ''oidc_failure''; ret (Inl (auth_error False msg)) }"

definition nativeIdentity :: "server \<Rightarrow> httpRequest \<Rightarrow> (error + string) io" where
  "nativeIdentity s rq =
     (case s_session s of None \<Rightarrow> auth_failure s ''native authentication is unavailable''
      | Some codec \<Rightarrow>
          (case hr_cookie rq sessionCookieName of None \<Rightarrow> auth_failure s ''no native session''
           | Some v \<Rightarrow> do {
               r \<leftarrow> openSession codec v;
               (case r of Inl _ \<Rightarrow> auth_failure s ''native session is invalid or expired''
                | Inr p \<Rightarrow> identityFromIDToken s (sp_idToken p) [])
             }))"

definition identity :: "server \<Rightarrow> httpRequest \<Rightarrow> (error + string) io" where
  "identity s rq =
     (if cfg_AuthMode (s_cfg s) = ''native'' then nativeIdentity s rq
      else if cfg_IDTokenSource (s_cfg s) = ''cookie'' then
        (case hr_cookie rq (cfg_IDTokenCookie (s_cfg s)) of None \<Rightarrow> auth_failure s ''no ID token cookie''
         | Some raw \<Rightarrow> identityFromIDToken s raw [])
      else (let raw = trimSpace (hr_header rq (cfg_IDTokenHeader (s_cfg s))) in
            if raw = [] then auth_failure s ''no ID token header'' else identityFromIDToken s raw []))"

definition isForbiddenAuthError :: "error \<Rightarrow> bool" where
  "isForbiddenAuthError e \<longleftrightarrow> as_auth_error e = Some True"

definition writeAuthError :: "error \<Rightarrow> response" where
  "writeAuthError e = (if isForbiddenAuthError e then http_error [] ''forbidden'' 403 else http_error [] ''not signed in'' 401)"

definition writeIdentityError :: "server \<Rightarrow> httpRequest \<Rightarrow> error \<Rightarrow> response" where
  "writeIdentityError s rq e =
     (if cfg_AuthMode (s_cfg s) = ''native'' \<and> hr_method rq = GET \<and> \<not> isForbiddenAuthError e
      then redirect [] (cfg_BasePath (s_cfg s) @ ''/oauth2/login'') 302
      else writeAuthError e)"

section \<open>Verifying a request that changes something\<close>

definition referer_origin :: "string \<Rightarrow> string" where
  "referer_origin ref =
     (if ref = [] then []
      else (case url_parse ref of None \<Rightarrow> []
            | Some u \<Rightarrow> if u_scheme u \<noteq> [] \<and> u_host u \<noteq> [] then u_scheme u @ ''://'' @ u_host u else []))"

text \<open>\<open>Sec-Fetch-Site\<close> decides when the browser sends it, else the origin, else the referer.\<close>

definition same_origin :: "server \<Rightarrow> (string \<Rightarrow> string) \<Rightarrow> httpRequest \<Rightarrow> bool" where
  "same_origin s uni rq \<longleftrightarrow>
     (let site = hr_header rq ''Sec-Fetch-Site'' in
      if site \<noteq> [] then site = ''same-origin''
      else (let origin = hr_header rq ''Origin'';
                origin = (if origin = [] then referer_origin (hr_header rq ''Referer'') else origin)
            in normalizeOrigin uni origin = Inr (cfg_AppOrigin (s_cfg s))))"

definition validMutationRequest :: "server \<Rightarrow> httpRequest \<Rightarrow> string \<Rightarrow> (error option) io" where
  "validMutationRequest s rq email = do {
     uni \<leftarrow> ask unicode_lower;
     (if \<not> same_origin s uni rq then
        ret (Some (Msg (if hr_header rq ''Sec-Fetch-Site'' \<noteq> [] then ''cross-origin request''
                        else ''request origin does not match APP_PUBLIC_URL'')))
      else (case hr_form rq of None \<Rightarrow> ret (Some (Msg ''invalid form''))
            | Some form \<Rightarrow> validateCSRF (s_flash s) (form ''csrf_token'') email))
   }"

section \<open>Cookies and pages\<close>

definition lax_cookie :: "string \<Rightarrow> string \<Rightarrow> string \<Rightarrow> int \<Rightarrow> time \<Rightarrow> cookie" where
  "lax_cookie name v path maxAge expires =
     \<lparr>ck_name = name, ck_value = v, ck_path = path, ck_secure = True, ck_httpOnly = True, ck_lax = True,
      ck_maxAge = maxAge, ck_expires = expires\<rparr>"

definition flash_cookie :: "server \<Rightarrow> string \<Rightarrow> time \<Rightarrow> cookie" where
  "flash_cookie s v now =
     lax_cookie flashCookieName v (cfg_BasePath (s_cfg s)) (truncDiv (cfg_FlashTTL (s_cfg s)) second)
       (now + cfg_FlashTTL (s_cfg s))"

definition clear_cookie :: "server \<Rightarrow> string \<Rightarrow> cookie" where
  "clear_cookie s name = lax_cookie name [] (cfg_BasePath (s_cfg s)) (-1) (timeUnix 1)"

definition empty_page :: pageData where
  "empty_page =
     \<lparr>pd_Email = [], pd_BasePath = [], pd_Formats = [], pd_State = [], pd_Token = [], pd_Mask = [], pd_Spent = False, pd_Created = [],
      pd_Expires = [], pd_ExpiresIn = [], pd_LastUsed = [], pd_TTLDays = 0, pd_PublicURL = [], pd_CSRFToken = [],
      pd_CSPNonce = [], pd_StyleURL = [], pd_ScriptURL = [], pd_PartialCleanup = False, pd_EnableEnvSetup = False, pd_NativeAuth = False\<rparr>"

definition page_data :: "server \<Rightarrow> string \<Rightarrow> (error + pageData) io" where
  "page_data s email = do {
     r \<leftarrow> csrf (s_flash s) email;
     ret (case r of Inl e \<Rightarrow> Inl e
          | Inr token \<Rightarrow> Inr (empty_page\<lparr>pd_Email := email, pd_TTLDays := ttlDays s, pd_CSRFToken := token\<rparr>))
   }"

definition fillFrom :: "pageData \<Rightarrow> saToken \<Rightarrow> pageData io" where
  "fillFrom d t = do {
     d \<leftarrow> (case tk_expiration t of
             None \<Rightarrow> ret (d\<lparr>pd_Created := format_day (tk_created t), pd_Expires := ''never''\<rparr>)
           | Some e \<Rightarrow> do {
               now \<leftarrow> time_now;
               let days = truncDiv (e - now) (24 * hour);
               ret (d\<lparr>pd_Created := format_day (tk_created t), pd_Expires := format_day e,
                      pd_ExpiresIn := (if days \<ge> 0 then itoa days else pd_ExpiresIn d)\<rparr>)
             });
     ret (d\<lparr>pd_LastUsed := (case tk_lastUsed t of None \<Rightarrow> ''never''
                           | Some u \<Rightarrow> if u = zeroTime then ''never'' else format_day u)\<rparr>)
   }"

definition maskWidth :: nat where "maskWidth = 12"

definition page_headers :: "string \<Rightarrow> (string \<times> string) list" where
  "page_headers nonce =
     [(''Content-Type'', ''text/html; charset=utf-8''), (''Cache-Control'', ''no-store''),
      (''Content-Security-Policy'', ''default-src 'none'; style-src 'self' 'nonce-'' @ nonce @
         [CHR 0x27] @ ''; script-src 'self'; base-uri 'none'; form-action 'self'; frame-ancestors 'none'' @ [CHR 0x27])]"

definition stateNone :: string where "stateNone = ''none''"
definition stateActive :: string where "stateActive = ''active''"
definition stateIssued :: string where "stateIssued = ''issued''"

lemmas state_defs = stateNone_def stateActive_def stateIssued_def

definition assetURL :: "server \<Rightarrow> asset list \<Rightarrow> string \<Rightarrow> string" where
  "assetURL s assets source = cfg_BasePath (s_cfg s) @ ''/assets/'' @ assetName assets source"

text \<open>The assets of the process, made once from the embedded files.\<close>

definition process_assets :: "env \<Rightarrow> asset list" where
  "process_assets e = loadAssets (app_css e) (app_js e)"

text \<open>The part of \<open>render\<close> before the nonce: the settings, the mask and the snippets.\<close>

definition dress :: "server \<Rightarrow> (string \<Rightarrow> bool) \<Rightarrow> pageData \<Rightarrow> pageData" where
  "dress s digits d =
     (let d = d\<lparr>pd_EnableEnvSetup := cfg_EnableEnvSetup (s_cfg s), pd_NativeAuth := (cfg_AuthMode (s_cfg s) = ''native''),
                pd_PublicURL := cfg_PublicURL (s_cfg s), pd_BasePath := cfg_BasePath (s_cfg s),
                pd_Mask := (if pd_State d = stateIssued then replicate maskWidth CHR ''*''
                            else if pd_State d = stateActive then ''<your token>'' else pd_Mask d)\<rparr>
      in if pd_Mask d \<noteq> [] then d\<lparr>pd_Formats := formats digits (pd_PublicURL d) (pd_Mask d)\<rparr> else d)"

definition render :: "server \<Rightarrow> cookie list \<Rightarrow> pageData \<Rightarrow> response io" where
  "render s cookies d = do {
     digits \<leftarrow> ask unicode_digit;
     assets \<leftarrow> ask process_assets;
     r \<leftarrow> random_bytes 18;
     ret (case r of Inl _ \<Rightarrow> http_error cookies ''could not prepare the page'' 500
          | Inr b \<Rightarrow> \<lparr>rsp_status = 200, rsp_headers = page_headers (rawURLEncode b), rsp_cookies = cookies,
                      rsp_body = Page ((dress s digits d)\<lparr>pd_CSPNonce := rawURLEncode b,
                        pd_StyleURL := assetURL s assets ''app.css'', pd_ScriptURL := assetURL s assets ''app.js''\<rparr>)\<rparr>)
   }"

section \<open>Handlers\<close>

text \<open>The state of the page without a delivery: an active token, or none.\<close>

definition show_live :: "server \<Rightarrow> httpRequest \<Rightarrow> string \<Rightarrow> cookie list \<Rightarrow> bool \<Rightarrow> pageData \<Rightarrow> response io" where
  "show_live s rq email cookies spent d = do {
     live \<leftarrow> liveToken s email;
     (case live of
        Inl e \<Rightarrow> do {
          _ \<leftarrow> audit s (hr_id rq) ''status_failed'' email (Some e) [];
          ret (http_error cookies ''could not reach Grafana'' 502)
        }
      | Inr (Some t) \<Rightarrow> do {
          d \<leftarrow> fillFrom (d\<lparr>pd_State := stateActive, pd_Spent := spent\<rparr>) t;
          render s cookies d
        }
      | Inr None \<Rightarrow> render s cookies (d\<lparr>pd_State := stateNone\<rparr>))
   }"

definition handlePage :: "server \<Rightarrow> httpRequest \<Rightarrow> response io" where
  "handlePage s rq = do {
     i \<leftarrow> identity s rq;
     (case i of Inl e \<Rightarrow> ret (writeIdentityError s rq e)
      | Inr email \<Rightarrow> do {
          p \<leftarrow> page_data s email;
          (case p of Inl _ \<Rightarrow> ret (http_error [] ''could not prepare the page'' 500)
           | Inr d \<Rightarrow> show_live s rq email [] False d)
        })
   }"

definition issue_details :: "issueResult \<Rightarrow> (string \<times> string) list" where
  "issue_details issued = [(''service_account_id'', ir_accountID issued), (''token_name'', ir_tokenName issued)]"

definition handleIssue :: "server \<Rightarrow> httpRequest \<Rightarrow> response io" where
  "handleIssue s rq = do {
     i \<leftarrow> identity s rq;
     (case i of Inl e \<Rightarrow> ret (writeAuthError e)
      | Inr email \<Rightarrow> do {
          v \<leftarrow> validMutationRequest s rq email;
          (case v of Some _ \<Rightarrow> ret (http_error [] ''request verification failed'' 403)
           | None \<Rightarrow> do {
               (issued, err) \<leftarrow> prepareAndIssue s email;
               (case err of
                  Some e \<Rightarrow> do {
                    _ \<leftarrow> audit s (hr_id rq) ''issue_failed'' email (Some e) (issue_details issued);
                    ret (http_error [] ''could not issue a token'' (if is_delivery_error e then 500 else 502))
                  }
                | None \<Rightarrow> do {
                    now \<leftarrow> time_now;
                    _ \<leftarrow> audit s (hr_id rq)
                           (if ir_partialCleanup issued then ''token_issued_partial_cleanup'' else ''token_issued'')
                           email None (issue_details issued);
                    ret (redirect [flash_cookie s (ir_flashCookie issued) now] (cfg_BasePath (s_cfg s) @ ''/token'') 303)
                  })
             })
        })
   }"

text \<open>The token of a delivery, as \<open>fillFrom\<close> takes it.\<close>

definition delivered_token :: "openedFlash \<Rightarrow> saToken" where
  "delivered_token f =
     \<lparr>tk_id = [], tk_title = [], tk_revoked = False, tk_created = of_tokenCreated f, tk_expiration = of_tokenExpires f,
      tk_lastUsed = None, tk_hasExpired = False\<rparr>"

definition handleShow :: "server \<Rightarrow> httpRequest \<Rightarrow> response io" where
  "handleShow s rq = do {
     i \<leftarrow> identity s rq;
     (case i of Inl e \<Rightarrow> ret (writeIdentityError s rq e)
      | Inr email \<Rightarrow> do {
          p \<leftarrow> page_data s email;
          (case p of Inl _ \<Rightarrow> ret (http_error [] ''could not prepare the page'' 500)
           | Inr d \<Rightarrow>
               (case hr_cookie rq flashCookieName of
                  None \<Rightarrow> show_live s rq email [] True d
                | Some v \<Rightarrow> do {
                    opened \<leftarrow> flash_open (s_flash s) v email;
                    (case opened of
                       Inl _ \<Rightarrow> show_live s rq email [clear_cookie s flashCookieName] True d
                     | Inr f \<Rightarrow> do {
                         d \<leftarrow> fillFrom (d\<lparr>pd_State := stateIssued, pd_Token := of_token f, pd_PartialCleanup := of_partial f\<rparr>)
                                (delivered_token f);
                         render s [clear_cookie s flashCookieName] d
                       })
                  }))
        })
   }"

definition handleRevoke :: "server \<Rightarrow> httpRequest \<Rightarrow> response io" where
  "handleRevoke s rq = do {
     i \<leftarrow> identity s rq;
     (case i of Inl e \<Rightarrow> ret (writeAuthError e)
      | Inr email \<Rightarrow> do {
          v \<leftarrow> validMutationRequest s rq email;
          (case v of Some _ \<Rightarrow> ret (http_error [] ''request verification failed'' 403)
           | None \<Rightarrow> do {
               r \<leftarrow> revoke s (hr_id rq) email;
               ret (case r of Some _ \<Rightarrow> http_error [] ''could not revoke every token'' 502
                    | None \<Rightarrow> redirect [] (cfg_BasePath (s_cfg s)) 303)
             })
        })
   }"

section \<open>Readiness\<close>

definition probe :: "server \<Rightarrow> (error option) io" where
  "probe s = do {
     r \<leftarrow> grafana_ready (s_grafana s);
     (case r of Some e \<Rightarrow> ret (Some e)
      | None \<Rightarrow> (case s_locker s of LocalLocker \<Rightarrow> ret None | LeaseLocker l \<Rightarrow> lease_ready l))
   }"

definition ready_response :: "error option \<Rightarrow> response" where
  "ready_response e =
     (case e of Some e \<Rightarrow> http_error [] (error_text e) 503 | None \<Rightarrow> respond [] 200 (Text (''ready'' @ [LF])))"

text \<open>The mutex of the cached answer is held throughout, so the checks come one after the other.\<close>

definition handleReady :: "server \<Rightarrow> response io" where
  "handleReady s = do {
     st \<leftarrow> get_ready;
     stale \<leftarrow> (if rd_checked st = zeroTime then ret True
               else do { now \<leftarrow> time_now; ret (now - rd_checked st \<ge> cfg_ReadinessTTL (s_cfg s)) });
     (if stale then do {
        e \<leftarrow> probe s;
        now \<leftarrow> time_now;
        _ \<leftarrow> set_ready \<lparr>rd_checked = now, rd_err = e\<rparr>;
        ret (ready_response e)
      } else ret (ready_response (rd_err st)))
   }"

section \<open>Middleware\<close>

definition securityHeaders :: "string \<Rightarrow> (string \<times> string) list" where
  "securityHeaders path =
     [(''X-Content-Type-Options'', ''nosniff''), (''X-Frame-Options'', ''DENY''),
      (''Strict-Transport-Security'', ''max-age=31536000; includeSubDomains''), (''Referrer-Policy'', ''no-referrer''),
      (''Permissions-Policy'', ''camera=(), microphone=(), geolocation=()''), (''Cross-Origin-Opener-Policy'', ''same-origin''),
      (''Content-Security-Policy'', ''default-src 'none'; frame-ancestors 'none'; base-uri 'none'' @ [CHR 0x27])] @
     (if path \<noteq> ''/metrics'' then [(''Cache-Control'', ''no-store'')] else [])"

text \<open>\<open>Set\<close> replaces a header, so a handler's own value wins over the one set before it ran.\<close>

fun set_headers :: "(string \<times> string) list \<Rightarrow> (string \<times> string) list \<Rightarrow> (string \<times> string) list" where
  "set_headers base [] = base"
| "set_headers base ((k, v) # hs) = set_headers (filter (\<lambda>e. fst e \<noteq> k) base @ [(k, v)]) hs"

definition id_char :: "char \<Rightarrow> bool" where
  "id_char c \<longleftrightarrow> is_alnum c \<or> c \<in> set ''._-''"

definition validRequestID :: "string \<Rightarrow> bool" where
  "validRequestID v \<longleftrightarrow> v \<noteq> [] \<and> length v \<le> 64 \<and> list_all id_char v"

text \<open>Both middlewares around a handler.\<close>

definition with_middleware :: "httpRequest \<Rightarrow> (httpRequest \<Rightarrow> response io) \<Rightarrow> response io" where
  "with_middleware rq handler =
     (let base = securityHeaders (hr_path rq);
          given = hr_header rq ''X-Request-ID'';
          finish = (\<lambda>i. do {
            r \<leftarrow> handler (rq\<lparr>hr_id := i\<rparr>);
            ret (r\<lparr>rsp_headers := set_headers (base @ [(''X-Request-ID'', i)]) (rsp_headers r)\<rparr>)
          })
      in if validRequestID given then finish given
         else do {
           b \<leftarrow> random_bytes 16;
           (case b of
              Inl _ \<Rightarrow> (let e = http_error [] ''could not create request ID'' 500
                        in ret (e\<lparr>rsp_headers := set_headers base (rsp_headers e)\<rparr>))
            | Inr bytes \<Rightarrow> finish (hexEncode bytes))
         })"

end
