(* ===== verification/HttpFacts.thy ===== *)
theory HttpFacts
  imports Http
begin

text \<open>What the handlers may do: reading never changes anything, and a change needs an identity and a verification.\<close>

section \<open>Passive events\<close>

definition quiet_event :: "event \<Rightarrow> bool" where
  "quiet_event e \<longleftrightarrow> is_get e \<or> (\<exists>raw r. e = Verified raw r) \<or> (\<exists>attrs. e = Audit attrs)"

lemma frame_record [frame_intros]: "frame A (recordAction s a o1)" "frame A (recordAuth s k)"
  unfolding recordAction_def recordAuth_def by (intro frame_intros)+

lemma frame_verify [frame_intros]: "frame quiet_event (oidc_verify raw)"
  by (simp add: frame_def wp_simps quiet_event_def)

lemma frame_audit [frame_intros]: "frame quiet_event (audit s i a em e ds)"
  unfolding audit_def by (intro frame_intros) (simp add: frame_def wp_simps quiet_event_def)

lemma frame_passive_reads [frame_intros]:
  "frame quiet_event (findServiceAccount g t)" "frame quiet_event (tokens g sa)" "frame quiet_event (grafana_ready g)"
  by (rule frame_mono [OF gc.find_reads] frame_mono [OF gc.list_reads] frame_mono [OF frame_ready]; simp add: quiet_event_def)+

lemma frame_authorise [frame_intros]: "frame A (authorise s e gs)"
  unfolding authorise_def by (intro frame_intros)

lemma frame_auth_failure [frame_intros]: "frame A (auth_failure s m)"
  unfolding auth_failure_def by (intro frame_intros)

lemma frame_verifyIDToken [frame_intros]: "frame quiet_event (verifyIDToken s raw n)"
  unfolding verifyIDToken_def by (intro frame_intros)

lemma frame_identityFromIDToken [frame_intros]: "frame quiet_event (identityFromIDToken s raw n)"
  unfolding identityFromIDToken_def by (intro frame_intros)

lemma frame_nativeIdentity [frame_intros]: "frame quiet_event (nativeIdentity s rq)"
  unfolding nativeIdentity_def by (intro frame_intros)

lemma frame_identity [frame_intros]: "frame quiet_event (identity s rq)"
  unfolding identity_def Let_def by (intro frame_intros)

lemma frame_liveToken [frame_intros]: "frame quiet_event (liveToken s e)"
  unfolding liveToken_def by (intro frame_intros)

lemma frame_render [frame_intros]: "frame A (render s cs d)"
  unfolding render_def Let_def by (intro frame_intros)

lemma frame_fillFrom [frame_intros]: "frame A (fillFrom d t)"
  unfolding fillFrom_def Let_def by (intro frame_intros)

lemma frame_page_data [frame_intros]: "frame A (page_data s e)"
  unfolding page_data_def by (intro frame_intros)

lemma frame_show_live [frame_intros]: "frame quiet_event (show_live s rq e cs sp d)"
  unfolding show_live_def by (intro frame_intros)

lemma frame_handlePage: "frame quiet_event (handlePage s rq)"
  unfolding handlePage_def by (intro frame_intros)

lemma frame_handleShow: "frame quiet_event (handleShow s rq)"
  unfolding handleShow_def by (intro frame_intros)

section \<open>Who a request acts for\<close>

text \<open>
  The identity an operation acts for: the email of a token the provider's verifier accepted,
  with a required group when groups are required.
\<close>

definition acts_for :: "server \<Rightarrow> event list \<Rightarrow> string \<Rightarrow> bool" where
  "acts_for s evs email \<longleftrightarrow>
     (\<exists>raw tok c uni. Verified raw (Inr tok) \<in> set evs \<and> id_claims tok = Some c \<and> validEmail (cl_email c) \<and>
        email = toLower uni (cl_email c) \<and>
        (cfg_RequiredGroups (s_cfg s) = [] \<or> (\<exists>want \<in> set (cfg_RequiredGroups (s_cfg s)). want \<in> set (cl_groups c))))"

definition identified :: "server \<Rightarrow> error + string \<Rightarrow> event list \<Rightarrow> bool" where
  "identified s r evs \<longleftrightarrow> list_all quiet_event evs \<and> (\<forall>email. r = Inr email \<longrightarrow> acts_for s evs email)"

lemma yields_auth_failure: "yields (identified s) (auth_failure s' m)"
  unfolding auth_failure_def recordAuth_def by (auto simp: yields_def wp_simps identified_def)

lemma yields_identityFromIDToken: "yields (identified s) (identityFromIDToken s raw n)"
  unfolding identityFromIDToken_def verifyIDToken_def authorise_def recordAuth_def yields_def
  by (auto simp: wp_simps identified_def acts_for_def quiet_event_def list_ex_iff split: sum.splits option.splits)

lemma yields_quiet_bind:
  "frame (\<lambda>_. False) m \<Longrightarrow> (\<And>x. yields P (f x)) \<Longrightarrow> yields P (m \<bind> f)"
  unfolding frame_yields by (erule yields_bind) (auto simp: list_all_iff)

lemma yields_nativeIdentity: "yields (identified s) (nativeIdentity s rq)"
  unfolding nativeIdentity_def
  by (auto intro!: yields_auth_failure yields_identityFromIDToken yields_quiet_bind frame_intros
      split: option.splits sum.splits)

lemma yields_identity: "yields (identified s) (identity s rq)"
  unfolding identity_def Let_def
  by (auto intro!: yields_auth_failure yields_identityFromIDToken yields_nativeIdentity split: option.splits)

section \<open>What a change needs\<close>

definition verified :: "server \<Rightarrow> env \<Rightarrow> httpRequest \<Rightarrow> string \<Rightarrow> bool" where
  "verified s e rq email \<longleftrightarrow>
     same_origin s (unicode_lower e) rq \<and>
     (\<exists>form k. hr_form rq = Some form \<and> csrf_accepts (s_flash s) (clock e k) (form ''csrf_token'') email)"

lemma wp_validMutationRequest:
  "wp (validMutationRequest s rq email) (\<lambda>r w'. extends quiet_event w w' \<and> (r = None \<longrightarrow> verified s (w_env w) rq email)) w"
proof -
  have *: "wp (validateCSRF (s_flash s) (form ''csrf_token'') email)
      (\<lambda>r w'. extends quiet_event w w' \<and> (r = None \<longrightarrow> verified s (w_env w) rq email)) w"
    if "same_origin s (unicode_lower (w_env w)) rq" "hr_form rq = Some form" for form
    by (rule wp_mono [OF wp_validateCSRF [where A = quiet_event]]) (use that in \<open>auto simp: verified_def\<close>)
  show ?thesis
    unfolding validMutationRequest_def by (auto simp: wp_simps * split: option.splits)
qed

text \<open>
  What is done under the lock of one identity: nothing but taking that lock, releasing it, and
  audit records happens outside it, and no other lock is taken.
\<close>

fun lock_scope :: "string \<Rightarrow> bool machine" where
  "lock_scope key False (LockAcquired k) = (if k = key then Some True else None)"
| "lock_scope key False (LockFailed k e) = (if k = key then Some False else None)"
| "lock_scope key True (Http rq rp) = Some True"
| "lock_scope key True (Checked r) = Some True"
| "lock_scope key True LockReleased = Some False"
| "lock_scope key held (Audit attrs) = Some held"
| "lock_scope key held (Printed line) = Some held"
| "lock_scope key _ _ = None"

lemma accepts_map:
  assumes "accepts m s es = Some s'" "\<And>s e s'. m s e = Some s' \<Longrightarrow> m' (h s) e = Some (h s')"
  shows "accepts m' (h s) es = Some (h s')"
  using assms(1)
proof (induction es arbitrary: s)
  case (Cons e es)
  then obtain t where "m s e = Some t" "accepts m t es = Some s'" by (auto split: option.splits)
  with Cons.IH assms(2) [of s e t] show ?case by simp
qed simp

lemma sim_map:
  assumes "sim m s c Q" "\<And>s e s'. m s e = Some s' \<Longrightarrow> m' (h s) e = Some (h s')"
  shows "sim m' (h s) c (\<lambda>r t. \<exists>s'. t = h s' \<and> Q r s')"
  using assms(1) unfolding sim_def by (rule yields_mono) (use accepts_map [of m _ _ _ m' h] assms(2) in blast)

fun phase_held :: "phase \<Rightarrow> bool" where
  "phase_held (Held p st) = True"
| "phase_held _ = False"

fun guard_held :: "guard \<Rightarrow> bool" where
  "guard_held (Guarded p) = True"
| "guard_held _ = False"

text \<open>Both protocols are scoped by the lock of their identity.\<close>

lemma rotation_scope: "rotation key s e = Some s' \<Longrightarrow> lock_scope key (phase_held s) e = Some (phase_held s')"
  by (induction key s e rule: rotation.induct) (auto split: if_splits stage.splits)

lemma guarded_scope:
  "guarded (\<lambda>k. k = key) s e = Some s' \<Longrightarrow> lock_scope key (guard_held s) e = Some (guard_held s')"
  by (induction "\<lambda>k :: string. k = key" s e rule: guarded.induct) (auto split: if_splits)

text \<open>
  The shape of both handlers that change something: whatever they do beyond quiet events
  follows a verification for the identity they act for, and happens under the lock of that identity.
\<close>

definition gated :: "server \<Rightarrow> httpRequest \<Rightarrow> world \<Rightarrow> world \<Rightarrow> bool" where
  "gated s rq w w' \<longleftrightarrow> w_env w' = w_env w \<and>
     (\<exists>evs fs. w_trace w' = w_trace w @ evs @ fs \<and> list_all quiet_event evs \<and>
        (fs = [] \<or> (\<exists>email. acts_for s evs email \<and> verified s (w_env w) rq email \<and>
                           accepts (lock_scope email) False fs = Some False)))"

lemma wp_gated:
  assumes "\<And>email. sim (lock_scope email) False (m email) (\<lambda>_ held. \<not> held)"
  shows "wp (do {
     i \<leftarrow> identity s rq;
     (case i of Inl e \<Rightarrow> ret (writeAuthError e)
      | Inr email \<Rightarrow> do {
          v \<leftarrow> validMutationRequest s rq email;
          (case v of Some _ \<Rightarrow> ret refused | None \<Rightarrow> m email)
        })
   }) (\<lambda>_ w'. gated s rq w w') w"
  unfolding wp_bind
proof (rule wp_mono)
  show "wp (identity s rq) (\<lambda>r w'. w_env w' = w_env w \<and> (\<exists>evs. w_trace w' = w_trace w @ evs \<and> identified s r evs)) w"
    using yields_identity by (simp add: yields_def)
next
  fix i and w1 :: world
  assume "w_env w1 = w_env w \<and> (\<exists>evs. w_trace w1 = w_trace w @ evs \<and> identified s i evs)"
  then obtain evs where w1: "w_env w1 = w_env w" "w_trace w1 = w_trace w @ evs" "identified s i evs" by blast
  show "wp (case i of Inl e \<Rightarrow> ret (writeAuthError e)
      | Inr email \<Rightarrow> validMutationRequest s rq email \<bind> (\<lambda>v. case v of Some _ \<Rightarrow> ret refused | None \<Rightarrow> m email))
      (\<lambda>_ w'. gated s rq w w') w1"
  proof (cases i)
    case (Inl e)
    with w1 show ?thesis
      by (simp add: wp_simps gated_def identified_def) (intro exI [of _ evs] exI [of _ "[]"], simp)
  next
    case (Inr email)
    have "wp (validMutationRequest s rq email \<bind> (\<lambda>v. case v of Some _ \<Rightarrow> ret refused | None \<Rightarrow> m email))
        (\<lambda>_ w'. gated s rq w w') w1"
      unfolding wp_bind
    proof (rule wp_mono [OF wp_validMutationRequest])
      fix v and w2 :: world
      assume w2: "extends quiet_event w1 w2 \<and> (v = None \<longrightarrow> verified s (w_env w1) rq email)"
      then obtain gs where gs: "w_env w2 = w_env w" "w_trace w2 = w_trace w @ evs @ gs" "list_all quiet_event gs"
        using w1 by (auto simp: extends_def)
      show "wp (case v of Some _ \<Rightarrow> ret refused | None \<Rightarrow> m email) (\<lambda>_ w'. gated s rq w w') w2"
      proof (cases v)
        case (Some e)
        with gs w1 show ?thesis
          by (simp add: wp_simps gated_def identified_def) (intro exI [of _ "evs @ gs"] exI [of _ "[]"], simp)
      next
        case None
        have "wp (m email) (\<lambda>_ w'. gated s rq w w') w2"
        proof (rule wp_mono [OF yieldsD [OF assms [unfolded sim_def]]])
          fix a and w3 :: world
          assume "w_env w3 = w_env w2 \<and> (\<exists>fs. w_trace w3 = w_trace w2 @ fs \<and>
              (\<exists>s'. accepts (lock_scope email) False fs = Some s' \<and> \<not> s'))"
          then obtain fs where "w_env w3 = w_env w" "w_trace w3 = w_trace w @ (evs @ gs) @ fs"
              "accepts (lock_scope email) False fs = Some False"
            using gs by auto
          moreover have "acts_for s (evs @ gs) email" "list_all quiet_event (evs @ gs)"
            using w1(3) Inr gs(3) by (auto simp: identified_def acts_for_def)
          ultimately show "gated s rq w w3"
            using w1(1) w2 None unfolding gated_def by metis
        qed
        with None show ?thesis by simp
      qed
    qed
    with Inr show ?thesis by simp
  qed
qed

section \<open>The two handlers that change something\<close>

lemma sim_scope_quiet: "sim (lock_scope key) False (audit s i a em er ds) (\<lambda>_ held. \<not> held)"
  unfolding audit_def by (intro bind_quiet(3) sim_event) auto

lemma sim_scope_issue: "sim (lock_scope email) False (issue s email prepared) (\<lambda>_ held. \<not> held)"
proof -
  have "sim (lock_scope email) (phase_held Unlocked) (issue s email prepared)
      (\<lambda>r t. \<exists>s'. t = phase_held s' \<and> (\<exists>st. s' = Done st \<and> issue_ends r st))"
    by (rule sim_map [OF sim_issue]) (rule rotation_scope)
  then show ?thesis by (auto elim!: sim_mono)
qed

lemma sim_scope_revoke: "sim (lock_scope email) False (revoke s i email) (\<lambda>_ held. \<not> held)"
proof -
  have "sim (lock_scope email) (guard_held Free) (revoke s i email)
      (\<lambda>r t. \<exists>s'. t = guard_held s' \<and> s' \<in> {Free, Closed})"
    by (rule sim_map [OF sim_revoke]) (rule guarded_scope)
  then show ?thesis by (auto elim!: sim_mono)
qed

lemma sim_scope_silent: "frame (\<lambda>_. False) m \<Longrightarrow> sim (lock_scope key) held m (\<lambda>_ s'. s' = held)"
  by (erule sim_frame) simp_all

lemma sim_scope_prepareAndIssue: "sim (lock_scope email) False (prepareAndIssue s email) (\<lambda>_ held. \<not> held)"
proof -
  have "frame (\<lambda>_. False) (prepareDelivery (s_flash s))"
    unfolding prepareDelivery_def prepare_def by (intro frame_intros)
  then show ?thesis
    unfolding prepareAndIssue_def
    by (intro sim_bind [OF sim_scope_silent]) (auto intro!: sim_intros bind_record sim_scope_issue)
qed

lemma gated_handleIssue: "wp (handleIssue s rq) (\<lambda>_ w'. gated s rq w w') w"
  unfolding handleIssue_def
  by (rule wp_gated) (auto intro!: sim_bind [OF sim_scope_prepareAndIssue] sim_bind [OF sim_scope_quiet]
      bind_quiet sim_intros)

lemma gated_handleRevoke: "wp (handleRevoke s rq) (\<lambda>_ w'. gated s rq w w') w"
  unfolding handleRevoke_def
  by (rule wp_gated) (auto intro!: sim_bind [OF sim_scope_revoke] sim_intros)

section \<open>Properties\<close>

text \<open>Showing the page, and showing the token page after an issue, never changes anything at Grafana: the
  only events are GETs, the verification of the identity and an audit record.\<close>

theorem pages_change_nothing: "frame quiet_event (handlePage s rq) \<and> frame quiet_event (handleShow s rq)"
  by (simp add: frame_handlePage frame_handleShow)

text \<open>Everything \<open>handleIssue\<close> does beyond reading happens after the provider's verifier accepted a token
  with a usable email and a required group, and after the request was verified for that identity: its origin
  is ours and its CSRF token is valid for it; and it happens under the lock of that identity, the only lock it takes.\<close>

theorem issue_needs_identity_and_verification: "wp (handleIssue s rq) (\<lambda>_ w'. gated s rq w w') w"
  by (rule gated_handleIssue)

text \<open>The same of \<open>handleRevoke\<close>: it acts only for the identity it verified, under the lock of that identity.\<close>

theorem revoke_needs_identity_and_verification: "wp (handleRevoke s rq) (\<lambda>_ w'. gated s rq w w') w"
  by (rule gated_handleRevoke)

definition authorised_as :: "server \<Rightarrow> (string \<Rightarrow> string) \<Rightarrow> string \<Rightarrow> string list \<Rightarrow> error + string" where
  "authorised_as s uni email groups =
     (if \<not> validEmail email then Inl (AuthError False (Msg ''the ID token carries no usable email''))
      else if cfg_RequiredGroups (s_cfg s) = [] \<or> list_ex (\<lambda>want. want \<in> set groups) (cfg_RequiredGroups (s_cfg s))
      then Inr (toLower uni email)
      else Inl (AuthError True (Msg ''the identity lacks a required group'')))"


lemma id_char_hex: "list_all id_char (hexEncode bs)"
proof -
  have "list_all id_char ''0123456789abcdef''" by code_simp
  then show ?thesis using hexEncode_chars [of bs] by (auto simp: list_all_iff)
qed

lemma set_headers_id:
  "(k, v) \<in> set base \<Longrightarrow> k \<notin> fst ` set hs \<Longrightarrow> (k, v) \<in> set (set_headers base hs)"
  by (induction base hs rule: set_headers.induct) auto

definition identified_request :: "response \<Rightarrow> bool" where
  "identified_request r \<longleftrightarrow>
     list_ex (\<lambda>(k, v). k = ''X-Request-ID'' \<and> validRequestID v) (rsp_headers r) \<or> rsp_status r = 500"

text \<open>Every response carries a valid request identifier, the client's when it is valid and a fresh one of 32
  hexadecimal digits otherwise, unless no entropy was left to make one; a client cannot inject anything else
  into the header or the audit records.\<close>

theorem responses_carry_a_request_id:
  assumes "\<And>q. returns (\<lambda>r. ''X-Request-ID'' \<notin> fst ` set (rsp_headers r)) (handler q)"
  shows "returns identified_request (with_middleware rq handler)"
proof -
  have finish: "returns identified_request (handler (rq\<lparr>hr_id := i\<rparr>) \<bind> (\<lambda>r. ret (r\<lparr>rsp_headers :=
      set_headers (securityHeaders (hr_path rq) @ [(''X-Request-ID'', i)]) (rsp_headers r)\<rparr>)))" if "validRequestID i" for i
    by (rule returns_bind_with [OF assms])
      (use that in \<open>auto intro!: returns_return bexI [of _ "(''X-Request-ID'', i)"] set_headers_id
          simp: identified_request_def list_ex_iff\<close>)
  have fresh: "validRequestID (hexEncode b)" if "length b = 16" for b
    using that id_char_hex [of b] length_hexEncode [of b] by (auto simp: validRequestID_def simp del: length_hexEncode)
  show ?thesis
    unfolding with_middleware_def Let_def
    by (intro returns_intros returns_bind_with [OF returns_random] finish)
      (auto intro!: returns_intros finish fresh simp: identified_request_def http_error_def respond_def split: sum.splits)
qed

definition example_request :: httpRequest where
  "example_request =
     \<lparr>hr_method = ''GET'', hr_path = ''/setup-mcp'', hr_escapedPath = ''/setup-mcp'', hr_rawQuery = [],
      hr_header = (\<lambda>_. []), hr_cookie = (\<lambda>_. None), hr_query = (\<lambda>_. []),
      hr_form = Some (\<lambda>_. []), hr_id = []\<rparr>"

theorem responses_carry_a_request_id_witness:
  "returns identified_request (with_middleware example_request (\<lambda>q. ret (respond [] 200 (Text ''ok''))))"
  by (rule responses_carry_a_request_id) (simp add: returns_return respond_def)

end
