(* ===== verification/Native.thy ===== *)
theory Native
  imports HttpFacts
begin

text \<open>
  \<open>internal/server/native.go\<close>: the login of the native mode. Three handlers change the cookies of
  the browser and nothing else: the login seals a state, a nonce and a code verifier, the callback
  exchanges a code for a verified token and seals a session, the logout removes both.
\<close>

section \<open>Cookies\<close>

definition oauth_state_cookie :: "server \<Rightarrow> string \<Rightarrow> time \<Rightarrow> cookie" where
  "oauth_state_cookie s v now =
     lax_cookie stateCookieName v (cfg_BasePath (s_cfg s)) (truncDiv oauthStateTTL second) (now + oauthStateTTL)"

definition session_cookie :: "server \<Rightarrow> string \<Rightarrow> time \<Rightarrow> time \<Rightarrow> cookie" where
  "session_cookie s v expires now =
     lax_cookie sessionCookieName v (cfg_BasePath (s_cfg s)) (max 1 (truncDiv (expires - now) second)) expires"

section \<open>Login\<close>

definition randomURLValue :: "nat \<Rightarrow> (error + string) io" where
  "randomURLValue n = do { r \<leftarrow> random_bytes n; ret (map_sum id rawURLEncode r) }"

definition unavailable :: "cookie list \<Rightarrow> response" where
  "unavailable cookies = http_error cookies ''native authentication is unavailable'' 500"

definition no_start :: response where
  "no_start = http_error [] ''could not start authentication'' 500"

text \<open>The three values are drawn before the state is sealed; the challenge commits to the verifier.\<close>

definition handleOAuthLogin :: "server \<Rightarrow> response io" where
  "handleOAuthLogin s =
     (case s_session s of None \<Rightarrow> ret (unavailable [])
      | Some codec \<Rightarrow>
          if \<not> s_oauth s then ret (unavailable [])
          else do {
            r1 \<leftarrow> randomURLValue 32;
            (case r1 of Inl _ \<Rightarrow> ret no_start
             | Inr state \<Rightarrow> do {
                 r2 \<leftarrow> randomURLValue 32;
                 (case r2 of Inl _ \<Rightarrow> ret no_start
                  | Inr nonce \<Rightarrow> do {
                      r3 \<leftarrow> randomURLValue 32;
                      (case r3 of Inl _ \<Rightarrow> ret no_start
                       | Inr codeVerifier \<Rightarrow> do {
                           sealed \<leftarrow> sealState codec state nonce codeVerifier;
                           (case sealed of Inl _ \<Rightarrow> ret no_start
                            | Inr stateCookie \<Rightarrow> do {
                                now \<leftarrow> time_now;
                                ret (respond [oauth_state_cookie s stateCookie now] 302
                                       (RedirectToProvider state nonce (rawURLEncode (sha256 codeVerifier))))
                              })
                         })
                    })
               })
          })"

section \<open>Callback\<close>

definition auth_failed :: "server \<Rightarrow> response" where
  "auth_failed s = http_error [clear_cookie s stateCookieName] ''authentication failed'' 400"

definition writeCallbackAuthError :: "server \<Rightarrow> error \<Rightarrow> response" where
  "writeCallbackAuthError s e =
     (if isForbiddenAuthError e then http_error [clear_cookie s stateCookieName] ''forbidden'' 403 else auth_failed s)"

text \<open>From the raw token of the provider's reply on: verify it, authorise, seal the session.\<close>

definition finish_login :: "server \<Rightarrow> sessionCodec \<Rightarrow> string \<Rightarrow> string \<Rightarrow> response io" where
  "finish_login s codec raw nonce = do {
     v \<leftarrow> verifyIDToken s raw nonce;
     (case v of Inl e \<Rightarrow> ret (writeCallbackAuthError s e)
      | Inr (tok, c) \<Rightarrow> do {
          a \<leftarrow> authorise s (cl_email c) (cl_groups c);
          (case a of Inl e \<Rightarrow> ret (writeCallbackAuthError s e)
           | Inr _ \<Rightarrow> do {
               now \<leftarrow> time_now;
               let expires = min (id_expiry tok) (now + cfg_SessionTTL (s_cfg s));
               sealed \<leftarrow> sealSession codec raw expires;
               (case sealed of
                  Inl _ \<Rightarrow> ret (http_error [clear_cookie s stateCookieName] ''authentication response is too large'' 400)
                | Inr v \<Rightarrow> do {
                    now \<leftarrow> time_now;
                    ret (redirect [clear_cookie s stateCookieName, session_cookie s v expires now] (cfg_BasePath (s_cfg s)) 303)
                  })
             })
        })
   }"

definition handleOAuthCallback :: "server \<Rightarrow> httpRequest \<Rightarrow> response io" where
  "handleOAuthCallback s rq =
     (case s_session s of None \<Rightarrow> ret (unavailable [clear_cookie s stateCookieName])
      | Some codec \<Rightarrow>
          if \<not> s_oauth s then ret (unavailable [clear_cookie s stateCookieName])
          else if hr_query rq ''error'' \<noteq> [] then ret (auth_failed s)
          else if hr_query rq ''state'' = [] \<or> hr_query rq ''code'' = [] then ret (auth_failed s)
          else (case hr_cookie rq stateCookieName of None \<Rightarrow> ret (auth_failed s)
            | Some cookie \<Rightarrow> do {
                opened \<leftarrow> openState codec cookie;
                (case opened of Inl _ \<Rightarrow> ret (auth_failed s)
                 | Inr p \<Rightarrow>
                     if hr_query rq ''state'' \<noteq> op_state p then ret (auth_failed s)
                     else do {
                       x \<leftarrow> oauth_exchange (hr_query rq ''code'') (op_codeVerifier p);
                       (case x of Inl _ \<Rightarrow> ret (auth_failed s)
                        | Inr raw \<Rightarrow> if raw = [] then ret (auth_failed s) else finish_login s codec raw (op_nonce p))
                     })
              }))"

section \<open>Logout\<close>

definition handleOAuthLogout :: "server \<Rightarrow> httpRequest \<Rightarrow> response io" where
  "handleOAuthLogout s rq = do {
     i \<leftarrow> nativeIdentity s rq;
     (case i of Inl e \<Rightarrow> ret (writeAuthError e)
      | Inr email \<Rightarrow> do {
          v \<leftarrow> validMutationRequest s rq email;
          ret (case v of Some _ \<Rightarrow> http_error [] ''request verification failed'' 403
               | None \<Rightarrow> redirect [clear_cookie s sessionCookieName, clear_cookie s stateCookieName,
                                  clear_cookie s flashCookieName] (cfg_BasePath (s_cfg s) @ ''/oauth2/logged-out'') 303)
        })
   }"

text \<open>\<open>html.EscapeString\<close>\<close>

fun html_escape :: "string \<Rightarrow> string" where
  "html_escape [] = []"
| "html_escape (c # cs) =
     (if c = CHR ''&'' then ''&amp;'' else if c = CHR 0x27 then ''&#39;'' else if c = CHR ''<'' then ''&lt;''
      else if c = CHR ''>'' then ''&gt;'' else if c = CHR 0x22 then ''&#34;'' else [c]) @ html_escape cs"

definition handleOAuthLoggedOut :: "server \<Rightarrow> response" where
  "handleOAuthLoggedOut s =
     (respond [] 200 (Text (''<!doctype html><meta charset='' @ [CHR 0x22] @ ''utf-8'' @ [CHR 0x22] @
        ''><title>Signed out</title><h1>Signed out</h1><p>Your local Grafana MCP session ended.</p><p><a href='' @
        [CHR 0x22] @ html_escape (cfg_BasePath (s_cfg s)) @ ''/oauth2/login'' @ [CHR 0x22] @ ''>Sign in</a></p>'')))
       \<lparr>rsp_headers := [(''Content-Type'', ''text/html; charset=utf-8'')]\<rparr>"

section \<open>What a login needs\<close>

definition in_required_group :: "server \<Rightarrow> claims \<Rightarrow> bool" where
  "in_required_group s c \<longleftrightarrow>
     cfg_RequiredGroups (s_cfg s) = [] \<or> (\<exists>want \<in> set (cfg_RequiredGroups (s_cfg s)). want \<in> set (cl_groups c))"

text \<open>
  A session cookie in a response: the token in it was verified in this request, for the nonce of
  the login and a usable identity, and the session ends no later than the token.
\<close>

definition logged_in :: "server \<Rightarrow> sessionCodec \<Rightarrow> string \<Rightarrow> string \<Rightarrow> cookie \<Rightarrow> event list \<Rightarrow> bool" where
  "logged_in s codec raw nonce ck evs \<longleftrightarrow>
     (\<exists>tok c n. Verified raw (Inr tok) \<in> set evs \<and> id_claims tok = Some c \<and> (nonce \<noteq> [] \<longrightarrow> cl_nonce c = nonce) \<and>
        validEmail (cl_email c) \<and> in_required_group s c \<and> ck_expires ck \<le> id_expiry tok \<and>
        ck_value ck = seal_cookie (sc_key codec) (associatedData codec ''session'') n
          (marshal (enc_session \<lparr>sp_version = 1, sp_idToken = raw, sp_expires = unixSeconds (ck_expires ck)\<rparr>)))"

definition session_cookies :: "response \<Rightarrow> cookie set" where
  "session_cookies r = {ck \<in> set (rsp_cookies r). ck_name ck = sessionCookieName}"

lemma session_cookies_error [simp]:
  "session_cookies (http_error [clear_cookie s stateCookieName] m st) = {}"
  "session_cookies (http_error [] m st) = {}"
  "session_cookies (auth_failed s) = {}" "session_cookies (unavailable [clear_cookie s stateCookieName]) = {}"
  "session_cookies (writeCallbackAuthError s e) = {}"
  by (auto simp: session_cookies_def http_error_def respond_def clear_cookie_def lax_cookie_def stateCookieName_def
      sessionCookieName_def auth_failed_def writeCallbackAuthError_def unavailable_def)

lemma session_cookies_login:
  "ck \<in> session_cookies (redirect [clear_cookie s stateCookieName, session_cookie s v expires now] p st) \<Longrightarrow>
   ck_value ck = v \<and> ck_expires ck = expires"
  by (auto simp: session_cookies_def redirect_def respond_def clear_cookie_def session_cookie_def lax_cookie_def
      stateCookieName_def sessionCookieName_def)

definition finished :: "server \<Rightarrow> sessionCodec \<Rightarrow> string \<Rightarrow> string \<Rightarrow> response \<Rightarrow> event list \<Rightarrow> bool" where
  "finished s codec raw nonce r evs \<longleftrightarrow> (\<forall>ck \<in> session_cookies r. logged_in s codec raw nonce ck evs)"

definition usable :: "server \<Rightarrow> string \<Rightarrow> string \<Rightarrow> error + idToken \<times> claims \<Rightarrow> event list \<Rightarrow> bool" where
  "usable s raw nonce v evs \<longleftrightarrow>
     (\<forall>tok c. v = Inr (tok, c) \<longrightarrow> Verified raw (Inr tok) \<in> set evs \<and> id_claims tok = Some c \<and>
        (nonce \<noteq> [] \<longrightarrow> cl_nonce c = nonce))"

lemma yields_verifyIDToken: "yields (usable s raw nonce) (verifyIDToken s' raw nonce)"
  unfolding verifyIDToken_def recordAuth_def yields_def
  by (auto simp: wp_simps usable_def split: sum.splits option.splits)

lemma yields_authorise:
  "yields (\<lambda>r evs. evs = [] \<and> (\<not> isl r \<longrightarrow> validEmail (cl_email c) \<and> in_required_group s c))
     (authorise s (cl_email c) (cl_groups c))"
  unfolding authorise_def recordAuth_def yields_def in_required_group_def
  by (auto simp: wp_simps list_ex_iff)

definition seals_token :: "sessionCodec \<Rightarrow> string \<Rightarrow> time \<Rightarrow> error + string \<Rightarrow> event list \<Rightarrow> bool" where
  "seals_token codec raw expires r evs \<longleftrightarrow> evs = [] \<and>
     (\<forall>v. r = Inr v \<longrightarrow> (\<exists>n. v = seal_cookie (sc_key codec) (associatedData codec ''session'') n
          (marshal (enc_session \<lparr>sp_version = 1, sp_idToken = raw, sp_expires = unixSeconds expires\<rparr>))))"

lemma yields_sealSession: "yields (seals_token codec raw expires) (sealSession codec raw expires)"
  unfolding sealSession_def yields_def
  by (auto simp: wp_simps wp_session_seal seals_token_def Let_def split: option.splits)

lemma yields_finish_login: "yields (finished s codec raw nonce) (finish_login s codec raw nonce)"
  unfolding finish_login_def
proof (rule yields_bind [OF yields_verifyIDToken])
  show "yields (\<lambda>r fs. \<forall>evs. usable s raw nonce v evs \<longrightarrow> finished s codec raw nonce r (evs @ fs))
      (case v of Inl e \<Rightarrow> ret (writeCallbackAuthError s e)
       | Inr (tok, c) \<Rightarrow> do {
          a \<leftarrow> authorise s (cl_email c) (cl_groups c);
          (case a of Inl e \<Rightarrow> ret (writeCallbackAuthError s e)
           | Inr _ \<Rightarrow> do {
               now \<leftarrow> time_now;
               let expires = min (id_expiry tok) (now + cfg_SessionTTL (s_cfg s));
               sealed \<leftarrow> sealSession codec raw expires;
               (case sealed of
                  Inl _ \<Rightarrow> ret (http_error [clear_cookie s stateCookieName] ''authentication response is too large'' 400)
                | Inr v \<Rightarrow> do {
                    now \<leftarrow> time_now;
                    ret (redirect [clear_cookie s stateCookieName, session_cookie s v expires now] (cfg_BasePath (s_cfg s)) 303)
                  })
             })
        })" for v
  proof (cases v)
    case (Inl e)
    then show ?thesis by (simp add: yields_return finished_def)
  next
    case (Inr p)
    obtain tok c where p: "p = (tok, c)" by (cases p)
    have sealing: "yields (\<lambda>r fs. validEmail (cl_email c) \<and> in_required_group s c \<longrightarrow>
          (\<forall>evs. usable s raw nonce v evs \<longrightarrow> finished s codec raw nonce r (evs @ fs)))
        (sealSession codec raw expires \<bind> (\<lambda>sealed. case sealed of
            Inl _ \<Rightarrow> ret (http_error [clear_cookie s stateCookieName] ''authentication response is too large'' 400)
          | Inr v \<Rightarrow> time_now \<bind> (\<lambda>now. ret (redirect [clear_cookie s stateCookieName, session_cookie s v expires now]
              (cfg_BasePath (s_cfg s)) 303))))" if "expires \<le> id_expiry tok" for expires
      by (rule yields_bind [OF yields_sealSession,
            where Q = "\<lambda>x r fs. fs = [] \<and> (case x of Inl _ \<Rightarrow> session_cookies r = {}
              | Inr v \<Rightarrow> \<forall>ck \<in> session_cookies r. ck_value ck = v \<and> ck_expires ck = expires)"])
        (auto simp: yields_def wp_simps seals_token_def finished_def logged_in_def usable_def Inr p that
          dest: session_cookies_login split: sum.splits)
    show ?thesis
      unfolding Inr p sum.case prod.case
      by (rule yields_bind [OF yields_authorise,
            where Q = "\<lambda>a r fs. \<not> isl a \<and> validEmail (cl_email c) \<and> in_required_group s c \<or> isl a \<longrightarrow>
              (\<forall>evs. usable s raw nonce v evs \<longrightarrow> finished s codec raw nonce r (evs @ fs))"])
        (auto simp: Inr p finished_def Let_def split: sum.splits
          intro!: yields_return yields_quiet_bind frame_intros yields_mono [OF sealing])
  qed
qed auto

text \<open>The callback: the browser presents the state it was sent away with, and the code goes with its verifier.\<close>

definition callback_ok :: "server \<Rightarrow> httpRequest \<Rightarrow> response \<Rightarrow> event list \<Rightarrow> bool" where
  "callback_ok s rq r evs \<longleftrightarrow>
     (\<forall>ck \<in> session_cookies r. \<exists>codec cookie p raw.
        s_session s = Some codec \<and> hr_cookie rq stateCookieName = Some cookie \<and>
        session_open codec cookie ''oauth-state'' dec_state zero_state = Some p \<and>
        op_state p = hr_query rq ''state'' \<and> op_nonce p \<noteq> [] \<and>
        Exchanged (hr_query rq ''code'') (op_codeVerifier p) (Inr raw) \<in> set evs \<and>
        logged_in s codec raw (op_nonce p) ck evs)"

definition opens_state :: "sessionCodec \<Rightarrow> string \<Rightarrow> error + oauthStatePayload \<Rightarrow> event list \<Rightarrow> bool" where
  "opens_state codec cookie r evs \<longleftrightarrow> evs = [] \<and>
     (\<forall>p. r = Inr p \<longrightarrow> session_open codec cookie ''oauth-state'' dec_state zero_state = Some p \<and> op_nonce p \<noteq> [])"

lemma yields_openState: "yields (opens_state codec cookie) (openState codec cookie)"
  unfolding openState_def yields_def
  by (auto simp: wp_simps opens_state_def split: option.splits)

lemma yields_exchange:
  "yields (\<lambda>r evs. evs = [Exchanged code verifier r]) (oauth_exchange code verifier)"
  by (simp add: yields_def wp_simps)

lemma logged_in_more: "logged_in s codec raw n ck evs \<Longrightarrow> logged_in s codec raw n ck (es @ evs)"
  unfolding logged_in_def by auto

definition exchanged_login :: "server \<Rightarrow> sessionCodec \<Rightarrow> httpRequest \<Rightarrow> oauthStatePayload \<Rightarrow> response \<Rightarrow> event list \<Rightarrow> bool" where
  "exchanged_login s codec rq p r evs \<longleftrightarrow>
     (\<forall>ck \<in> session_cookies r. \<exists>raw. Exchanged (hr_query rq ''code'') (op_codeVerifier p) (Inr raw) \<in> set evs \<and>
        logged_in s codec raw (op_nonce p) ck evs)"

lemma yields_exchanged_login:
  "yields (exchanged_login s codec rq p) (oauth_exchange (hr_query rq ''code'') (op_codeVerifier p) \<bind> (\<lambda>x.
     case x of Inl _ \<Rightarrow> ret (auth_failed s)
     | Inr raw \<Rightarrow> if raw = [] then ret (auth_failed s) else finish_login s codec raw (op_nonce p)))"
proof (rule yields_bind [OF yields_exchange])
  show "yields (\<lambda>r fs. case x of Inl _ \<Rightarrow> session_cookies r = {} | Inr raw \<Rightarrow> finished s codec raw (op_nonce p) r fs)
      (case x of Inl _ \<Rightarrow> ret (auth_failed s)
       | Inr raw \<Rightarrow> if raw = [] then ret (auth_failed s) else finish_login s codec raw (op_nonce p))" for x
    by (auto simp: finished_def intro!: yields_return split: sum.splits)
      (rule yields_mono [OF yields_finish_login], simp add: finished_def)
qed (auto simp: exchanged_login_def finished_def split: sum.splits intro!: logged_in_more [of _ _ _ _ _ _ "[_]", simplified])

lemma yields_handleOAuthCallback: "yields (callback_ok s rq) (handleOAuthCallback s rq)"
proof (cases "s_session s")
  case None
  then show ?thesis by (simp add: handleOAuthCallback_def yields_return callback_ok_def)
next
  case (Some codec)
  have "yields (callback_ok s rq) (openState codec cookie \<bind> (\<lambda>opened. case opened of Inl _ \<Rightarrow> ret (auth_failed s)
      | Inr p \<Rightarrow> if hr_query rq ''state'' \<noteq> op_state p then ret (auth_failed s)
          else oauth_exchange (hr_query rq ''code'') (op_codeVerifier p) \<bind> (\<lambda>x.
            case x of Inl _ \<Rightarrow> ret (auth_failed s)
            | Inr raw \<Rightarrow> if raw = [] then ret (auth_failed s) else finish_login s codec raw (op_nonce p))))"
    if "hr_cookie rq stateCookieName = Some cookie" for cookie
    by (rule yields_bind [OF yields_openState, where Q = "\<lambda>x r fs. session_cookies r = {} \<or>
          (\<exists>p. x = Inr p \<and> op_state p = hr_query rq ''state'' \<and> exchanged_login s codec rq p r fs)"])
      (auto simp: opens_state_def callback_ok_def exchanged_login_def Some that split: sum.splits
        intro!: yields_return yields_mono [OF yields_exchanged_login])
  then show ?thesis
    by (auto simp: handleOAuthCallback_def Some callback_ok_def intro!: yields_return split: option.splits)
qed

section \<open>Login and callback agree\<close>

lemma b64_char_ascii: "n < 64 \<Longrightarrow> is_ascii (b64_char url n)"
proof -
  assume "n < 64"
  then consider "n < 26" | "26 \<le> n" "n < 52" | "52 \<le> n" "n < 62" | "n = 62" | "n = 63" by linarith
  then show ?thesis
    by cases (auto simp: is_ascii_def b64_char_ranges, auto simp: b64_char_def)
qed

lemma rawURLEncode_ascii: "list_all is_ascii (rawURLEncode bs)"
  by (induction True False bs rule: b64Encode.induct) (simp_all add: sextets b64_char_ascii)

lemma rawURLEncode_utf8 [simp]: "valid_utf8 (rawURLEncode bs)"
  by (rule valid_utf8_ascii) (rule rawURLEncode_ascii)

text \<open>What a login leaves behind: a state cookie that opens to what the provider was told.\<close>

definition login_ok :: "server \<Rightarrow> response \<Rightarrow> bool" where
  "login_ok s r \<longleftrightarrow>
     (\<forall>state nonce challenge. rsp_body r = RedirectToProvider state nonce challenge \<longrightarrow>
        (\<exists>codec ck p. s_session s = Some codec \<and> rsp_cookies r = [ck] \<and> ck_name ck = stateCookieName \<and>
           session_open codec (ck_value ck) ''oauth-state'' dec_state zero_state = Some p \<and>
           op_state p = state \<and> op_nonce p = nonce \<and> challenge = rawURLEncode (sha256 (op_codeVerifier p))))"

lemma login_ok_error [simp]: "login_ok s (http_error cs m st)"
  by (simp add: login_ok_def http_error_def respond_def)

lemma login_ok_sealed:
  assumes "s_session s = Some codec" "length n = gcm_nonce_size" "state_payload_ok p"
    and "length (seal_cookie (sc_key codec) (associatedData codec ''oauth-state'') n (marshal (enc_state p))) \<le> maxSessionCookie"
  shows "login_ok s (respond [oauth_state_cookie s (seal_cookie (sc_key codec) (associatedData codec ''oauth-state'') n
      (marshal (enc_state p))) now] 302 (RedirectToProvider (op_state p) (op_nonce p) (rawURLEncode (sha256 (op_codeVerifier p)))))"
  using assms
  by (simp add: login_ok_def respond_def oauth_state_cookie_def lax_cookie_def session_open_sealed oauth_state.document
      oauth_state.decode)

definition seals_login :: "server \<Rightarrow> string \<Rightarrow> string \<Rightarrow> string \<Rightarrow> error + string \<Rightarrow> bool" where
  "seals_login s state nonce verifier r \<longleftrightarrow>
     (\<forall>v now. r = Inr v \<longrightarrow>
        login_ok s (respond [oauth_state_cookie s v now] 302 (RedirectToProvider state nonce (rawURLEncode (sha256 verifier)))))"

lemma wp_seals_login:
  assumes "s_session s = Some codec" "\<And>k. in_int64 (unixSeconds (clock (w_env w) k + oauthStateTTL))"
    and "valid_utf8 state" "valid_utf8 nonce" "valid_utf8 verifier"
  shows "wp (sealState codec state nonce verifier) (\<lambda>r w'. seals_login s state nonce verifier r \<and> w_trace w' = w_trace w) w"
proof -
  define p where "p k = \<lparr>op_version = 1, op_state = state, op_nonce = nonce, op_codeVerifier = verifier,
      op_expires = unixSeconds (clock (w_env w) k + oauthStateTTL)\<rparr>" for k
  have ok: "state_payload_ok (p k)" for k
    using assms(2-) by (simp add: p_def state_payload_ok_def in_int64_def)
  have "seals_login s state nonce verifier (Inr (seal_cookie (sc_key codec) (associatedData codec ''oauth-state'')
      (map f [0..<gcm_nonce_size]) (marshal (enc_state (p k)))))"
    if "length (seal_cookie (sc_key codec) (associatedData codec ''oauth-state'') (map f [0..<gcm_nonce_size])
          (marshal (enc_state (p k)))) \<le> maxSessionCookie" for f k
    using login_ok_sealed [OF assms(1) _ ok that] by (simp add: seals_login_def p_def)
  then show ?thesis
    unfolding sealState_def p_def
    by (auto simp: wp_simps wp_session_seal Let_def seals_login_def split: option.splits)
qed

lemma login_ok_start [simp]: "login_ok s no_start"
  by (simp add: no_start_def)

lemma wp_handleOAuthLogin:
  assumes "\<And>k. in_int64 (unixSeconds (clock (w_env w) k + oauthStateTTL))"
  shows "wp (handleOAuthLogin s) (\<lambda>r w'. login_ok s r \<and> w_trace w' = w_trace w) w"
proof (cases "s_session s")
  case None
  then show ?thesis by (simp add: handleOAuthLogin_def wp_simps unavailable_def)
next
  case (Some codec)
  have "wp (sealState codec (rawURLEncode a) (rawURLEncode b) (rawURLEncode c) \<bind> (\<lambda>sealed. case sealed of Inl _ \<Rightarrow> ret no_start
      | Inr v \<Rightarrow> time_now \<bind> (\<lambda>now. ret (respond [oauth_state_cookie s v now] 302
            (RedirectToProvider (rawURLEncode a) (rawURLEncode b) (rawURLEncode (sha256 (rawURLEncode c))))))))
      (\<lambda>r w'. login_ok s r \<and> w_trace w' = w_trace w1) w1" if "w_env w1 = w_env w" for a b c w1
    unfolding wp_bind
    by (rule wp_mono [OF wp_seals_login [OF Some]])
      (auto simp: assms that seals_login_def wp_simps split: sum.splits)
  note seal = this [unfolded wp_bind]
  show ?thesis
    unfolding handleOAuthLogin_def Some option.case randomURLValue_def
    by (auto simp: wp_simps login_ok_start unavailable_def split: option.splits intro!: seal [THEN wp_mono])
qed

section \<open>Properties\<close>

text \<open>C9: A callback sets a session cookie only when the browser presents the state sealed in its own cookie, the
  code was exchanged with the verifier sealed there, and the token of the exchange was verified with the sealed
  nonce, for a usable email and a required group; the session holds that token and ends no later than it.\<close>

theorem callback_logs_in_only_its_own_login: "yields (callback_ok s rq) (handleOAuthCallback s rq)"
  by (rule yields_handleOAuthCallback)

text \<open>C34: A login sends the provider a state, a nonce and a challenge, and leaves the browser a cookie that opens
  to the same state and nonce and to the verifier the challenge commits to; it asks nothing of anybody.\<close>

theorem login_matches_its_cookie:
  assumes "\<And>k. in_int64 (unixSeconds (clock (w_env w) k + oauthStateTTL))"
  shows "wp (handleOAuthLogin s) (\<lambda>r w'. login_ok s r \<and> w_trace w' = w_trace w) w"
  by (rule wp_handleOAuthLogin [OF assms])

definition example_server :: server where
  "example_server =
     \<lparr>s_cfg = example_config\<lparr>cfg_AuthMode := ''native''\<rparr>,
      s_grafana = \<lparr>g_base = ''http://grafana:3000'', g_token = ''glsa_admin'', g_mode = ''legacy'', g_namespace = ''default'', g_metrics = True\<rparr>,
      s_flash = example_flash, s_session = Some example_codec, s_oauth = True, s_verifier = True, s_metrics = True,
      s_locker = LocalLocker\<rparr>"

definition example_login_world :: world where
  "example_login_world = example_world\<lparr>w_env := example_env\<lparr>clock := (\<lambda>_. 1700000000 * second)\<rparr>\<rparr>"

theorem login_matches_its_cookie_witness:
  "wp (handleOAuthLogin example_server) (\<lambda>r w'. login_ok example_server r \<and> w_trace w' = w_trace example_login_world)
     example_login_world"
  by (rule login_matches_its_cookie)
    (simp add: example_login_world_def in_int64_def unixSeconds_def oauthStateTTL_def minute_def second_def)

end
