(* ===== verification/ConfigFacts.thy ===== *)
theory ConfigFacts
  imports Config
begin

text \<open>What an accepted configuration satisfies, and the form of a normalised origin.\<close>

section \<open>Accepted configurations\<close>

definition config_ok :: "config \<Rightarrow> bool" where
  "config_ok c \<longleftrightarrow>
     cfg_AuthMode c \<in> {''proxy'', ''native''} \<and> ''openid'' \<in> set (cfg_OIDCScopes c) \<and>
     24 * hour \<le> cfg_TokenTTL c \<and> cfg_TokenTTL c \<le> 365 * 24 * hour \<and> (24 * hour) dvd cfg_TokenTTL c \<and>
     cfg_GrafanaToken c \<noteq> [] \<and> length (cfg_FlashCookieKey c) = 32 \<and>
     (cfg_RequiredGroups c \<noteq> [] \<or> cfg_AllowAllAuthenticatedUsers c) \<and>
     \<not> bad_base_path (cfg_BasePath c) \<and> hasPrefix (cfg_BasePath c) ''/'' \<and> last (cfg_BasePath c) \<noteq> CHR ''/'' \<and>
     cfg_RotationLockMode c \<in> {''local'', ''kubernetes''} \<and> cfg_GrafanaAPIMode c \<in> {''legacy'', ''iam''} \<and>
     (cfg_RotationLockMode c = ''kubernetes'' \<longrightarrow> cfg_RotationLease c \<noteq> [] \<and> cfg_PodNamespace c \<noteq> [] \<and> cfg_PodName c \<noteq> []) \<and>
     good_url (cfg_GrafanaURL c) \<and> good_url (cfg_PublicURL c) \<and> cfg_Issuer c \<noteq> [] \<and> cfg_GrafanaNamespace c \<noteq> [] \<and>
     (cfg_AuthMode c = ''proxy'' \<longrightarrow>
        cfg_IDTokenSource c = ''header'' \<and> validHeaderName (cfg_IDTokenHeader c) \<or>
        cfg_IDTokenSource c = ''cookie'' \<and> validHeaderName (cfg_IDTokenCookie c)) \<and>
     (cfg_AuthMode c = ''native'' \<longrightarrow>
        cfg_OIDCClientSecret c \<noteq> [] \<and> length (cfg_SessionCookieKey c) = 32 \<and>
        second \<le> cfg_SessionTTL c \<and> cfg_SessionTTL c \<le> 24 * hour \<and> hasPrefix (cfg_AppOrigin c) ''https://'')"

lemma secretEnv_nonempty: "secretEnv h k f = Inr v \<Longrightarrow> v \<noteq> []"
  by (auto simp: secretEnv_def Let_def split: if_splits sum.splits)

lemma decode_key_length: "decode_key n e = Inr k \<Longrightarrow> length k = 32"
  by (auto simp: decode_key_def split: option.splits if_splits)

lemma check_required_Inr:
  "check_required c names = Inr () \<longleftrightarrow> (\<forall>n \<in> set names. required_setting c n \<noteq> [])"
  by (induction names) auto

lemma check_urls_Inr: "check_urls c names = Inr () \<longleftrightarrow> (\<forall>n \<in> set names. good_url (required_setting c n))"
  by (induction names) auto

text \<open>What each stage adds, as an update of the configuration it was given.\<close>

lemma with_openid_in: "''openid'' \<in> set (cfg_OIDCScopes (with_openid c))"
  by (simp add: with_openid_def)

lemma with_openid_fields [simp]:
  "cfg_AuthMode (with_openid c) = cfg_AuthMode c" "cfg_BasePath (with_openid c) = cfg_BasePath c"
  by (simp_all add: with_openid_def)

lemma with_ttl_Inr:
  "with_ttl h c = Inr c' \<Longrightarrow>
   \<exists>days. 1 \<le> days \<and> days \<le> 365 \<and> c' = c\<lparr>cfg_TokenTTL := days * 24 * hour\<rparr>"
  by (auto simp: with_ttl_def split: option.splits if_splits) (rename_tac d, rule_tac x = d in exI, simp)

lemma with_secrets_Inr:
  "with_secrets h c = Inr c' \<Longrightarrow>
   \<exists>tok key. tok \<noteq> [] \<and> length key = 32 \<and> c' = c\<lparr>cfg_GrafanaToken := tok, cfg_FlashCookieKey := key\<rparr>"
  by (auto simp: with_secrets_def and_then_Inr dest!: secretEnv_nonempty decode_key_length)

lemma session_ttl_Inr: "session_ttl h = Inr t \<Longrightarrow> second \<le> t \<and> t \<le> 24 * hour"
  by (auto simp: session_ttl_def Let_def maxSessionTTLSeconds_def duration_defs split: if_splits option.splits)

lemma with_native_Inr:
  "with_native h c = Inr c' \<Longrightarrow>
   cfg_AuthMode c \<noteq> ''native'' \<and> c' = c \<or>
   (\<exists>secret key ttl. secret \<noteq> [] \<and> length key = 32 \<and> second \<le> ttl \<and> ttl \<le> 24 * hour \<and>
      c' = c\<lparr>cfg_OIDCClientSecret := secret, cfg_SessionCookieKey := key, cfg_SessionTTL := ttl\<rparr>)"
  unfolding with_native_def
  by (auto simp: and_then_Inr dest!: secretEnv_nonempty decode_key_length session_ttl_Inr split: if_splits)

lemma with_origin_Inr:
  "with_origin h c = Inr c' \<Longrightarrow>
   \<exists>origin. normalizeOrigin (h_lower h) (cfg_AppPublicURL c) = Inr origin \<and>
     (cfg_AuthMode c = ''native'' \<longrightarrow> hasPrefix origin ''https://'') \<and>
     c' = c\<lparr>cfg_AppOrigin := origin, cfg_AppPublicURL := origin\<rparr>"
  by (auto simp: with_origin_def split: sum.splits if_splits)

lemma trimSet_last: "trimSet cs v = [] \<or> last (trimSet cs v) \<notin> set cs"
proof (cases "trimSet cs v = []")
  case False
  then have "hd (rev (trimSet cs v)) \<notin> set cs"
    unfolding trimSet_def trimRight_def by (metis hd_dropWhile rev_rev_ident rev_is_Nil_conv)
  then show ?thesis by (simp add: hd_rev)
qed simp

lemma initial_base_path:
  "hasPrefix (cfg_BasePath (initial_config h a e)) ''/''"
  "cfg_BasePath (initial_config h a e) = ''/'' \<or> last (cfg_BasePath (initial_config h a e)) \<noteq> CHR ''/''"
  using trimSet_last [of "''/''" "getenv_or h ''BASE_PATH'' ''/setup-mcp''"]
  by (auto simp: initial_config_def hasPrefix_def)

lemma check_source_Inr:
  "check_source c = Inr () \<Longrightarrow> cfg_AuthMode c = ''proxy'' \<Longrightarrow>
     cfg_IDTokenSource c = ''header'' \<and> validHeaderName (cfg_IDTokenHeader c) \<or>
     cfg_IDTokenSource c = ''cookie'' \<and> validHeaderName (cfg_IDTokenCookie c)"
  by (auto simp: check_source_def split: if_splits)

lemma check_modes_Inr:
  "check_modes c = Inr () \<Longrightarrow>
     \<not> bad_base_path (cfg_BasePath c) \<and> cfg_RotationLockMode c \<in> {''local'', ''kubernetes''} \<and>
     cfg_GrafanaAPIMode c \<in> {''legacy'', ''iam''} \<and>
     (cfg_RotationLockMode c = ''kubernetes'' \<longrightarrow> cfg_RotationLease c \<noteq> [] \<and> cfg_PodNamespace c \<noteq> [] \<and> cfg_PodName c \<noteq> [])"
  by (auto simp: check_modes_def and_then_Inr)

lemma required_setting_simps:
  "required_setting c ''GRAFANA_URL'' = cfg_GrafanaURL c" "required_setting c ''GRAFANA_PUBLIC_URL'' = cfg_PublicURL c"
  "required_setting c ''OIDC_ISSUER'' = cfg_Issuer c" "required_setting c ''GRAFANA_NAMESPACE'' = cfg_GrafanaNamespace c"
  by (simp_all add: required_setting_def)

lemma fromEnv_ok:
  assumes "fromEnv h = Inr c" "\<And>names. set (h_order h names) = set names"
  shows "config_ok c"
proof -
  obtain allowAll enable c1 c2 c3 where steps:
      "\<not> (cfg_AuthMode (initial_config h allowAll enable) \<noteq> ''proxy'' \<and> cfg_AuthMode (initial_config h allowAll enable) \<noteq> ''native'')"
      "with_ttl h (with_openid (initial_config h allowAll enable)) = Inr c1"
      "with_secrets h c1 = Inr c2" "with_native h c2 = Inr c3"
      "check_required c3 (h_order h required_names) = Inr ()"
      "\<not> (cfg_RequiredGroups c3 = [] \<and> \<not> cfg_AllowAllAuthenticatedUsers c3)"
      "check_source c3 = Inr ()" "check_modes c3 = Inr ()" "with_origin h c3 = Inr c"
      "check_urls c (h_order h [''GRAFANA_URL'', ''GRAFANA_PUBLIC_URL'']) = Inr ()"
    using assms(1) unfolding fromEnv_def and_then_Inr Let_def reject_if_Inr
    by - (elim exE conjE, rule that, assumption+, simp_all)
  have urls: "good_url (cfg_GrafanaURL c)" "good_url (cfg_PublicURL c)"
    using steps(10) by (simp_all add: check_urls_Inr assms(2) required_setting_simps)
  have req: "cfg_Issuer c3 \<noteq> []" "cfg_GrafanaNamespace c3 \<noteq> []"
    using steps(5) by (simp_all add: check_required_Inr assms(2) required_names_def required_setting_simps)
  obtain days where days: "1 \<le> days" "days \<le> 365"
      "c1 = with_openid (initial_config h allowAll enable)\<lparr>cfg_TokenTTL := days * 24 * hour\<rparr>"
    using with_ttl_Inr [OF steps(2)] by blast
  obtain tok key where secrets: "tok \<noteq> []" "length key = 32"
      "c2 = c1\<lparr>cfg_GrafanaToken := tok, cfg_FlashCookieKey := key\<rparr>"
    using with_secrets_Inr [OF steps(3)] by blast
  obtain origin where origin: "cfg_AuthMode c3 = ''native'' \<longrightarrow> hasPrefix origin ''https://''"
      "c = c3\<lparr>cfg_AppOrigin := origin, cfg_AppPublicURL := origin\<rparr>"
    using with_origin_Inr [OF steps(9)] by blast
  have ttl: "24 * hour \<le> cfg_TokenTTL c1" "cfg_TokenTTL c1 \<le> 365 * 24 * hour" "(24 * hour) dvd cfg_TokenTTL c1"
    using days by (simp_all add: duration_defs)
  have c1: "''openid'' \<in> set (cfg_OIDCScopes c1)" "hasPrefix (cfg_BasePath c1) ''/''"
      "cfg_BasePath c1 = ''/'' \<or> last (cfg_BasePath c1) \<noteq> CHR ''/''" "cfg_AuthMode c1 \<in> {''proxy'', ''native''}"
    using days(3) with_openid_in initial_base_path steps(1) by simp_all
  have bad_root: "bad_base_path ''/''" by (simp add: bad_base_path_def)
  note modes = check_modes_Inr [OF steps(8)] and source = check_source_Inr [OF steps(7)]
  from with_native_Inr [OF steps(4)] show ?thesis
  proof (elim disjE conjE exE)
    assume "cfg_AuthMode c2 \<noteq> ''native''" "c3 = c2"
    then show ?thesis
      unfolding config_ok_def using modes bad_root source steps(6) secrets origin ttl c1 urls req by auto
  next
    fix secret key' ttl'
    assume "secret \<noteq> []" "length key' = 32" "second \<le> ttl'" "ttl' \<le> 24 * hour"
      "c3 = c2\<lparr>cfg_OIDCClientSecret := secret, cfg_SessionCookieKey := key', cfg_SessionTTL := ttl'\<rparr>"
    then show ?thesis
      unfolding config_ok_def using modes bad_root source steps(6) secrets origin ttl c1 urls req by auto
  qed
qed

section \<open>Origins\<close>

text \<open>
  A normalised origin is a scheme and a host, with a port only when it is not the scheme's
  default, and without leading zeros.
\<close>

lemma origin_port_Some:
  "origin_port scheme port = Some p \<Longrightarrow>
   p = [] \<or> (\<exists>n. 1 \<le> n \<and> n \<le> 65535 \<and> p = itoa n \<and> \<not> default_port scheme p)"
  by (auto simp: origin_port_def split: option.splits if_splits) (metis not_less)

lemma normalizeOrigin_form:
  assumes "normalizeOrigin uni raw = Inr origin"
  shows "\<exists>u name port. url_parse raw = Some u \<and> \<not> u_user u \<and> u_scheme u \<in> {''http'', ''https''} \<and>
     u_path u \<in> {[], ''/''} \<and> u_rawQuery u = [] \<and> u_fragment u = [] \<and>
     name = toLower uni (u_hostname u) \<and> u_hostname u \<noteq> [] \<and>
     origin = u_scheme u @ ''://'' @ (if port \<noteq> [] then joinHostPort name port
                                      else if CHR '':'' \<in> set name then ''['' @ name @ '']'' else name) \<and>
     (port = [] \<or> (\<exists>n. 1 \<le> n \<and> n \<le> 65535 \<and> port = itoa n \<and> \<not> default_port (u_scheme u) port))"
proof -
  obtain u port where u: "url_parse raw = Some u" "u_hostname u \<noteq> []" "u_scheme u = ''https'' \<or> u_scheme u = ''http''"
      "\<not> u_user u" "u_path u = [] \<or> u_path u = ''/''" "u_rawQuery u = []" "u_fragment u = []"
      "origin_port (u_scheme u) (u_port u) = Some port"
      "origin = u_scheme u @ ''://'' @ (if port \<noteq> [] then joinHostPort (toLower uni (u_hostname u)) port
         else if CHR '':'' \<in> set (toLower uni (u_hostname u)) then ''['' @ toLower uni (u_hostname u) @ '']''
         else toLower uni (u_hostname u))"
    using assms unfolding normalizeOrigin_def Let_def by (fastforce split: option.splits if_splits)
  show ?thesis
    by (rule exI [of _ u], rule exI [of _ "toLower uni (u_hostname u)"], rule exI [of _ port])
      (use u origin_port_Some [OF u(8)] in auto)
qed

section \<open>Properties\<close>

text \<open>C21: Every configuration \<open>FromEnv\<close> accepts is usable: a known mode, keys of 32 bytes, a whole number of days
  from 1 to 365, groups or an explicit consent to have none, a safe base path, absolute URLs, valid header
  names, and in native mode a secret, a bounded session and an https origin.\<close>

theorem accepted_configuration_is_ok:
  assumes "fromEnv h = Inr c" "\<And>names. set (h_order h names) = set names"
  shows "config_ok c"
  by (rule fromEnv_ok [OF assms])

theorem accepted_configuration_is_ok_witness:
  "case fromEnv example_host of Inl _ \<Rightarrow> False | Inr c \<Rightarrow> config_ok c"
proof -
  have "\<not> isl (fromEnv example_host)" by code_simp
  then obtain c where c: "fromEnv example_host = Inr c" by (cases "fromEnv example_host") auto
  have "config_ok c" by (rule accepted_configuration_is_ok [OF c]) (simp add: example_host_def)
  with c show ?thesis by simp
qed

text \<open>A normalised origin is a scheme and a lower-case host, with a port only when it is not the scheme's
  default and in canonical digits, made from a URL without user, path, query or fragment: two origins that
  are the same for a browser are the same string.\<close>

theorem normalised_origin_is_canonical:
  assumes "normalizeOrigin uni raw = Inr origin"
  shows "\<exists>u name port. url_parse raw = Some u \<and> \<not> u_user u \<and> u_scheme u \<in> {''http'', ''https''} \<and>
     u_path u \<in> {[], ''/''} \<and> u_rawQuery u = [] \<and> u_fragment u = [] \<and>
     name = toLower uni (u_hostname u) \<and> u_hostname u \<noteq> [] \<and>
     origin = u_scheme u @ ''://'' @ (if port \<noteq> [] then joinHostPort name port
                                      else if CHR '':'' \<in> set name then ''['' @ name @ '']'' else name) \<and>
     (port = [] \<or> (\<exists>n. 1 \<le> n \<and> n \<le> 65535 \<and> port = itoa n \<and> \<not> default_port (u_scheme u) port))"
  by (rule normalizeOrigin_form [OF assms])

theorem normalised_origin_is_canonical_witness:
  "\<exists>u name port. url_parse ''https://MCP.corp.io:0443/'' = Some u \<and> \<not> u_user u \<and> u_scheme u \<in> {''http'', ''https''} \<and>
     u_path u \<in> {[], ''/''} \<and> u_rawQuery u = [] \<and> u_fragment u = [] \<and>
     name = toLower (\<lambda>s. s) (u_hostname u) \<and> u_hostname u \<noteq> [] \<and>
     ''https://mcp.corp.io'' = u_scheme u @ ''://'' @ (if port \<noteq> [] then joinHostPort name port
                                      else if CHR '':'' \<in> set name then ''['' @ name @ '']'' else name) \<and>
     (port = [] \<or> (\<exists>n. 1 \<le> n \<and> n \<le> 65535 \<and> port = itoa n \<and> \<not> default_port (u_scheme u) port))"
proof (rule normalised_origin_is_canonical)
  show "normalizeOrigin (\<lambda>s. s) ''https://MCP.corp.io:0443/'' = Inr ''https://mcp.corp.io''" by code_simp
qed

end
