(* ===== verification/Routing.thy ===== *)
theory Routing
  imports ConfigFacts
begin

text \<open>
  The routes of \<open>Handler\<close> in \<open>internal/server/server.go\<close> and the part of \<open>net/http.ServeMux\<close> they
  rest on: patterns of a method and a path of literal segments and one-segment wildcards, when two
  patterns conflict (registration then panics), and which pattern a request matches.
\<close>

section \<open>Patterns\<close>

datatype segment = Lit string | Wild string

text \<open>The segments of a pattern; what \<open>FromEnv\<close> accepts as a base path has no braces and no escapes.\<close>

definition pattern_segment :: "string \<Rightarrow> segment" where
  "pattern_segment s =
     (if hasPrefix s ''{'' \<and> hasSuffix s ''}'' then Wild (take (length s - 2) (drop 1 s)) else Lit s)"

definition pattern_segments :: "string \<Rightarrow> segment list" where
  "pattern_segments p = map pattern_segment (splitOn CHR ''/'' (drop 1 p))"

datatype handlerName =
    Healthz | Readyz | MetricsText | ShowPage | ServeAsset | IssueToken | ShowToken | RevokeTokens
  | OAuthLogin | OAuthCallback | OAuthLoggedOut | OAuthLogout

record route =
  rt_method :: string
  rt_path :: string
  rt_handler :: handlerName

definition routes :: "config \<Rightarrow> route list" where
  "routes c =
     (let base = cfg_BasePath c in
      [\<lparr>rt_method = ''GET'', rt_path = ''/healthz'', rt_handler = Healthz\<rparr>,
       \<lparr>rt_method = ''GET'', rt_path = ''/readyz'', rt_handler = Readyz\<rparr>,
       \<lparr>rt_method = ''GET'', rt_path = ''/metrics'', rt_handler = MetricsText\<rparr>,
       \<lparr>rt_method = ''GET'', rt_path = base, rt_handler = ShowPage\<rparr>,
       \<lparr>rt_method = ''GET'', rt_path = base @ ''/assets/{name}'', rt_handler = ServeAsset\<rparr>,
       \<lparr>rt_method = ''POST'', rt_path = base @ ''/token'', rt_handler = IssueToken\<rparr>,
       \<lparr>rt_method = ''GET'', rt_path = base @ ''/token'', rt_handler = ShowToken\<rparr>,
       \<lparr>rt_method = ''POST'', rt_path = base @ ''/revoke'', rt_handler = RevokeTokens\<rparr>] @
      (if cfg_AuthMode c = ''native'' then
         [\<lparr>rt_method = ''GET'', rt_path = base @ ''/oauth2/login'', rt_handler = OAuthLogin\<rparr>,
          \<lparr>rt_method = ''GET'', rt_path = base @ ''/oauth2/callback'', rt_handler = OAuthCallback\<rparr>,
          \<lparr>rt_method = ''GET'', rt_path = base @ ''/oauth2/logged-out'', rt_handler = OAuthLoggedOut\<rparr>,
          \<lparr>rt_method = ''POST'', rt_path = base @ ''/oauth2/logout'', rt_handler = OAuthLogout\<rparr>]
       else []))"

text \<open>The pattern as it is written, which is what the metrics name a route by.\<close>

definition rt_pattern :: "route \<Rightarrow> string" where
  "rt_pattern r = rt_method r @ '' '' @ rt_path r"

section \<open>Paths\<close>

text \<open>\<open>path.Clean\<close> of a rooted path, with the trailing slash put back.\<close>

fun clean_segments :: "string list \<Rightarrow> string list \<Rightarrow> string list" where
  "clean_segments out [] = rev out"
| "clean_segments out (s # ss) =
     (if s = [] \<or> s = ''.'' then clean_segments out ss
      else if s = ''..'' then clean_segments (drop 1 out) ss
      else clean_segments (s # out) ss)"

definition cleanPath :: "string \<Rightarrow> string" where
  "cleanPath p =
     (if p = [] then ''/''
      else let p = (if hd p \<noteq> CHR ''/'' then CHR ''/'' # p else p);
               np = CHR ''/'' # joinWith ''/'' (clean_segments [] (splitOn CHR ''/'' p))
           in if last p = CHR ''/'' \<and> np \<noteq> ''/'' then np @ ''/'' else np)"

text \<open>
  The segments of a request's path, each one unescaped on its own; the empty segment after a
  trailing slash reads as a slash.
\<close>

definition request_segments :: "string \<Rightarrow> string list" where
  "request_segments p =
     map (\<lambda>s. if s = [] then ''/'' else case url_unescape OtherMode s of Some u \<Rightarrow> u | None \<Rightarrow> s)
       (splitOn CHR ''/'' (drop 1 p))"

section \<open>Matching\<close>

text \<open>The values of the wildcards; a wildcard never takes the empty rest after a trailing slash.\<close>

fun match_segments :: "segment list \<Rightarrow> string list \<Rightarrow> string list option" where
  "match_segments [] [] = Some []"
| "match_segments (Lit l # ps) (s # ss) = (if l = s then match_segments ps ss else None)"
| "match_segments (Wild w # ps) (s # ss) =
     (if s = ''/'' then None else map_option ((#) s) (match_segments ps ss))"
| "match_segments _ _ = None"

definition match_path :: "route \<Rightarrow> string \<Rightarrow> string list option" where
  "match_path r p = match_segments (pattern_segments (rt_path r)) (request_segments p)"

fun find_route :: "string \<Rightarrow> string \<Rightarrow> route list \<Rightarrow> (route \<times> string list) option" where
  "find_route method p [] = None"
| "find_route method p (r # rs) =
     (case (if rt_method r = method then match_path r p else None) of
        Some vs \<Rightarrow> Some (r, vs) | None \<Rightarrow> find_route method p rs)"

text \<open>A HEAD request takes a GET route when there is none of its own.\<close>

definition match_route :: "route list \<Rightarrow> string \<Rightarrow> string \<Rightarrow> (route \<times> string list) option" where
  "match_route rs method p =
     (case find_route method p rs of
        Some m \<Rightarrow> Some m
      | None \<Rightarrow> if method = ''HEAD'' then find_route ''GET'' p rs else None)"

text \<open>The methods a path allows, sorted, as the \<open>Allow\<close> header of a 405 lists them.\<close>

definition allowed_methods :: "route list \<Rightarrow> string \<Rightarrow> string list" where
  "allowed_methods rs p =
     (let ms = map rt_method (filter (\<lambda>r. match_path r p \<noteq> None) rs)
      in (if ''GET'' \<in> set ms then [''GET'', ''HEAD''] else []) @ (if ''POST'' \<in> set ms then [''POST''] else []))"

section \<open>Conflicts\<close>

text \<open>How two patterns compare: the comparison of their paths, segment by segment.\<close>

datatype relationship = Equivalent | MoreGeneral | MoreSpecific | Disjoint | Overlaps

fun combine :: "relationship \<Rightarrow> relationship \<Rightarrow> relationship" where
  "combine Equivalent r = r"
| "combine Disjoint r = Disjoint"
| "combine r Equivalent = r"
| "combine r Disjoint = Disjoint"
| "combine Overlaps r = Overlaps"
| "combine r Overlaps = Overlaps"
| "combine MoreGeneral MoreGeneral = MoreGeneral"
| "combine MoreSpecific MoreSpecific = MoreSpecific"
| "combine _ _ = Overlaps"

fun compare_segment :: "segment \<Rightarrow> segment \<Rightarrow> relationship" where
  "compare_segment (Lit a) (Lit b) = (if a = b then Equivalent else Disjoint)"
| "compare_segment (Lit a) (Wild b) = MoreSpecific"
| "compare_segment (Wild a) (Lit b) = MoreGeneral"
| "compare_segment (Wild a) (Wild b) = Equivalent"

fun compare_paths :: "segment list \<Rightarrow> segment list \<Rightarrow> relationship" where
  "compare_paths [] [] = Equivalent"
| "compare_paths (p # ps) (q # qs) = combine (compare_segment p q) (compare_paths ps qs)"
| "compare_paths _ _ = Disjoint"

text \<open>All methods here are different literals, none of them HEAD, so different methods are disjoint.\<close>

definition conflicts :: "route \<Rightarrow> route \<Rightarrow> bool" where
  "conflicts r q \<longleftrightarrow> rt_method r = rt_method q \<and>
     compare_paths (pattern_segments (rt_path r)) (pattern_segments (rt_path q)) \<in> {Equivalent, Overlaps}"

text \<open>Registration in order: a pattern with an unclean path, or one that conflicts, panics.\<close>

fun registers :: "route list \<Rightarrow> route list \<Rightarrow> bool" where
  "registers prior [] = True"
| "registers prior (r # rs) \<longleftrightarrow>
     cleanPath (rt_path r) = rt_path r \<and> list_all (\<lambda>q. \<not> conflicts r q) prior \<and> registers (prior @ [r]) rs"

section \<open>Clean paths\<close>

definition clean_segment :: "string \<Rightarrow> bool" where
  "clean_segment s \<longleftrightarrow> s \<noteq> [] \<and> s \<noteq> ''.'' \<and> s \<noteq> ''..''"

lemma clean_segments_keep:
  "list_all clean_segment ss \<Longrightarrow> clean_segments out ss = rev out @ ss"
  by (induction ss arbitrary: out) (auto simp: clean_segment_def)

lemma clean_segments_clean:
  "list_all clean_segment out \<Longrightarrow> list_all clean_segment (clean_segments out ss)"
proof (induction out ss rule: clean_segments.induct)
  case (2 out s ss)
  have "list_all clean_segment (drop 1 out)" using "2.prems" by (auto simp: list_all_iff dest: in_set_dropD)
  with 2 show ?case by (simp add: clean_segment_def [of s])
qed simp

lemma clean_segments_parts:
  "set (clean_segments out ss) \<subseteq> set out \<union> set ss"
  by (induction out ss rule: clean_segments.induct) (auto dest: in_set_dropD)

lemma splitOn_joinWith:
  "ss \<noteq> [] \<Longrightarrow> \<forall>s \<in> set ss. c \<notin> set s \<Longrightarrow> splitOn c (joinWith [c] ss) = ss"
proof (induction ss)
  case (Cons s ss)
  then show ?case
    by (cases "ss = []") (auto simp: joinWith_Cons splitOn_append splitOn_no_sep)
qed simp

lemma splitOn_root: "splitOn CHR ''/'' (CHR ''/'' # q) = [] # splitOn CHR ''/'' q"
  by simp

text \<open>A rooted path without a trailing slash is clean exactly when every segment is.\<close>

lemma cleanPath_rooted:
  assumes "q \<noteq> []" "last q \<noteq> CHR ''/''"
  shows "cleanPath (CHR ''/'' # q) = CHR ''/'' # q \<longleftrightarrow> list_all clean_segment (splitOn CHR ''/'' q)"
proof -
  have cp: "cleanPath (CHR ''/'' # q) = CHR ''/'' # joinWith ''/'' (clean_segments [] (splitOn CHR ''/'' q))"
    using assms by (simp add: cleanPath_def)
  show ?thesis
  proof
    assume "list_all clean_segment (splitOn CHR ''/'' q)"
    then show "cleanPath (CHR ''/'' # q) = CHR ''/'' # q"
      unfolding cp using clean_segments_keep [of "splitOn CHR ''/'' q" "[]"] by (simp add: joinWith_splitOn)
  next
    define cs where "cs = clean_segments [] (splitOn CHR ''/'' q)"
    assume "cleanPath (CHR ''/'' # q) = CHR ''/'' # q"
    then have join: "joinWith ''/'' cs = q" unfolding cp cs_def by simp
    with assms(1) have "cs \<noteq> []" by auto
    moreover have "\<forall>s \<in> set cs. CHR ''/'' \<notin> set s"
      using clean_segments_parts [of "[]" "splitOn CHR ''/'' q"] splitOn_no_sep_parts [of _ "CHR ''/''" q]
      unfolding cs_def by auto
    ultimately have "splitOn CHR ''/'' q = cs"
      using splitOn_joinWith [of cs "CHR ''/''"] join by simp
    then show "list_all clean_segment (splitOn CHR ''/'' q)"
      using clean_segments_clean [of "[]" "splitOn CHR ''/'' q"] cs_def by simp
  qed
qed

lemma splitOn_extend: "splitOn c (s @ c # t) = splitOn c s @ splitOn c t"
proof (induction s)
  case (Cons a s)
  then show ?case by (cases "splitOn c s") auto
qed simp

lemma cleanPath_extend:
  assumes "q \<noteq> []" "last q \<noteq> CHR ''/''" "t \<noteq> []" "last t \<noteq> CHR ''/''" "list_all clean_segment (splitOn CHR ''/'' t)"
  shows "cleanPath (CHR ''/'' # q @ CHR ''/'' # t) = CHR ''/'' # q @ CHR ''/'' # t \<longleftrightarrow>
     cleanPath (CHR ''/'' # q) = CHR ''/'' # q"
  using assms cleanPath_rooted [of "q @ CHR ''/'' # t"] cleanPath_rooted [OF assms(1,2)]
  by (simp add: splitOn_extend)

section \<open>The patterns of the routes\<close>

lemma pattern_segment_literal: "CHR ''{'' \<notin> set s \<Longrightarrow> pattern_segment s = Lit s"
  by (cases s) (auto simp: pattern_segment_def hasPrefix_def)

lemma pattern_literals:
  assumes "CHR ''{'' \<notin> set q"
  shows "map pattern_segment (splitOn CHR ''/'' q) = map Lit (splitOn CHR ''/'' q)"
proof -
  have "set s \<subseteq> set q" if "s \<in> set (splitOn CHR ''/'' q)" for s
    using that
  proof (induction q arbitrary: s)
    case (Cons a q)
    then show ?case
      by (cases "splitOn CHR ''/'' q") (fastforce split: if_splits)+
  qed simp
  with assms show ?thesis by (auto intro!: pattern_segment_literal)
qed

lemma pattern_extend:
  "CHR ''{'' \<notin> set q \<Longrightarrow>
   pattern_segments (CHR ''/'' # q @ CHR ''/'' # t) = map Lit (splitOn CHR ''/'' q) @ map pattern_segment (splitOn CHR ''/'' t)"
  "CHR ''{'' \<notin> set q \<Longrightarrow> pattern_segments (CHR ''/'' # q) = map Lit (splitOn CHR ''/'' q)"
  by (simp_all add: pattern_segments_def splitOn_extend pattern_literals)

section \<open>Comparing patterns\<close>

lemma combine_Disjoint [simp]: "combine r Disjoint = Disjoint"
  by (cases r) simp_all

lemma compare_lengths: "length ps \<noteq> length qs \<Longrightarrow> compare_paths ps qs = Disjoint"
  by (induction ps qs rule: compare_paths.induct) auto

lemma compare_prefix [simp]: "compare_paths (map Lit ls @ ps) (map Lit ls @ qs) = compare_paths ps qs"
  by (induction ls) simp_all

text \<open>Two patterns that one request matches are not disjoint.\<close>

lemma matched_not_disjoint:
  "match_segments ps ss = Some vs \<Longrightarrow> match_segments qs ss = Some us \<Longrightarrow> compare_paths ps qs \<noteq> Disjoint"
proof (induction ps qs arbitrary: ss vs us rule: compare_paths.induct)
  case (2 p ps q qs)
  then obtain s ss' where ss: "ss = s # ss'" by (cases p; cases ss) auto
  with "2.prems" obtain vs' us' where "match_segments ps ss' = Some vs'" "match_segments qs ss' = Some us'"
    by (cases p; cases q) (auto split: if_splits)
  then have "compare_paths ps qs \<noteq> Disjoint" by (rule "2.IH")
  moreover have "compare_segment p q \<noteq> Disjoint"
    using "2.prems" ss by (cases p; cases q) (auto split: if_splits)
  ultimately show ?case by (cases "compare_segment p q"; cases "compare_paths ps qs") auto
qed (auto elim: match_segments.elims)

section \<open>Registration\<close>

definition separate :: "route \<Rightarrow> route \<Rightarrow> bool" where
  "separate q r \<longleftrightarrow> rt_method r \<noteq> rt_method q \<or>
     compare_paths (pattern_segments (rt_path r)) (pattern_segments (rt_path q)) = Disjoint"

lemma separate_no_conflict: "separate q r \<Longrightarrow> \<not> conflicts r q"
  by (auto simp: separate_def conflicts_def)

lemma registers_iff:
  "registers prior rs \<longleftrightarrow> list_all (\<lambda>r. cleanPath (rt_path r) = rt_path r) rs \<and>
     list_all (\<lambda>r. list_all (\<lambda>q. \<not> conflicts r q) prior) rs \<and> sorted_wrt (\<lambda>q r. \<not> conflicts r q) rs"
  by (induction prior rs rule: registers.induct) (auto simp: list_all_iff)

lemma registers_separate:
  "sorted_wrt separate rs \<Longrightarrow> registers [] rs \<longleftrightarrow> list_all (\<lambda>r. cleanPath (rt_path r) = rt_path r) rs"
  unfolding registers_iff by (auto simp: list_all_iff elim!: sorted_wrt_mono_rel [rotated] dest: separate_no_conflict)

text \<open>A base path as \<open>FromEnv\<close> accepts it.\<close>

definition good_base :: "string \<Rightarrow> bool" where
  "good_base base \<longleftrightarrow> (\<exists>q. base = CHR ''/'' # q \<and> q \<noteq> [] \<and> last q \<noteq> CHR ''/'' \<and> CHR ''{'' \<notin> set q)"

lemma config_good_base: "config_ok c \<Longrightarrow> good_base (cfg_BasePath c)"
proof -
  assume ok: "config_ok c"
  define base where "base = cfg_BasePath c"
  from ok have facts: "\<not> bad_base_path base" "hasPrefix base ''/''" "last base \<noteq> CHR ''/''"
    unfolding config_ok_def base_def by blast+
  then obtain q where q: "base = CHR ''/'' # q" by (cases base) (simp_all add: hasPrefix_def)
  have "q \<noteq> []" using facts(3) q by auto
  moreover have "CHR ''{'' \<notin> set q"
    using facts(1) q unfolding bad_base_path_def containsAny_def list_ex_iff by auto
  ultimately show ?thesis using facts(3) q unfolding good_base_def base_def by auto
qed

definition reserved_paths :: "string list" where
  "reserved_paths = [''/healthz'', ''/readyz'', ''/metrics'']"

lemma reserved_segments:
  "pattern_segments ''/healthz'' = [Lit ''healthz'']" "pattern_segments ''/readyz'' = [Lit ''readyz'']"
  "pattern_segments ''/metrics'' = [Lit ''metrics'']"
  by code_simp+

lemma reserved_clean:
  "cleanPath ''/healthz'' = ''/healthz''" "cleanPath ''/readyz'' = ''/readyz''" "cleanPath ''/metrics'' = ''/metrics''"
  by code_simp+

lemma relative_segments:
  "pattern_segment ''assets'' = Lit ''assets''" "pattern_segment ''{name}'' = Wild ''name''"
  "pattern_segment ''token'' = Lit ''token''" "pattern_segment ''revoke'' = Lit ''revoke''"
  "pattern_segment ''oauth2'' = Lit ''oauth2''" "pattern_segment ''login'' = Lit ''login''"
  "pattern_segment ''callback'' = Lit ''callback''" "pattern_segment ''logged-out'' = Lit ''logged-out''"
  "pattern_segment ''logout'' = Lit ''logout''"
  by code_simp+

text \<open>The segments of a route below the base, whose first segments are the base's.\<close>

lemma below_base:
  assumes "base = CHR ''/'' # q" "CHR ''{'' \<notin> set q"
  shows "pattern_segments (base @ CHR ''/'' # t) = map Lit (splitOn CHR ''/'' q) @ map pattern_segment (splitOn CHR ''/'' t)"
  using pattern_extend(1) [OF assms(2)] assms(1) by simp

lemma compare_base:
  "compare_paths (map Lit ls) (map Lit ls @ p # ps) = Disjoint" "compare_paths (map Lit ls @ p # ps) (map Lit ls) = Disjoint"
  by (rule compare_lengths; simp)+

lemma compare_reserved:
  "ls \<noteq> [] \<Longrightarrow> compare_paths (map Lit ls @ p # ps) [Lit f] = Disjoint"
  by (rule compare_lengths) (cases ls; simp)

lemma compare_single: "ls \<noteq> [f] \<Longrightarrow> compare_paths (map Lit ls) [Lit f] = Disjoint"
  by (cases ls; cases "tl ls") (auto simp: compare_lengths)

lemma splitOn_singleton: "splitOn c q = [f] \<Longrightarrow> q = f"
  using joinWith_splitOn [of c q] by simp

lemma routes_separate:
  assumes "good_base (cfg_BasePath c)" "cfg_BasePath c \<notin> set reserved_paths"
  shows "sorted_wrt separate (routes c)"
proof -
  obtain q where q: "cfg_BasePath c = CHR ''/'' # q" "CHR ''{'' \<notin> set q"
    using assms(1) by (auto simp: good_base_def)
  define ls where "ls = splitOn CHR ''/'' q"
  have ls: "ls \<noteq> []" "ls \<noteq> [''healthz'']" "ls \<noteq> [''readyz'']" "ls \<noteq> [''metrics'']"
    using assms(2) q(1) splitOn_singleton [of "CHR ''/''" q] by (auto simp: ls_def reserved_paths_def)
  have base: "pattern_segments (cfg_BasePath c) = map Lit ls"
    using pattern_extend(2) [OF q(2)] q(1) by (simp add: ls_def)
  have below: "pattern_segments (cfg_BasePath c @ CHR ''/'' # t) = map Lit ls @ map pattern_segment (splitOn CHR ''/'' t)" for t
    using below_base [OF q] by (simp add: ls_def)
  note simps = separate_def base below relative_segments reserved_segments compare_base compare_reserved [OF ls(1)]
    compare_single ls
  show ?thesis by (simp add: routes_def Let_def simps)
qed

lemma relative_clean:
  "list_all (\<lambda>t. t \<noteq> [] \<and> last t \<noteq> CHR ''/'' \<and> list_all clean_segment (splitOn CHR ''/'' t))
     [''assets/{name}'', ''token'', ''revoke'', ''oauth2/login'', ''oauth2/callback'', ''oauth2/logged-out'', ''oauth2/logout'']"
  by code_simp

lemma routes_clean:
  assumes "good_base (cfg_BasePath c)"
  shows "list_all (\<lambda>r. cleanPath (rt_path r) = rt_path r) (routes c) \<longleftrightarrow> cleanPath (cfg_BasePath c) = cfg_BasePath c"
proof -
  obtain q where q: "cfg_BasePath c = CHR ''/'' # q" "q \<noteq> []" "last q \<noteq> CHR ''/''"
    using assms by (auto simp: good_base_def)
  have below: "cleanPath (cfg_BasePath c @ CHR ''/'' # t) = cfg_BasePath c @ CHR ''/'' # t \<longleftrightarrow>
      cleanPath (cfg_BasePath c) = cfg_BasePath c"
    if "t \<in> set [''assets/{name}'', ''token'', ''revoke'', ''oauth2/login'', ''oauth2/callback'', ''oauth2/logged-out'', ''oauth2/logout'']" for t
    using relative_clean that cleanPath_extend [OF q(2,3), of t] q(1) by (auto simp: list_all_iff)
  show ?thesis
    unfolding routes_def Let_def using below by (simp add: reserved_clean)
qed

lemma reserved_base_conflicts:
  assumes "cfg_BasePath c \<in> set reserved_paths"
  shows "\<not> registers [] (routes c)"
proof -
  define fixed where "fixed = [\<lparr>rt_method = ''GET'', rt_path = ''/healthz'', rt_handler = Healthz\<rparr>,
       \<lparr>rt_method = ''GET'', rt_path = ''/readyz'', rt_handler = Readyz\<rparr>,
       \<lparr>rt_method = ''GET'', rt_path = ''/metrics'', rt_handler = MetricsText\<rparr>]"
  define s where "s = \<lparr>rt_method = ''GET'', rt_path = cfg_BasePath c, rt_handler = ShowPage\<rparr>"
  obtain rest where rest: "routes c = fixed @ s # rest"
    unfolding routes_def Let_def fixed_def s_def by simp
  have "list_ex (conflicts s) fixed"
    using assms by (auto simp: reserved_paths_def fixed_def s_def conflicts_def reserved_segments)
  then show ?thesis
    unfolding rest registers_iff by (auto simp: sorted_wrt_append list_ex_iff)
qed

lemma registers_routes:
  assumes "good_base (cfg_BasePath c)"
  shows "registers [] (routes c) \<longleftrightarrow>
     cleanPath (cfg_BasePath c) = cfg_BasePath c \<and> cfg_BasePath c \<notin> set reserved_paths"
  using registers_separate [OF routes_separate [OF assms]] routes_clean [OF assms] reserved_base_conflicts by blast


definition probe_host :: host where
  "probe_host = example_host\<lparr>h_getenv := (h_getenv example_host)(''BASE_PATH'' := ''readyz/'')\<rparr>"


lemma match_path_disjoint:
  assumes "match_path x p \<noteq> None" "match_path y p \<noteq> None"
  shows "compare_paths (pattern_segments (rt_path y)) (pattern_segments (rt_path x)) \<noteq> Disjoint"
proof -
  obtain vs us where "match_segments (pattern_segments (rt_path x)) (request_segments p) = Some vs"
      "match_segments (pattern_segments (rt_path y)) (request_segments p) = Some us"
    using assms by (auto simp: match_path_def)
  then show ?thesis by (rule matched_not_disjoint [rotated])
qed

lemma sorted_wrt_filter_length:
  "sorted_wrt (\<lambda>x y. \<not> (P x \<and> P y)) xs \<Longrightarrow> length (filter P xs) \<le> 1"
proof (induction xs)
  case (Cons x xs)
  then show ?case by (cases "P x") (auto simp: filter_empty_conv [THEN iffD2])
qed simp

text \<open>C24: Once the routes are registered, a request matches at most one route of its method, so neither the order
  of registration nor the precedence of patterns decides which handler answers.\<close>

theorem routing_is_unambiguous:
  assumes "fromEnv h = Inr c" "\<And>names. set (h_order h names) = set names" "registers [] (routes c)"
  shows "length (filter (\<lambda>r. rt_method r = method \<and> match_path r p \<noteq> None) (routes c)) \<le> 1"
proof (rule sorted_wrt_filter_length)
  have good: "good_base (cfg_BasePath c)" by (rule config_good_base [OF fromEnv_ok [OF assms(1,2)]])
  then have "sorted_wrt separate (routes c)"
    using assms(3) registers_routes [OF good] by (intro routes_separate) auto
  then show "sorted_wrt (\<lambda>x y. \<not> ((rt_method x = method \<and> match_path x p \<noteq> None) \<and>
      rt_method y = method \<and> match_path y p \<noteq> None)) (routes c)"
    by (rule sorted_wrt_mono_rel [rotated])
      (auto simp: separate_def simp del: not_None_eq dest: match_path_disjoint)
qed

theorem routing_is_unambiguous_witness:
  "case fromEnv example_host of Inl _ \<Rightarrow> False | Inr c \<Rightarrow>
     length (filter (\<lambda>r. rt_method r = ''GET'' \<and> match_path r ''/setup-mcp/token'' \<noteq> None) (routes c)) \<le> 1"
proof -
  have "(case fromEnv example_host of Inl _ \<Rightarrow> False | Inr c \<Rightarrow> registers [] (routes c))" by code_simp
  then obtain c where c: "fromEnv example_host = Inr c" "registers [] (routes c)"
    by (cases "fromEnv example_host") auto
  have "length (filter (\<lambda>r. rt_method r = ''GET'' \<and> match_path r ''/setup-mcp/token'' \<noteq> None) (routes c)) \<le> 1"
    by (rule routing_is_unambiguous [OF c(1) _ c(2)]) (simp add: example_host_def)
  with c show ?thesis by simp
qed

end
