(* ===== verification/Server.thy ===== *)
theory Server
  imports Native Routing
begin

text \<open>
  The assembly in \<open>internal/server/server.go\<close>: \<open>New\<close>, which makes a server from its settings, and
  \<open>Handler\<close>, which puts the routes behind the metrics, the request identifiers and the security
  headers. What the parts show separately is put together here: what one request can do.
\<close>

section \<open>New\<close>

text \<open>
  \<open>discover\<close> is the discovery of the provider at the issuer (\<open>oidc.NewProvider\<close>): an error or none.
\<close>

definition native_settings :: "config \<Rightarrow> error + config" where
  "native_settings cfg =
     (if cfg_AuthMode cfg \<noteq> ''native'' then Inr cfg
      else if cfg_OIDCClientSecret cfg = [] then Inl (Msg ''OIDC_CLIENT_SECRET is required in native auth mode'')
      else Inr (with_openid (if cfg_SessionTTL cfg \<le> 0 then cfg\<lparr>cfg_SessionTTL := defaultSessionTTL\<rparr> else cfg)))"

definition new_session :: "config \<Rightarrow> error + sessionCodec option" where
  "new_session cfg =
     (if cfg_AuthMode cfg = ''native'' then map_sum id Some (newSessionCodec (cfg_SessionCookieKey cfg) (cfg_BasePath cfg))
      else Inr None)"

definition newServer :: "(string \<Rightarrow> error option) \<Rightarrow> host \<Rightarrow> config \<Rightarrow> error + server" where
  "newServer discover h cfg =
     and_then (native_settings cfg) (\<lambda>cfg.
     case discover (cfg_Issuer cfg) of
       Some e \<Rightarrow> Inl (Wrap (''discovering the OIDC provider at '' @ cfg_Issuer cfg @ '': '') e [])
     | None \<Rightarrow>
         and_then (newFlashCodec (cfg_FlashCookieKey cfg) (cfg_FlashTTL cfg) (cfg_BasePath cfg)) (\<lambda>flash.
         and_then (newMutationLocker h cfg) (\<lambda>locker.
         and_then (new_session cfg) (\<lambda>session.
         Inr \<lparr>s_cfg = cfg,
              s_grafana = \<lparr>g_base = cfg_GrafanaURL cfg, g_token = cfg_GrafanaToken cfg, g_mode = cfg_GrafanaAPIMode cfg,
                           g_namespace = cfg_GrafanaNamespace cfg, g_metrics = True\<rparr>,
              s_flash = flash, s_session = session, s_oauth = (session \<noteq> None), s_verifier = True, s_metrics = True,
              s_locker = locker\<rparr>))))"

section \<open>Handlers by name\<close>

definition not_found :: response where
  "not_found = http_error [] ''404 page not found'' 404"

definition handleAsset :: "string \<Rightarrow> response io" where
  "handleAsset name = do {
     assets \<leftarrow> ask process_assets;
     ret (case find_asset assets name of None \<Rightarrow> not_found
          | Some a \<Rightarrow> (respond [] 200 (Text (as_body a)))\<lparr>rsp_headers :=
              [(''Content-Type'', as_contentType a), (''Cache-Control'', ''public, max-age=31536000, immutable''),
               (''X-Content-Type-Options'', ''nosniff'')]\<rparr>)
   }"

definition serveMetrics :: "response io" where
  "serveMetrics = do {
     m \<leftarrow> get_metrics;
     ret ((respond [] 200 (MetricsPage m))\<lparr>rsp_headers :=
            [(''Content-Type'', ''text/plain; version=0.0.4; charset=utf-8'')]\<rparr>)
   }"

fun run_handler :: "server \<Rightarrow> handlerName \<Rightarrow> string list \<Rightarrow> httpRequest \<Rightarrow> response io" where
  "run_handler s Healthz vs rq = ret (respond [] 200 (Text (''ok'' @ [LF])))"
| "run_handler s Readyz vs rq = handleReady s"
| "run_handler s MetricsText vs rq = serveMetrics"
| "run_handler s ShowPage vs rq = handlePage s rq"
| "run_handler s ServeAsset vs rq = handleAsset (concat vs)"
| "run_handler s IssueToken vs rq = handleIssue s rq"
| "run_handler s ShowToken vs rq = handleShow s rq"
| "run_handler s RevokeTokens vs rq = handleRevoke s rq"
| "run_handler s OAuthLogin vs rq = handleOAuthLogin s"
| "run_handler s OAuthCallback vs rq = handleOAuthCallback s rq"
| "run_handler s OAuthLoggedOut vs rq = ret (handleOAuthLoggedOut s)"
| "run_handler s OAuthLogout vs rq = handleOAuthLogout s rq"

section \<open>The multiplexer\<close>

text \<open>
  What \<open>ServeMux\<close> does with a request: the name of the matched pattern, empty for none, and the
  answer. A path that is not clean is redirected to the clean one; \<open>moved\<close> is the status of that
  redirect, which depends on the release of the library. A CONNECT request keeps its path.
\<close>

definition method_not_allowed :: "string list \<Rightarrow> response" where
  "method_not_allowed ms =
     (let r = http_error [] ''Method Not Allowed'' 405 in r\<lparr>rsp_headers := (''Allow'', joinWith '', '' ms) # rsp_headers r\<rparr>)"

text \<open>The library escapes the cleaned path once more when it prints the URL.\<close>

definition redirect_target :: "string \<Rightarrow> string \<Rightarrow> string" where
  "redirect_target p query =
     concat (map (\<lambda>c. if is_alnum c \<or> c \<in> set ''-_.~$&+,/:;=@'' then [c] else percent c) p) @
     (if query = [] then [] else ''?'' @ query)"

definition mux :: "int \<Rightarrow> server \<Rightarrow> httpRequest \<Rightarrow> string \<times> response io" where
  "mux moved s rq =
     (let rs = routes (s_cfg s);
          p = (if hr_method rq = ''CONNECT'' then hr_escapedPath rq else cleanPath (hr_escapedPath rq));
          m = match_route rs (hr_method rq) p
      in if p \<noteq> hr_escapedPath rq then
           (case m of None \<Rightarrow> [] | Some (r, vs) \<Rightarrow> rt_pattern r,
            ret (redirect [] (redirect_target p (hr_rawQuery rq)) moved))
         else (case m of
                 Some (r, vs) \<Rightarrow> (rt_pattern r, run_handler s (rt_handler r) vs rq)
               | None \<Rightarrow> ([], ret (if allowed_methods rs p = [] then not_found
                                   else method_not_allowed (allowed_methods rs p)))))"

text \<open>\<open>metrics.wrap\<close>, which times every request but those for the metrics themselves.\<close>

definition metrics_wrap :: "httpRequest \<Rightarrow> string \<times> response io \<Rightarrow> response io" where
  "metrics_wrap rq answer =
     (if hr_path rq = ''/metrics'' then snd answer
      else do {
        _ \<leftarrow> update_metrics (wrap_enter (hr_path rq));
        start \<leftarrow> time_now;
        r \<leftarrow> snd answer;
        stop \<leftarrow> time_now;
        _ \<leftarrow> update_metrics (wrap_exit (hr_path rq) (hr_method rq) (fst answer) (rsp_status r) (stop - start));
        ret r
      })"

text \<open>One request through everything \<open>Handler\<close> returns.\<close>

definition serve :: "int \<Rightarrow> server \<Rightarrow> httpRequest \<Rightarrow> response io" where
  "serve moved s rq = with_middleware rq (\<lambda>rq. metrics_wrap rq (mux moved s rq))"

section \<open>What a request can do\<close>

text \<open>
  Events that change nothing at Grafana: reads, verifications, audit records, the exchange of a
  code with the provider, and what the readiness check asks of the Kubernetes API, which may create
  the Lease object.
\<close>

definition lease_event :: "server \<Rightarrow> event \<Rightarrow> bool" where
  "lease_event s e =
     (case s_locker s of LocalLocker \<Rightarrow> False
      | LeaseLocker l \<Rightarrow>
          (case e of Http q _ \<Rightarrow> rq_base q = lk_baseURL l \<and>
             (rq_method q = GET \<and> rq_path q = lease_path l \<or> rq_method q = POST \<and> rq_path q = lease_collection l)
           | _ \<Rightarrow> False))"

definition harmless :: "server \<Rightarrow> event \<Rightarrow> bool" where
  "harmless s e \<longleftrightarrow> quiet_event e \<or> lease_event s e \<or> (\<exists>c v r. e = Exchanged c v r)"

lemma frame_harmless: "frame quiet_event m \<Longrightarrow> frame (harmless s) m"
  by (erule frame_mono) (simp add: harmless_def)

lemma frame_harmless_events:
  "frame (harmless s) (oidc_verify raw)" "frame (harmless s) (oauth_exchange code v)"
  "frame (harmless s) (audit s' i a em e ds)"
proof -
  show "frame (harmless s) (oidc_verify raw)" "frame (harmless s) (audit s' i a em e ds)"
    by (intro frame_harmless frame_intros)+
  show "frame (harmless s) (oauth_exchange code v)"
    by (simp add: frame_def wp_simps harmless_def)
qed

lemma frame_harmless_reads:
  "frame (harmless s) (identity s' rq)" "frame (harmless s) (nativeIdentity s' rq)" "frame (harmless s) (verifyIDToken s' raw n)"
  "frame (harmless s) (grafana_ready g)" "frame (harmless s) (handlePage s' rq)" "frame (harmless s) (handleShow s' rq)"
  by (intro frame_harmless frame_intros frame_handlePage frame_handleShow)+

lemma frame_validMutationRequest: "frame A (validMutationRequest s rq email)"
  unfolding validMutationRequest_def by (intro frame_intros)

lemma frame_lease_request:
  assumes "s_locker s = LeaseLocker l" "m = GET \<or> m = POST"
  shows "frame (harmless s) (lease_request l m b out0 z)"
  unfolding lease_request_def
  by (intro frame_intros frame_http) (use assms in \<open>auto simp: harmless_def lease_event_def\<close>)

lemma frame_lease_ready: "s_locker s = LeaseLocker l \<Longrightarrow> frame (harmless s) (lease_ready l)"
  unfolding lease_ready_def readLease_def
  by (intro frame_intros frame_lease_request) simp_all

lemma frame_probe: "frame (harmless s) (probe s)"
  unfolding probe_def
  by (intro frame_intros frame_harmless_reads) (auto split: mutationLocker.splits intro: frame_lease_ready frame_intros)

lemma frame_handleReady: "frame (harmless s) (handleReady s)"
  unfolding handleReady_def by (intro frame_intros frame_probe)

lemma frame_login: "frame A (handleOAuthLogin s)"
  unfolding handleOAuthLogin_def randomURLValue_def by (intro frame_intros)

lemma frame_callback: "frame (harmless s) (handleOAuthCallback s rq)"
  unfolding handleOAuthCallback_def finish_login_def Let_def
  by (intro frame_intros frame_harmless_events frame_harmless_reads)

lemma frame_logout: "frame (harmless s) (handleOAuthLogout s rq)"
  unfolding handleOAuthLogout_def by (intro frame_intros frame_harmless_reads frame_validMutationRequest)

lemma frame_run_handler:
  "name \<notin> {IssueToken, RevokeTokens} \<Longrightarrow> frame (harmless s) (run_handler s name vs rq)"
  by (cases name)
    (simp_all add: handleAsset_def serveMetrics_def frame_handleReady frame_login frame_callback frame_logout
      frame_harmless_reads frame_intros)

text \<open>Only POST routes lead to the two handlers that change something.\<close>

lemma changing_routes:
  "r \<in> set (routes c) \<Longrightarrow> rt_handler r \<in> {IssueToken, RevokeTokens} \<Longrightarrow> rt_method r = ''POST''"
  by (auto simp: routes_def Let_def split: if_splits)

lemma find_route_Some: "find_route m p rs = Some (r, vs) \<Longrightarrow> r \<in> set rs \<and> rt_method r = m \<and> match_path r p = Some vs"
  by (induction m p rs rule: find_route.induct) (auto split: option.splits if_splits)

lemma match_changing:
  assumes "match_route (routes c) m p = Some (r, vs)" "rt_handler r \<in> {IssueToken, RevokeTokens}"
  shows "m = ''POST''"
proof -
  consider "find_route m p (routes c) = Some (r, vs)" | "find_route ''GET'' p (routes c) = Some (r, vs)"
    using assms(1) by (auto simp: match_route_def split: option.splits if_splits)
  then show ?thesis
    by cases (auto dest!: find_route_Some dest: changing_routes [OF _ assms(2)])
qed

text \<open>What one request may do: nothing that changes Grafana, or what a verified POST request may.\<close>

definition bounded :: "server \<Rightarrow> httpRequest \<Rightarrow> world \<Rightarrow> world \<Rightarrow> bool" where
  "bounded s rq w w' \<longleftrightarrow> extends (harmless s) w w' \<or> hr_method rq = ''POST'' \<and> gated s rq w w'"

lemma bounded_silent [simp]:
  "bounded s rq (w\<lparr>w_ticks := n\<rparr>) w' = bounded s rq w w'" "bounded s rq w (w'\<lparr>w_ticks := n\<rparr>) = bounded s rq w w'"
  "bounded s rq (w\<lparr>w_draws := n\<rparr>) w' = bounded s rq w w'" "bounded s rq w (w'\<lparr>w_draws := n\<rparr>) = bounded s rq w w'"
  "bounded s rq (w\<lparr>w_metrics := m\<rparr>) w' = bounded s rq w w'" "bounded s rq w (w'\<lparr>w_metrics := m\<rparr>) = bounded s rq w w'"
  "bounded s rq w w"
  by (simp_all add: bounded_def extends_def gated_def)

lemma gated_id [simp]: "gated s (rq\<lparr>hr_id := i\<rparr>) w w' = gated s rq w w'"
  by (simp add: gated_def verified_def same_origin_def)

lemma bounded_id [simp]: "bounded s (rq\<lparr>hr_id := i\<rparr>) w w' = bounded s rq w w'"
  by (simp add: bounded_def)

lemma bounded_frame: "frame (harmless s) m \<Longrightarrow> wp m (\<lambda>_ w'. bounded s rq w w') w"
  by (drule frameD [where w = w], erule wp_mono) (simp add: bounded_def)

lemma bounded_run_handler:
  "name \<in> {IssueToken, RevokeTokens} \<longrightarrow> hr_method rq = ''POST'' \<Longrightarrow>
   wp (run_handler s name vs rq) (\<lambda>_ w'. bounded s rq w w') w"
proof (cases "name \<in> {IssueToken, RevokeTokens}")
  case True
  assume "name \<in> {IssueToken, RevokeTokens} \<longrightarrow> hr_method rq = ''POST''"
  then show ?thesis
    using True by (auto simp: bounded_def intro: wp_mono [OF gated_handleIssue] wp_mono [OF gated_handleRevoke])
next
  case False
  then show ?thesis by (rule bounded_frame [OF frame_run_handler])
qed

lemma bounded_mux: "wp (snd (mux moved s rq)) (\<lambda>_ w'. bounded s rq w w') w"
proof -
  have quiet: "wp (ret x) (\<lambda>_ w'. bounded s rq w w') w" for x :: response
    by (rule bounded_frame) (rule frame_intros)
  have run: "wp (run_handler s (rt_handler r) vs rq) (\<lambda>_ w'. bounded s rq w w') w"
    if "match_route (routes (s_cfg s)) (hr_method rq) p = Some (r, vs)" for r vs p
    by (rule bounded_run_handler) (use match_changing [OF that] in blast)
  show ?thesis
    unfolding mux_def Let_def by (auto simp: quiet run split: option.splits)
qed

lemma bounded_wrap:
  assumes "\<And>w. wp (snd answer) (\<lambda>_ w'. bounded s rq w w') w"
  shows "wp (metrics_wrap rq' answer) (\<lambda>_ w'. bounded s rq w w') w"
proof (cases "hr_path rq' = ''/metrics''")
  case False
  show ?thesis
    using False unfolding metrics_wrap_def
    by (simp add: wp_simps) (rule wp_mono [OF assms], simp add: wp_simps)
qed (simp add: metrics_wrap_def assms)

lemma bounded_middleware:
  assumes "\<And>i w. wp (handler (rq\<lparr>hr_id := i\<rparr>)) (\<lambda>_ w'. bounded s rq w w') w"
  shows "wp (with_middleware rq handler) (\<lambda>_ w'. bounded s rq w w') w"
proof -
  have finish: "wp (handler (rq\<lparr>hr_id := i\<rparr>) \<bind> (\<lambda>r. ret (f r))) (\<lambda>_ w'. bounded s rq w w') w" for i w and f :: "response \<Rightarrow> response"
    unfolding wp_bind by (rule wp_mono [OF assms]) (simp add: wp_simps)
  have drawn: "wp (handler (rq\<lparr>hr_id := i\<rparr>) \<bind> (\<lambda>r. ret (f r))) (\<lambda>_ w'. bounded s rq w w') (w\<lparr>w_draws := n\<rparr>)"
    for i n and f :: "response \<Rightarrow> response"
    by (rule wp_mono [OF finish]) simp
  show ?thesis
    unfolding with_middleware_def Let_def wp_if wp_bind [of "random_bytes 16"] wp_random_bytes
    by (auto simp: finish drawn wp_return split: option.splits)
qed

text \<open>C2: One request through the whole service, whatever it is and whatever the environment answers, asks
  nothing of Grafana but reads, unless it is a POST request; then anything more comes after the provider verified
  a token with a usable email and a required group and after the request was verified for that identity by its
  origin and its CSRF token, and it happens under the lock of that identity and no other.\<close>

theorem service_is_gated:
  "wp (serve moved s rq) (\<lambda>_ w'. extends (harmless s) w w' \<or> hr_method rq = ''POST'' \<and> gated s rq w w') w"
proof -
  have "wp (serve moved s rq) (\<lambda>_ w'. bounded s rq w w') w"
    unfolding serve_def
  proof (rule bounded_middleware)
    fix i and w :: world
    have "wp (snd (mux moved s (rq\<lparr>hr_id := i\<rparr>))) (\<lambda>_ w'. bounded s rq w w') w" for w
      using bounded_mux [of moved s "rq\<lparr>hr_id := i\<rparr>"] by simp
    then show "wp (metrics_wrap (rq\<lparr>hr_id := i\<rparr>) (mux moved s (rq\<lparr>hr_id := i\<rparr>))) (\<lambda>_ w'. bounded s rq w w') w"
      by (rule bounded_wrap)
  qed
  then show ?thesis by (simp add: bounded_def)
qed

section \<open>Starting\<close>



end
