(* ===== verification/Responses.thy ===== *)
theory Responses
  imports Server
begin

text \<open>
  What every response of the service looks like: a status the program means, headers of printable
  characters, cookies only scripts cannot read and that stay on this site, and redirects that stay on
  this host.
\<close>

section \<open>Well-formed responses\<close>

definition statuses :: "int set" where
  "statuses = {200, 302, 303, 400, 401, 403, 404, 405, 500, 502, 503}"

definition printable :: "char \<Rightarrow> bool" where
  "printable c \<longleftrightarrow> 32 \<le> byte_of c \<and> byte_of c < 127"

text \<open>The alphabet of the sealed cookies.\<close>

definition cookie_char :: "char \<Rightarrow> bool" where
  "cookie_char c \<longleftrightarrow> is_alnum c \<or> c = CHR ''-'' \<or> c = CHR ''_''"

definition cookie_names :: "string set" where
  "cookie_names = {flashCookieName, sessionCookieName, stateCookieName}"

definition cookie_ok :: "server \<Rightarrow> cookie \<Rightarrow> bool" where
  "cookie_ok s k \<longleftrightarrow>
     ck_secure k \<and> ck_httpOnly k \<and> ck_lax k \<and> ck_path k = cfg_BasePath (s_cfg s) \<and> ck_name k \<in> cookie_names \<and>
     length (ck_value k) \<le> 3800 \<and> list_all cookie_char (ck_value k)"

text \<open>A path on this host: one slash in front, where two would name another host.\<close>

definition local_path :: "string \<Rightarrow> bool" where
  "local_path p = (case p of [] \<Rightarrow> False | c # q \<Rightarrow> c = CHR ''/'' \<and> (case q of [] \<Rightarrow> True | d # _ \<Rightarrow> d \<noteq> CHR ''/''))"

definition header_ok :: "string \<times> string \<Rightarrow> bool" where
  "header_ok h \<longleftrightarrow>
     list_all printable (fst h) \<and> list_all printable (snd h) \<and> (fst h = ''X-Request-ID'' \<longrightarrow> validRequestID (snd h))"

definition response_ok :: "server \<Rightarrow> int set \<Rightarrow> response \<Rightarrow> bool" where
  "response_ok s sts r \<longleftrightarrow>
     rsp_status r \<in> sts \<and> list_all header_ok (rsp_headers r) \<and> list_all (cookie_ok s) (rsp_cookies r) \<and>
     (case rsp_body r of RedirectTo t \<Rightarrow> local_path t | _ \<Rightarrow> True)"

text \<open>The headers the middleware puts on every response, whatever the handler sets besides; without entropy
  there is no identifier, and the response is an error.\<close>

definition shielded :: "string \<Rightarrow> response \<Rightarrow> bool" where
  "shielded path r \<longleftrightarrow>
     fst ` set (securityHeaders path) \<subseteq> fst ` set (rsp_headers r) \<and>
     (''X-Request-ID'' \<in> fst ` set (rsp_headers r) \<or> rsp_status r = 500)"

section \<open>Sealed values\<close>

lemma b64_cookie_char: "n < 64 \<Longrightarrow> cookie_char (b64_char True n)"
  by (auto simp: b64_char_def cookie_char_def char_class_defs)

lemma rawURLEncode_cookie: "list_all cookie_char (rawURLEncode bs)"
  by (induction True False bs rule: b64Encode.induct) (simp_all add: sextets b64_cookie_char)

lemma seal_cookie_chars: "list_all cookie_char (seal_cookie k aad n p)"
  unfolding seal_cookie_def by (rule rawURLEncode_cookie)

definition fits :: "string \<Rightarrow> bool" where
  "fits v \<longleftrightarrow> length v \<le> 3800 \<and> list_all cookie_char v"

lemma cookie_okI:
  "fits v \<Longrightarrow> name \<in> cookie_names \<Longrightarrow> cookie_ok s (lax_cookie name v (cfg_BasePath (s_cfg s)) a e)"
  by (simp add: cookie_ok_def lax_cookie_def fits_def)

lemma fits_Nil: "fits []"
  by (simp add: fits_def)

lemma cookie_names [simp]:
  "flashCookieName \<in> cookie_names" "sessionCookieName \<in> cookie_names" "stateCookieName \<in> cookie_names"
  by (simp_all add: cookie_names_def)

lemma cookies_ok [simp]:
  "name \<in> cookie_names \<Longrightarrow> cookie_ok s (clear_cookie s name)"
  "fits v \<Longrightarrow> cookie_ok s (flash_cookie s v now)"
  "fits v \<Longrightarrow> cookie_ok s (session_cookie s v e now)"
  "fits v \<Longrightarrow> cookie_ok s (oauth_state_cookie s v now)"
  unfolding clear_cookie_def flash_cookie_def session_cookie_def oauth_state_cookie_def
  by (simp_all add: cookie_okI fits_Nil)

lemma returns_session_seal: "returns (\<lambda>r. \<forall>v. r = Inr v \<longrightarrow> fits v) (session_seal c doc kind)"
  unfolding session_seal_def
  by (intro returns_bind returns_return)
    (auto simp: Let_def fits_def seal_cookie_chars maxSessionCookie_def split: sum.splits if_splits)

lemma returns_seals:
  "returns (\<lambda>r. \<forall>v. r = Inr v \<longrightarrow> fits v) (sealSession c raw e)"
  "returns (\<lambda>r. \<forall>v. r = Inr v \<longrightarrow> fits v) (sealState c st n v')"
  unfolding sealSession_def sealState_def
  by (auto intro!: returns_bind returns_intros returns_session_seal)

lemma delivers_fits: "delivers s email (issued, None) \<Longrightarrow> fits (ir_flashCookie issued)"
  by (auto simp: delivers_def fits_def maxFlashCookieValue_def sealPrepared_def seal_cookie_chars)

section \<open>Responses by form\<close>

lemma printable_consts: "list_all header_ok [(''Content-Type'', ''text/plain; charset=utf-8''), (''X-Content-Type-Options'', ''nosniff''),
  (''Content-Type'', ''text/html; charset=utf-8''), (''Content-Type'', ''text/plain; version=0.0.4; charset=utf-8''),
  (''Cache-Control'', ''no-store''), (''Cache-Control'', ''public, max-age=31536000, immutable'')]"
  by code_simp

lemma error_ok: "status \<in> statuses \<Longrightarrow> list_all (cookie_ok s) cs \<Longrightarrow> response_ok s statuses (http_error cs msg status)"
  using printable_consts by (simp add: response_ok_def http_error_def respond_def)

lemma redirect_ok:
  "status \<in> statuses \<Longrightarrow> list_all (cookie_ok s) cs \<Longrightarrow> local_path t \<Longrightarrow> response_ok s statuses (redirect cs t status)"
  by (simp add: response_ok_def redirect_def respond_def)

lemma respond_ok:
  "status \<in> statuses \<Longrightarrow> list_all (cookie_ok s) cs \<Longrightarrow> (\<And>t. b \<noteq> RedirectTo t) \<Longrightarrow> response_ok s statuses (respond cs status b)"
  by (auto simp: response_ok_def respond_def split: body.splits)

lemma with_header_ok:
  "response_ok s statuses r \<Longrightarrow> list_all header_ok hs \<Longrightarrow> response_ok s statuses (r\<lparr>rsp_headers := hs\<rparr>)"
  by (simp add: response_ok_def)

lemma status_simps [simp]:
  "200 \<in> statuses" "302 \<in> statuses" "303 \<in> statuses" "400 \<in> statuses" "401 \<in> statuses" "403 \<in> statuses"
  "404 \<in> statuses" "405 \<in> statuses" "500 \<in> statuses" "502 \<in> statuses" "503 \<in> statuses"
  by (simp_all add: statuses_def)

section \<open>The handlers\<close>

text \<open>The base path of an accepted configuration: one slash in front of something else.\<close>

definition base_ok :: "server \<Rightarrow> bool" where
  "base_ok s \<longleftrightarrow> (\<exists>c q. cfg_BasePath (s_cfg s) = CHR ''/'' # c # q \<and> c \<noteq> CHR ''/'')"

lemma base_local: "base_ok s \<Longrightarrow> local_path (cfg_BasePath (s_cfg s))" "base_ok s \<Longrightarrow> local_path (cfg_BasePath (s_cfg s) @ t)"
  by (auto simp: base_ok_def local_path_def)

lemma accepted_base: "config_ok (s_cfg s) \<Longrightarrow> base_ok s"
proof -
  assume ok: "config_ok (s_cfg s)"
  obtain q where q: "cfg_BasePath (s_cfg s) = CHR ''/'' # q" "q \<noteq> []"
    using config_good_base [OF ok] by (auto simp: good_base_def)
  obtain c r where r: "q = c # r" using q(2) by (cases q) auto
  have "\<not> containsSub (cfg_BasePath (s_cfg s)) ''//''"
    using ok unfolding config_ok_def bad_base_path_def by blast
  then have "c \<noteq> CHR ''/''" using q(1) r by (auto simp: containsSub_def hasPrefix_def)
  then show ?thesis using q(1) r by (auto simp: base_ok_def)
qed

lemma identity_errors_ok:
  "response_ok s statuses (writeAuthError e)" "base_ok s \<Longrightarrow> response_ok s statuses (writeIdentityError s rq e)"
  by (simp_all add: writeAuthError_def writeIdentityError_def error_ok redirect_ok base_local)

lemma asset_kinds: "a \<in> set (loadAssets css js) \<Longrightarrow> header_ok (''Content-Type'', as_contentType a)"
proof -
  have "header_ok (''Content-Type'', ''text/css; charset=utf-8'')" "header_ok (''Content-Type'', ''text/javascript; charset=utf-8'')"
    by code_simp+
  then show "a \<in> set (loadAssets css js) \<Longrightarrow> ?thesis" by (auto simp: loadAssets_def load_asset_def Let_def)
qed

lemma page_headers_ok: "list_all header_ok (page_headers (rawURLEncode b))"
proof -
  have "printable c" if "cookie_char c" for c
    using that by (auto simp: cookie_char_def printable_def char_class_defs)
  then have n: "list_all printable (rawURLEncode b)"
    using rawURLEncode_cookie [of b] by (auto simp: list_all_iff)
  have parts: "list_all printable ''Content-Security-Policy'' \<and> list_all printable ''default-src 'none'; style-src 'self' 'nonce-'' \<and>
      list_all printable ([CHR 0x27] @ ''; script-src 'self'; base-uri 'none'; form-action 'self'; frame-ancestors 'none'' @ [CHR 0x27])"
    by code_simp
  have names: "''Content-Type'' \<noteq> ''X-Request-ID''" "''Cache-Control'' \<noteq> ''X-Request-ID''" "''Content-Security-Policy'' \<noteq> ''X-Request-ID''"
    by simp_all
  show ?thesis
    using printable_consts parts n unfolding page_headers_def header_ok_def
    by (simp only: list.pred_inject list_all_append fst_conv snd_conv names simp_thms)
qed

lemma returns_render_ok: "list_all (cookie_ok s) cs \<Longrightarrow> returns (response_ok s statuses) (render s cs d)"
  unfolding render_def
  by (intro returns_bind returns_return)
    (auto intro: error_ok simp: response_ok_def [of _ _ "\<lparr>rsp_status = _, rsp_headers = _, rsp_cookies = _, rsp_body = _\<rparr>"]
      page_headers_ok split: sum.split)

lemma plain_responses_ok:
  "response_ok s statuses not_found" "response_ok s statuses (ready_response e)"
  "response_ok s statuses (handleOAuthLoggedOut s)" "response_ok s statuses no_start"
  "list_all (cookie_ok s) cs \<Longrightarrow> response_ok s statuses (unavailable cs)"
  "response_ok s statuses (auth_failed s)" "response_ok s statuses (writeCallbackAuthError s f)"
  using printable_consts
  by (auto simp: not_found_def ready_response_def handleOAuthLoggedOut_def no_start_def unavailable_def auth_failed_def
      writeCallbackAuthError_def error_ok respond_ok with_header_ok split: option.split)

named_theorems responds \<open>the handlers answer with well-formed responses\<close>

lemma returns_show_live [responds]:
  "list_all (cookie_ok s) cs \<Longrightarrow> returns (response_ok s statuses) (show_live s rq email cs spent d)"
  unfolding show_live_def
  by (intro returns_bind returns_case_sum returns_case_option returns_return returns_render_ok error_ok) simp_all

lemma returns_pages [responds]:
  assumes "base_ok s"
  shows "returns (response_ok s statuses) (handlePage s rq)" "returns (response_ok s statuses) (handleShow s rq)"
  unfolding handlePage_def handleShow_def
  by (intro returns_bind returns_case_sum returns_case_option returns_return returns_render_ok error_ok
      returns_show_live identity_errors_ok assms; simp)+

lemma returns_handleIssue [responds]:
  assumes "base_ok s"
  shows "returns (response_ok s statuses) (handleIssue s rq)"
proof -
  have done_ok: "returns (response_ok s statuses)
      (case r of (issued, err) \<Rightarrow> (case err of
         Some e \<Rightarrow> do {
           _ \<leftarrow> audit s (hr_id rq) ''issue_failed'' email (Some e) (issue_details issued);
           ret (http_error [] ''could not issue a token'' (if is_delivery_error e then 500 else 502))
         }
       | None \<Rightarrow> do {
           now \<leftarrow> time_now;
           _ \<leftarrow> audit s (hr_id rq)
                  (if ir_partialCleanup issued then ''token_issued_partial_cleanup'' else ''token_issued'')
                  email None (issue_details issued);
           ret (redirect [flash_cookie s (ir_flashCookie issued) now] (cfg_BasePath (s_cfg s) @ ''/token'') 303)
         }))" if "delivers s email r" for r email
    using that assms
    by (auto intro!: returns_bind returns_return error_ok redirect_ok base_local
        dest: delivers_fits split: prod.split option.split)
  show ?thesis
    unfolding handleIssue_def
    by (intro returns_bind [where m = "identity s rq"] returns_bind [where m = "validMutationRequest s rq _"]
        returns_case_sum returns_case_option returns_return identity_errors_ok error_ok
        returns_bind_with [OF returns_prepareAndIssue] done_ok) simp_all
qed

lemma returns_changes [responds]:
  assumes "base_ok s"
  shows "returns (response_ok s statuses) (handleRevoke s rq)" "returns (response_ok s statuses) (handleOAuthLogout s rq)"
  unfolding handleRevoke_def handleOAuthLogout_def
  by (intro returns_bind returns_case_sum returns_return identity_errors_ok;
      auto intro!: returns_bind returns_return error_ok redirect_ok base_local assms split: option.split)+

lemma returns_login [responds]: "returns (response_ok s statuses) (handleOAuthLogin s)"
proof -
  have sealed: "returns (response_ok s statuses)
      (case r of Inl e \<Rightarrow> ret no_start
       | Inr v \<Rightarrow> do { now \<leftarrow> time_now;
             ret (respond [oauth_state_cookie s v now] 302 (RedirectToProvider st n c)) })"
    if "\<forall>v. r = Inr v \<longrightarrow> fits v" for r :: "error + string" and st n c
    using that by (auto intro!: returns_bind returns_return plain_responses_ok respond_ok split: sum.split)
  show ?thesis
    unfolding handleOAuthLogin_def
    by (intro returns_case_option returns_if returns_return returns_case_sum plain_responses_ok
        returns_bind [where m = "randomURLValue _"] returns_bind_with [OF returns_seals(2)] sealed) simp_all
qed

lemma returns_finish [responds]:
  assumes "base_ok s"
  shows "returns (response_ok s statuses) (finish_login s codec raw nonce)"
proof -
  have sealed: "returns (response_ok s statuses)
      (case r of Inl e \<Rightarrow> ret (http_error [clear_cookie s stateCookieName] ''authentication response is too large'' 400)
       | Inr v \<Rightarrow> do { now \<leftarrow> time_now;
             ret (redirect [clear_cookie s stateCookieName, session_cookie s v e now] (cfg_BasePath (s_cfg s)) 303) })"
    if "\<forall>v. r = Inr v \<longrightarrow> fits v" for r :: "error + string" and e
    using that assms by (auto intro!: returns_bind returns_return error_ok redirect_ok base_local split: sum.split)
  show ?thesis
    unfolding finish_login_def Let_def
    by (intro returns_bind [where m = "verifyIDToken _ _ _"] returns_bind [where m = "authorise _ _ _"]
        returns_bind [where m = time_now] returns_case_sum returns_return plain_responses_ok
        returns_bind_with [OF returns_seals(1)] sealed)
      (auto split: prod.split intro!: returns_bind [where m = "authorise _ _ _"]
        returns_bind [where m = time_now] returns_case_sum returns_return plain_responses_ok
        returns_bind_with [OF returns_seals(1)] sealed)
qed

lemma returns_callback [responds]:
  "base_ok s \<Longrightarrow> returns (response_ok s statuses) (handleOAuthCallback s rq)"
  unfolding handleOAuthCallback_def
  by (intro returns_case_option returns_if returns_return returns_case_sum plain_responses_ok returns_bind returns_finish)
    simp_all

lemma returns_ready [responds]: "returns (response_ok s statuses) (handleReady s)"
  unfolding handleReady_def by (intro returns_bind returns_if returns_return plain_responses_ok)

lemma find_member: "find P xs = Some x \<Longrightarrow> x \<in> set xs"
  by (auto simp: find_Some_iff)

lemma returns_asset [responds]: "returns (response_ok s statuses) (handleAsset name)"
proof -
  have "response_ok s statuses ((respond [] 200 (Text b))\<lparr>rsp_headers :=
      [(''Content-Type'', k), (''Cache-Control'', ''public, max-age=31536000, immutable''), (''X-Content-Type-Options'', ''nosniff'')]\<rparr>)"
    if "header_ok (''Content-Type'', k)" for b k
    using that printable_consts by (intro with_header_ok respond_ok) simp_all
  then have *: "response_ok s statuses (case find_asset (process_assets e) name of None \<Rightarrow> not_found
      | Some a \<Rightarrow> (respond [] 200 (Text (as_body a)))\<lparr>rsp_headers :=
          [(''Content-Type'', as_contentType a), (''Cache-Control'', ''public, max-age=31536000, immutable''),
           (''X-Content-Type-Options'', ''nosniff'')]\<rparr>)" for e
    by (auto simp: plain_responses_ok find_asset_def process_assets_def dest!: find_member asset_kinds split: option.split)
  show ?thesis
    unfolding handleAsset_def
    by (simp add: returns_def wp_simps *)
qed

lemma returns_metrics [responds]: "returns (response_ok s statuses) serveMetrics"
  unfolding serveMetrics_def
  using printable_consts by (intro returns_bind returns_return with_header_ok respond_ok) simp_all

lemma returns_run_handler: "base_ok s \<Longrightarrow> returns (response_ok s statuses) (run_handler s name vs rq)"
  by (cases name) (auto intro!: responds returns_return plain_responses_ok respond_ok)


section \<open>Around the handlers\<close>

lemma allowed_printable: "list_all printable (joinWith '', '' (allowed_methods rs p))"
proof -
  have "list_all printable '', ''" "list_all printable ''GET''" "list_all printable ''HEAD''" "list_all printable ''POST''"
    by code_simp+
  then show ?thesis by (simp add: allowed_methods_def Let_def)
qed

lemma method_not_allowed_ok: "response_ok s statuses (method_not_allowed (allowed_methods rs p))"
proof -
  have "list_all printable ''Allow''" by code_simp
  then show ?thesis
    using printable_consts allowed_printable
    by (auto simp: method_not_allowed_def Let_def http_error_def header_ok_def intro!: with_header_ok respond_ok)
qed

text \<open>The redirect to a clean path stays on this host: a cleaned path never begins with two slashes.\<close>

lemma segments_head: "list_all clean_segment ss \<Longrightarrow> CHR ''/'' \<notin> \<Union> (set ` set ss) \<Longrightarrow> joinWith ''/'' ss = [] \<or> hd (joinWith ''/'' ss) \<noteq> CHR ''/''"
proof (cases ss)
  case (Cons x xs)
  assume "list_all clean_segment ss" "CHR ''/'' \<notin> \<Union> (set ` set ss)"
  then obtain c y where x: "x = c # y" "c \<noteq> CHR ''/''"
    using Cons by (cases x) (auto simp: clean_segment_def)
  show ?thesis
    using Cons x by (cases xs) auto
qed simp

lemma cleanPath_local: "local_path (cleanPath p)"
proof (cases "p = []")
  case True
  then show ?thesis by (simp add: cleanPath_def local_path_def)
next
  case False
  define ss where "ss = clean_segments [] (splitOn CHR ''/'' (if hd p \<noteq> CHR ''/'' then CHR ''/'' # p else p))"
  define q where "q = joinWith ''/'' ss"
  have "list_all clean_segment ss" unfolding ss_def by (rule clean_segments_clean) simp
  moreover have "CHR ''/'' \<notin> \<Union> (set ` set ss)"
    unfolding ss_def using clean_segments_parts [of "[]"] splitOn_no_sep_parts by fastforce
  ultimately have head: "q = [] \<or> hd q \<noteq> CHR ''/''" unfolding q_def by (rule segments_head)
  have "cleanPath p = CHR ''/'' # q \<or> q \<noteq> [] \<and> cleanPath p = CHR ''/'' # q @ ''/''"
    using False by (auto simp: cleanPath_def Let_def q_def ss_def)
  with head show ?thesis by (cases q) (auto simp: local_path_def)
qed

lemma redirect_local: "local_path p \<Longrightarrow> local_path (redirect_target p query)"
proof -
  assume "local_path p"
  then obtain q where q: "p = CHR ''/'' # q" "q = [] \<or> hd q \<noteq> CHR ''/''"
    by (cases p; cases "tl p") (auto simp: local_path_def split: list.splits)
  have slash: "is_alnum CHR ''/'' = False" by code_simp
  show ?thesis
  proof (cases q)
    case (Cons d r)
    then show ?thesis using q slash by (simp add: redirect_target_def local_path_def percent_def)
  qed (use q slash in \<open>simp add: redirect_target_def local_path_def\<close>)
qed

lemma response_ok_mono: "response_ok s sts r \<Longrightarrow> sts \<subseteq> sts' \<Longrightarrow> response_ok s sts' r"
  by (auto simp: response_ok_def)

lemma returns_mux:
  assumes "base_ok s"
  shows "returns (response_ok s (insert moved statuses)) (snd (mux moved s rq))"
proof -
  have widen: "returns (response_ok s statuses) m \<Longrightarrow> returns (response_ok s (insert moved statuses)) m" for m :: "response io"
    by (erule returns_mono) (rule response_ok_mono, assumption, blast)
  have moved: "returns (response_ok s (insert moved statuses)) (ret (redirect [] (redirect_target (cleanPath p) q) moved))" for p q
    by (rule returns_return) (simp add: response_ok_def redirect_def respond_def redirect_local cleanPath_local)
  have plain: "returns (response_ok s (insert moved statuses)) (ret not_found)"
    "returns (response_ok s (insert moved statuses)) (ret (method_not_allowed (allowed_methods rs p)))" for rs p
    by (intro widen returns_return plain_responses_ok method_not_allowed_ok)+
  have handler: "returns (response_ok s (insert moved statuses)) (run_handler s name vs rq)" for name vs
    using assms by (intro widen returns_run_handler)
  show ?thesis
    unfolding mux_def Let_def by (auto intro: moved plain handler split: option.split)
qed

lemma returns_wrap: "returns P (snd answer) \<Longrightarrow> returns P (metrics_wrap rq answer)"
  unfolding metrics_wrap_def
  by (auto intro!: returns_bind [where m = "update_metrics _"] returns_bind [where m = time_now] returns_return
      elim: returns_bind_with)

lemma set_headers_subset: "set (set_headers base hs) \<subseteq> set base \<union> set hs"
  by (induction base hs rule: set_headers.induct) auto

lemma security_headers_ok: "list_all header_ok (securityHeaders path)"
proof -
  have "list_all header_ok
     [(''X-Content-Type-Options'', ''nosniff''), (''X-Frame-Options'', ''DENY''),
      (''Strict-Transport-Security'', ''max-age=31536000; includeSubDomains''), (''Referrer-Policy'', ''no-referrer''),
      (''Permissions-Policy'', ''camera=(), microphone=(), geolocation=()''), (''Cross-Origin-Opener-Policy'', ''same-origin''),
      (''Content-Security-Policy'', ''default-src 'none'; frame-ancestors 'none'; base-uri 'none'' @ [CHR 0x27])]"
    by code_simp
  then show ?thesis using printable_consts unfolding securityHeaders_def by simp
qed

lemma request_id_ok: "validRequestID i \<Longrightarrow> header_ok (''X-Request-ID'', i)"
proof -
  have "list_all printable ''X-Request-ID''" by code_simp
  moreover have "id_char c \<Longrightarrow> printable c" for c
    by (auto simp: id_char_def printable_def char_class_defs)
  ultimately show "validRequestID i \<Longrightarrow> ?thesis" by (auto simp: validRequestID_def header_ok_def list_all_iff)
qed

lemma response_ok_headers:
  "response_ok s sts r \<Longrightarrow> list_all header_ok base \<Longrightarrow>
   response_ok s sts (r\<lparr>rsp_headers := set_headers base (rsp_headers r)\<rparr>)"
  using set_headers_subset [of base "rsp_headers r"] by (auto simp: response_ok_def list_all_iff)

lemma hexEncode_valid: "length b = 16 \<Longrightarrow> validRequestID (hexEncode b)"
  using id_char_hex [of b] length_hexEncode [of b] by (auto simp: validRequestID_def simp del: length_hexEncode)

lemma set_headers_keys: "fst ` set (set_headers base hs) = fst ` set base \<union> fst ` set hs"
  by (induction base hs rule: set_headers.induct) (auto simp: image_iff)

lemma returns_middleware:
  assumes "\<And>q. returns (response_ok s (insert moved statuses)) (handler q)"
  shows "returns (\<lambda>r. response_ok s (insert moved statuses) r \<and> shielded (hr_path rq) r) (with_middleware rq handler)"
proof -
  have keyed: "shielded p (r\<lparr>rsp_headers := set_headers (securityHeaders p @ [(''X-Request-ID'', i)]) hs\<rparr>)" for p r i hs
    unfolding shielded_def by (simp add: set_headers_keys image_Un) blast
  have finish: "returns (\<lambda>r. response_ok s (insert moved statuses) r \<and> shielded (hr_path rq) r)
      (handler (rq\<lparr>hr_id := i\<rparr>) \<bind> (\<lambda>r. ret (r\<lparr>rsp_headers :=
      set_headers (securityHeaders (hr_path rq) @ [(''X-Request-ID'', i)]) (rsp_headers r)\<rparr>)))" if "validRequestID i" for i
    by (rule returns_bind_with [OF assms])
      (use that in \<open>auto intro!: returns_return response_ok_headers security_headers_ok request_id_ok keyed\<close>)
  have failed: "response_ok s (insert moved statuses)
      ((http_error [] m 500)\<lparr>rsp_headers := set_headers (securityHeaders p) (rsp_headers (http_error [] m 500))\<rparr>)" for m p
    by (rule response_ok_mono [of s statuses]) (auto intro!: response_ok_headers error_ok security_headers_ok)
  have bare: "shielded p ((http_error [] m 500)\<lparr>rsp_headers := set_headers (securityHeaders p) hs\<rparr>)" for m p hs
    by (simp add: shielded_def set_headers_keys http_error_def respond_def)
  show ?thesis
    unfolding with_middleware_def Let_def
    by (intro returns_intros returns_bind_with [OF returns_random] finish)
      (auto intro!: returns_intros finish failed bare simp: hexEncode_valid split: sum.splits)
qed

lemma serve_responses:
  assumes "fromEnv h = Inr c" "\<And>names. set (h_order h names) = set names" "s_cfg s = c"
  shows "returns (\<lambda>r. response_ok s (insert moved statuses) r \<and> shielded (hr_path rq) r) (serve moved s rq)"
proof -
  have "base_ok s" using fromEnv_ok [OF assms(1,2)] assms(3) by (intro accepted_base) simp
  then show ?thesis
    unfolding serve_def by (intro returns_middleware returns_wrap returns_mux)
qed

section \<open>Property\<close>



end
