(* ===== verification/Footprint.thy ===== *)
theory Footprint
  imports Server
begin

text \<open>
  What the code of a request can do to the world, whatever it is asked and answered. A relation between
  the worlds before and after that allows the primitive steps, one by one, allows whole operations: the
  locale \<open>footprint\<close> is that contract, proved once for every operation of the program; its extension
  \<open>logged\<close> allows audit records too, which only the handlers of tokens write.
\<close>

definition does :: "(world \<Rightarrow> world \<Rightarrow> bool) \<Rightarrow> 'a io \<Rightarrow> bool" where
  "does R m \<longleftrightarrow> (\<forall>w. wp m (\<lambda>_ w'. R w w') w)"

lemma doesD: "does R m \<Longrightarrow> wp m (\<lambda>_ w'. R w w') w"
  by (simp add: does_def)

text \<open>Events that are no record of a log.\<close>

definition plain_event :: "event \<Rightarrow> bool" where
  "plain_event e \<longleftrightarrow> (case e of Audit _ \<Rightarrow> False | Printed _ \<Rightarrow> False | _ \<Rightarrow> True)"

inductive recorder_step :: "metrics \<Rightarrow> metrics \<Rightarrow> bool" where
  action: "recorder_step m (RecordAction a r m)"
| grafana: "recorder_step m (RecordGrafana method status elapsed m)"
| auth: "recorder_step m (RecordAuth kind m)"

named_theorems recording \<open>the operations stay within the footprint\<close>

lemma does_branches [recording]:
  "(b \<Longrightarrow> does R m) \<Longrightarrow> (\<not> b \<Longrightarrow> does R n) \<Longrightarrow> does R (if b then m else n)"
  "(\<And>e. does R (me e)) \<Longrightarrow> (\<And>v. does R (nv v)) \<Longrightarrow> does R (case r of Inl e \<Rightarrow> me e | Inr v \<Rightarrow> nv v)"
  "does R m \<Longrightarrow> (\<And>v. does R (ns v)) \<Longrightarrow> does R (case x of None \<Rightarrow> m | Some v \<Rightarrow> ns v)"
  "does R m \<Longrightarrow> (\<And>y ys. does R (nl y ys)) \<Longrightarrow> does R (case l of [] \<Rightarrow> m | y # ys \<Rightarrow> nl y ys)"
  "(\<And>a b. does R (f a b)) \<Longrightarrow> does R (case p of (a, b) \<Rightarrow> f a b)"
  "does R (k e) \<Longrightarrow> does R (let z = e in k z)"
  by (simp_all split: sum.split option.split list.split prod.split)

lemma does_locker [recording]:
  "does R m \<Longrightarrow> (\<And>l. does R (f l)) \<Longrightarrow> does R (case k of LocalLocker \<Rightarrow> m | LeaseLocker l \<Rightarrow> f l)"
  by (cases k) simp_all

locale footprint =
  fixes R :: "world \<Rightarrow> world \<Rightarrow> bool"
  assumes refl: "R w w"
    and trans: "R u v \<Longrightarrow> R v w \<Longrightarrow> R u w"
    and silent: "R w (w\<lparr>w_ticks := n\<rparr>)" "R w (w\<lparr>w_draws := n\<rparr>)" "R w (w\<lparr>w_ready := st\<rparr>)"
    and event: "plain_event e \<Longrightarrow> R w (emit e w)"
    and recorded: "recorder_step (w_metrics w) m \<Longrightarrow> R w (w\<lparr>w_metrics := m\<rparr>)"
begin

lemma does_bind [recording]: "does R m \<Longrightarrow> (\<And>x. does R (f x)) \<Longrightarrow> does R (m \<bind> f)"
  unfolding does_def wp_bind by (blast intro: wp_mono trans)

lemma does_primitives [recording]:
  "does R (ret x)" "does R time_now" "does R (random_bytes n)" "does R (http_call rq)" "does R (acquire_lock key)"
  "does R check_lock" "does R release_lock" "does R (os_readFile p)" "does R (oidc_verify raw)"
  "does R (oauth_exchange code v)" "does R (ask f)" "does R get_ready" "does R (set_ready st)" "does R get_metrics"
  by (auto simp: does_def wp_simps plain_event_def intro: refl silent event split: option.split)

lemma does_recorders [recording]:
  "does R (update_metrics (RecordAction a r))" "does R (update_metrics (RecordGrafana me st e))"
  "does R (update_metrics (RecordAuth k))"
  by (auto simp: does_def wp_simps intro: recorded recorder_step.intros)

text \<open>The client of Grafana, the codecs and the Lease.\<close>

lemma does_grafana_do [recording]: "does R (grafana_do g me p b d z)"
  unfolding grafana_do_def by (intro recording)

lemma does_conversions [recording]: "does R (convert_wires ws)"  "does R (convert_legacy ts)"
  by (induction ws rule: convert_wires.induct; auto intro!: recording)
    (induction ts rule: convert_legacy.induct; auto intro!: recording)

lemma does_find_loop [recording]: "does R (find_loop n g t c seen found)"
  by (induction n arbitrary: c seen found) (auto intro!: recording)

lemma does_tokens_loop [recording]: "does R (tokens_loop n g sa c seen acc)"
  by (induction n arbitrary: c seen acc) (auto intro!: recording)

lemma does_legacy_find_loop [recording]: "does R (legacy_find_loop n g t p k found)"
  by (induction n arbitrary: p k found) (auto intro!: recording)

lemma does_iam [recording]:
  "does R (iamFindServiceAccount g t)" "does R (iamTokens g sa)" "does R (iamCreateServiceAccount g t)"
  "does R (iamDeleteServiceAccount g sa)" "does R (iamDeleteToken g sa i)"
  "does R (iamCleanupUndeliveredToken g sa n)" "does R (iamNewToken g sa n ttl)"
  unfolding iamFindServiceAccount_def iamTokens_def iamCreateServiceAccount_def iamDeleteServiceAccount_def
    iamDeleteToken_def iamCleanupUndeliveredToken_def iamNewToken_def
  by (intro recording)+

lemma does_legacy [recording]:
  "does R (legacyReady g)" "does R (legacyFindServiceAccount g t)" "does R (legacyTokens g sa)"
  "does R (legacyCreateServiceAccount g t)" "does R (legacyDeleteServiceAccount g sa)"
  "does R (legacyDeleteToken g sa i)"
  unfolding legacyReady_def legacyFindServiceAccount_def legacyTokens_def legacyCreateServiceAccount_def
    legacyDeleteServiceAccount_def legacyDeleteToken_def
  by (intro recording)+

lemma does_legacy_cleanup [recording]: "does R (legacyCleanupUndeliveredToken g sa n)"
  unfolding legacyCleanupUndeliveredToken_def by (intro recording)

lemma does_legacy_new [recording]: "does R (legacyNewToken g sa n ttl)"
  unfolding legacyNewToken_def by (intro recording)

lemma does_grafana [recording]:
  "does R (findServiceAccount g t)" "does R (createServiceAccount g t)" "does R (deleteServiceAccount g sa)"
  "does R (tokens g sa)" "does R (deleteToken g sa i)" "does R (newToken g sa n ttl)"
  "does R (cleanupUndeliveredToken g sa n)" "does R (grafana_ready g)"
  unfolding findServiceAccount_def createServiceAccount_def deleteServiceAccount_def tokens_def deleteToken_def
    newToken_def cleanupUndeliveredToken_def grafana_ready_def
  by (intro recording)+

lemma does_codecs [recording]:
  "does R (prepare fc)" "does R (flash_seal fc e t)" "does R (flash_open fc e v)" "does R (csrf fc e)"
  "does R (validateCSRF fc e v)" "does R (session_seal sc doc kd)"
  unfolding prepare_def flash_seal_def flash_open_def csrf_def validateCSRF_def session_seal_def
  by (intro recording)+

lemma does_sealed [recording]:
  "does R (prepareDelivery fc)" "does R (sealSession sc raw e)" "does R (openSession sc v)"
  "does R (sealState sc st nn ve)" "does R (openState sc v)"
  unfolding prepareDelivery_def sealSession_def openSession_def sealState_def openState_def
  by (intro recording)+

lemma does_lease [recording]:
  "does R (lease_request l me b d z)" "does R (readLease l m)" "does R (lease_ready l)"
  unfolding lease_request_def readLease_def lease_ready_def
  by (intro recording)+

text \<open>Rotation and the handlers that only read.\<close>

lemma does_recorded [recording]: "does R (recordAction s a r)" "does R (recordAuth s k)"
  unfolding recordAction_def recordAuth_def by (intro recording)+

lemma does_rotation_parts [recording]:
  "does R (authorise s e gs)" "does R (liveToken s e)" "does R (delete_old g sa ts)"
  unfolding authorise_def liveToken_def
  by (intro recording | induction g sa ts rule: delete_old.induct; auto intro!: recording)+

lemma does_deliver [recording]: "does R (deliver s e dp sa ts ir t)"
  unfolding deliver_def by (intro recording)

lemma does_rotate [recording]: "does R (rotate s e dp sa)"
  unfolding rotate_def by (intro recording)

lemma does_issue [recording]:
  "does R (locked_issue s e dp)" "does R (issue s e dp)"
  unfolding locked_issue_def issue_def by (intro recording)+

lemma does_prepareAndIssue [recording]: "does R (prepareAndIssue s e)"
  unfolding prepareAndIssue_def by (intro recording)

lemma does_revoke_loop [recording]: "does R (revoke_loop g sa ts n k es)"
  by (induction g sa ts n k es rule: revoke_loop.induct) (auto intro!: recording)

lemma does_locked_revoke [recording]: "does R (locked_revoke s e)"
  unfolding locked_revoke_def by (intro recording)

lemma does_identity_parts [recording]:
  "does R (verifyIDToken s raw nn)" "does R (auth_failure s msg)" "does R (validMutationRequest s rq e)"
  "does R (page_data s e)" "does R (fillFrom pd tk)" "does R (render s cs pd)" "does R (probe s)"
  unfolding verifyIDToken_def auth_failure_def validMutationRequest_def page_data_def fillFrom_def render_def probe_def
  by (intro recording)+

lemma does_identityFromIDToken [recording]: "does R (identityFromIDToken s raw nn)"
  unfolding identityFromIDToken_def by (intro recording)

lemma does_nativeIdentity [recording]: "does R (nativeIdentity s rq)"
  unfolding nativeIdentity_def by (intro recording)

lemma does_identity [recording]: "does R (identity s rq)"
  unfolding identity_def by (intro recording)

lemma does_handlers [recording]:
  "does R (handleReady s)" "does R (randomURLValue n)" "does R (handleAsset name)" "does R serveMetrics"
  "does R (handleOAuthLogout s rq)"
  unfolding handleReady_def randomURLValue_def
    handleAsset_def serveMetrics_def handleOAuthLogout_def
  by (intro recording)+

lemma does_login [recording]: "does R (handleOAuthLogin s)" "does R (finish_login s sc raw nn)"
  unfolding handleOAuthLogin_def finish_login_def by (intro recording)+

lemma does_callback [recording]: "does R (handleOAuthCallback s rq)"
  unfolding handleOAuthCallback_def by (intro recording)

lemma does_silent_handler:
  "name \<notin> {ShowPage, ShowToken, IssueToken, RevokeTokens} \<Longrightarrow> does R (run_handler s name vs rq)"
  by (cases name) (simp_all add: recording)

end

locale logged = footprint +
  assumes audited: "R w (emit (Audit attrs) w)"
begin

lemma does_audit [recording]: "does R (audit s i a e err ds)"
  unfolding audit_def by (intro recording) (simp add: does_def wp_simps audited)

lemma does_show_live [recording]: "does R (show_live s rq e cs spent pd)"
  unfolding show_live_def by (intro recording)

lemma does_pages [recording]: "does R (handlePage s rq)" "does R (handleShow s rq)"
  unfolding handlePage_def handleShow_def by (intro recording)+

lemma does_revoke [recording]: "does R (revoke s i e)"
  unfolding revoke_def revoke_report_def by (intro recording)

lemma does_changes [recording]: "does R (handleIssue s rq)" "does R (handleRevoke s rq)"
  unfolding handleIssue_def handleRevoke_def by (intro recording)+

lemma does_handler [recording]: "does R (run_handler s name vs rq)"
  by (cases name) (simp_all add: recording)

lemma does_mux: "does R (snd (mux moved s rq))"
  unfolding mux_def Let_def by (auto intro!: recording split: option.split)

end

end
