(* ===== verification/Telemetry.thy ===== *)
theory Telemetry
  imports Responses Footprint
begin

text \<open>
  The metrics of a whole request. Whatever a handler does, it reaches the metrics through the three
  recorders alone; \<open>metrics.wrap\<close> adds the in-flight gauge and the one sample of the request. What
  the recorders keep is stated once, as the locale \<open>recorder_invariant\<close>, and every invariant of the
  metrics is an instance of it.
\<close>

section \<open>What a handler records\<close>

interpretation recorders: logged "\<lambda>w w'. recorder_step\<^sup>*\<^sup>* (w_metrics w) (w_metrics w')"
  by unfold_locales auto

section \<open>What the recorders keep\<close>

definition keeps :: "(metrics \<Rightarrow> bool) \<Rightarrow> 'a io \<Rightarrow> bool" where
  "keeps I m \<longleftrightarrow> (\<forall>w. I (w_metrics w) \<longrightarrow> wp m (\<lambda>_ w'. I (w_metrics w')) w)"

lemma keeps_bind: "keeps I m \<Longrightarrow> (\<And>x. keeps I (f x)) \<Longrightarrow> keeps I (m \<bind> f)"
  unfolding keeps_def wp_bind by (meson wp_mono)

lemma keeps_primitives:
  "keeps I (ret x)" "keeps I time_now" "keeps I (random_bytes n)" "(\<And>m. I m \<Longrightarrow> I (f m)) \<Longrightarrow> keeps I (update_metrics f)"
  by (simp_all add: keeps_def wp_simps)

lemmas keeps_intros = keeps_bind keeps_primitives

locale recorder_invariant =
  fixes I :: "metrics \<Rightarrow> bool"
  assumes action: "I m \<Longrightarrow> I (RecordAction a r m)"
    and grafana: "I m \<Longrightarrow> I (RecordGrafana method status elapsed m)"
    and auth: "I m \<Longrightarrow> I (RecordAuth kind m)"
begin

lemma step: "recorder_step m m' \<Longrightarrow> I m \<Longrightarrow> I m'"
  by (induction rule: recorder_step.induct) (auto intro: action grafana auth)

lemma steps: "recorder_step\<^sup>*\<^sup>* m m' \<Longrightarrow> I m \<Longrightarrow> I m'"
  by (induction rule: rtranclp_induct) (auto intro: step)

lemma kept: "does (\<lambda>w w'. recorder_step\<^sup>*\<^sup>* (w_metrics w) (w_metrics w')) m \<Longrightarrow> keeps I m"
  unfolding keeps_def using doesD by (blast intro: wp_mono steps)

end

text \<open>What \<open>wrap\<close> keeps as well holds across whole requests.\<close>

locale request_invariant = recorder_invariant +
  assumes enter: "I m \<Longrightarrow> I (wrap_enter path m)"
    and exit: "I m \<Longrightarrow> I (wrap_exit path method pattern status elapsed m)"
begin

lemma wrapped: "keeps I (metrics_wrap rq (mux moved s rq))"
proof -
  have "keeps I (snd (mux moved s rq))" by (rule kept [OF recorders.does_mux])
  then show ?thesis unfolding metrics_wrap_def by (auto intro!: keeps_intros enter exit)
qed

lemma whole_request: "keeps I (serve moved s rq)"
  unfolding serve_def with_middleware_def Let_def by (auto intro!: keeps_intros wrapped split: sum.split)

end

text \<open>The labels of the recorders, and the part of the metrics that belongs to \<open>wrap\<close>.\<close>

interpretation vocabulary: request_invariant metrics_bounded
  by unfold_locales (auto intro: metrics_bounded_intros)

interpretation http_part: recorder_invariant "\<lambda>m. m_inflight m = n \<and> m_http m = h \<and> m_version m = v" for n h v
  by unfold_locales (simp_all add: RecordAction_def RecordGrafana_def RecordAuth_def Let_def)

section \<open>One request\<close>

text \<open>The pattern the multiplexer leaves in the request, empty for none.\<close>

definition matched_pattern :: "server \<Rightarrow> httpRequest \<Rightarrow> string" where
  "matched_pattern s rq =
     (case match_route (routes (s_cfg s)) (hr_method rq)
        (if hr_method rq = ''CONNECT'' then hr_escapedPath rq else cleanPath (hr_escapedPath rq)) of
        None \<Rightarrow> [] | Some (r, _) \<Rightarrow> rt_pattern r)"

definition sample_key :: "server \<Rightarrow> httpRequest \<Rightarrow> response \<Rightarrow> metricKey" where
  "sample_key s rq r =
     \<lparr>mk_method = metricMethod (hr_method rq),
      mk_route = (if matched_pattern s rq = [] then ''unmatched'' else matched_pattern s rq),
      mk_status = sw_write (rsp_status r)\<rparr>"

text \<open>A request that is not counted: one for the metrics themselves, or one that got no identifier for want of entropy.\<close>

definition uncounted :: "httpRequest \<Rightarrow> world \<Rightarrow> bool" where
  "uncounted rq w \<longleftrightarrow>
     hr_path rq = ''/metrics'' \<or>
     \<not> validRequestID (hr_header rq ''X-Request-ID'') \<and> entropy (w_env w) (w_draws w) = None"

text \<open>
  What one request does to the part of the metrics that belongs to \<open>wrap\<close>: the gauge and the version
  are as before, and unless the request is skipped there is one more sample, under its own key.
\<close>

definition counts :: "server \<Rightarrow> httpRequest \<Rightarrow> bool \<Rightarrow> metrics \<Rightarrow> response \<Rightarrow> metrics \<Rightarrow> bool" where
  "counts s rq skipped m r m' \<longleftrightarrow>
     m_inflight m' = m_inflight m \<and> m_version m' = m_version m \<and>
     (if skipped then m_http m' = m_http m
      else \<exists>d. m_http m' = (m_http m)(sample_key s rq r \<mapsto> add_sample d (value_of (m_http m) (sample_key s rq r))))"

lemma fst_mux: "fst (mux moved s rq) = matched_pattern s rq"
  by (auto simp: mux_def matched_pattern_def Let_def split: option.split prod.split)

lemma matched_pattern_id [simp]: "matched_pattern s (rq\<lparr>hr_id := i\<rparr>) = matched_pattern s rq"
  by (simp add: matched_pattern_def)

lemma sample_key_headers [simp]:
  "sample_key s rq (r\<lparr>rsp_headers := hs\<rparr>) = sample_key s rq r" "sample_key s (rq\<lparr>hr_id := i\<rparr>) r = sample_key s rq r"
  by (simp_all add: sample_key_def)

lemma counts_headers [simp]:
  "counts s rq b m (r\<lparr>rsp_headers := hs\<rparr>) m' = counts s rq b m r m'" "counts s (rq\<lparr>hr_id := i\<rparr>) b m r m' = counts s rq b m r m'"
  by (simp_all add: counts_def)

lemma wrap_counts:
  "wp (metrics_wrap rq (mux moved s rq)) (\<lambda>r w'. counts s rq (hr_path rq = ''/metrics'') (w_metrics w) r (w_metrics w')) w"
proof (cases "hr_path rq = ''/metrics''")
  case True
  have "wp (snd (mux moved s rq)) (\<lambda>_ w'. m_inflight (w_metrics w') = m_inflight (w_metrics w) \<and>
      m_http (w_metrics w') = m_http (w_metrics w) \<and> m_version (w_metrics w') = m_version (w_metrics w)) w"
    by (rule http_part.kept [OF recorders.does_mux, unfolded keeps_def, rule_format]) simp
  with True show ?thesis
    by (simp add: metrics_wrap_def) (erule wp_mono, simp add: counts_def)
next
  case False
  have inner: "wp (snd (mux moved s rq)) (\<lambda>_ w'. m_inflight (w_metrics w') = m_inflight (w_metrics w) + 1 \<and>
      m_http (w_metrics w') = m_http (w_metrics w) \<and> m_version (w_metrics w') = m_version (w_metrics w))
      (w\<lparr>w_metrics := wrap_enter (hr_path rq) (w_metrics w), w_ticks := n\<rparr>)" for n
    by (rule http_part.kept [OF recorders.does_mux, unfolded keeps_def, rule_format]) (simp add: wrap_enter_def False)
  show ?thesis
    using False unfolding metrics_wrap_def
    by (simp add: wp_simps)
      (rule wp_mono [OF inner], auto simp: wp_simps wrap_exit_def Let_def counts_def sample_key_def fst_mux)
qed

lemma serve_counts:
  "wp (serve moved s rq) (\<lambda>r w'. counts s rq (uncounted rq w) (w_metrics w) r (w_metrics w')) w"
proof -
  have finish: "wp (metrics_wrap (rq\<lparr>hr_id := i\<rparr>) (mux moved s (rq\<lparr>hr_id := i\<rparr>)) \<bind> (\<lambda>r. ret (r\<lparr>rsp_headers := f r\<rparr>)))
      (\<lambda>r w'. counts s rq (hr_path rq = ''/metrics'') (w_metrics w) r (w_metrics w')) (w\<lparr>w_draws := n\<rparr>)"
    for i n w and f :: "response \<Rightarrow> (string \<times> string) list"
    unfolding wp_bind
    by (rule wp_mono [OF wrap_counts]) (auto simp: wp_simps)
  have plain: "wp (metrics_wrap (rq\<lparr>hr_id := i\<rparr>) (mux moved s (rq\<lparr>hr_id := i\<rparr>)) \<bind> (\<lambda>r. ret (r\<lparr>rsp_headers := f r\<rparr>)))
      (\<lambda>r w'. counts s rq (hr_path rq = ''/metrics'') (w_metrics w) r (w_metrics w')) w"
    for i and f :: "response \<Rightarrow> (string \<times> string) list"
    using finish [of i f w "w_draws w"] by simp
  have bare: "counts s rq True m r m" for m r
    by (simp add: counts_def)
  show ?thesis
  proof (cases "validRequestID (hr_header rq ''X-Request-ID'')")
    case True
    then show ?thesis
      unfolding serve_def with_middleware_def Let_def uncounted_def by (simp add: plain)
  next
    case False
    show ?thesis
    proof (cases "entropy (w_env w) (w_draws w)")
      case None
      with False show ?thesis
        unfolding serve_def with_middleware_def Let_def uncounted_def wp_if wp_bind [of "random_bytes 16"] wp_random_bytes
        by (simp add: bare wp_return)
    next
      case (Some e)
      with False show ?thesis
        unfolding serve_def with_middleware_def Let_def uncounted_def wp_if wp_bind [of "random_bytes 16"] wp_random_bytes
        by (simp add: finish)
    qed
  qed
qed

section \<open>Any number of requests\<close>

definition request_keys :: "int \<Rightarrow> server \<Rightarrow> metricKey set" where
  "request_keys moved s =
     {k. mk_method k \<in> method_labels \<and> mk_route k \<in> insert ''unmatched'' (rt_pattern ` set (routes (s_cfg s))) \<and>
         mk_status k \<in> insert moved statuses}"

definition series_ok :: "int \<Rightarrow> server \<Rightarrow> metrics \<Rightarrow> bool" where
  "series_ok moved s m \<longleftrightarrow> m_inflight m = 0 \<and> metrics_bounded m \<and> dom (m_http m) \<subseteq> request_keys moved s"

text \<open>The metrics of a process from its start, as it serves requests one after the other; everything else in the world is arbitrary at each of them.\<close>

inductive served :: "int \<Rightarrow> server \<Rightarrow> metrics \<Rightarrow> bool" for moved s where
  start: "served moved s (setVersion v newMetrics)"
| request: "served moved s (w_metrics w) \<Longrightarrow> run_state (serve moved s rq) w = (r, w') \<Longrightarrow> served moved s (w_metrics w')"

lemma find_route_member: "find_route me p rs = Some (r, vs) \<Longrightarrow> r \<in> set rs"
  by (induction rs) (auto split: if_splits option.splits)

lemma matched_pattern_route: "matched_pattern s rq = [] \<or> matched_pattern s rq \<in> rt_pattern ` set (routes (s_cfg s))"
  unfolding matched_pattern_def match_route_def
  by (auto split: option.split dest: find_route_member)

lemma sample_key_known:
  assumes "rsp_status r \<in> insert moved statuses" "moved \<noteq> 0"
  shows "sample_key s rq r \<in> request_keys moved s"
proof -
  have "sw_write (rsp_status r) = rsp_status r" using assms by (auto simp: sw_write_def statuses_def)
  with assms show ?thesis using matched_pattern_route [of s rq] by (auto simp: sample_key_def request_keys_def)
qed

lemma counts_dom: "counts s rq b m r m' \<Longrightarrow> dom (m_http m') \<subseteq> insert (sample_key s rq r) (dom (m_http m))"
  by (auto simp: counts_def split: if_splits)

lemma serve_series:
  assumes "fromEnv h = Inr c" "\<And>names. set (h_order h names) = set names" "s_cfg s = c" "moved \<noteq> 0"
    and "series_ok moved s (w_metrics w)"
  shows "wp (serve moved s rq) (\<lambda>_ w'. series_ok moved s (w_metrics w')) w"
proof -
  have status: "wp (serve moved s rq) (\<lambda>r _. rsp_status r \<in> insert moved statuses) w"
    by (rule wp_mono [OF serve_responses [OF assms(1-3), unfolded returns_def, rule_format]]) (simp add: response_ok_def)
  have bounded: "wp (serve moved s rq) (\<lambda>_ w'. metrics_bounded (w_metrics w')) w"
    using vocabulary.whole_request assms(5) by (simp add: keeps_def series_ok_def)
  show ?thesis
    using wp_conj [OF serve_counts [of moved s rq w] wp_conj [OF status bounded]]
  proof (rule wp_mono)
    fix r w'
    assume *: "counts s rq (uncounted rq w) (w_metrics w) r (w_metrics w') \<and>
      rsp_status r \<in> insert moved statuses \<and> metrics_bounded (w_metrics w')"
    then have "dom (m_http (w_metrics w')) \<subseteq> request_keys moved s"
      using counts_dom sample_key_known [OF _ assms(4)] assms(5) unfolding series_ok_def by blast
    with * assms(5) show "series_ok moved s (w_metrics w')" by (simp add: series_ok_def counts_def)
  qed
qed

lemma series_ok_new: "series_ok moved s (setVersion v newMetrics)"
  using metrics_bounded_setVersion [OF metrics_bounded_new] by (simp add: series_ok_def setVersion_def newMetrics_def)

lemma served_series:
  assumes "served moved s m"
    and "fromEnv h = Inr c" "\<And>names. set (h_order h names) = set names" "s_cfg s = c" "moved \<noteq> 0"
  shows "series_ok moved s m"
  using assms(1)
proof (induction rule: served.induct)
  case (request w rq r w')
  then show ?case using serve_series [OF assms(2-5)] wp_runD by fast
qed (rule series_ok_new)

lemma card_request_keys: "card (request_keys moved s) \<le> 96 * Suc (length (routes (s_cfg s)))" "finite (request_keys moved s)"
proof -
  let ?R = "set (''unmatched'' # map rt_pattern (routes (s_cfg s)))"
  let ?S = "method_labels \<times> ?R \<times> insert moved statuses"
  have sub: "request_keys moved s \<subseteq> (\<lambda>(a, b, c). \<lparr>mk_method = a, mk_route = b, mk_status = c\<rparr>) ` ?S"
  proof
    fix k assume "k \<in> request_keys moved s"
    then show "k \<in> (\<lambda>(a, b, c). \<lparr>mk_method = a, mk_route = b, mk_status = c\<rparr>) ` ?S"
      by (intro image_eqI [where x = "(mk_method k, mk_route k, mk_status k)"]) (auto simp: request_keys_def)
  qed
  have fin: "finite ?S" by (simp add: method_labels_def statuses_def)
  show "finite (request_keys moved s)" by (rule finite_subset [OF sub]) (use fin in simp)
  have a: "card method_labels = 8" by (simp add: method_labels_def known_methods_def)
  have b: "card ?R \<le> Suc (length (routes (s_cfg s)))"
    using card_length [of "''unmatched'' # map rt_pattern (routes (s_cfg s))"] by simp
  have c: "card (insert moved statuses) \<le> 12" using card_insert_le_m1 [of 12 statuses moved] by (simp add: statuses_def)
  have "card (request_keys moved s) \<le> card ?S"
    using card_mono [OF finite_imageI [OF fin] sub] card_image_le [OF fin] by (rule le_trans)
  also have "\<dots> = 8 * (card ?R * card (insert moved statuses))"
    using a by (simp add: card_cartesian_product del: set_simps)
  also have "\<dots> \<le> 8 * (Suc (length (routes (s_cfg s))) * 12)"
    using mult_le_mono [OF b c] by simp
  finally show "card (request_keys moved s) \<le> 96 * Suc (length (routes (s_cfg s)))" by simp
qed

section \<open>Properties\<close>


text \<open>C37: However many requests a server with an accepted configuration has answered, whatever they were, the metrics
  hold no more than a fixed number of series: requests are filed under known methods, the patterns of the routes
  and the statuses the program answers with, and the other counters under their own vocabularies; no request in
  flight is left over.\<close>

theorem series_are_bounded:
  assumes "served moved s m"
    and "fromEnv h = Inr c" "\<And>names. set (h_order h names) = set names" "s_cfg s = c" "moved \<noteq> 0"
  shows "series_ok moved s m \<and> card (dom (m_http m)) \<le> 96 * Suc (length (routes (s_cfg s)))"
proof -
  have ok: "series_ok moved s m" by (rule served_series [OF assms])
  then have "card (dom (m_http m)) \<le> card (request_keys moved s)"
    by (intro card_mono card_request_keys) (simp add: series_ok_def)
  with ok card_request_keys(1) [of moved s] show ?thesis by linarith
qed

theorem series_are_bounded_witness:
  "case fromEnv example_host of Inl _ \<Rightarrow> False
   | Inr c \<Rightarrow>
       (let s = example_server\<lparr>s_cfg := c\<rparr>;
            m = w_metrics (snd (run_state (serve 307 s example_request) example_world))
        in series_ok 307 s m \<and> card (dom (m_http m)) \<le> 96 * Suc (length (routes (s_cfg s))))"
proof -
  have "map_sum (\<lambda>_. ()) cfg_RotationLockMode (fromEnv example_host) = Inr ''local''" by code_simp
  then obtain c where c: "fromEnv example_host = Inr c" by (cases "fromEnv example_host") auto
  define s where "s = example_server\<lparr>s_cfg := c\<rparr>"
  obtain r w' where ran: "run_state (serve 307 s example_request) example_world = (r, w')" by fastforce
  have "served 307 s (w_metrics example_world)"
    using served.start [of 307 s "''development''"] by (simp add: example_world_def setVersion_def newMetrics_def)
  from served.request [OF this ran] have "served 307 s (w_metrics w')" .
  then have "series_ok 307 s (w_metrics w') \<and> card (dom (m_http (w_metrics w'))) \<le> 96 * Suc (length (routes (s_cfg s)))"
    by (rule series_are_bounded [OF _ c]) (simp_all add: example_host_def s_def)
  with c ran show ?thesis by (simp add: s_def Let_def)
qed

end
