(* ===== verification/Trail.thy ===== *)
theory Trail
  imports Footprint
begin

text \<open>
  The audit trail: whatever a request does at Grafana leaves exactly one record, which says how it ended
  as the response does, and which holds nothing but fixed words, the issuer, a hash of the identity and
  the names of what was changed.
\<close>

section \<open>Records\<close>

definition audits :: "event list \<Rightarrow> (string \<times> string) list list" where
  "audits evs = List.map_filter (\<lambda>e. case e of Audit attrs \<Rightarrow> Some attrs | _ \<Rightarrow> None) evs"

definition audit_keys :: "string set" where
  "audit_keys = {''event'', ''issuer'', ''actor'', ''request_id'', ''result'', ''reason'', ''error_type'', ''service_account_id'',
     ''token_name'', ''attempted'', ''deleted''}"

definition audit_events :: "string set" where
  "audit_events = {''token_issued'', ''token_issued_partial_cleanup'', ''issue_failed'', ''tokens_revoked'',
     ''tokens_revoked_partial'', ''revoke_failed'', ''status_failed''}"

definition audit_reasons :: "string set" where
  "audit_reasons = {''timeout'', ''canceled'', ''invalid_service_account'', ''token_reconciliation_required'',
     ''grafana_unauthorized'', ''grafana_forbidden'', ''grafana_not_found'', ''grafana_conflict'', ''grafana_api_error'',
     ''delivery_preparation_failed'', ''operation_failed'', ''old_token_cleanup_incomplete''}"

text \<open>How a result fits the status of the response.\<close>

definition fits_status :: "string \<Rightarrow> int \<Rightarrow> bool" where
  "fits_status result status \<longleftrightarrow>
     (result = ''success'' \<and> status = 303 \<or> result = ''partial'' \<and> status \<in> {303, 502} \<or> result = ''failure'' \<and> status \<in> {500, 502})"

definition record_ok :: "server \<Rightarrow> string \<Rightarrow> response \<Rightarrow> (string \<times> string) list \<Rightarrow> bool" where
  "record_ok s i r attrs \<longleftrightarrow>
     fst ` set attrs \<subseteq> audit_keys \<and>
     map_of attrs ''issuer'' = Some (cfg_Issuer (s_cfg s)) \<and> map_of attrs ''request_id'' = Some i \<and>
     (\<exists>ev. map_of attrs ''event'' = Some ev \<and> ev \<in> audit_events) \<and>
     (\<exists>b. map_of attrs ''actor'' = Some (hexEncode b) \<and> length b \<le> 8) \<and>
     (\<forall>reason. map_of attrs ''reason'' = Some reason \<longrightarrow> reason \<in> audit_reasons) \<and>
     (\<exists>result. map_of attrs ''result'' = Some result \<and> fits_status result (rsp_status r))"

definition trailed :: "server \<Rightarrow> string \<Rightarrow> response \<Rightarrow> event list \<Rightarrow> bool" where
  "trailed s i r evs \<longleftrightarrow>
     audits evs = [] \<and> list_all (harmless s) evs \<or> (\<exists>attrs. audits evs = [attrs] \<and> record_ok s i r attrs)"

lemma audits_simps [simp]: "audits [] = []" "audits (es @ fs) = audits es @ audits fs"
  by (simp_all add: audits_def List.map_filter_def)

lemma audit_reason_known: "auditReason e \<in> audit_reasons"
  by (auto simp: auditReason_def audit_reasons_def split: option.split)

lemma audit_attrs_ok:
  assumes "action \<in> audit_events" "fst ` set details \<subseteq> {''service_account_id'', ''token_name'', ''attempted'', ''deleted''}"
    and "fits_status (if action = ''token_issued_partial_cleanup'' \<or> action = ''tokens_revoked_partial'' then ''partial''
                  else if err \<noteq> None then ''failure'' else ''success'') (rsp_status r)"
  shows "record_ok s i r (audit_attrs s uni i action email err details)"
  unfolding record_ok_def
proof (intro conjI)
  let ?attrs = "audit_attrs s uni i action email err details"
  show "fst ` set ?attrs \<subseteq> audit_keys"
    using assms(2) by (cases err) (auto simp: audit_attrs_def audit_keys_def image_Un)
  show "map_of ?attrs ''issuer'' = Some (cfg_Issuer (s_cfg s))" "map_of ?attrs ''request_id'' = Some i"
    by (simp_all add: audit_attrs_def)
  show "\<exists>ev. map_of ?attrs ''event'' = Some ev \<and> ev \<in> audit_events"
    using assms(1) by (simp add: audit_attrs_def)
  show "\<exists>b. map_of ?attrs ''actor'' = Some (hexEncode b) \<and> length b \<le> 8"
    by (intro exI [of _ "take 8 (sha256 (toLower uni email))"]) (simp add: audit_attrs_def actorID_def)
  show "\<exists>result. map_of ?attrs ''result'' = Some result \<and> fits_status result (rsp_status r)"
    using assms(3) by (simp add: audit_attrs_def)
  have "map_of details ''reason'' = None"
    using assms(2) by (auto simp: map_of_eq_None_iff)
  moreover have "''old_token_cleanup_incomplete'' \<in> audit_reasons" by (simp add: audit_reasons_def)
  ultimately show "\<forall>reason. map_of ?attrs ''reason'' = Some reason \<longrightarrow> reason \<in> audit_reasons"
    using audit_reason_known by (cases err) (simp_all add: audit_attrs_def)
qed

section \<open>The operations without a record\<close>

definition unaudited :: "world \<Rightarrow> world \<Rightarrow> bool" where
  "unaudited w w' \<longleftrightarrow> w_env w' = w_env w \<and> (\<exists>evs. w_trace w' = w_trace w @ evs \<and> audits evs = [])"

interpretation silent: footprint unaudited
proof unfold_locales
  show "unaudited u w" if "unaudited u v" "unaudited v w" for u v w
    using that by (auto simp: unaudited_def)
  show "unaudited w (emit e w)" if "plain_event e" for e w
    using that by (simp add: unaudited_def plain_event_def audits_def List.map_filter_def split: event.splits)
qed (simp_all add: unaudited_def)

lemma silent_yields: "does unaudited m \<Longrightarrow> yields (\<lambda>_ evs. audits evs = []) m"
  by (simp add: does_def yields_def unaudited_def)

lemma yields_conj: "yields P m \<Longrightarrow> yields Q m \<Longrightarrow> yields (\<lambda>r evs. P r evs \<and> Q r evs) m"
  unfolding yields_def
proof
  fix w
  assume "\<forall>w. wp m (\<lambda>r w'. w_env w' = w_env w \<and> (\<exists>evs. w_trace w' = w_trace w @ evs \<and> P r evs)) w"
    "\<forall>w. wp m (\<lambda>r w'. w_env w' = w_env w \<and> (\<exists>evs. w_trace w' = w_trace w @ evs \<and> Q r evs)) w"
  then have "wp m (\<lambda>r w'. w_env w' = w_env w \<and> (\<exists>evs. w_trace w' = w_trace w @ evs \<and> P r evs)) w"
    "wp m (\<lambda>r w'. w_env w' = w_env w \<and> (\<exists>evs. w_trace w' = w_trace w @ evs \<and> Q r evs)) w" by simp_all
  from wp_conj [OF this]
  show "wp m (\<lambda>r w'. w_env w' = w_env w \<and> (\<exists>evs. w_trace w' = w_trace w @ evs \<and> P r evs \<and> Q r evs)) w"
    by (rule wp_mono) auto
qed

lemma harmless_silent: "does unaudited m \<Longrightarrow> frame (harmless s) m \<Longrightarrow> yields (trailed s i) m"
  using yields_conj [OF silent_yields frame_yields [THEN iffD1]] by (rule yields_mono) (auto simp: trailed_def)

lemma after_reads:
  assumes "does unaudited m" "frame (harmless s) m" "\<And>x. yields (trailed s i) (f x)"
  shows "yields (trailed s i) (m \<bind> f)"
proof (rule yields_bind [OF yields_conj [OF silent_yields [OF assms(1)] frame_yields [THEN iffD1, OF assms(2)]] assms(3)])
  fix x r es fs
  assume "audits es = [] \<and> list_all (harmless s) es" "trailed s i r fs"
  then show "trailed s i r (es @ fs)" by (auto simp: trailed_def)
qed

text \<open>After a change nothing is left out: the record must follow.\<close>

definition recorded :: "server \<Rightarrow> string \<Rightarrow> response \<Rightarrow> event list \<Rightarrow> bool" where
  "recorded s i r evs \<longleftrightarrow> (\<exists>attrs. audits evs = [attrs] \<and> record_ok s i r attrs)"

lemma recorded_trailed: "yields (recorded s i) m \<Longrightarrow> yields (trailed s i) m"
  by (erule yields_mono) (simp add: recorded_def trailed_def)

lemma after_silence:
  assumes "does unaudited m" "\<And>x. yields (recorded s i) (f x)"
  shows "yields (recorded s i) (m \<bind> f)"
  by (rule yields_bind [OF silent_yields [OF assms(1)] assms(2)]) (simp add: recorded_def)

lemma yields_audit: "yields (\<lambda>_ evs. \<exists>uni. audits evs = [audit_attrs s uni i action email err details]) (audit s i action email err details)"
  unfolding audit_def by (auto simp: yields_def wp_simps audits_def List.map_filter_def)

lemma audit_then:
  assumes "action \<in> audit_events" "fst ` set details \<subseteq> {''service_account_id'', ''token_name'', ''attempted'', ''deleted''}"
    and "fits_status (if action = ''token_issued_partial_cleanup'' \<or> action = ''tokens_revoked_partial'' then ''partial''
                  else if err \<noteq> None then ''failure'' else ''success'') (rsp_status r)"
  shows "yields (recorded s i) (audit s i action email err details \<bind> (\<lambda>_. ret r))"
  by (rule yields_map, rule yields_mono [OF yields_audit]) (auto simp: recorded_def audit_attrs_ok [OF assms])

section \<open>The handlers\<close>

lemma trailed_ret: "yields (trailed s i) (ret r)"
  by (rule yields_return) (simp add: trailed_def)

lemma trailed_silent_reads:
  "frame (harmless s) (identity s rq)" "frame (harmless s) (validMutationRequest s rq e)" "frame (harmless s) (page_data s e)"
  "frame (harmless s) (liveToken s e)" "frame (harmless s) (flash_open fc v e)" "frame (harmless s) (fillFrom d t)"
  "frame (harmless s) (render s cs d)"
  by (rule frame_harmless_reads frame_validMutationRequest frame_harmless frame_intros)+

lemma trailed_show_live: "yields (trailed s (hr_id rq)) (show_live s rq email cs spent d)"
proof -
  have failed: "yields (trailed s (hr_id rq)) (audit s (hr_id rq) ''status_failed'' email (Some e) [] \<bind>
      (\<lambda>_. ret (http_error cs ''could not reach Grafana'' 502)))" for e
    by (intro recorded_trailed audit_then) (simp_all add: audit_events_def fits_status_def http_error_def respond_def)
  show ?thesis
    unfolding show_live_def
    by (rule after_reads [OF silent.does_rotation_parts(2) trailed_silent_reads(4)])
      (auto split: sum.split option.split intro!: failed after_reads [OF silent.does_identity_parts(5) trailed_silent_reads(6)]
        harmless_silent silent.does_identity_parts trailed_silent_reads)
qed

lemma trailed_case:
  "(\<And>e. yields P (m e)) \<Longrightarrow> (\<And>v. yields P (n v)) \<Longrightarrow> yields P (case r of Inl e \<Rightarrow> m e | Inr v \<Rightarrow> n v)"
  "yields P k \<Longrightarrow> (\<And>v. yields P (l v)) \<Longrightarrow> yields P (case x of None \<Rightarrow> k | Some v \<Rightarrow> l v)"
  "(\<And>a b. yields P (f a b)) \<Longrightarrow> yields P (case p of (a, b) \<Rightarrow> f a b)"
  by (simp_all split: sum.split option.split prod.split)

lemma trailed_pages: "yields (trailed s (hr_id rq)) (handlePage s rq)" "yields (trailed s (hr_id rq)) (handleShow s rq)"
  unfolding handlePage_def handleShow_def
  by (intro after_reads [OF silent.does_identity trailed_silent_reads(1)]
      after_reads [OF silent.does_identity_parts(4) trailed_silent_reads(3)]
      after_reads [OF silent.does_codecs(3) trailed_silent_reads(5)]
      after_reads [OF silent.does_identity_parts(5) trailed_silent_reads(6)]
      trailed_case trailed_ret trailed_show_live harmless_silent [OF silent.does_identity_parts(6) trailed_silent_reads(7)])+

lemma trailed_handleIssue: "yields (trailed s (hr_id rq)) (handleIssue s rq)"
proof -
  have failed: "yields (recorded s (hr_id rq)) (audit s (hr_id rq) ''issue_failed'' email (Some e) (issue_details issued) \<bind>
      (\<lambda>_. ret (http_error [] ''could not issue a token'' (if is_delivery_error e then 500 else 502))))" for email e issued
    by (rule audit_then) (simp_all add: audit_events_def fits_status_def http_error_def respond_def issue_details_def)
  have issued: "yields (recorded s (hr_id rq)) (time_now \<bind> (\<lambda>now. audit s (hr_id rq)
        (if ir_partialCleanup issued then ''token_issued_partial_cleanup'' else ''token_issued'') email None (issue_details issued) \<bind>
      (\<lambda>_. ret (redirect [flash_cookie s (ir_flashCookie issued) now] (cfg_BasePath (s_cfg s) @ ''/token'') 303))))" for email issued
    by (intro after_silence silent.does_primitives audit_then)
      (simp_all add: audit_events_def fits_status_def redirect_def respond_def issue_details_def)
  have changed: "yields (recorded s (hr_id rq)) (prepareAndIssue s email \<bind> (\<lambda>(issued, err).
      case err of
        Some e \<Rightarrow> audit s (hr_id rq) ''issue_failed'' email (Some e) (issue_details issued) \<bind>
          (\<lambda>_. ret (http_error [] ''could not issue a token'' (if is_delivery_error e then 500 else 502)))
      | None \<Rightarrow> time_now \<bind> (\<lambda>now. audit s (hr_id rq)
          (if ir_partialCleanup issued then ''token_issued_partial_cleanup'' else ''token_issued'') email None (issue_details issued) \<bind>
          (\<lambda>_. ret (redirect [flash_cookie s (ir_flashCookie issued) now] (cfg_BasePath (s_cfg s) @ ''/token'') 303)))))" for email
    by (intro after_silence [OF silent.does_prepareAndIssue] trailed_case failed issued)
  show ?thesis
    unfolding handleIssue_def
    by (intro after_reads [OF silent.does_identity trailed_silent_reads(1)]
        after_reads [OF silent.does_identity_parts(3) trailed_silent_reads(2)]
        trailed_case trailed_ret recorded_trailed [OF changed])
qed

text \<open>The record of a revocation, by the error that is returned.\<close>

definition revoke_recorded :: "server \<Rightarrow> string \<Rightarrow> error option \<Rightarrow> event list \<Rightarrow> bool" where
  "revoke_recorded s i err evs \<longleftrightarrow>
     (\<exists>attrs. audits evs = [attrs] \<and>
        (\<forall>r. rsp_status r = (if err = None then 303 else 502) \<longrightarrow> record_ok s i r attrs))"

lemma report_records: "yields (\<lambda>_. revoke_recorded s i (fst x)) (revoke_report s i email x)"
proof -
  obtain err account attempted deleted where x: "x = (err, account, attempted, deleted)" by (cases x) auto
  have "record_ok s i r (audit_attrs s uni i (revoke_event (revoke_outcome err deleted)) email err
      [(''service_account_id'', account), (''attempted'', itoa (int attempted)), (''deleted'', itoa (int deleted))])"
    if "rsp_status r = (if err = None then 303 else 502)" for r uni
    by (rule audit_attrs_ok)
      (use that in \<open>auto simp: audit_events_def fits_status_def revoke_event_def revoke_outcome_def\<close>)
  then have "yields (\<lambda>_. revoke_recorded s i err) (audit s i (revoke_event (revoke_outcome err deleted)) email err
      [(''service_account_id'', account), (''attempted'', itoa (int attempted)), (''deleted'', itoa (int deleted))])"
    by (intro yields_mono [OF yields_audit]) (auto simp: revoke_recorded_def)
  then show ?thesis
    unfolding revoke_report_def x Let_def prod.case fst_conv
    by (rule yields_bind [OF silent_yields [OF silent.does_recorded(1)]]) (simp add: revoke_recorded_def)
qed

lemma revoke_records: "yields (revoke_recorded s i) (revoke s i email)"
proof -
  have report: "yields (revoke_recorded s i) (revoke_report s i email x \<bind> (\<lambda>_. ret (fst x)))" for x
    by (rule yields_map) (rule report_records)
  have report': "yields (revoke_recorded s i) (release_lock \<bind> (\<lambda>_. revoke_report s i email x \<bind> (\<lambda>_. ret (fst x))))" for x
    by (rule yields_bind [OF silent_yields [OF silent.does_primitives(7)] report]) (simp add: revoke_recorded_def)
  have change: "yields (revoke_recorded s i) (locked_revoke s email \<bind> (\<lambda>r. release_lock \<bind>
      (\<lambda>_. revoke_report s i email r \<bind> (\<lambda>_. ret (fst r)))))"
    by (rule yields_bind [OF silent_yields [OF silent.does_locked_revoke] report']) (simp add: revoke_recorded_def)
  have "yields (revoke_recorded s i) (revoke_report s i email (Some e, [], 0, 0) \<bind> (\<lambda>_. ret (Some e)))" for e
    using report [of "(Some e, [], 0, 0)"] by simp
  then show ?thesis
    unfolding revoke_def
    by (intro yields_bind [OF silent_yields [OF silent.does_primitives(5)], where Q = "\<lambda>_. revoke_recorded s i"] trailed_case change)
      (simp_all add: revoke_recorded_def)
qed

lemma trailed_handleRevoke: "yields (trailed s (hr_id rq)) (handleRevoke s rq)"
proof -
  have "yields (recorded s (hr_id rq)) (revoke s (hr_id rq) email \<bind>
      (\<lambda>r. ret (case r of Some _ \<Rightarrow> http_error [] ''could not revoke every token'' 502
              | None \<Rightarrow> redirect [] (cfg_BasePath (s_cfg s)) 303)))" for email
    by (rule yields_map, rule yields_mono [OF revoke_records])
      (auto simp: revoke_recorded_def recorded_def http_error_def redirect_def respond_def split: option.split)
  then show ?thesis
    unfolding handleRevoke_def
    by (intro after_reads [OF silent.does_identity trailed_silent_reads(1)]
        after_reads [OF silent.does_identity_parts(3) trailed_silent_reads(2)]
        trailed_case trailed_ret recorded_trailed)
qed

lemma trailed_run_handler: "yields (trailed s (hr_id rq)) (run_handler s name vs rq)"
proof (cases "name \<in> {ShowPage, ShowToken, IssueToken, RevokeTokens}")
  case True
  then show ?thesis by (auto simp: trailed_pages trailed_handleIssue trailed_handleRevoke)
next
  case False
  then show ?thesis
    by (intro harmless_silent silent.does_silent_handler frame_run_handler) auto
qed

lemma trailed_mux: "yields (trailed s (hr_id rq)) (snd (mux moved s rq))"
  unfolding mux_def Let_def by (auto intro: trailed_ret trailed_run_handler split: option.split)

section \<open>A whole request\<close>

definition request_id_of :: "httpRequest \<Rightarrow> string \<Rightarrow> bool" where
  "request_id_of rq i \<longleftrightarrow>
     validRequestID i \<and> (validRequestID (hr_header rq ''X-Request-ID'') \<longrightarrow> i = hr_header rq ''X-Request-ID'')"

definition audit_trail :: "server \<Rightarrow> httpRequest \<Rightarrow> response \<Rightarrow> event list \<Rightarrow> bool" where
  "audit_trail s rq r evs \<longleftrightarrow>
     audits evs = [] \<and> list_all (harmless s) evs \<or>
     (\<exists>i attrs. request_id_of rq i \<and> audits evs = [attrs] \<and> record_ok s i r attrs)"

lemma record_ok_headers [simp]: "record_ok s i (r\<lparr>rsp_headers := hs\<rparr>) attrs = record_ok s i r attrs"
  by (simp add: record_ok_def)

lemma trailed_wrap: "yields (trailed s i) (snd answer) \<Longrightarrow> yields (trailed s i) (metrics_wrap rq answer)"
proof -
  assume answer: "yields (trailed s i) (snd answer)"
  have silent: "yields (\<lambda>_ evs. evs = []) time_now" "yields (\<lambda>_ evs. evs = []) (update_metrics f)" for f
    by (simp_all add: yields_def wp_simps)
  have close: "yields (\<lambda>r' evs. r' = r \<and> evs = []) (time_now \<bind> (\<lambda>stop. update_metrics (g stop r) \<bind> (\<lambda>_. ret r)))"
    for r :: response and g
    by (simp add: yields_def wp_simps)
  have measured: "yields (trailed s i) (snd answer \<bind> (\<lambda>r. time_now \<bind> (\<lambda>stop. update_metrics (g stop r) \<bind> (\<lambda>_. ret r))))" for g
    by (rule yields_bind [OF answer close]) simp
  then have "yields (trailed s i) (time_now \<bind> (\<lambda>start. snd answer \<bind> (\<lambda>r. time_now \<bind> (\<lambda>stop. update_metrics (g start stop r) \<bind> (\<lambda>_. ret r)))))" for g
    by (rule yields_bind [OF silent(1)]) simp
  then have "yields (trailed s i) (update_metrics f \<bind> (\<lambda>_. time_now \<bind> (\<lambda>start. snd answer \<bind> (\<lambda>r. time_now \<bind>
      (\<lambda>stop. update_metrics (g start stop r) \<bind> (\<lambda>_. ret r))))))" for f g
    by (rule yields_bind [OF silent(2)]) simp
  with answer show ?thesis unfolding metrics_wrap_def by simp
qed

lemma trail_serve: "yields (audit_trail s rq) (serve moved s rq)"
proof -
  have any: "yields (\<lambda>_ _. True) (metrics_wrap (rq\<lparr>hr_id := i\<rparr>) (mux moved s (rq\<lparr>hr_id := i\<rparr>)) \<bind>
      (\<lambda>r. ret (r\<lparr>rsp_headers := f r\<rparr>)))" for i and f :: "response \<Rightarrow> (string \<times> string) list"
    by (rule yields_map, rule yields_mono [OF trailed_wrap [OF trailed_mux]]) simp
  have finish: "yields (audit_trail s rq) (metrics_wrap (rq\<lparr>hr_id := i\<rparr>) (mux moved s (rq\<lparr>hr_id := i\<rparr>)) \<bind>
      (\<lambda>r. ret (r\<lparr>rsp_headers := f r\<rparr>)))" if "request_id_of rq i" for i and f :: "response \<Rightarrow> (string \<times> string) list"
    by (rule yields_map, rule yields_mono [OF trailed_wrap [OF trailed_mux [of s "rq\<lparr>hr_id := i\<rparr>", simplified]]])
      (use that in \<open>auto simp: trailed_def audit_trail_def\<close>)
  have hex: "request_id_of rq (hexEncode b)" if "length b = 16" "\<not> validRequestID (hr_header rq ''X-Request-ID'')" for b
    using that id_char_hex [of b] length_hexEncode [of b]
    by (auto simp: request_id_of_def validRequestID_def simp del: length_hexEncode)
  have draw: "yields (\<lambda>r evs. evs = [] \<and> (\<forall>b. r = Inr b \<longrightarrow> length b = 16)) (random_bytes 16)"
    by (auto simp: yields_def wp_simps split: option.split)
  show ?thesis
  proof (cases "validRequestID (hr_header rq ''X-Request-ID'')")
    case True
    then show ?thesis unfolding serve_def with_middleware_def Let_def by (simp add: finish request_id_of_def)
  next
    case False
    have "yields (\<lambda>r evs. (\<forall>b. x = Inr b \<longrightarrow> length b = 16) \<longrightarrow> audit_trail s rq r evs)
        (case x of
           Inl e \<Rightarrow> ret ((http_error [] ''could not create request ID'' 500)\<lparr>rsp_headers :=
             set_headers (securityHeaders (hr_path rq)) (rsp_headers (http_error [] ''could not create request ID'' 500))\<rparr>)
         | Inr bytes \<Rightarrow> metrics_wrap (rq\<lparr>hr_id := hexEncode bytes\<rparr>) (mux moved s (rq\<lparr>hr_id := hexEncode bytes\<rparr>)) \<bind>
             (\<lambda>r. ret (r\<lparr>rsp_headers := set_headers (securityHeaders (hr_path rq) @ [(''X-Request-ID'', hexEncode bytes)]) (rsp_headers r)\<rparr>)))"
      for x :: "error + bytes"
    proof (cases x)
      case (Inl e)
      then show ?thesis by (auto intro: yields_return simp: audit_trail_def)
    next
      case (Inr b)
      show ?thesis
      proof (cases "length b = 16")
        case True
        then show ?thesis using finish [OF hex [OF True False]] by (simp add: Inr yields_mono)
      qed (simp add: Inr any)
    qed
    from yields_bind [OF draw this, where R = "audit_trail s rq"] False
    show ?thesis unfolding serve_def with_middleware_def Let_def by simp
  qed
qed

section \<open>Property\<close>


end
