(* ===== verification/Page.thy ===== *)
theory Page
  imports HttpFacts Icons
begin

text \<open>
  The template of \<open>internal/server/page.go\<close>: the text of the page, its values escaped for their
  place, and what no value can do to it.
\<close>

section \<open>Escaping in a template\<close>

text \<open>
  What \<open>html/template\<close> puts around a value: in text and in a quoted attribute the special
  characters become references; in an attribute that holds a URL the value is first refused when it
  names another scheme than http, https or mailto, and percent-encoded where it is no URL.
\<close>

definition html_replacement :: "char \<Rightarrow> string" where
  "html_replacement c =
     (if c = NUL then [CHR 0xEF, CHR 0xBF, CHR 0xBD] else if c = QUOTE then ''&#34;'' else if c = CHR ''&'' then ''&amp;''
      else if c = CHR 0x27 then ''&#39;'' else if c = CHR ''+'' then ''&#43;'' else if c = CHR ''<'' then ''&lt;''
      else if c = CHR ''>'' then ''&gt;'' else [c])"

definition html_value :: "string \<Rightarrow> string" where
  "html_value s = concat (map html_replacement s)"

text \<open>\<open>EqualFold\<close> with a lower-case word of ASCII: the long s folds to s as well.\<close>

fun fold_long_s :: "string \<Rightarrow> string" where
  "fold_long_s (a # b # s) =
     (if a = CHR 0xC5 \<and> b = CHR 0xBF then CHR ''s'' # fold_long_s s else a # fold_long_s (b # s))"
| "fold_long_s s = s"

definition safe_url :: "string \<Rightarrow> bool" where
  "safe_url s =
     (case cut (CHR '':'') s of (protocol, _, found) \<Rightarrow>
        found \<and> CHR ''/'' \<notin> set protocol \<longrightarrow>
          toLower (\<lambda>x. x) (fold_long_s protocol) \<in> {''http'', ''https'', ''mailto''})"

definition is_hex :: "char \<Rightarrow> bool" where
  "is_hex c \<longleftrightarrow> is_digit c \<or> c \<in> set ''abcdefABCDEF''"

definition url_char :: "char \<Rightarrow> bool" where
  "url_char c \<longleftrightarrow> is_alnum c \<or> c \<in> set ''!#$&*+,/:;=?@[]-._~''"

definition percent_lower :: "char \<Rightarrow> string" where
  "percent_lower c = [CHR ''%'', hex_lower (byte_of c div 16), hex_lower (byte_of c mod 16)]"

fun url_normal :: "string \<Rightarrow> string" where
  "url_normal [] = []"
| "url_normal (c # s) =
     (if url_char c \<or> c = CHR ''%'' \<and> (case s of a # b # _ \<Rightarrow> is_hex a \<and> is_hex b | _ \<Rightarrow> False)
      then [c] else percent_lower c) @ url_normal s"

definition url_value :: "string \<Rightarrow> string" where
  "url_value s = html_value (url_normal (if safe_url s then s else ''#ZgotmplZ''))"

section \<open>The snippets\<close>

definition each :: "(nat \<Rightarrow> 'a \<Rightarrow> string) \<Rightarrow> 'a list \<Rightarrow> string" where
  "each f xs = concat (map (\<lambda>(i, x). f i x) (enumerate 0 xs))"

definition storage_switch :: "pageData \<Rightarrow> string" where
  \<open>storage_switch d =
   lines [[],
   ''    <div class="modes" role="radiogroup" aria-label="Token storage">'',
   ''      <button type="button" class="storage-mode mode on" data-storage="inline" role="radio" aria'' @ ''-checked="true">''] @
   page_icon ''braces'' @
   lines [''<span>Token in configuration</span></button>'',
   ''      <button type="button" class="storage-mode mode" data-storage="env" role="radio" aria-check'' @ ''ed="false">''] @
   page_icon ''1password'' @
   lines [''<span>1Password / env</span></button>'',
   ''    </div>'',
   [],
   ''    '']\<close>

definition client_tab :: "nat \<Rightarrow> mcpFormat \<Rightarrow> string" where
  \<open>client_tab i f =
   lines [[],
   ''        <button type="button" class="tab''] @
   (if i = 0 then '' on'' else []) @
   ''" data-format="'' @
   html_value (mf_ID f) @
   lines [''"'',
   ''                role="tab" aria-selected="''] @
   (if i = 0 then ''true'' else ''false'') @
   lines [''">'',
   ''          ''] @
   icon_html (mf_Icon f) @
   ''<span>'' @
   html_value (mf_Name f) @
   lines [''</span>'',
   ''        </button>'',
   ''      '']\<close>

definition launch_button :: "nat \<Rightarrow> mcpVariant \<Rightarrow> string" where
  \<open>launch_button j v =
   lines [[],
   ''        <button type="button" class="mode''] @
   (if j = 0 then '' on'' else []) @
   ''" data-mode="'' @
   html_value (mv_ID v) @
   lines [''"'',
   ''                role="radio" aria-checked="''] @
   (if j = 0 then ''true'' else ''false'') @
   ''">'' @
   icon_html (mv_Icon v) @
   ''<span>'' @
   html_value (mv_Name v) @
   lines [''</span></button>'',
   ''      '']\<close>

definition env_guide :: "pageData \<Rightarrow> string" where
  \<open>env_guide d =
   lines [[],
   ''  <div class="env-guide" hidden>'',
   ''    <ol>'',
   ''      <li>Save the token as <code>GRAFANA_SERVICE_ACCOUNT_TOKEN</code> in your 1Password Environ'' @ ''ment.</li>'',
   ''      <li>Mount it as <code>.env</code> in your project. Keep your existing direnv setup,'',
   ''      or add <code>dotenv .env</code> to <code>.envrc</code>, review it, and run <code>direnv al'' @ ''low</code>.</li>'',
   ''      <li>Replace <code>/Users/example/work/project</code> below with your project directory.'',
   ''      Install direnv and the selected launcher. Use absolute executable paths if your client can'' @ ''not find them.</li>'',
   ''    </ol>'',
   ''    <div class="snippet">'',
   ''      <div class="snippet-bar">'',
   ''        <span class="filename">GRAFANA_SERVICE_ACCOUNT_TOKEN</span>'',
   ''        <button type="button" class="copy"><span class="label">Copy token</span></button>'',
   ''      </div>'',
   ''      <pre><span class="tok">''] @
   html_value (pd_Mask d) @
   lines [''</span></pre>'',
   ''    </div>'',
   ''    <p class="note">Saving to 1Password is manual. The env configuration contains no token.'',
   ''    After rotation, update the Environment and restart the MCP server.</p>'',
   ''  </div>'',
   ''  '']\<close>

definition variant_html :: "pageData \<Rightarrow> mcpFormat \<Rightarrow> nat \<Rightarrow> mcpVariant \<Rightarrow> string" where
  \<open>variant_html d f j v =
   lines [[],
   ''        <div class="variant" data-mode="''] @
   html_value (mv_ID v) @
   ''"'' @
   (if j \<noteq> 0 then '' hidden aria-hidden="true"'' else []) @
   lines [''>'',
   ''          <div class="snippet">'',
   ''            <div class="snippet-bar">'',
   ''              <span class="filename">''] @
   html_value (mf_File f) @
   lines [''</span>'',
   ''              <button type="button" class="copy">'',
   ''                <svg width="14" height="14" viewBox="0 0 24 24" fill="none" aria-hidden="true">'',
   ''                  <rect x="9" y="9" width="11" height="11" rx="2.5" stroke="currentColor" stroke'' @ ''-width="1.8"/>'',
   ''                  <path d="M5.5 15H5a1.5 1.5 0 01-1.5-1.5V5A1.5 1.5 0 015 3.5h8.5A1.5 1.5 0 0115'' @ '' 5v.5"'',
   ''                        stroke="currentColor" stroke-width="1.8" stroke-linecap="round"/>'',
   ''                </svg>'',
   ''                <span class="label">Copy</span>'',
   ''              </button>'',
   ''            </div>'',
   ''            <pre class="storage" data-storage="inline">''] @
   mv_Body v @
   lines [''</pre>'',
   ''            ''] @
   (if pd_EnableEnvSetup d then ''<pre class="storage" data-storage="env" hidden>'' @
   mv_EnvBody v @
   ''</pre>'' else []) @
   lines [[],
   ''          </div>'',
   ''          <p class="note">''] @
   html_value (mv_Note v) @
   lines [''</p>'',
   ''        </div>'',
   ''      '']\<close>

definition client_panel :: "pageData \<Rightarrow> nat \<Rightarrow> mcpFormat \<Rightarrow> string" where
  \<open>client_panel d i f =
   lines [[],
   ''    <div class="panel" data-format="''] @
   html_value (mf_ID f) @
   ''" role="tabpanel"'' @
   (if i \<noteq> 0 then '' hidden'' else []) @
   lines [''>'',
   ''      ''] @
   each (variant_html d f) (mf_Variants f) @
   lines [[],
   ''      ''] @
   (if mf_Note f \<noteq> [] then ''<p class="note">'' @
   mf_Note f @
   ''</p>'' else []) @
   lines [[],
   [],
   ''    </div>'',
   ''  '']\<close>

definition snippet_text :: "pageData \<Rightarrow> mcpFormat \<Rightarrow> string" where
  \<open>snippet_text d f0 =
   lines [[],
   ''<div class="clients" data-format="''] @
   html_value (mf_ID f0) @
   ''"'' @
   (if pd_Token d \<noteq> [] then '' data-token="'' @
   html_value (pd_Token d) @
   ''"'' else []) @
   lines [''>'',
   ''  <div class="toolbar">'',
   ''    ''] @
   (if pd_EnableEnvSetup d then storage_switch d else []) @
   lines [[],
   ''    <div class="tabs" role="tablist" aria-label="Client">'',
   ''      ''] @
   each client_tab (pd_Formats d) @
   lines [[],
   ''    </div>'',
   [],
   ''    ''] @
   lines [[],
   ''    <div class="modes" role="radiogroup" aria-label="Launch mode">'',
   ''      ''] @
   each launch_button (mf_Variants f0) @
   lines [[],
   ''    </div>'',
   ''  </div>'',
   ''  ''] @
   (if pd_EnableEnvSetup d then env_guide d else []) @
   lines [[],
   ''  ''] @
   each (client_panel d) (pd_Formats d) @
   lines [[],
   [],
   ''</div>'',
   [],
   ''  <script type="module" src="''] @
   url_value (pd_ScriptURL d) @
   lines [''"></script>'',
   []]\<close>

text \<open>An index into an empty list ends the execution of the template with an error.\<close>

definition snippet_html :: "pageData \<Rightarrow> string option" where
  "snippet_html d = (case pd_Formats d of [] \<Rightarrow> None | f0 # _ \<Rightarrow> Some (snippet_text d f0))"

section \<open>The page\<close>

definition page_head :: "pageData \<Rightarrow> string" where
  \<open>page_head d =
   lines [''<!doctype html>'',
   ''<meta charset="utf-8">'',
   ''<meta name="viewport" content="width=device-width, initial-scale=1">'',
   ''<title>Grafana MCP token</title>'',
   ''<link rel="stylesheet" href="''] @
   url_value (pd_StyleURL d) @
   lines [''">'',
   [],
   ''<div class="shell">'',
   ''  <header>'',
   ''    <svg width="34" height="34" viewBox="0 0 24 24" fill="none" aria-hidden="true">'',
   ''      <rect width="24" height="24" rx="7" fill="#f46800"/>'',
   ''      <path d="M6 14.5l3.2-3.4 2.4 2.2L17 8" stroke="#fff" stroke-width="1.9"'',
   ''            stroke-linecap="round" stroke-linejoin="round"/>'',
   ''    </svg>'',
   ''    <div>'',
   ''      <h1>Grafana token for MCP</h1>'',
   ''      <p class="sub">Read-only access for your MCP client</p>'',
   ''    </div>'',
   ''    <span class="chip">''] @
   html_value (pd_Email d) @
   lines [''</span>'',
   ''  </header>'',
   [],
   []]\<close>

definition page_issued :: "pageData \<Rightarrow> string \<Rightarrow> string" where
  \<open>page_issued d snippets =
   lines [[],
   ''  <div class="card">'',
   ''    <div class="callout">'',
   ''      <svg width="16" height="16" viewBox="0 0 24 24" fill="none" aria-hidden="true">'',
   ''        <path d="M12 8v5M12 16.5v.5M10.3 3.9L2.6 17.4A1.8 1.8 0 004.2 20h15.6a1.8 1.8 0 001.6-2.'' @ ''6L13.7 3.9a1.9 1.9 0 00-3.4 0z"'',
   ''              stroke="currentColor" stroke-width="1.7" stroke-linecap="round" stroke-linejoin="r'' @ ''ound"/>'',
   ''      </svg>'',
   [TAB] @ ''  <p>Copy it now. This response clears its short-lived delivery cookie. Do'',
   [TAB] @ ''  not copy or share browser cookies; a stolen copy may be replayed for up to'',
   [TAB] @ ''  five minutes. The Grafana token expires in ''] @
   html_value (itoa (pd_TTLDays d)) @
   lines ['' days.</p>'',
   ''    </div>'',
   [TAB]] @
   (if pd_PartialCleanup d then lines [[],
   [TAB] @ ''  <div class="callout">'',
   [TAB, TAB] @ ''<p>The replacement token is ready, but Grafana did not confirm that every'',
   [TAB, TAB] @ ''previous token was removed. Copy this token, then run the reconciliation'',
   [TAB, TAB] @ ''command or revoke all tokens from this page.</p>'',
   [TAB] @ ''  </div>'',
   [TAB]] else []) @
   lines [[],
   [],
   ''    <h2>Add this to your config</h2>'',
   ''    ''] @
   snippets @
   lines [[],
   [],
   ''    <h2>What you are copying</h2>'',
   ''    <p>The token is hidden on screen, and the button copies the real one. It is'',
   ''    read-only: the service account behind it has the Viewer role, and'',
   ''    <code>--disable-write</code> keeps the MCP server from offering write tools'',
   ''    at all.</p>'',
   ''  </div>'',
   [],
   []]\<close>

definition page_active :: "pageData \<Rightarrow> string \<Rightarrow> string" where
  \<open>page_active d snippets =
   lines [[],
   ''  <div class="card">'',
   ''    ''] @
   (if pd_Spent d then lines [[],
   ''      <div class="callout">'',
   ''        <svg width="16" height="16" viewBox="0 0 24 24" fill="none" aria-hidden="true">'',
   ''          <path d="M12 8v5M12 16.5v.5M10.3 3.9L2.6 17.4A1.8 1.8 0 004.2 20h15.6a1.8 1.8 0 001.6-'' @ ''2.6L13.7 3.9a1.9 1.9 0 00-3.4 0z"'',
   ''                stroke="currentColor" stroke-width="1.7" stroke-linecap="round" stroke-linejoin='' @ ''"round"/>'',
   ''        </svg>'',
   ''        <p>That token was already shown and cannot be shown again. If you did not'',
   ''        copy it, issue a new one below.</p>'',
   ''      </div>'',
   ''    ''] else []) @
   lines [[],
   [],
   ''    <h2>Your token</h2>'',
   ''    <dl class="meta">'',
   ''      <div><dt>Issued</dt><dd>''] @
   html_value (pd_Created d) @
   lines [''</dd></div>'',
   ''      <div><dt>Expires</dt><dd>''] @
   html_value (pd_Expires d) @
   (if pd_ExpiresIn d \<noteq> [] then '' ('' @
   html_value (pd_ExpiresIn d) @
   '' days)'' else []) @
   lines [''</dd></div>'',
   ''      <div><dt>Last used</dt><dd>''] @
   html_value (pd_LastUsed d) @
   lines [''</dd></div>'',
   ''    </dl>'',
   [TAB] @ ''<p>Grafana does not return the secret again, and the delivery cookie has been'',
   [TAB] @ ''cleared. The config below is the shape it goes in; paste your own copy into'',
   [TAB] @ ''the token field.</p>'',
   [],
   ''    ''] @
   snippets @
   lines [[],
   [],
   ''    <h2>Lost it?</h2>'',
   ''    <form method="post" action="''] @
   url_value (pd_BasePath d) @
   lines [''/token">'',
   ''      <input type="hidden" name="csrf_token" value="''] @
   html_value (pd_CSRFToken d) @
   lines [''">'',
   ''      <button type="button" class="ghost" id="ask">Issue a new token</button>'',
   ''      <div class="confirm" id="confirm" hidden>'',
   ''        <p>Rotation creates a replacement, then revokes the old token. Update'',
   ''        your MCP clients after copying the replacement. If cleanup fails,'',
   ''        the page reports that older tokens may still work.</p>'',
   ''        <div class="row">'',
   ''          <button type="submit" class="danger">Yes, replace it</button>'',
   ''          <button type="button" class="ghost" id="cancel">Cancel</button>'',
   ''        </div>'',
   ''      </div>'',
   ''    </form>'',
   ''    <noscript>'',
   ''      <style nonce="''] @
   html_value (pd_CSPNonce d) @
   lines [''">#ask { display: none; } #confirm[hidden] { display: block; }</style>'',
   ''    </noscript>'',
   [],
   ''    <h2>Remove access</h2>'',
   ''    <form method="post" action="''] @
   url_value (pd_BasePath d) @
   lines [''/revoke">'',
   ''      <input type="hidden" name="csrf_token" value="''] @
   html_value (pd_CSRFToken d) @
   lines [''">'',
   ''      <button type="submit" class="ghost">Revoke all tokens</button>'',
   ''    </form>'',
   ''  </div>'',
   [],
   ''  '',
   [],
   []]\<close>

definition page_none :: "pageData \<Rightarrow> string" where
  \<open>page_none d =
   lines [[],
   ''  <div class="card">'',
   ''    <p>This issues a personal, read-only Grafana token for the MCP server. It is'',
   [TAB] @ ''named from your verified email, so do not share it. It does not inherit your'',
   [TAB] @ ''Grafana or OIDC role; the service always creates it with Viewer access.</p>'',
   [],
   ''    <ul class="facts">'',
   ''      <li>'',
   ''        <svg width="14" height="14" viewBox="0 0 24 24" fill="none" aria-hidden="true">'',
   ''          <path d="M4 12.5l5 5L20 6.5" stroke="currentColor" stroke-width="2.2"'',
   ''                stroke-linecap="round" stroke-linejoin="round"/>'',
   ''        </svg>'',
   ''        <span>Read-only '' @ [CHR 0xE2, CHR 0x80, CHR 0x94] @ '' the service account gets the Viewer role.</span>'',
   ''      </li>'',
   ''      <li>'',
   ''        <svg width="14" height="14" viewBox="0 0 24 24" fill="none" aria-hidden="true">'',
   ''          <path d="M4 12.5l5 5L20 6.5" stroke="currentColor" stroke-width="2.2"'',
   ''                stroke-linecap="round" stroke-linejoin="round"/>'',
   ''        </svg>'',
   ''        <span>Expires in ''] @
   html_value (itoa (pd_TTLDays d)) @
   lines ['' days.</span>'',
   ''      </li>'',
   ''      <li>'',
   ''        <svg width="14" height="14" viewBox="0 0 24 24" fill="none" aria-hidden="true">'',
   ''          <path d="M4 12.5l5 5L20 6.5" stroke="currentColor" stroke-width="2.2"'',
   ''                stroke-linecap="round" stroke-linejoin="round"/>'',
   ''        </svg>'',
   ''        <span>Shown once '' @ [CHR 0xE2, CHR 0x80, CHR 0x94] @ '' copy it before you leave the page.</span>'',
   ''      </li>'',
   ''    </ul>'',
   [],
   ''    <form method="post" action="''] @
   url_value (pd_BasePath d) @
   lines [''/token">'',
   ''      <input type="hidden" name="csrf_token" value="''] @
   html_value (pd_CSRFToken d) @
   lines [''">'',
   ''      <button type="submit" class="primary">Issue a token</button>'',
   ''    </form>'',
   ''  </div>'',
   []]\<close>

definition page_footer :: "pageData \<Rightarrow> string" where
  \<open>page_footer d =
   (if pd_NativeAuth d then lines [[],
   ''  <footer>'',
   ''    <form method="post" action="''] @
   url_value (pd_BasePath d) @
   lines [''/oauth2/logout">'',
   ''      <input type="hidden" name="csrf_token" value="''] @
   html_value (pd_CSRFToken d) @
   lines [''">'',
   ''      <button type="submit" class="ghost">Sign out</button>'',
   ''    </form>'',
   ''  </footer>'',
   ''  ''] else lines [[],
   ''  <footer>Signing out is the proxy'' @ [CHR 0x27] @ ''s job, usually <code>''] @
   html_value (pd_BasePath d) @
   lines [''/logout</code>.</footer>'',
   ''  ''])\<close>

definition page_end :: "pageData \<Rightarrow> string" where
  \<open>page_end d =
   lines [[],
   [],
   ''  ''] @
   page_footer d @
   lines [[],
   ''</div>'',
   [],
   []] @
   lines [[],
   []]\<close>

definition page_html :: "pageData \<Rightarrow> string option" where
  "page_html d =
     map_option (\<lambda>card. page_head d @ card @ page_end d)
       (if pd_State d = ''issued'' then map_option (page_issued d) (snippet_html d)
        else if pd_State d = ''active'' then map_option (page_active d) (snippet_html d)
        else Some (page_none d))"

section \<open>No value adds markup\<close>

text \<open>The characters that open and close tags and quoted attributes.\<close>

definition markup :: "string \<Rightarrow> string" where
  "markup s = filter (\<lambda>c. c \<in> {CHR ''<'', CHR ''>'', QUOTE, CHR 0x27}) s"

lemma markup_append: "markup (a @ b) = markup a @ markup b"
  by (simp add: markup_def)

lemma markup_if: "markup (if b then x else y) = (if b then markup x else markup y)"
  by simp

lemma markup_Nil: "markup [] = []"
  by (simp add: markup_def)

lemma markup_replacement: "markup (html_replacement c) = []"
proof (cases "c \<in> {NUL, QUOTE, CHR ''&'', CHR 0x27, CHR ''+'', CHR ''<'', CHR ''>''}")
  case True
  then show ?thesis by (elim insertE emptyE) (simp_all only:, code_simp+)
next
  case False
  then show ?thesis by (simp add: markup_def html_replacement_def)
qed

lemma markup_value: "markup (html_value s) = []"
  unfolding html_value_def by (induction s) (simp_all add: markup_append markup_replacement markup_Nil)

lemma markup_url: "markup (url_value s) = []"
  by (simp add: url_value_def markup_value)

lemma markup_each: "(\<And>i x. markup (f i x) = markup (g i x)) \<Longrightarrow> markup (each f xs) = markup (each g xs)"
proof -
  assume "\<And>i x. markup (f i x) = markup (g i x)"
  then have "markup (concat (map (\<lambda>(i, x). f i x) ps)) = markup (concat (map (\<lambda>(i, x). g i x) ps))" for ps :: "(nat \<times> 'a) list"
    by (induction ps) (auto simp: markup_append)
  then show ?thesis by (simp add: each_def)
qed

text \<open>Two pages of one shape: the same state, settings and snippets; the values may differ.\<close>

definition same_shape :: "pageData \<Rightarrow> pageData \<Rightarrow> bool" where
  "same_shape d d' \<longleftrightarrow>
     pd_State d' = pd_State d \<and> pd_Formats d' = pd_Formats d \<and> pd_Spent d' = pd_Spent d \<and>
     pd_PartialCleanup d' = pd_PartialCleanup d \<and> pd_EnableEnvSetup d' = pd_EnableEnvSetup d \<and>
     pd_NativeAuth d' = pd_NativeAuth d \<and> (pd_Token d' = []) = (pd_Token d = []) \<and>
     (pd_ExpiresIn d' = []) = (pd_ExpiresIn d = [])"

lemmas markup_simps = markup_append markup_if markup_Nil markup_value markup_url append_Nil

lemma same_shapeD:
  assumes "same_shape d d'"
  shows "pd_State d' = pd_State d" "pd_Formats d' = pd_Formats d" "pd_Spent d' = pd_Spent d"
    "pd_PartialCleanup d' = pd_PartialCleanup d" "pd_EnableEnvSetup d' = pd_EnableEnvSetup d"
    "pd_NativeAuth d' = pd_NativeAuth d" "(pd_Token d' = []) = (pd_Token d = [])"
    "(pd_ExpiresIn d' = []) = (pd_ExpiresIn d = [])"
  using assms by (simp_all add: same_shape_def)

lemma markup_snippet:
  assumes "same_shape d d'"
  shows "markup (snippet_text d' f0) = markup (snippet_text d f0)"
proof -
  note same = same_shapeD [OF assms]
  have v: "markup (variant_html d' f j v) = markup (variant_html d f j v)" for f j v
    by (simp only: variant_html_def same)
  have p: "markup (client_panel d' i f) = markup (client_panel d i f)" for i f
    by (simp only: client_panel_def markup_simps markup_each [of "variant_html d' f" "variant_html d f", OF v])
  show ?thesis
    by (simp only: snippet_text_def storage_switch_def env_guide_def markup_simps same
        markup_each [of "client_panel d'" "client_panel d", OF p])
qed

lemma markup_cards:
  assumes "same_shape d d'" "markup x = markup y"
  shows "markup (page_issued d' x) = markup (page_issued d y)" "markup (page_active d' x) = markup (page_active d y)"
    "markup (page_none d') = markup (page_none d)" "markup (page_head d') = markup (page_head d)"
    "markup (page_end d') = markup (page_end d)"
  by (simp_all only: page_issued_def page_active_def page_none_def page_head_def page_end_def page_footer_def
      markup_simps same_shapeD [OF assms(1)] assms(2))

text \<open>C13: No value can change the structure of the page: two pages of one shape have the same tags and quotes
  in the same order, whatever the email, the token, the dates, the addresses and the CSRF token are.\<close>

theorem page_markup_is_fixed:
  assumes "same_shape d d'"
  shows "map_option markup (page_html d') = map_option markup (page_html d)"
proof -
  note same = same_shapeD [OF assms]
  have s: "markup (snippet_text d' f0) = markup (snippet_text d f0)" for f0 by (rule markup_snippet [OF assms])
  show ?thesis
    unfolding page_html_def snippet_html_def same
    by (simp add: markup_append markup_cards [OF assms s] markup_cards(3-5) [OF assms refl] split: list.split)
qed

theorem page_markup_is_fixed_witness:
  "map_option markup (page_html (empty_page\<lparr>pd_Email := ''<script>@corp.io'', pd_CSRFToken := ''\">''\<rparr>)) =
   map_option markup (page_html empty_page)"
  by (rule page_markup_is_fixed) (simp add: same_shape_def empty_page_def)

section \<open>The secret\<close>

lemma formats_neq_Nil: "formats digits url m \<noteq> []"
  by (simp add: formats_def base_formats_def)

lemma page_html_dressed:
  "page_html ((dress s digits d)\<lparr>pd_CSPNonce := n, pd_StyleURL := u, pd_ScriptURL := v\<rparr>) \<noteq> None"
proof -
  have "pd_Formats (dress s digits d) \<noteq> []" if "pd_State d = ''issued'' \<or> pd_State d = ''active''"
    using that formats_neq_Nil by (auto simp: dress_def Let_def state_defs maskWidth_def)
  moreover have "pd_State (dress s digits d) = pd_State d" by (simp add: dress_def Let_def)
  ultimately show ?thesis by (auto simp: page_html_def snippet_html_def split: list.split)
qed

text \<open>
  What a response may say of a secret: its page can be written, may not be stored, and holds a token
  only when the delivery cookie of this very request opened to it for the identity on the page, and
  then clears that cookie.
\<close>

definition opens_to :: "server \<Rightarrow> string \<Rightarrow> string \<Rightarrow> string \<Rightarrow> bool" where
  "opens_to s v email token \<longleftrightarrow>
     (\<exists>w w' f. run_state (flash_open (s_flash s) v email) w = (Inr f, w') \<and> of_token f = token)"

definition shows_properly :: "server \<Rightarrow> httpRequest \<Rightarrow> response \<Rightarrow> bool" where
  "shows_properly s rq r =
     (case rsp_body r of
        Page d \<Rightarrow> page_html d \<noteq> None \<and> (''Cache-Control'', ''no-store'') \<in> set (rsp_headers r) \<and>
          (pd_Token d = [] \<or>
           pd_State d = stateIssued \<and> rsp_cookies r = [clear_cookie s flashCookieName] \<and>
           (\<exists>v. hr_cookie rq flashCookieName = Some v \<and> opens_to s v (pd_Email d) (pd_Token d)))
      | _ \<Rightarrow> True)"

definition no_secret :: "response \<Rightarrow> bool" where
  "no_secret r =
     (case rsp_body r of
        Page d \<Rightarrow> page_html d \<noteq> None \<and> (''Cache-Control'', ''no-store'') \<in> set (rsp_headers r) \<and> pd_Token d = []
      | _ \<Rightarrow> True)"

lemma no_secret_properly: "no_secret r \<Longrightarrow> shows_properly s rq r"
  by (auto simp: no_secret_def shows_properly_def split: body.splits)

lemma no_secret_plain [simp]:
  "no_secret (http_error cs m n)" "no_secret (writeIdentityError s rq e)" "no_secret (writeAuthError e)"
  by (simp_all add: no_secret_def http_error_def respond_def writeIdentityError_def writeAuthError_def redirect_def)

lemma returns_page_data:
  "returns (\<lambda>r. \<forall>d. r = Inr d \<longrightarrow> pd_Token d = [] \<and> pd_Email d = email) (page_data s email)"
  unfolding page_data_def
  by (rule returns_bind, rule returns_return) (auto simp: empty_page_def split: sum.splits)

lemma returns_fillFrom:
  "returns (\<lambda>d'. pd_Token d' = pd_Token d \<and> pd_State d' = pd_State d \<and> pd_Email d' = pd_Email d) (fillFrom d t)"
  by (simp add: returns_def fillFrom_def wp_simps Let_def split: option.splits)

lemma dress_keeps: "pd_Token (dress s ds d) = pd_Token d" "pd_State (dress s ds d) = pd_State d" "pd_Email (dress s ds d) = pd_Email d"
  by (simp_all add: dress_def Let_def)

lemma no_store: "(''Cache-Control'', ''no-store'') \<in> set (page_headers nonce)"
  by (simp add: page_headers_def)

definition shown_page :: "cookie list \<Rightarrow> pageData \<Rightarrow> response \<Rightarrow> bool" where
  "shown_page cookies d r \<longleftrightarrow>
     (\<exists>d'. rsp_body r = Page d' \<and> page_html d' \<noteq> None \<and> (''Cache-Control'', ''no-store'') \<in> set (rsp_headers r) \<and>
        rsp_cookies r = cookies \<and> pd_Token d' = pd_Token d \<and> pd_State d' = pd_State d \<and> pd_Email d' = pd_Email d)"

lemma returns_render: "returns (\<lambda>r. no_secret r \<or> shown_page cookies d r) (render s cookies d)"
proof -
  have page: "shown_page cookies d \<lparr>rsp_status = 200, rsp_headers = page_headers n, rsp_cookies = cookies,
      rsp_body = Page ((dress s digits d)\<lparr>pd_CSPNonce := n, pd_StyleURL := u, pd_ScriptURL := v\<rparr>)\<rparr>" for n digits u v
    unfolding shown_page_def
    by (rule exI [of _ "(dress s digits d)\<lparr>pd_CSPNonce := n, pd_StyleURL := u, pd_ScriptURL := v\<rparr>"])
      (simp add: page_html_dressed no_store dress_keeps)
  show ?thesis
    unfolding render_def
    by (intro returns_bind returns_return) (simp add: page split: sum.split)
qed

lemma shown_no_secret: "shown_page cookies d r \<Longrightarrow> pd_Token d = [] \<Longrightarrow> no_secret r"
  by (auto simp: shown_page_def no_secret_def)

lemma shown_properly:
  "shown_page [clear_cookie s flashCookieName] d r \<Longrightarrow> pd_State d = stateIssued \<Longrightarrow>
   hr_cookie rq flashCookieName = Some v \<Longrightarrow> opens_to s v (pd_Email d) (pd_Token d) \<Longrightarrow> shows_properly s rq r"
  by (auto simp: shown_page_def shows_properly_def)

lemma render_no_secret: "pd_Token d = [] \<Longrightarrow> returns no_secret (render s cookies d)"
  by (rule returns_mono [OF returns_render]) (auto intro: shown_no_secret)

lemma show_live_no_secret: "pd_Token d = [] \<Longrightarrow> returns no_secret (show_live s rq email cookies spent d)"
  unfolding show_live_def
  by (intro returns_bind returns_case_sum returns_case_option returns_return no_secret_plain render_no_secret
      returns_bind_with [OF returns_fillFrom]) auto

lemma opened_flash:
  "returns (\<lambda>r. \<forall>f. r = Inr f \<longrightarrow> opens_to s v email (of_token f)) (flash_open (s_flash s) v email)"
  unfolding returns_def wp_def opens_to_def by (auto split: prod.splits)

text \<open>C12: The secret is shown once: a page holds a token only when the delivery cookie of the same request
  opened to that token for the identity on the page, and the response clears the cookie and may not be stored;
  the page without a delivery holds none. Whatever is shown, the template can be executed.\<close>

theorem secret_is_shown_once:
  "returns (shows_properly s rq) (handleShow s rq) \<and> returns no_secret (handlePage s rq)"
proof
  show "returns no_secret (handlePage s rq)"
    unfolding handlePage_def
    by (intro returns_bind returns_case_sum returns_return no_secret_plain returns_bind_with [OF returns_page_data]
        show_live_no_secret) auto
  have shown: "returns (shows_properly s rq) (render s [clear_cookie s flashCookieName] d)"
    if "pd_State d = stateIssued" "hr_cookie rq flashCookieName = Some v" "opens_to s v (pd_Email d) (pd_Token d)" for d v
    by (rule returns_mono [OF returns_render]) (use that in \<open>auto intro: no_secret_properly shown_properly\<close>)
  have live: "returns (shows_properly s rq) (show_live s rq email cookies spent d)" if "pd_Token d = []" for email cookies spent d
    using show_live_no_secret [OF that] no_secret_properly by (rule returns_mono)
  show "returns (shows_properly s rq) (handleShow s rq)"
    unfolding handleShow_def
    by (intro returns_bind [where m = "identity s rq"] returns_case_sum returns_case_option returns_return
        no_secret_properly no_secret_plain returns_bind_with [OF returns_page_data] live
        returns_bind_with [OF opened_flash] returns_bind_with [OF returns_fillFrom] shown) auto
qed

end
