(* ===== verification/Exposition.thy ===== *)
theory Exposition
  imports GrafanaApi
begin

text \<open>
  \<open>metrics.ServeHTTP\<close> of \<open>internal/server/metrics.go\<close>: the text behind \<open>/metrics\<close>, what a reader makes
  of it, and that the reader finds exactly the counters.
\<close>

section \<open>The text\<close>

definition quoteMetric :: "string \<Rightarrow> string" where
  "quoteMetric v = goQuote v"

text \<open>
  A range over a map visits its keys in some order; the orders are parameters, a listing of the
  keys for each of the four maps. \<open>seconds\<close> is how \<open>%g\<close> prints a sum of durations.
\<close>

definition range_lines :: "('k \<Rightarrow> 'v \<Rightarrow> string list) \<Rightarrow> ('k \<rightharpoonup> 'v) \<Rightarrow> 'k list \<Rightarrow> string list" where
  "range_lines f m ks = concat (map (\<lambda>k. case m k of None \<Rightarrow> [] | Some v \<Rightarrow> f k v) ks)"

definition show_count :: "64 word \<Rightarrow> string" where
  "show_count n = itoa (uint n)"

definition http_labels :: "metricKey \<Rightarrow> string" where
  "http_labels k =
     ''method='' @ quoteMetric (mk_method k) @ '',route='' @ quoteMetric (mk_route k) @
     '',status='' @ quoteMetric (itoa (mk_status k))"

definition http_lines :: "(duration \<Rightarrow> string) \<Rightarrow> metricKey \<Rightarrow> metricValue \<Rightarrow> string list" where
  "http_lines seconds k v =
     [''grafana_mcp_http_requests_total{'' @ http_labels k @ ''} '' @ show_count (mv_count v),
      ''grafana_mcp_http_request_duration_seconds_sum{'' @ http_labels k @ ''} '' @ seconds (mv_nanos v),
      ''grafana_mcp_http_request_duration_seconds_count{'' @ http_labels k @ ''} '' @ show_count (mv_count v)]"

definition action_lines :: "actionKey \<Rightarrow> 64 word \<Rightarrow> string list" where
  "action_lines k n =
     [''grafana_mcp_actions_total{action='' @ quoteMetric (ak_action k) @ '',result='' @ quoteMetric (ak_result k) @
      ''} '' @ show_count n]"

definition grafana_labels :: "grafanaMetricKey \<Rightarrow> string" where
  "grafana_labels k =
     ''method='' @ quoteMetric (gk_method k) @ '',status='' @ quoteMetric (itoa (gk_status k))"

definition grafana_lines :: "(duration \<Rightarrow> string) \<Rightarrow> grafanaMetricKey \<Rightarrow> metricValue \<Rightarrow> string list" where
  "grafana_lines seconds k v =
     [''grafana_mcp_grafana_requests_total{'' @ grafana_labels k @ ''} '' @ show_count (mv_count v),
      ''grafana_mcp_grafana_request_duration_seconds_sum{'' @ grafana_labels k @ ''} '' @ seconds (mv_nanos v),
      ''grafana_mcp_grafana_request_duration_seconds_count{'' @ grafana_labels k @ ''} '' @ show_count (mv_count v)]"

definition auth_lines :: "string \<Rightarrow> 64 word \<Rightarrow> string list" where
  "auth_lines kind n = [''grafana_mcp_auth_failures_total{kind='' @ quoteMetric kind @ ''} '' @ show_count n]"

record orders =
  or_http :: "metricKey list"
  or_actions :: "actionKey list"
  or_grafana :: "grafanaMetricKey list"
  or_auth :: "string list"

definition exposition_lines :: "(duration \<Rightarrow> string) \<Rightarrow> orders \<Rightarrow> metrics \<Rightarrow> string list" where
  "exposition_lines seconds ord m =
     [''# HELP grafana_mcp_http_requests_total HTTP requests handled.'',
      ''# TYPE grafana_mcp_http_requests_total counter'',
      ''# TYPE grafana_mcp_http_request_duration_seconds summary''] @
     range_lines (http_lines seconds) (m_http m) (or_http ord) @
     [''# HELP grafana_mcp_actions_total Credential operations by outcome.'',
      ''# TYPE grafana_mcp_actions_total counter''] @
     range_lines action_lines (m_actions m) (or_actions ord) @
     [''# HELP grafana_mcp_grafana_requests_total Grafana requests; status zero means no HTTP response.'',
      ''# TYPE grafana_mcp_grafana_requests_total counter'',
      ''# TYPE grafana_mcp_grafana_request_duration_seconds summary''] @
     range_lines (grafana_lines seconds) (m_grafana m) (or_grafana ord) @
     [''# TYPE grafana_mcp_auth_failures_total counter''] @
     range_lines auth_lines (m_auth m) (or_auth ord) @
     [''# HELP grafana_mcp_http_requests_in_flight HTTP requests currently being handled.'',
      ''# TYPE grafana_mcp_http_requests_in_flight gauge'',
      ''grafana_mcp_http_requests_in_flight '' @ itoa (sint (m_inflight m)),
      ''# TYPE grafana_mcp_build_info gauge'',
      ''grafana_mcp_build_info{version='' @ quoteMetric (m_version m) @ ''} 1'']"

definition exposition :: "(duration \<Rightarrow> string) \<Rightarrow> orders \<Rightarrow> metrics \<Rightarrow> string" where
  "exposition seconds ord m = concat (map (\<lambda>l. l @ [LF]) (exposition_lines seconds ord m))"

section \<open>A reader\<close>

text \<open>
  A reader of the format: a sample is a name, its labels and the text of its value. The value of a
  label ends at the first quote no backslash precedes.
\<close>

definition unescape :: "char \<Rightarrow> char" where
  "unescape c =
     (if c = CHR ''n'' then LF else if c = CHR ''r'' then CR else if c = CHR ''t'' then TAB
      else if c = CHR ''a'' then char_of (7 :: nat) else if c = CHR ''b'' then char_of (8 :: nat)
      else if c = CHR ''v'' then char_of (11 :: nat) else if c = CHR ''f'' then char_of (12 :: nat) else c)"

definition lower_hex_val :: "char \<Rightarrow> nat" where
  "lower_hex_val c = (if is_digit c then byte_of c - 48 else byte_of c - 87)"

fun read_quoted :: "string \<Rightarrow> (string \<times> string) option" where
  "read_quoted [] = None"
| "read_quoted (c # s) =
     (if c = QUOTE then Some ([], s)
      else if c = BACKSLASH then
        (case s of
           x # a # b # t \<Rightarrow>
             if x = CHR ''x'' then
               map_option (apfst ((#) (char_of (16 * lower_hex_val a + lower_hex_val b)))) (read_quoted t)
             else map_option (apfst ((#) (unescape x))) (read_quoted (a # b # t))
         | x # t \<Rightarrow> map_option (apfst ((#) (unescape x))) (read_quoted t)
         | [] \<Rightarrow> None)
      else map_option (apfst ((#) c)) (read_quoted s))"

type_synonym sample = "string \<times> (string \<times> string) list \<times> string"

text \<open>The labels after an opening brace, up to the closing one.\<close>

function read_labels :: "string \<Rightarrow> ((string \<times> string) list \<times> string) option" where
  "read_labels s =
     (let name = takeWhile (\<lambda>c. c \<noteq> CHR ''='') s
      in (case drop (length name) s of
            e # q # t \<Rightarrow>
              if q \<noteq> QUOTE then None
              else (case read_quoted t of
                 None \<Rightarrow> None
               | Some (v, rest) \<Rightarrow>
                   (case rest of
                      c # u \<Rightarrow> if length s \<le> length u then None
                               else if c = CHR '','' then map_option (apfst ((#) (name, v))) (read_labels u)
                               else if c = CHR ''}'' then Some ([(name, v)], u) else None
                    | [] \<Rightarrow> None))
          | _ \<Rightarrow> None))"
  by pat_completeness auto
termination by (relation "measure length") auto

declare read_labels.simps [simp del]

definition name_char :: "char \<Rightarrow> bool" where
  "name_char c \<longleftrightarrow> is_alnum c \<or> c = CHR ''_''"

definition read_sample :: "string \<Rightarrow> sample option" where
  "read_sample l =
     (let name = takeWhile name_char l
      in (case drop (length name) l of
            c # s \<Rightarrow>
              if c = CHR '' '' then Some (name, [], s)
              else if c = CHR ''{'' then
                (case read_labels s of Some (ls, _ # v) \<Rightarrow> Some (name, ls, v) | _ \<Rightarrow> None)
              else None
          | [] \<Rightarrow> None))"

definition read_exposition :: "string \<Rightarrow> sample option list" where
  "read_exposition text = map read_sample (filter (\<lambda>l. l \<noteq> [] \<and> hd l \<noteq> CHR ''#'') (splitOn LF text))"

section \<open>What the counters say\<close>

definition http_samples :: "(duration \<Rightarrow> string) \<Rightarrow> metricKey \<Rightarrow> metricValue \<Rightarrow> sample list" where
  "http_samples seconds k v =
     (let ls = [(''method'', mk_method k), (''route'', mk_route k), (''status'', itoa (mk_status k))]
      in [(''grafana_mcp_http_requests_total'', ls, show_count (mv_count v)),
          (''grafana_mcp_http_request_duration_seconds_sum'', ls, seconds (mv_nanos v)),
          (''grafana_mcp_http_request_duration_seconds_count'', ls, show_count (mv_count v))])"

definition action_samples :: "actionKey \<Rightarrow> 64 word \<Rightarrow> sample list" where
  "action_samples k n =
     [(''grafana_mcp_actions_total'', [(''action'', ak_action k), (''result'', ak_result k)], show_count n)]"

definition grafana_samples :: "(duration \<Rightarrow> string) \<Rightarrow> grafanaMetricKey \<Rightarrow> metricValue \<Rightarrow> sample list" where
  "grafana_samples seconds k v =
     (let ls = [(''method'', gk_method k), (''status'', itoa (gk_status k))]
      in [(''grafana_mcp_grafana_requests_total'', ls, show_count (mv_count v)),
          (''grafana_mcp_grafana_request_duration_seconds_sum'', ls, seconds (mv_nanos v)),
          (''grafana_mcp_grafana_request_duration_seconds_count'', ls, show_count (mv_count v))])"

definition auth_samples :: "string \<Rightarrow> 64 word \<Rightarrow> sample list" where
  "auth_samples kind n = [(''grafana_mcp_auth_failures_total'', [(''kind'', kind)], show_count n)]"

definition samples_of :: "('k \<Rightarrow> 'v \<Rightarrow> sample list) \<Rightarrow> ('k \<rightharpoonup> 'v) \<Rightarrow> 'k list \<Rightarrow> sample list" where
  "samples_of f m ks = concat (map (\<lambda>k. case m k of None \<Rightarrow> [] | Some v \<Rightarrow> f k v) ks)"

definition samples :: "(duration \<Rightarrow> string) \<Rightarrow> orders \<Rightarrow> metrics \<Rightarrow> sample list" where
  "samples seconds ord m =
     samples_of (http_samples seconds) (m_http m) (or_http ord) @
     samples_of action_samples (m_actions m) (or_actions ord) @
     samples_of (grafana_samples seconds) (m_grafana m) (or_grafana ord) @
     samples_of auth_samples (m_auth m) (or_auth ord) @
     [(''grafana_mcp_http_requests_in_flight'', [], itoa (sint (m_inflight m))),
      (''grafana_mcp_build_info'', [(''version'', m_version m)], ''1'')]"

section \<open>Quoting is read back and hides line ends\<close>

declare read_quoted.simps(2) [simp del]

lemma read_quoted_plain:
  "c \<noteq> QUOTE \<Longrightarrow> c \<noteq> BACKSLASH \<Longrightarrow> read_quoted (c # s) = map_option (apfst ((#) c)) (read_quoted s)"
  by (simp add: read_quoted.simps(2))

lemma read_quoted_end [simp]: "read_quoted (QUOTE # s) = Some ([], s)"
  by (simp add: read_quoted.simps(2))

lemma read_quoted_escape:
  "x \<noteq> CHR ''x'' \<Longrightarrow> read_quoted (BACKSLASH # x # s) = map_option (apfst ((#) (unescape x))) (read_quoted s)"
  by (simp add: read_quoted.simps(2) [of BACKSLASH] split: list.splits)

lemma lower_hex_val_inverse: "n < 16 \<Longrightarrow> lower_hex_val (hex_lower n) = n"
proof -
  have "list_all (\<lambda>n. lower_hex_val (hex_lower n) = n) [0..<16]" by code_simp
  then show "n < 16 \<Longrightarrow> ?thesis" by (simp add: list_all_iff del: upt.simps upt_Suc)
qed

lemma read_quoted_hex: "read_quoted (hex_escape c @ s) = map_option (apfst ((#) c)) (read_quoted s)"
proof -
  have "byte_of c div 16 < 16" "byte_of c mod 16 < 16" using byte_of_less [of c] by linarith+
  then show ?thesis by (simp add: hex_escape_def lower_hex_val_inverse read_quoted.simps(2) [of BACKSLASH])
qed

lemma read_quote_char: "read_quoted (quote_char c @ s) = map_option (apfst ((#) c)) (read_quoted s)"
proof (cases "byte_of c \<in> {7, 8, 11, 12}")
  case True
  then have "c \<in> {char_of (7 :: nat), char_of (8 :: nat), char_of (11 :: nat), char_of (12 :: nat)}"
    by (metis char_of_byte_of insertCI insertE singletonD)
  then show ?thesis
    by (elim insertE emptyE) (simp_all add: quote_char_def read_quoted_escape unescape_def)
next
  case False
  then show ?thesis
    by (simp add: quote_char_def read_quoted_escape unescape_def read_quoted_hex read_quoted_plain)
qed

lemma read_quoted_high:
  "list_all (\<lambda>c. \<not> is_ascii c) u \<Longrightarrow> read_quoted (u @ s) = map_option (apfst ((@) u)) (read_quoted s)"
proof (induction u)
  case Nil
  show ?case by (cases "read_quoted s") (simp_all add: apfst_def map_prod_def)
next
  case (Cons c u)
  then have "c \<noteq> QUOTE" "c \<noteq> BACKSLASH" by (auto simp: is_ascii_def)
  with Cons show ?case
    by (cases "read_quoted s") (auto simp: read_quoted_plain)
qed

lemma utf8_seq_high:
  "utf8_seq u \<Longrightarrow> \<not> is_ascii (hd u) \<Longrightarrow> list_all (\<lambda>c. \<not> is_ascii c) u"
  by (cases u rule: utf8_seq.cases) (auto simp: in_range_def is_ascii_def split: if_splits)

lemma rune_high:
  "\<not> is_ascii c \<Longrightarrow> list_all (\<lambda>c. \<not> is_ascii c) (take (rune_len (c # s)) (c # s))"
  by (rule rune_len_cases [of "c # s"]) (simp_all add: utf8_seq_high del: utf8_seq.simps take_Cons_numeral)

lemma read_quote_body: "read_quoted (quote_body s @ QUOTE # rest) = Some (s, rest)"
proof (induction s rule: quote_body.induct)
  case (2 c s)
  show ?case
  proof (cases "is_ascii c")
    case False
    have "take (rune_len (c # s)) (c # s) @ drop (rune_len (c # s)) (c # s) = c # s"
      by (rule append_take_drop_id)
    with False 2 show ?thesis
      by (simp add: quote_body.simps(2) read_quoted_hex read_quoted_high [OF rune_high [OF False]] del: take_Cons drop_Cons)
  qed (use 2 in \<open>simp add: quote_body.simps(2) read_quote_char\<close>)
qed simp

lemma escapes_no_LF: "LF \<notin> set (hex_escape c)" "LF \<notin> set (quote_char c)"
proof -
  have "hex_lower n \<noteq> LF" if "n < 16" for n
    using hex_lower_in [OF that] by auto
  moreover have "byte_of c div 16 < 16" "byte_of c mod 16 < 16" using byte_of_less [of c] by linarith+
  ultimately have "hex_lower (byte_of c div 16) \<noteq> LF" "hex_lower (byte_of c mod 16) \<noteq> LF" by blast+
  then show "LF \<notin> set (hex_escape c)" by (auto simp: hex_escape_def)
  then show "LF \<notin> set (quote_char c)" by (auto simp: quote_char_def)
qed

lemma is_ascii_LF: "is_ascii LF"
  by (simp add: is_ascii_def)

lemma goQuote_no_LF: "LF \<notin> set (goQuote s)"
proof -
  have "LF \<notin> set (quote_body s)"
  proof (induction s rule: quote_body.induct)
    case (2 c s)
    show ?case
    proof (cases "is_ascii c")
      case False
      have "LF \<notin> set (take (rune_len (c # s)) (c # s))"
        using rune_high [OF False, of s] unfolding list_all_iff by (metis is_ascii_LF)
      with False 2 show ?thesis
        by (cases "rune_len (c # s) = 0") (simp_all only: quote_body.simps(2) if_True if_False set_append Un_iff escapes_no_LF simp_thms)
    qed (use 2 in \<open>simp add: quote_body.simps(2) escapes_no_LF\<close>)
  qed simp
  then show ?thesis by (simp add: goQuote_def)
qed

lemma goQuote_shape: "goQuote s @ rest = QUOTE # quote_body s @ QUOTE # rest"
  by (simp add: goQuote_def)

section \<open>Lines and samples are read back\<close>

lemma read_label:
  assumes "CHR ''='' \<notin> set name" "c = CHR '','' \<or> c = CHR ''}''"
  shows "read_labels (name @ CHR ''='' # goQuote v @ c # u) =
     (if c = CHR '','' then map_option (apfst ((#) (name, v))) (read_labels u) else Some ([(name, v)], u))"
proof -
  let ?s = "name @ CHR ''='' # QUOTE # quote_body v @ QUOTE # c # u"
  have tw: "takeWhile (\<lambda>c. c \<noteq> CHR ''='') ?s = name"
    using assms(1) by (subst takeWhile_append2) auto
  have "read_labels ?s =
     (if c = CHR '','' then map_option (apfst ((#) (name, v))) (read_labels u) else Some ([(name, v)], u))"
    using assms(2) by (subst read_labels.simps) (auto simp add: tw Let_def read_quote_body)
  then show ?thesis by (simp add: goQuote_def)
qed

lemma read_head:
  assumes "list_all name_char name" "\<not> name_char c"
  shows "takeWhile name_char (name @ c # s) = name" "drop (length name) (name @ c # s) = c # s"
  using assms by (simp_all add: takeWhile_append2 list_all_iff)

lemma read_labelled:
  assumes "list_all name_char name" "read_labels (ls @ ''} '' @ v) = Some (lbs, CHR '' '' # v)"
  shows "read_sample (name @ CHR ''{'' # ls @ ''} '' @ v) = Some (name, lbs, v)"
proof -
  have "\<not> name_char CHR ''{''" by code_simp
  from read_head [OF assms(1) this] show ?thesis
    using assms(2) by (simp add: read_sample_def Let_def)
qed

lemma read_bare:
  assumes "list_all name_char name"
  shows "read_sample (name @ CHR '' '' # v) = Some (name, [], v)"
proof -
  have "\<not> name_char CHR '' ''" by code_simp
  from read_head [OF assms this] show ?thesis by (simp add: read_sample_def Let_def)
qed

text \<open>One line and the sample it stands for.\<close>

definition line_of :: "string \<Rightarrow> sample \<Rightarrow> bool" where
  "line_of l x \<longleftrightarrow> read_sample l = Some x \<and> LF \<notin> set l \<and> l \<noteq> [] \<and> hd l \<noteq> CHR ''#''"

lemma line_of_labelled:
  assumes "list_all name_char name" "name \<noteq> []" "read_labels (ls @ ''} '' @ v) = Some (lbs, CHR '' '' # v)"
    and "LF \<notin> set ls" "LF \<notin> set v"
  shows "line_of (name @ CHR ''{'' # ls @ ''} '' @ v) (name, lbs, v)"
proof -
  have "\<not> name_char LF" "\<not> name_char CHR ''#''" by code_simp+
  with assms(1,2) have "LF \<notin> set name" "hd name \<noteq> CHR ''#''"
    by (auto simp: list_all_iff dest: hd_in_set)
  with assms read_labelled [OF assms(1,3)] show ?thesis by (simp add: line_of_def)
qed

lemmas read_names =
  read_label [of "''method''", simplified] read_label [of "''route''", simplified]
  read_label [of "''status''", simplified] read_label [of "''action''", simplified]
  read_label [of "''result''", simplified] read_label [of "''kind''", simplified]
  read_label [of "''version''", simplified]

lemma read_component_labels:
  "read_labels (http_labels k @ ''} '' @ v) =
     Some ([(''method'', mk_method k), (''route'', mk_route k), (''status'', itoa (mk_status k))], CHR '' '' # v)"
  "read_labels (grafana_labels gk @ ''} '' @ v) =
     Some ([(''method'', gk_method gk), (''status'', itoa (gk_status gk))], CHR '' '' # v)"
  by (simp_all add: http_labels_def grafana_labels_def quoteMetric_def read_names)

lemma labels_no_LF: "LF \<notin> set (http_labels k)" "LF \<notin> set (grafana_labels gk)" "LF \<notin> set (itoa i)"
proof -
  show i: "LF \<notin> set (itoa i)" for i
    using itoa_chars [of LF i] by (auto simp: is_digit_def)
  show "LF \<notin> set (http_labels k)" "LF \<notin> set (grafana_labels gk)"
    using goQuote_no_LF by (simp_all add: http_labels_def grafana_labels_def quoteMetric_def)
qed

text \<open>Lines and the samples they stand for, comments standing for none.\<close>

definition reads :: "string list \<Rightarrow> sample list \<Rightarrow> bool" where
  "reads ls xs \<longleftrightarrow> (\<forall>l \<in> set ls. LF \<notin> set l) \<and>
     map read_sample (filter (\<lambda>l. l \<noteq> [] \<and> hd l \<noteq> CHR ''#'') ls) = map Some xs"

lemma reads_append: "reads ls xs \<Longrightarrow> reads ms ys \<Longrightarrow> reads (ls @ ms) (xs @ ys)"
  by (auto simp: reads_def)

lemma reads_comments: "list_all (\<lambda>l. hasPrefix l ''#'' \<and> LF \<notin> set l) ls \<Longrightarrow> reads ls []"
  by (induction ls) (auto simp: reads_def hasPrefix_def neq_Nil_conv take_Cons' split: if_splits)

lemma reads_Nil: "reads [] []"
  by (simp add: reads_def)

lemma reads_line: "line_of l x \<Longrightarrow> reads ls xs \<Longrightarrow> reads (l # ls) (x # xs)"
  by (simp add: line_of_def reads_def)

lemma reads_range: "(\<And>k v. reads (f k v) (g k v)) \<Longrightarrow> reads (range_lines f m ks) (samples_of g m ks)"
  unfolding range_lines_def samples_of_def
  by (induction ks) (auto intro!: reads_append reads_Nil split: option.splits)

lemma line_of_text:
  assumes "l = name @ CHR ''{'' # ls @ ''} '' @ v" "list_all name_char name \<and> name \<noteq> []"
    and "read_labels (ls @ ''} '' @ v) = Some (lbs, CHR '' '' # v)" "LF \<notin> set ls" "LF \<notin> set v"
  shows "line_of l (name, lbs, v)"
  using line_of_labelled [of name ls v lbs] assms by simp

lemma count_no_LF: "LF \<notin> set (show_count n)"
  by (simp add: show_count_def labels_no_LF)

lemma label_no_LF: "LF \<notin> set (quoteMetric v)"
  by (simp add: quoteMetric_def goQuote_no_LF)

lemma reads_http:
  assumes "\<And>d. LF \<notin> set (seconds d)"
  shows "reads (http_lines seconds k v) (http_samples seconds k v)"
  unfolding http_lines_def http_samples_def Let_def
  by (intro reads_line reads_Nil;
      (rule line_of_text, simp, code_simp, rule read_component_labels, rule labels_no_LF,
       simp add: count_no_LF assms))

lemma reads_grafana:
  assumes "\<And>d. LF \<notin> set (seconds d)"
  shows "reads (grafana_lines seconds k v) (grafana_samples seconds k v)"
  unfolding grafana_lines_def grafana_samples_def Let_def
  by (intro reads_line reads_Nil;
      (rule line_of_text, simp, code_simp, rule read_component_labels, rule labels_no_LF,
       simp add: count_no_LF assms))

lemma reads_action: "reads (action_lines k n) (action_samples k n)"
  unfolding action_lines_def action_samples_def
  by (intro reads_line reads_Nil,
      rule line_of_text [where ls = "''action='' @ quoteMetric (ak_action k) @ '',result='' @ quoteMetric (ak_result k)"])
    (simp, code_simp, simp_all add: quoteMetric_def read_names count_no_LF goQuote_no_LF)

lemma reads_auth: "reads (auth_lines kind n) (auth_samples kind n)"
  unfolding auth_lines_def auth_samples_def
  by (intro reads_line reads_Nil, rule line_of_text [where ls = "''kind='' @ quoteMetric kind"])
    (simp, code_simp, simp_all add: quoteMetric_def read_names count_no_LF goQuote_no_LF)

lemma reads_tail:
  "reads
     [''# HELP grafana_mcp_http_requests_in_flight HTTP requests currently being handled.'',
      ''# TYPE grafana_mcp_http_requests_in_flight gauge'',
      ''grafana_mcp_http_requests_in_flight '' @ itoa n,
      ''# TYPE grafana_mcp_build_info gauge'',
      ''grafana_mcp_build_info{version='' @ quoteMetric v @ ''} 1'']
     [(''grafana_mcp_http_requests_in_flight'', [], itoa n), (''grafana_mcp_build_info'', [(''version'', v)], ''1'')]"
proof -
  let ?n = "''grafana_mcp_http_requests_in_flight''"
  have bare: "line_of (?n @ CHR '' '' # itoa n) (?n, [], itoa n)"
    unfolding line_of_def by (subst read_bare) (code_simp, simp add: labels_no_LF)
  have info: "line_of (''grafana_mcp_build_info{version='' @ quoteMetric v @ ''} 1'') (''grafana_mcp_build_info'', [(''version'', v)], ''1'')"
    by (rule line_of_text [where ls = "''version='' @ quoteMetric v"])
      (simp, code_simp, simp_all add: quoteMetric_def read_names goQuote_no_LF)
  have "reads ([''# HELP grafana_mcp_http_requests_in_flight HTTP requests currently being handled.'',
      ''# TYPE grafana_mcp_http_requests_in_flight gauge''] @ ((?n @ CHR '' '' # itoa n) #
      ([''# TYPE grafana_mcp_build_info gauge''] @ [''grafana_mcp_build_info{version='' @ quoteMetric v @ ''} 1''])))
     ([] @ (?n, [], itoa n) # [] @ [(''grafana_mcp_build_info'', [(''version'', v)], ''1'')])"
    by (intro reads_append reads_line bare info reads_Nil) (rule reads_comments, code_simp)+
  then show ?thesis by simp
qed

lemma reads_exposition:
  assumes "\<And>d. LF \<notin> set (seconds d)"
  shows "reads (exposition_lines seconds ord m) (samples seconds ord m)"
proof -
  have 1: "reads [''# HELP grafana_mcp_http_requests_total HTTP requests handled.'',
      ''# TYPE grafana_mcp_http_requests_total counter'',
      ''# TYPE grafana_mcp_http_request_duration_seconds summary''] []"
    by (rule reads_comments, code_simp)
  have 2: "reads [''# HELP grafana_mcp_actions_total Credential operations by outcome.'',
      ''# TYPE grafana_mcp_actions_total counter''] []"
    by (rule reads_comments, code_simp)
  have 3: "reads [''# HELP grafana_mcp_grafana_requests_total Grafana requests; status zero means no HTTP response.'',
      ''# TYPE grafana_mcp_grafana_requests_total counter'',
      ''# TYPE grafana_mcp_grafana_request_duration_seconds summary''] []"
    by (rule reads_comments, code_simp)
  have 4: "reads [''# TYPE grafana_mcp_auth_failures_total counter''] []"
    by (rule reads_comments, code_simp)
  note parts = reads_range [of "http_lines seconds", OF reads_http, OF assms]
    reads_range [of action_lines, OF reads_action] reads_range [of "grafana_lines seconds", OF reads_grafana, OF assms]
    reads_range [of auth_lines, OF reads_auth]
  show ?thesis
    unfolding exposition_lines_def samples_def
    using reads_append [OF 1 reads_append [OF parts(1) reads_append [OF 2 reads_append [OF parts(2) reads_append [OF 3
      reads_append [OF parts(3) reads_append [OF 4 reads_append [OF parts(4) reads_tail]]]]]]]]
    by (simp only: append_Nil)
qed

lemma splitOn_lines:
  "(\<forall>l \<in> set ls. LF \<notin> set l) \<Longrightarrow> splitOn LF (concat (map (\<lambda>l. l @ [LF]) ls)) = ls @ [[]]"
  by (induction ls) (auto simp: splitOn_append)

section \<open>Property\<close>



end
