(* ===== verification/Command.thy ===== *)
theory Command
  imports Server Reconcile
begin

text \<open>
  \<open>cmd/grafana-mcp-setup/main.go\<close>: the command line. The flags are those of Go's \<open>flag\<close> package,
  whose parser is written out; the listening socket and the signals are what \<open>listen\<close> answers.
\<close>

section \<open>Flags\<close>

record flagValues =
  fv_emails :: "string list"
  fv_apply :: bool
  fv_deleteExpired :: bool
  fv_keepToken :: string

definition no_flags :: flagValues where
  "no_flags = \<lparr>fv_emails = [], fv_apply = False, fv_deleteExpired = False, fv_keepToken = []\<rparr>"

text \<open>
  A flag is boolean, with what it does to the values, or takes a value; a second \<open>-email\<close> adds to
  the first.
\<close>

datatype flagKind =
    BoolFlag "bool \<Rightarrow> flagValues \<Rightarrow> flagValues"
  | ValueFlag "string \<Rightarrow> flagValues \<Rightarrow> flagValues"

definition emailFlags_Set :: "string \<Rightarrow> string list \<Rightarrow> string list" where
  "emailFlags_Set value v = v @ [value]"

definition command_flags :: "string \<Rightarrow> string \<rightharpoonup> flagKind" where
  "command_flags command =
     map_of ([(''email'', ValueFlag (\<lambda>s. fv_emails_update (emailFlags_Set s))),
              (''apply'', BoolFlag (\<lambda>b. fv_apply_update (\<lambda>_. b)))] @
             (if command = ''reconcile''
              then [(''delete-expired'', BoolFlag (\<lambda>b. fv_deleteExpired_update (\<lambda>_. b))),
                    (''keep-token'', ValueFlag (\<lambda>s. fv_keepToken_update (\<lambda>_. s)))]
              else []))"

text \<open>
  One argument: \<open>None\<close> ends the flags, and an argument that ends them without being one of them stays
  in the rest; else the name after one or two dashes and the value after an equals sign.
\<close>

datatype flagWord = NoFlag | EndOfFlags | BadFlag | FlagWord string "string option"

definition flag_word :: "string \<Rightarrow> flagWord" where
  "flag_word s =
     (if length s < 2 \<or> hd s \<noteq> CHR ''-'' then NoFlag
      else if s = ''--'' then EndOfFlags
      else let name = (if s ! 1 = CHR ''-'' then drop 2 s else drop 1 s) in
        if name = [] \<or> hd name = CHR ''-'' \<or> hd name = CHR ''='' then BadFlag
        else (case cut (CHR ''='') name of (n, v, found) \<Rightarrow> FlagWord n (if found then Some v else None)))"

definition errHelp :: error where
  "errHelp = Foreign ''*errors.errorString'' ''flag: help requested'' None"

definition bad_bool :: "string \<Rightarrow> string \<Rightarrow> error" where
  "bad_bool value name = Msg (''invalid boolean value '' @ goQuote value @ '' for -'' @ name @ '': parse error'')"

fun parse_flags :: "(string \<rightharpoonup> flagKind) \<Rightarrow> flagValues \<Rightarrow> string list \<Rightarrow> error + flagValues \<times> string list" where
  "parse_flags formal vs [] = Inr (vs, [])"
| "parse_flags formal vs (s # args) =
     (case flag_word s of
        NoFlag \<Rightarrow> Inr (vs, s # args)
      | EndOfFlags \<Rightarrow> Inr (vs, args)
      | BadFlag \<Rightarrow> Inl (Msg (''bad flag syntax: '' @ s))
      | FlagWord name value \<Rightarrow>
          (case formal name of
             None \<Rightarrow> Inl (if name = ''help'' \<or> name = ''h'' then errHelp
                          else Msg (''flag provided but not defined: -'' @ name))
           | Some (BoolFlag set_to) \<Rightarrow>
               (case value of
                  None \<Rightarrow> parse_flags formal (set_to True vs) args
                | Some v \<Rightarrow> (case parseBool v of None \<Rightarrow> Inl (bad_bool v name)
                             | Some b \<Rightarrow> parse_flags formal (set_to b vs) args))
           | Some (ValueFlag set_to) \<Rightarrow>
               (case value of
                  Some v \<Rightarrow> parse_flags formal (set_to v vs) args
                | None \<Rightarrow> (case args of [] \<Rightarrow> Inl (Msg (''flag needs an argument: -'' @ name))
                           | v # others \<Rightarrow> parse_flags formal (set_to v vs) others))))"

section \<open>The commands\<close>

definition runDryRun :: "string \<Rightarrow> string list \<Rightarrow> host \<Rightarrow> config \<Rightarrow> (error option) io" where
  "runDryRun command args h cfg =
     (case parse_flags (command_flags command) no_flags args of
        Inl e \<Rightarrow> ret (Some e)
      | Inr (vs, rest) \<Rightarrow>
          if rest \<noteq> [] then ret (Some (Msg ''targets must use repeated --email flags''))
          else if command = ''offboard'' then offboard h cfg (fv_emails vs) (fv_apply vs)
          else reconcile h cfg (fv_emails vs)
            \<lparr>co_apply = fv_apply vs, co_deleteExpired = fv_deleteExpired vs, co_keepToken = fv_keepToken vs\<rparr>)"

text \<open>
  The HTTP server \<open>main.go\<close> configures around the handler, and \<open>listen\<close>, the library that runs it until it
  fails or a signal comes and is then given a time to shut down: its answer is how that ended. \<open>discover\<close>
  has the time of the startup; \<open>moved\<close> is the status of the multiplexer's redirects; \<open>version\<close> is the
  variable the linker sets.
\<close>

record httpServer =
  hs_Addr :: string
  hs_Handler :: "httpRequest \<Rightarrow> response io"
  hs_ReadHeaderTimeout :: duration
  hs_ReadTimeout :: duration
  hs_WriteTimeout :: duration
  hs_IdleTimeout :: duration
  hs_MaxHeaderBytes :: int

datatype ending = ListenFailed error | Signalled "error option"

definition errServerClosed :: error where
  "errServerClosed = Foreign ''*errors.errorString'' ''http: Server closed'' None"

record process =
  p_host :: host
  p_discover :: "duration \<Rightarrow> string \<Rightarrow> error option"
  p_listen :: "httpServer \<Rightarrow> duration \<Rightarrow> ending"
  p_moved :: int
  p_version :: string

definition http_server :: "process \<Rightarrow> config \<Rightarrow> server \<Rightarrow> httpServer" where
  "http_server p cfg s =
     \<lparr>hs_Addr = cfg_Addr cfg, hs_Handler = serve (p_moved p) s,
      hs_ReadHeaderTimeout = 5 * second, hs_ReadTimeout = 15 * second, hs_WriteTimeout = 30 * second,
      hs_IdleTimeout = 60 * second, hs_MaxHeaderBytes = 64 * 2 ^ 10\<rparr>"

text \<open>The records the process logs itself are events like those of the audit.\<close>

definition log_record :: "string \<Rightarrow> (string \<times> string) list \<Rightarrow> unit io" where
  "log_record msg attrs = emit_event (Audit ((''msg'', msg) # attrs))"

definition serve_command :: "process \<Rightarrow> config \<Rightarrow> (error option) io" where
  "serve_command p cfg =
     (case newServer (p_discover p (cfg_StartupTimeout cfg)) (p_host p) cfg of
        Inl e \<Rightarrow> ret (Some (Wrap ''starting up: '' e []))
      | Inr s \<Rightarrow> do {
          _ \<leftarrow> update_metrics (setVersion (p_version p));
          _ \<leftarrow> log_record ''listening'' [(''version'', p_version p), (''addr'', cfg_Addr cfg), (''path'', cfg_BasePath cfg),
                 (''grafana'', cfg_GrafanaURL cfg), (''lock_mode'', cfg_RotationLockMode cfg)];
          ret (case p_listen p (http_server p cfg s) (30 * second) of
                 ListenFailed e \<Rightarrow> if errors_is e errServerClosed then None else Some e
               | Signalled r \<Rightarrow> map_option (\<lambda>e. Wrap ''graceful shutdown: '' e []) r)
        })"

definition run :: "process \<Rightarrow> string list \<Rightarrow> (error option) io" where
  "run p args =
     (case fromEnv (p_host p) of
        Inl e \<Rightarrow> ret (Some (Wrap ''configuration: '' e []))
      | Inr cfg \<Rightarrow>
          (case args of
             [] \<Rightarrow> serve_command p cfg
           | command # rest \<Rightarrow>
               if command = ''reconcile'' \<or> command = ''offboard'' then runDryRun command rest (p_host p) cfg
               else if command \<noteq> ''serve'' then ret (Some (Msg (''unknown command '' @ goQuote command)))
               else serve_command p cfg))"

text \<open>The whole process: its exit status, after the record of what stopped it.\<close>

definition main :: "process \<Rightarrow> string list \<Rightarrow> int io" where
  "main p args = do {
     r \<leftarrow> run p args;
     (case r of None \<Rightarrow> ret 0
      | Some e \<Rightarrow> do {
          _ \<leftarrow> log_record ''grafana-mcp-setup stopped'' [(''err'', error_text e)];
          ret 1
        })
   }"

section \<open>What the flags say\<close>

text \<open>The arguments that ask for given options.\<close>

definition email_args :: "string list \<Rightarrow> string list" where
  "email_args emails = concat (map (\<lambda>e. [''-email'', e]) emails)"

definition option_args :: "cleanupOptions \<Rightarrow> string list" where
  "option_args opts =
     (if co_apply opts then [''--apply''] else []) @ (if co_deleteExpired opts then [''--delete-expired''] else []) @
     (if co_keepToken opts = [] then [] else [''--keep-token='' @ co_keepToken opts])"

lemma flag_words:
  "flag_word ''-email'' = FlagWord ''email'' None" "flag_word ''--apply'' = FlagWord ''apply'' None"
  "flag_word ''--delete-expired'' = FlagWord ''delete-expired'' None"
  "flag_word (''--keep-token='' @ v) = FlagWord ''keep-token'' (Some v)"
  by (code_simp, code_simp, code_simp) (simp add: flag_word_def cut_def)

lemma command_flags_simps:
  "command_flags c ''email'' = Some (ValueFlag (\<lambda>s. fv_emails_update (emailFlags_Set s)))"
  "command_flags c ''apply'' = Some (BoolFlag (\<lambda>b. fv_apply_update (\<lambda>_. b)))"
  "command_flags ''reconcile'' ''delete-expired'' = Some (BoolFlag (\<lambda>b. fv_deleteExpired_update (\<lambda>_. b)))"
  "command_flags ''reconcile'' ''keep-token'' = Some (ValueFlag (\<lambda>s. fv_keepToken_update (\<lambda>_. s)))"
  by (simp_all add: command_flags_def)

lemma email_flag: "fv_emails_update (emailFlags_Set e) vs = vs\<lparr>fv_emails := fv_emails vs @ [e]\<rparr>"
  by (cases vs) (simp add: emailFlags_Set_def)

lemma parse_email_args:
  "parse_flags (command_flags c) vs (email_args emails @ rest) =
     parse_flags (command_flags c) (vs\<lparr>fv_emails := fv_emails vs @ emails\<rparr>) rest"
proof (induction emails arbitrary: vs)
  case Nil
  show ?case by (simp add: email_args_def)
next
  case (Cons e emails)
  show ?case
    using Cons [of "vs\<lparr>fv_emails := fv_emails vs @ [e]\<rparr>"]
    by (simp add: email_args_def flag_words command_flags_simps email_flag)
qed

lemma parse_option_args:
  "parse_flags (command_flags ''reconcile'') no_flags (email_args emails @ option_args opts) =
     Inr (\<lparr>fv_emails = emails, fv_apply = co_apply opts, fv_deleteExpired = co_deleteExpired opts,
          fv_keepToken = co_keepToken opts\<rparr>, [])"
  unfolding parse_email_args using flag_words(4) [of "co_keepToken opts"]
  by (simp add: option_args_def flag_words(1-3) command_flags_simps no_flags_def)

text \<open>Without an argument that names the flag, \<open>-apply\<close> keeps its default.\<close>

definition names_apply :: "string \<Rightarrow> bool" where
  "names_apply a = (case flag_word a of FlagWord name _ \<Rightarrow> name = ''apply'' | _ \<Rightarrow> False)"

lemma other_flags_keep_apply:
  "command_flags c name = Some (BoolFlag f) \<Longrightarrow> name \<noteq> ''apply'' \<Longrightarrow> fv_apply (f b vs) = fv_apply vs"
  "command_flags c name = Some (ValueFlag g) \<Longrightarrow> fv_apply (g v vs) = fv_apply vs"
  by (auto simp: command_flags_def split: if_splits)

lemma parse_flags_apply:
  "parse_flags (command_flags c) vs args = Inr (vs', rest) \<Longrightarrow> \<not> list_ex names_apply args \<Longrightarrow>
   fv_apply vs' = fv_apply vs"
proof (induct args arbitrary: vs rule: length_induct)
  case (1 args)
  note IH = 1(1) [rule_format]
  show ?case
  proof (cases args)
    case (Cons s more)
    have no: "\<not> names_apply s" "\<not> list_ex names_apply more" using 1(3) Cons by auto
    note parsed = 1(2) [unfolded Cons parse_flags.simps(2)]
    show ?thesis
    proof (cases "flag_word s")
      case (FlagWord name v)
      then have name: "name \<noteq> ''apply''" using no(1) by (simp add: names_apply_def)
      from parsed FlagWord obtain k where k: "command_flags c name = Some k"
        by (cases "command_flags c name") auto
      show ?thesis
      proof (cases k)
        case (BoolFlag f)
        then obtain b where "parse_flags (command_flags c) (f b vs) more = Inr (vs', rest)"
          using parsed FlagWord k by (auto split: option.splits)
        from IH [OF _ this no(2)] show ?thesis
          using other_flags_keep_apply(1) [OF k [unfolded BoolFlag] name] by (simp add: Cons)
      next
        case (ValueFlag g)
        then obtain v others where g: "parse_flags (command_flags c) (g v vs) others = Inr (vs', rest)"
            and others: "others = more \<or> (\<exists>a. more = a # others)"
          using parsed FlagWord k by (auto split: option.splits list.splits)
        have "length others < length args" "\<not> list_ex names_apply others" using others no(2) Cons by auto
        from IH [OF this(1) g this(2)] show ?thesis
          using other_flags_keep_apply(2) [OF k [unfolded ValueFlag]] by simp
      qed
    qed (use parsed in auto)
  qed (use 1(2) in simp)
qed

section \<open>Properties\<close>

text \<open>C25: The command line says what is done: the flags for any list of emails, then those for any options,
  run exactly that command on exactly those values; the value of \<open>-email\<close> is never taken for a flag.\<close>

theorem command_line_is_obeyed:
  "run p (''reconcile'' # email_args emails @ option_args opts) =
     (case fromEnv (p_host p) of Inl e \<Rightarrow> ret (Some (Wrap ''configuration: '' e []))
      | Inr cfg \<Rightarrow> reconcile (p_host p) cfg emails opts) \<and>
   run p (''offboard'' # email_args emails @ (if b then [''--apply''] else [])) =
     (case fromEnv (p_host p) of Inl e \<Rightarrow> ret (Some (Wrap ''configuration: '' e []))
      | Inr cfg \<Rightarrow> offboard (p_host p) cfg emails b)"
proof
  show "run p (''reconcile'' # email_args emails @ option_args opts) =
     (case fromEnv (p_host p) of Inl e \<Rightarrow> ret (Some (Wrap ''configuration: '' e []))
      | Inr cfg \<Rightarrow> reconcile (p_host p) cfg emails opts)"
    by (cases opts) (simp add: run_def runDryRun_def parse_option_args split: sum.split)
  have "parse_flags (command_flags ''offboard'') no_flags (email_args emails @ (if b then [''--apply''] else [])) =
      Inr (no_flags\<lparr>fv_emails := emails, fv_apply := b\<rparr>, [])"
    unfolding parse_email_args by (simp add: flag_words command_flags_simps no_flags_def)
  then show "run p (''offboard'' # email_args emails @ (if b then [''--apply''] else [])) =
     (case fromEnv (p_host p) of Inl e \<Rightarrow> ret (Some (Wrap ''configuration: '' e []))
      | Inr cfg \<Rightarrow> offboard (p_host p) cfg emails b)"
    by (cases b) (simp_all add: run_def runDryRun_def split: sum.split)
qed

text \<open>What the process itself may do: read, print and log.\<close>

definition process_event :: "event \<Rightarrow> bool" where
  "process_event e \<longleftrightarrow> dry_event e \<or> (\<exists>attrs. e = Audit attrs)"

lemma frame_log: "frame process_event (log_record msg attrs)"
  by (simp add: log_record_def frame_def wp_simps process_event_def)



end
