(* ===== verification/Spec2Isabelle.thy ===== *)
theory Spec2Isabelle
  imports LeaseRefinement Telemetry Trail RotationFacts Page Exposition Command
begin

text \<open>
  grafana-mcp-setup, a Go service (\<open>internal/server\<close>) that issues one personal, read-only
  Grafana token to each person who signs in with OpenID Connect, shows it once, and replaces or
  revokes it on request. This library models that service and proves what makes it safe to run.

  \<^bold>\<open>The program and its model.\<close> Strings and byte slices are lists of bytes (\<open>char list\<close>),
  a Go \<open>(value, error)\<close> result is a sum with the error on the left, a struct is a record,
  integers are unbounded where the code cannot leave 64 bits and words where it computes with them
  (the counters, AES, SHA-256). Code with effects has the type \<open>'a io\<close> of \<open>Runtime\<close>: a state
  monad over a world that holds the environment, the trace of events so far and the metrics. The
  environment gives the replies of the network, the outcomes of the locks, the clock, the entropy,
  the answers of the OIDC library and the order of map iteration, and each answer may depend on
  all that happened before; a theorem that holds in every world therefore holds for every
  behaviour of Grafana, of Kubernetes, of the provider, of the browser and of the scheduler.

  \<^bold>\<open>Theories.\<close>
    \<^item> \<open>Prelude\<close>, \<open>Runtime\<close>, \<open>Traces\<close>: results, effects, weakest preconditions (\<open>wp\<close>,
      \<open>returns\<close>), specifications by events (\<open>yields\<close>, \<open>frame\<close>, and \<open>sim\<close>, which simulates a run by
      an abstract machine over its trace). \<open>guarded\<close> is the machine of everything done under a lock.
    \<^item> \<open>GoStrings\<close>, \<open>GoConv\<close>, \<open>GoBase64\<close>, \<open>GoJson\<close>, \<open>GoDecode\<close>, \<open>GoTime\<close>, \<open>GoCrypto\<close>, \<open>GoUrl\<close>: the
      parts of Go's standard library the program computes with, executable, with the round trips
      the program relies on (hex, base64, decimal, escaping, JSON, RFC 3339, GCM).
    \<^item> \<open>Metrics\<close>, \<open>Exposition\<close> (\<open>metrics.go\<close>): the recorders and the response wrapper; the text behind
      \<open>/metrics\<close> and a reader of it.
    \<^item> \<open>GrafanaApi\<close>, \<open>GrafanaIAM\<close>, \<open>GrafanaLegacy\<close>, \<open>Grafana\<close> (\<open>grafana.go\<close>, \<open>grafana_legacy.go\<close>): the
      client of Grafana in its two modes; the locale \<open>grafana_client\<close> states what the server relies
      on and is interpreted on the methods.
    \<^item> \<open>SealedCookies\<close>, \<open>FlashCodec\<close> (\<open>stash.go\<close>), \<open>SessionCodec\<close> (\<open>session.go\<close>): the cookies, sealed with
      AES-256-GCM, and the CSRF tokens; the locale \<open>sealed_codec\<close> is the round trip all three
      payloads share.
    \<^item> \<open>Config\<close>, \<open>ConfigFacts\<close> (\<open>config.go\<close>): the settings, from the environment of the process.
    \<^item> \<open>LocalLock\<close>, \<open>LeaseLock\<close>, \<open>LeaseProtocol\<close> (\<open>lock.go\<close>): the lock of one process and the lock for
      several pods, each as a transition system; the locale \<open>rotation_lock\<close> is what both promise.
      \<open>Wire\<close>: printed documents and Leases are read back; \<open>LeaseRefinement\<close>: the code of \<open>Acquire\<close> and \<open>renew\<close>,
      against an API server that checks resource versions (\<open>conforming_api\<close>), takes the steps of the protocol.
    \<^item> \<open>Rotation\<close>, \<open>RotationProtocol\<close>, \<open>RotationFacts\<close> (\<open>server.go\<close>): issuing and revoking, and the
      abstract protocol they refine.
    \<^item> \<open>Highlight\<close> (\<open>highlight.go\<close>), \<open>Formats\<close> (\<open>formats.go\<close>), \<open>Icons\<close> (\<open>icons.go\<close>), \<open>Assets\<close> (\<open>assets.go\<close>): the
      snippets of configuration, their highlighting, the drawings, the style sheet and the script.
    \<^item> \<open>Http\<close>, \<open>HttpFacts\<close> (\<open>server.go\<close>, \<open>page.go\<close>), \<open>Native\<close> (\<open>native.go\<close>): the handlers and the middleware.
    \<^item> \<open>Page\<close> (\<open>page.go\<close>): the template, one definition per part, in the words of the source, with the
      escaping of \<open>html/template\<close> around each value.
    \<^item> \<open>Routing\<close>, \<open>Server\<close> (\<open>server.go\<close>): \<open>Handler\<close> with the parts of \<open>ServeMux\<close> it rests on, \<open>New\<close>, and one
      request through everything. \<open>Responses\<close>: what every response looks like. \<open>Footprint\<close>: what
      the code of a request can do to the world at all, as the locales \<open>footprint\<close> and \<open>logged\<close>, of which
      \<open>Trail\<close>, the audit records, and \<open>Telemetry\<close>, the metrics, are instances; the locales \<open>recorder_invariant\<close> and \<open>request_invariant\<close> are the contract of the
      recorders and of \<open>wrap\<close>, interpreted on the invariants of the metrics.
    \<^item> \<open>Reconcile\<close> (\<open>reconcile.go\<close>), \<open>Command\<close> (\<open>main.go\<close>): the two maintenance commands and the command line.

  \<^bold>\<open>What is shown.\<close> An issue refines the rotation protocol: every change is made under the
  identity's lock and directly after a successful check of it, no old token goes before the new one
  is confirmed, and an error leaves the old tokens in place. Both locks exclude; the code of the Lease refines the
  protocol this is shown of, and an expired Lease is always taken over. Nothing changes
  without a verified identity and a verified request; pages and dry runs change nothing. Cookies
  open only to what was sealed, for whom it was sealed and until it expires. A login completes only
  the login that the same browser began. The secret is on a page only in the response to the request
  that brought its cookie, and no value changes the structure of a page or of a snippet. An accepted
  configuration is usable, the server starts from it, and its routes are unambiguous. One request
  through the whole service asks nothing but reads of Grafana unless it is a verified POST. Whatever
  a request changes leaves one audit record, which names nobody and holds no secret. Every
  response has a known status, clean headers and safe cookies, and stays on this host. Each request is
  counted exactly once, and the series of the metrics are bounded whatever is asked. Listings
  end, and a reader of \<open>/metrics\<close> finds the counters.

  \<^bold>\<open>Fuel and bounds.\<close> \<open>page_fuel\<close> of the environment is the number of pages the deadline of a
  listing's context allows, and running out of it is the error of that deadline; \<open>lock_ticks\<close> is the
  same for the attempts to take the Lease. \<open>parse_fuel\<close> of \<open>GoJson\<close> is twice the length of the input
  and two more, which is enough because every call of the parser consumes input.

  \<^bold>\<open>Not modelled.\<close> The listening socket and the signals of \<open>main.go\<close>, which are the answer
  of a parameter that is given the settings of the server; log lines other than the audit records and those
  of \<open>main.go\<close>; the rounding of the sums of seconds to
  a float64, and how such a number is printed. The HTTP transport, go-oidc, oauth2 and the Kubernetes
  API server are not under \<open>src/\<close>: they are the environment. The page of a request is its data in
  \<open>Http\<close> (\<open>Page d\<close>) and its text is \<open>page_html d\<close>; likewise \<open>MetricsPage m\<close> stands for \<open>exposition\<close> of \<open>m\<close>
  under some order of its maps.
\<close>

end
